(* ===== verification/Prelude.thy ===== *)
theory Prelude
  imports Main "HOL-Library.Word" "HOL-Library.Monad_Syntax"
begin

text \<open>
  Shared vocabulary of the development: the machine integer types of the code
  (\<open>src/types.h\<close>), the treatment of \<open>assert\<close> and of sequencing, and the generic lemmas
  on options, words and lists that every component uses.

  Sequencing. An operation of the code that may fail an assertion is a function into
  \<open>option\<close>: \<open>None\<close> is "an assertion failed, the processor faulted and resets".  Statement
  sequences are written with the \<open>do\<close> notation of \<open>option\<close>.
\<close>

section \<open>Machine integers\<close>

type_synonym u8 = "8 word"
type_synonym u32 = "32 word"
type_synonym u64 = "64 word"

text \<open>\<open>DeltaTime\<close>, \<open>SlotCount\<close> and \<open>EventCount\<close> are 32-bit unsigned, \<open>LongTime\<close> and
  \<open>SystemID\<close> 64-bit unsigned, \<open>Payload\<close> is an unsigned char.\<close>

type_synonym delta_time = u32
type_synonym slot_count = u32
type_synonym event_count = u32
type_synonym long_time = u64
type_synonym system_id = u64
type_synonym payload = u8

section \<open>Collections of facts\<close>

named_theorems params "values of the compile time constants"
named_theorems frame "fields an operation leaves alone"
named_theorems faults "when an operation fails an assertion"

section \<open>Assertions\<close>

definition require :: "bool \<Rightarrow> unit option" where
  "require b = (if b then Some () else None)"

lemma require_simps [simp]:
  "require True = Some ()"
  "require False = None"
  by (simp_all add: require_def)

lemma require_bind [simp]: "Option.bind (require b) f = (if b then f () else None)"
  by (simp add: require_def)

lemma require_eq_Some [simp]: "require b = Some u \<longleftrightarrow> b"
  by (simp add: require_def)

lemma bind_SomeE:
  assumes "Option.bind m f = Some y"
  obtains x where "m = Some x" "f x = Some y"
  using assms by (cases m) auto

lemma bind_case_prod_SomeE:
  assumes "Option.bind m (\<lambda>(x, s). f x s) = Some y"
  obtains x s where "m = Some (x, s)" "f x s = Some y"
  using assms by (cases m) auto

text \<open>A relation that every stage of a sequence keeps is kept by the sequence.\<close>

lemma bind_rel:
  assumes "Option.bind m f = Some y"
    and "\<And>x. m = Some x \<Longrightarrow> R s x"
    and "\<And>x. R s x \<Longrightarrow> f x = Some y \<Longrightarrow> R s y"
  shows "R s y"
  using assms by (cases m) auto

section \<open>Words read as natural numbers\<close>

lemma unat_add_small:
  fixes a b :: "'a::len word"
  assumes "unat a + unat b < 2 ^ LENGTH('a)"
  shows "unat (a + b) = unat a + unat b"
  using assms by (simp add: unat_word_ariths)

lemma unat_add_u64:
  fixes a b :: u64
  assumes "unat a + unat b < 18446744073709551616"
  shows "unat (a + b) = unat a + unat b"
  by (rule unat_add_small) (use assms in simp)

lemma unat_add_u32:
  fixes a b :: u32
  assumes "unat a + unat b < 4294967296"
  shows "unat (a + b) = unat a + unat b"
  by (rule unat_add_small) (use assms in simp)

lemma unat_sub_le:
  fixes a b :: "'a::len word"
  assumes "b \<le> a"
  shows "unat (a - b) = unat a - unat b"
  using assms by (simp add: unat_sub)

lemma unat_ucast_up:
  fixes d :: u32
  shows "unat (ucast d :: u64) = unat d"
proof -
  have "unat d < 2 ^ 64"
    using unsigned_less [of d, where 'a = nat] by simp
  then show ?thesis
    by (simp add: unsigned_ucast_eq take_bit_nat_eq_self)
qed

lemma unat_u32_bound: "unat (d :: u32) < 4294967296"
  using unsigned_less [of d, where 'a = nat] by simp

lemma unat_u64_bound: "unat (t :: u64) < 18446744073709551616"
  using unsigned_less [of t, where 'a = nat] by simp

lemma unat_u8_bound: "unat (w :: u8) < 256"
  using unsigned_less [of w, where 'a = nat] by simp

lemmas word_nat_order = word_le_nat_alt word_less_nat_alt

text \<open>Adding a 32-bit duration to a 64-bit time that is not about to wrap.\<close>

lemma unat_time_plus:
  fixes t :: u64 and d :: u32
  assumes "unat t + unat d < 18446744073709551616"
  shows "unat (t + ucast d) = unat t + unat d"
proof -
  have "unat t + unat (ucast d :: u64) < 18446744073709551616"
    using assms by (simp add: unat_ucast_up)
  then show ?thesis
    by (simp add: unat_add_u64 unat_ucast_up)
qed

section \<open>Lists read and written by index\<close>

lemma nth_list_update_neq' [simp]: "i \<noteq> j \<Longrightarrow> (xs[i := v]) ! j = xs ! j"
  by simp

section \<open>Repeating an operation\<close>

fun iterate_op :: "('s \<Rightarrow> 's option) \<Rightarrow> nat \<Rightarrow> 's \<Rightarrow> 's option" where
  "iterate_op f 0 s = Some s"
| "iterate_op f (Suc n) s = Option.bind (f s) (iterate_op f n)"

lemma iterate_op_add:
  "iterate_op f (m + n) s = Option.bind (iterate_op f m s) (iterate_op f n)"
proof (induction m arbitrary: s)
  case 0
  then show ?case by simp
next
  case (Suc m)
  then show ?case by (cases "f s") simp_all
qed

text \<open>An operation that implements an abstract step wherever an invariant holds.\<close>

lemma iterate_op_refines:
  assumes step: "\<And>s. I s \<Longrightarrow> \<exists>s'. f s = Some s' \<and> I s' \<and> h s' = g (h s)"
    and "I s"
  shows "\<exists>s'. iterate_op f n s = Some s' \<and> I s' \<and> h s' = (g ^^ n) (h s)"
  using \<open>I s\<close>
proof (induction n arbitrary: s)
  case 0
  then show ?case by simp
next
  case (Suc n)
  obtain s1 where s1: "f s = Some s1" "I s1" "h s1 = g (h s)"
    using step [OF Suc.prems] by blast
  obtain s2 where "iterate_op f n s1 = Some s2" "I s2" "h s2 = (g ^^ n) (h s1)"
    using Suc.IH [OF s1(2)] by blast
  then show ?case
    using s1 by (simp add: funpow_swap1)
qed

section \<open>Loops that test at their end\<close>

text \<open>The body answers whether to go on.  \<open>None\<close>: the body faults, or the loop does not end.\<close>

partial_function (option) do_while :: "('s \<Rightarrow> (bool \<times> 's) option) \<Rightarrow> 's \<Rightarrow> 's option" where
  "do_while body s = do {
     (again, s) \<leftarrow> body s;
     (if again then do_while body s else Some s)
   }"

declare do_while.simps [code]

text \<open>A loop that has ended has done so with an iteration that answers \<open>False\<close>, and has kept whatever
  every iteration keeps.\<close>

lemma do_while_rel:
  assumes "do_while body s = Some s'"
  shows "I s \<longrightarrow> (\<forall>s b t. I s \<longrightarrow> body s = Some (b, t) \<longrightarrow> I t) \<longrightarrow>
    I s' \<and> (\<exists>r. I r \<and> body r = Some (False, s'))"
proof (rule do_while.raw_induct [OF _ assms])
  fix loop body s s'
  assume IH: "\<And>s b y. loop s b = Some y \<Longrightarrow>
      I b \<longrightarrow> (\<forall>r b t. I r \<longrightarrow> s r = Some (b, t) \<longrightarrow> I t) \<longrightarrow> I y \<and> (\<exists>r. I r \<and> s r = Some (False, y))"
    and step: "Option.bind (body s) (\<lambda>(again, s). if again then loop body s else Some s) = Some s'"
  obtain again t where t: "body s = Some (again, t)" "(if again then loop body t else Some t) = Some s'"
    using step by (rule bind_case_prod_SomeE)
  show "I s \<longrightarrow> (\<forall>s b t. I s \<longrightarrow> body s = Some (b, t) \<longrightarrow> I t) \<longrightarrow>
    I s' \<and> (\<exists>r. I r \<and> body r = Some (False, s'))"
    using t IH [of body t s'] by (cases again) auto
qed

lemma do_while_inv:
  assumes "do_while body s = Some s'" "I s"
    and "\<And>s b t. I s \<Longrightarrow> body s = Some (b, t) \<Longrightarrow> I t"
  shows "I s'" "\<exists>r. I r \<and> body r = Some (False, s')"
  using do_while_rel [OF assms(1), of I] assms(2,3) by blast+

text \<open>The iterations that go on, and the end: the loop ends with the first iteration that answers
  \<open>False\<close>.\<close>

definition going_on :: "('s \<Rightarrow> (bool \<times> 's) option) \<Rightarrow> 's \<Rightarrow> 's option" where
  "going_on body s = Option.bind (body s) (\<lambda>(again, s). if again then Some s else None)"

lemma going_on_eq [simp]: "going_on body s = Some t \<longleftrightarrow> body s = Some (True, t)"
  by (auto simp: going_on_def split: if_splits elim!: bind_SomeE)

lemma do_while_ends:
  assumes "iterate_op (going_on body) n s = Some r" "body r = Some (False, s')"
  shows "do_while body s = Some s'"
  using assms(1)
proof (induction n arbitrary: s)
  case 0
  then show ?case
    using assms(2) by (simp add: do_while.simps [of body r])
next
  case (Suc n)
  then obtain t where "body s = Some (True, t)" "iterate_op (going_on body) n t = Some r"
    by (auto elim!: bind_SomeE)
  then show ?case
    using Suc.IH by (simp add: do_while.simps [of body s])
qed

lemma do_while_once:
  assumes "body s = Some (False, s')"
  shows "do_while body s = Some s'"
  using do_while_ends [of body 0 s s s'] assms by simp

end
