(* ===== verification/ScheduleParameters.thy ===== *)
theory ScheduleParameters
  imports Prelude
begin

text \<open>
  The compile time constants: \<open>src/scheduleParameters.h\<close>, \<open>src/physicalParameters.h\<close> (for
  \<open>NRF52_SERIES\<close>, the only chip family the build files configure),
  \<open>src/policy/policyParameters.h\<close> and \<open>src/fishPolicy/fishingParameters.h\<close>.  Each
  is defined by the expression the header gives; the collection \<open>params\<close> holds its value.
\<close>

section \<open>Physical parameters\<close>

definition SendLatency :: delta_time where
  "SendLatency = 4"

definition GuessedSendLatency :: delta_time where
  "GuessedSendLatency = 10"

definition MsgOverTheAirTimeInTicks :: delta_time where
  "MsgOverTheAirTimeInTicks = 2"

section \<open>Schedule parameters\<close>

definition TicksPerSecond :: delta_time where
  "TicksPerSecond = 32768"

definition VirtualSlotDuration :: delta_time where
  "VirtualSlotDuration = 50"

definition DutyCycleInverse :: u32 where
  "DutyCycleInverse = 800"

definition HalfSlotDuration :: delta_time where
  "HalfSlotDuration = VirtualSlotDuration div 2"

definition ThreeSlotDuration :: delta_time where
  "ThreeSlotDuration = VirtualSlotDuration * 3"

definition TwoSlotDuration :: delta_time where
  "TwoSlotDuration = VirtualSlotDuration * 3"

definition FirstSleepingSlotOrdinal :: slot_count where
  "FirstSleepingSlotOrdinal = 2"

definition CountActiveSlots :: slot_count where
  "CountActiveSlots = 2"

definition CountSlots :: slot_count where
  "CountSlots = CountActiveSlots * DutyCycleInverse"

definition HFXOStartup :: delta_time where
  "HFXOStartup = VirtualSlotDuration"

definition PreflightDelta :: delta_time where
  "PreflightDelta = HFXOStartup + SendLatency"

definition SendDuration :: delta_time where
  "SendDuration = MsgOverTheAirTimeInTicks + SendLatency"

definition NormalSyncPeriodDuration :: delta_time where
  "NormalSyncPeriodDuration = CountSlots * VirtualSlotDuration"

definition RealSlotDuration :: delta_time where
  "RealSlotDuration = VirtualSlotDuration + HFXOStartup"

definition DeltaSyncPointToSyncSlotMiddle :: delta_time where
  "DeltaSyncPointToSyncSlotMiddle = HalfSlotDuration + HFXOStartup - SendLatency"

definition DeltaSyncSlotStartToSyncSlotXmit :: delta_time where
  "DeltaSyncSlotStartToSyncSlotXmit = HalfSlotDuration - SendLatency"

definition MaxSaneTimeout :: delta_time where
  "MaxSaneTimeout = 164000"

definition TimeoutWaitingForSyncPowerSleeper :: delta_time where
  "TimeoutWaitingForSyncPowerSleeper = 160000"

definition CodesSleepOverhead :: delta_time where
  "CodesSleepOverhead = 5"

definition OversleepMargin :: delta_time where
  "OversleepMargin = CodesSleepOverhead"

section \<open>Policy parameters\<close>

definition CountRepeatsPerControlSync :: u32 where
  "CountRepeatsPerControlSync = 4"

definition CountSyncsPerMerger :: u32 where
  "CountSyncsPerMerger = 6"

definition maxMissingSyncsPerDropout :: event_count where
  "maxMissingSyncsPerDropout = 80"

definition CountSyncPeriodsToChooseMasterSyncXmits :: event_count where
  "CountSyncPeriodsToChooseMasterSyncXmits = 3"

section \<open>Fishing parameters\<close>

definition MinSlotsTrollingFishedPerPeriod :: slot_count where
  "MinSlotsTrollingFishedPerPeriod = 1"

definition LastSlotOrdinalShouldFish :: slot_count where
  "LastSlotOrdinalShouldFish = CountSlots"

definition FirstSlotOrdinalToFish :: slot_count where
  "FirstSlotOrdinalToFish = FirstSleepingSlotOrdinal"

definition DeepFishSessionDurationTicks :: delta_time where
  "DeepFishSessionDurationTicks = VirtualSlotDuration"

definition MinTrollingFishSessionDurationTicks :: delta_time where
  "MinTrollingFishSessionDurationTicks = MinSlotsTrollingFishedPerPeriod * VirtualSlotDuration"

definition MaxTrollingRealFishSessionDurationSlots :: delta_time where
  "MaxTrollingRealFishSessionDurationSlots = 100"

definition CountFishingsPerDeepFishing :: u32 where
  "CountFishingsPerDeepFishing = 6"

definition DurationTilTwoSlotsFromEndSyncPeriod :: u32 where
  "DurationTilTwoSlotsFromEndSyncPeriod = NormalSyncPeriodDuration - 2 * VirtualSlotDuration"

section \<open>Values\<close>

lemma physical_values [params]:
  "SendLatency = 4" "GuessedSendLatency = 10" "MsgOverTheAirTimeInTicks = 2"
  by (simp_all add: SendLatency_def GuessedSendLatency_def MsgOverTheAirTimeInTicks_def)

lemma slot_values [params]:
  "VirtualSlotDuration = 50" "HalfSlotDuration = 25" "ThreeSlotDuration = 150"
  "TwoSlotDuration = 150" "HFXOStartup = 50" "RealSlotDuration = 100"
  "PreflightDelta = 54" "SendDuration = 6"
  "DeltaSyncPointToSyncSlotMiddle = 71" "DeltaSyncSlotStartToSyncSlotXmit = 21"
  by (simp_all add: VirtualSlotDuration_def HalfSlotDuration_def ThreeSlotDuration_def
      TwoSlotDuration_def HFXOStartup_def RealSlotDuration_def PreflightDelta_def SendDuration_def
      physical_values DeltaSyncPointToSyncSlotMiddle_def DeltaSyncSlotStartToSyncSlotXmit_def)

lemma period_values [params]:
  "TicksPerSecond = 32768" "DutyCycleInverse = 800" "FirstSleepingSlotOrdinal = 2"
  "CountActiveSlots = 2" "CountSlots = 1600" "NormalSyncPeriodDuration = 80000"
  "MaxSaneTimeout = 164000" "TimeoutWaitingForSyncPowerSleeper = 160000"
  "CodesSleepOverhead = 5" "OversleepMargin = 5"
  by (simp_all add: TicksPerSecond_def DutyCycleInverse_def FirstSleepingSlotOrdinal_def
      CountActiveSlots_def CountSlots_def NormalSyncPeriodDuration_def slot_values
      MaxSaneTimeout_def TimeoutWaitingForSyncPowerSleeper_def CodesSleepOverhead_def OversleepMargin_def)

lemma policy_values [params]:
  "CountRepeatsPerControlSync = 4" "CountSyncsPerMerger = 6" "maxMissingSyncsPerDropout = 80"
  "CountSyncPeriodsToChooseMasterSyncXmits = 3"
  by (simp_all add: CountRepeatsPerControlSync_def CountSyncsPerMerger_def
      maxMissingSyncsPerDropout_def CountSyncPeriodsToChooseMasterSyncXmits_def)

lemma fishing_values [params]:
  "MinSlotsTrollingFishedPerPeriod = 1" "LastSlotOrdinalShouldFish = 1600"
  "FirstSlotOrdinalToFish = 2" "DeepFishSessionDurationTicks = 50"
  "MinTrollingFishSessionDurationTicks = 50" "MaxTrollingRealFishSessionDurationSlots = 100"
  "CountFishingsPerDeepFishing = 6" "DurationTilTwoSlotsFromEndSyncPeriod = 79900"
  by (simp_all add: MinSlotsTrollingFishedPerPeriod_def LastSlotOrdinalShouldFish_def
      FirstSlotOrdinalToFish_def DeepFishSessionDurationTicks_def period_values slot_values
      MinTrollingFishSessionDurationTicks_def MaxTrollingRealFishSessionDurationSlots_def
      CountFishingsPerDeepFishing_def DurationTilTwoSlotsFromEndSyncPeriod_def)

text \<open>
  Sizes the protocol relies on: two sync periods are a sane timeout
  (\<open>MaxSaneTimeout\<close> "should not schedule anything longer than 2 SyncPeriods") and an offset
  of one sync period fits the three bytes it has over the air.
\<close>

lemma two_periods_sane: "2 * NormalSyncPeriodDuration < MaxSaneTimeout"
  by (simp add: params)

lemma offset_fits_three_bytes: "unat NormalSyncPeriodDuration < 2 ^ 24"
  by (simp add: params)

end
