(* ===== verification/Message.thy ===== *)
theory Message
  imports ScheduleParameters
begin

text \<open>
  The message of the protocol: \<open>src/message/message.h\<close> and \<open>message.cpp\<close>, its offset field
  \<open>src/modules/deltaSync.cpp\<close>, and the encoding of the clique's granularity
  (\<open>src/network/granularity.cpp\<close>), which messages carry as work.
\<close>

section \<open>Message types\<close>

datatype message_type =
    MasterSync
  | WorkSync
  | ControlNetGranularity
  | ControlScatterClique
  | ControlWorkTime
  | ControlWorkCycle
  | MergeOther
  | MergeMyMasterDepart
  | MergeMySlaveDepart
  | AbandonMastership
  | Info
  | Invalid

text \<open>The enumerators' values: \<open>MasterSync = 1\<close> and consecutive from there.  Casting an
  enumerator to \<open>uint8_t\<close> yields this number.\<close>

fun message_type_value :: "message_type \<Rightarrow> u8" where
  "message_type_value MasterSync = 1"
| "message_type_value WorkSync = 2"
| "message_type_value ControlNetGranularity = 3"
| "message_type_value ControlScatterClique = 4"
| "message_type_value ControlWorkTime = 5"
| "message_type_value ControlWorkCycle = 6"
| "message_type_value MergeOther = 7"
| "message_type_value MergeMyMasterDepart = 8"
| "message_type_value MergeMySlaveDepart = 9"
| "message_type_value AbandonMastership = 10"
| "message_type_value Info = 11"
| "message_type_value Invalid = 12"

definition SyncMessage_messageTypeFromRaw :: "u8 \<Rightarrow> message_type" where
  "SyncMessage_messageTypeFromRaw receivedType =
     (if receivedType = 1 then MasterSync
      else if receivedType = 2 then WorkSync
      else if receivedType = 3 then ControlNetGranularity
      else if receivedType = 4 then ControlScatterClique
      else if receivedType = 5 then MergeOther
      else if receivedType = 6 then MergeMyMasterDepart
      else if receivedType = 7 then MergeMySlaveDepart
      else if receivedType = 8 then AbandonMastership
      else if receivedType = 9 then Info
      else Invalid)"

fun SyncMessage_doesCarrySync :: "message_type \<Rightarrow> bool" where
  "SyncMessage_doesCarrySync MasterSync = True"
| "SyncMessage_doesCarrySync WorkSync = True"
| "SyncMessage_doesCarrySync ControlNetGranularity = True"
| "SyncMessage_doesCarrySync ControlScatterClique = True"
| "SyncMessage_doesCarrySync _ = False"

fun SyncMessage_representation :: "message_type \<Rightarrow> string" where
  "SyncMessage_representation MasterSync = ''MastS''"
| "SyncMessage_representation WorkSync = ''WorkS''"
| "SyncMessage_representation ControlNetGranularity = '' CGra''"
| "SyncMessage_representation ControlScatterClique = '' CSca''"
| "SyncMessage_representation ControlWorkTime = '' CWTi''"
| "SyncMessage_representation ControlWorkCycle = '' CWCy''"
| "SyncMessage_representation MergeOther = ''MSEnt''"
| "SyncMessage_representation MergeMyMasterDepart = ''MSMAw''"
| "SyncMessage_representation MergeMySlaveDepart = ''MSSAw''"
| "SyncMessage_representation AbandonMastership = '' Aban''"
| "SyncMessage_representation Info = '' Info''"
| "SyncMessage_representation Invalid = '' Inva''"

section \<open>The offset field\<close>

definition DeltaSync_isValidValue :: "delta_time \<Rightarrow> bool" where
  "DeltaSync_isValidValue value \<longleftrightarrow> value \<le> NormalSyncPeriodDuration"

text \<open>\<open>set\<close> asserts that the value is valid; the new value of the field is the result.\<close>

definition DeltaSync_set :: "delta_time \<Rightarrow> delta_time option" where
  "DeltaSync_set value = do {
     require (DeltaSync_isValidValue value);
     Some value
   }"

section \<open>Messages\<close>

record sync_message =
  msg_type :: message_type
  deltaToNextSyncPoint :: delta_time
  msg_masterID :: system_id
  work :: payload

section \<open>Granularity\<close>

datatype net_granularity = Small | MediumGranularity | Large | InvalidGranularity

fun Granularity_getRaw :: "net_granularity \<Rightarrow> u8" where
  "Granularity_getRaw Small = 0"
| "Granularity_getRaw MediumGranularity = 1"
| "Granularity_getRaw Large = 2"
| "Granularity_getRaw InvalidGranularity = 3"

definition Granularity_getFromRaw :: "u8 \<Rightarrow> net_granularity" where
  "Granularity_getFromRaw rawTSS =
     (if rawTSS = 0 then Large
      else if rawTSS = 1 then MediumGranularity
      else if rawTSS = 2 then Small
      else InvalidGranularity)"

section \<open>Facts\<close>

lemma DeltaSync_set_eq:
  "DeltaSync_set v = (if v \<le> NormalSyncPeriodDuration then Some v else None)"
  by (simp add: DeltaSync_set_def DeltaSync_isValidValue_def)

lemma DeltaSync_set_SomeD: "DeltaSync_set v = Some w \<Longrightarrow> w = v \<and> unat v \<le> 80000"
  by (auto simp: DeltaSync_set_eq params word_le_nat_alt split: if_splits)

text \<open>The type byte of a message type, sent and read back.\<close>

lemma messageTypeFromRaw_value:
  "SyncMessage_messageTypeFromRaw (message_type_value t) =
     (case t of
        MasterSync \<Rightarrow> MasterSync
      | WorkSync \<Rightarrow> WorkSync
      | ControlNetGranularity \<Rightarrow> ControlNetGranularity
      | ControlScatterClique \<Rightarrow> ControlScatterClique
      | ControlWorkTime \<Rightarrow> MergeOther
      | ControlWorkCycle \<Rightarrow> MergeMyMasterDepart
      | MergeOther \<Rightarrow> MergeMySlaveDepart
      | MergeMyMasterDepart \<Rightarrow> AbandonMastership
      | MergeMySlaveDepart \<Rightarrow> Info
      | _ \<Rightarrow> Invalid)"
  by (cases t) (simp_all add: SyncMessage_messageTypeFromRaw_def)

lemma messageTypeFromRaw_carriesSync:
  "SyncMessage_doesCarrySync t \<Longrightarrow> SyncMessage_messageTypeFromRaw (message_type_value t) = t"
  by (cases t) (simp_all add: SyncMessage_messageTypeFromRaw_def)

text \<open>No byte decodes to the two work control types.\<close>

lemma messageTypeFromRaw_never_work_control:
  "SyncMessage_messageTypeFromRaw b \<noteq> ControlWorkTime"
  "SyncMessage_messageTypeFromRaw b \<noteq> ControlWorkCycle"
  by (simp_all add: SyncMessage_messageTypeFromRaw_def)

lemma message_type_value_inj: "message_type_value t = message_type_value u \<longleftrightarrow> t = u"
  by (cases t; cases u) simp_all

lemma representation_inj: "SyncMessage_representation t = SyncMessage_representation u \<longleftrightarrow> t = u"
  by (cases t; cases u) simp_all

lemma getFromRaw_getRaw:
  "Granularity_getFromRaw (Granularity_getRaw g) =
     (case g of Small \<Rightarrow> Large | MediumGranularity \<Rightarrow> MediumGranularity | Large \<Rightarrow> Small
      | InvalidGranularity \<Rightarrow> InvalidGranularity)"
  by (cases g) (simp_all add: Granularity_getFromRaw_def)

end
