(* ===== verification/Platform.thy ===== *)
theory Platform
  imports Prelude
begin

text \<open>
  The interface to the code that is not part of the repository: the libraries radioSoC (radio,
  clocks, timer, power, mailbox), embeddedMath (time arithmetic, random numbers) and
  libBLEProvisionee, and the callbacks of the app.

  The record \<open>platform\<close> is a parameter of every operation that calls this code.  What a query
  answers is an arbitrary function of the whole history \<open>io\<close> of earlier calls, so consecutive
  readings of the clock, tosses of the coin and measurements of Vcc are unrelated unless a
  theorem says otherwise.  Documented behaviour of the libraries is stated by the named
  predicates at the end of this theory; they appear as hypotheses of the theorems that need them.
\<close>

section \<open>The tasks handed to the timer\<close>

text \<open>The functions the code passes to \<open>TaskTimer::schedule\<close> (see \<open>src/task/task.h\<close> and
  \<open>src/schedule/syncSchedule.cpp\<close>).\<close>

datatype task =
    CheckPowerReserve
  | StartSyncPeriodMaintain
  | TheRadioPreludeTaskWSync
  | TheRadioPreludeTaskWFish
  | StartSyncSlotAfterPrelude
  | StartSyncSlotWithoutScheduledPrelude
  | SendSync
  | EndSyncSlotListen
  | EndSyncSlotSend
  | FishSlotStart
  | FishSlotEnd
  | MergerStartAndEnd
  | ProvisionStart
  | ProvisionEnd

datatype voltage_level = UltraLow | Low | Medium | High

datatype xmit_power = Minus40 | Minus12 | Plus0

section \<open>Calls to the platform and to the app\<close>

datatype io_event =
    GetNowTime
  | CoinToss
  | RandomUnsignedInt u32 u32
  | AlarmInit u32
  | AlarmWrap
  | AlarmTick
  | AlarmDisarm
  | StartHFXO
  | StopHFXO
  | ScheduleTask task delta_time
  | ReceiveStatic
  | StopReceive
  | StartReceiving
  | TransmitStatic "u8 list"
  | ConfigureXmitPower xmit_power
  | SetRadioUseCase
  | MeasureVcc
  | PowerManagerInit
  | EnterBrownoutDetectMode
  | VccInit
  | MeasurePower voltage_level
  | FetchMail
  | QueryMail
  | ProvisionerInit
  | ProvisionerStart
  | ProvisionerShutdown
  | ProvisionerCalledBack
  | PacketReceived
  | ResetByFault
  | AppPowerReserve
  | AppSyncPoint
  | AppWork payload
  | AppWorkTime u32
  | AppWorkCycle u32
  | SleepUntilEvent delta_time
  | SleepFor delta_time
  | CancelTimeout
  | SetSaneTimeout delta_time
  | EnsembleStartup
  | EnsembleShutdown
  | FlashWriteZero u32
  | FlashWriteInt u32 u32
  | FlashWriteBit u32 u32
  | ProvisionWithSleep
  | PutInfoMail u8
  | QueryInfoMail
  | FetchInfoMail

text \<open>Why a sleep ended (\<open>Sleeper\<close> of radioSoC), and what a provisioner hands over (libBLEProvisionee).\<close>

datatype reason_for_wake =
    MsgReceived
  | SleepTimerExpired
  | CounterOverflowOrOtherTimerExpired
  | Cleared
  | UnknownReason
  | BrownoutWarning
  | HFClockStarted
  | LFClockStarted

record provisioned_value =
  pv_index :: u8
  pv_value :: u8
  pv_offset :: u8

record platform =
  p_systemID :: system_id
  p_softdevicePresent :: bool
  p_nowTime :: "io_event list \<Rightarrow> long_time"
  p_timeOfArrival :: "io_event list \<Rightarrow> long_time"
  p_coinToss :: "io_event list \<Rightarrow> bool"
  p_randomUnsignedInt :: "io_event list \<Rightarrow> u32 \<Rightarrow> u32 \<Rightarrow> u32"
  p_tickWithAlarm :: "io_event list \<Rightarrow> bool"
  p_isRadioInUse :: "io_event list \<Rightarrow> bool"
  p_isRadioConfigured :: "io_event list \<Rightarrow> bool"
  p_isPacketCRCValid :: "io_event list \<Rightarrow> bool"
  p_isPowerAbove :: "io_event list \<Rightarrow> voltage_level \<Rightarrow> bool"
  p_isVccAtLeast2_7 :: "io_event list \<Rightarrow> bool"
  p_isMail :: "io_event list \<Rightarrow> bool"
  p_fetchMail :: "io_event list \<Rightarrow> payload"
  p_provisionerStartedOK :: "io_event list \<Rightarrow> bool"
  p_clampedTimeDifferenceFromNow :: "io_event list \<Rightarrow> long_time \<Rightarrow> delta_time"
  p_clampedTimeDifferenceToNow :: "io_event list \<Rightarrow> long_time \<Rightarrow> delta_time"
  p_clampedTimeDifference :: "long_time \<Rightarrow> long_time \<Rightarrow> delta_time"
  p_clampedSubtraction :: "delta_time \<Rightarrow> delta_time \<Rightarrow> delta_time"
  p_deltaSubtraction :: "delta_time \<Rightarrow> delta_time \<Rightarrow> delta_time option"
  p_elapsedToAdvanceConverter :: "(u32 \<Rightarrow> u32) option"
  p_remoteLogging :: bool
  p_bleProvisioned :: bool
  p_reasonForWake :: "io_event list \<Rightarrow> reason_for_wake"
  p_receivedPacket :: "io_event list \<Rightarrow> u8 list"
  p_elapsed :: "io_event list \<Rightarrow> long_time \<Rightarrow> long_time"
  p_isLowPower :: "io_event list \<Rightarrow> bool"
  p_isUltraLowPower :: "io_event list \<Rightarrow> bool"
  p_noResetsOccurred :: "io_event list \<Rightarrow> bool"
  p_isRadioPower :: "io_event list \<Rightarrow> bool"
  p_wasFault :: bool
  p_isInfoMail :: "io_event list \<Rightarrow> bool"
  p_fetchInfoMail :: "io_event list \<Rightarrow> payload"
  p_provisionSession :: "io_event list \<Rightarrow> (provisioned_value \<times> 8 word) option"

text \<open>
  The part of the state that belongs to the platform: the history of calls, the tasks the timer
  holds (scheduled and not yet started), and the radio's one packet buffer, which the serializer
  reads and writes in place.
\<close>

record platform_state =
  io :: "io_event list"
  timers :: "(task \<times> delta_time) list"
  radioBuffer :: "u8 list"

section \<open>The calls\<close>

definition emit :: "io_event \<Rightarrow> 'a platform_state_scheme \<Rightarrow> 'a platform_state_scheme" where
  "emit e s = s\<lparr>io := e # io s\<rparr>"

definition LongClock_nowTime ::
  "platform \<Rightarrow> 'a platform_state_scheme \<Rightarrow> long_time \<times> 'a platform_state_scheme" where
  "LongClock_nowTime P s = (p_nowTime P (io s), emit GetNowTime s)"

definition clampedTimeDifferenceFromNow ::
  "platform \<Rightarrow> long_time \<Rightarrow> 'a platform_state_scheme \<Rightarrow> delta_time \<times> 'a platform_state_scheme" where
  "clampedTimeDifferenceFromNow P t s = (p_clampedTimeDifferenceFromNow P (io s) t, emit GetNowTime s)"

definition clampedTimeDifferenceToNow ::
  "platform \<Rightarrow> long_time \<Rightarrow> 'a platform_state_scheme \<Rightarrow> delta_time \<times> 'a platform_state_scheme" where
  "clampedTimeDifferenceToNow P t s = (p_clampedTimeDifferenceToNow P (io s) t, emit GetNowTime s)"

definition Random_coinToss ::
  "platform \<Rightarrow> 'a platform_state_scheme \<Rightarrow> bool \<times> 'a platform_state_scheme" where
  "Random_coinToss P s = (p_coinToss P (io s), emit CoinToss s)"

definition Random_unsignedInt ::
  "platform \<Rightarrow> u32 \<Rightarrow> u32 \<Rightarrow> 'a platform_state_scheme \<Rightarrow> u32 \<times> 'a platform_state_scheme" where
  "Random_unsignedInt P lo hi s =
     (p_randomUnsignedInt P (io s) lo hi, emit (RandomUnsignedInt lo hi) s)"

definition Alarm_tickWithAlarm ::
  "platform \<Rightarrow> 'a platform_state_scheme \<Rightarrow> bool \<times> 'a platform_state_scheme" where
  "Alarm_tickWithAlarm P s = (p_tickWithAlarm P (io s), emit AlarmTick s)"

definition isPowerAbove ::
  "platform \<Rightarrow> voltage_level \<Rightarrow> 'a platform_state_scheme \<Rightarrow> bool \<times> 'a platform_state_scheme" where
  "isPowerAbove P v s = (p_isPowerAbove P (io s) v, emit (MeasurePower v) s)"

definition Vcc_measureAtLeast2_7 ::
  "platform \<Rightarrow> 'a platform_state_scheme \<Rightarrow> bool \<times> 'a platform_state_scheme" where
  "Vcc_measureAtLeast2_7 P s = (p_isVccAtLeast2_7 P (io s), emit MeasureVcc s)"

definition Mailbox_isMail ::
  "platform \<Rightarrow> 'a platform_state_scheme \<Rightarrow> bool \<times> 'a platform_state_scheme" where
  "Mailbox_isMail P s = (p_isMail P (io s), emit QueryMail s)"

definition Mailbox_fetch ::
  "platform \<Rightarrow> 'a platform_state_scheme \<Rightarrow> payload \<times> 'a platform_state_scheme" where
  "Mailbox_fetch P s = (p_fetchMail P (io s), emit FetchMail s)"

definition Provisioner_start ::
  "platform \<Rightarrow> 'a platform_state_scheme \<Rightarrow> bool \<times> 'a platform_state_scheme" where
  "Provisioner_start P s = (p_provisionerStartedOK P (io s), emit ProvisionerStart s)"

text \<open>The timer: a scheduled task stays in \<open>timers\<close> until it starts.\<close>

definition TaskTimer_schedule ::
  "task \<Rightarrow> delta_time \<Rightarrow> 'a platform_state_scheme \<Rightarrow> 'a platform_state_scheme" where
  "TaskTimer_schedule t d s = emit (ScheduleTask t d) (s\<lparr>timers := timers s @ [(t, d)]\<rparr>)"

text \<open>Getters of state the radio keeps: no effect, and a value fixed by the history.\<close>

definition Radio_timeOfArrival :: "platform \<Rightarrow> 'a platform_state_scheme \<Rightarrow> long_time" where
  "Radio_timeOfArrival P s = p_timeOfArrival P (io s)"

definition Ensemble_isRadioInUse :: "platform \<Rightarrow> 'a platform_state_scheme \<Rightarrow> bool" where
  "Ensemble_isRadioInUse P s = p_isRadioInUse P (io s)"

definition Ensemble_isConfigured :: "platform \<Rightarrow> 'a platform_state_scheme \<Rightarrow> bool" where
  "Ensemble_isConfigured P s = p_isRadioConfigured P (io s)"

definition Ensemble_isPacketCRCValid :: "platform \<Rightarrow> 'a platform_state_scheme \<Rightarrow> bool" where
  "Ensemble_isPacketCRCValid P s = p_isPacketCRCValid P (io s)"

text \<open>
  Sleeping, for the design in which slots sleep.  A sleep ends with some reason; when the reason is
  a received message, the radio has written it to its buffer.
\<close>

definition Sleeper_getReasonForWake :: "platform \<Rightarrow> 'a platform_state_scheme \<Rightarrow> reason_for_wake" where
  "Sleeper_getReasonForWake P s = p_reasonForWake P (io s)"

definition Sleeper_isWakeForTimerExpired :: "platform \<Rightarrow> 'a platform_state_scheme \<Rightarrow> bool" where
  "Sleeper_isWakeForTimerExpired P s \<longleftrightarrow> Sleeper_getReasonForWake P s = SleepTimerExpired"

definition Sleeper_sleepUntilEventWithTimeout ::
  "platform \<Rightarrow> delta_time \<Rightarrow> 'a platform_state_scheme \<Rightarrow> 'a platform_state_scheme" where
  "Sleeper_sleepUntilEventWithTimeout P t s =
     (let s = emit (SleepUntilEvent t) s
      in if Sleeper_getReasonForWake P s = MsgReceived
         then s\<lparr>radioBuffer := p_receivedPacket P (io s)\<rparr> else s)"

definition Ensemble_isLowPower :: "platform \<Rightarrow> 'a platform_state_scheme \<Rightarrow> bool" where
  "Ensemble_isLowPower P s = p_isLowPower P (io s)"

definition ClockDuration_elapsed ::
  "platform \<Rightarrow> long_time \<Rightarrow> 'a platform_state_scheme \<Rightarrow> long_time \<times> 'a platform_state_scheme" where
  "ClockDuration_elapsed P t s = (p_elapsed P (io s) t, emit GetNowTime s)"

section \<open>What the calls leave alone\<close>

lemmas platform_calls =
  LongClock_nowTime_def clampedTimeDifferenceFromNow_def clampedTimeDifferenceToNow_def
  Random_coinToss_def Random_unsignedInt_def Alarm_tickWithAlarm_def isPowerAbove_def
  Vcc_measureAtLeast2_7_def Mailbox_isMail_def Mailbox_fetch_def Provisioner_start_def

lemma emit_sel [simp]:
  "io (emit e s) = e # io s"
  "timers (emit e s) = timers s"
  "radioBuffer (emit e s) = radioBuffer s"
  "platform_state.more (emit e s) = platform_state.more s"
  by (simp_all add: emit_def)

lemma TaskTimer_schedule_sel [simp]:
  "io (TaskTimer_schedule t d s) = ScheduleTask t d # io s"
  "timers (TaskTimer_schedule t d s) = timers s @ [(t, d)]"
  "radioBuffer (TaskTimer_schedule t d s) = radioBuffer s"
  "platform_state.more (TaskTimer_schedule t d s) = platform_state.more s"
  by (simp_all add: TaskTimer_schedule_def emit_def)

section \<open>Documented behaviour of the libraries\<close>

text \<open>
  embeddedMath: a clamped difference is the difference where it is positive and zero
  otherwise (\<open>src/modules/syncOffset.cpp\<close>: "clampedSubtraction to insure clock subtraction not
  yield large number"); \<open>deltaSubtraction\<close> asserts that its result is not negative
  (\<open>src/schedule/sleepDuration.cpp\<close>: "if assertion in deltaSubtraction throws").
\<close>

definition documented_subtraction :: "platform \<Rightarrow> bool" where
  "documented_subtraction P \<longleftrightarrow>
     (\<forall>a b. p_clampedSubtraction P a b = (if b \<le> a then a - b else 0)) \<and>
     (\<forall>a b. p_deltaSubtraction P a b = (if b \<le> a then Some (a - b) else None))"

text \<open>The differences of 64-bit times that the schedule asks for fit a \<open>DeltaTime\<close>.\<close>

definition documented_difference :: "platform \<Rightarrow> bool" where
  "documented_difference P \<longleftrightarrow>
     (\<forall>later earlier. unat later \<le> unat earlier + 0xFFFFFFFF \<longrightarrow>
        unat (p_clampedTimeDifference P later earlier) = unat later - unat earlier)"

text \<open>radioSoC's \<open>ClockDuration\<close> takes the same differences against \<open>LongClock::nowTime()\<close>.\<close>

definition documented_clock_duration :: "platform \<Rightarrow> bool" where
  "documented_clock_duration P \<longleftrightarrow>
     (\<forall>h t. p_clampedTimeDifferenceFromNow P h t = p_clampedTimeDifference P t (p_nowTime P h)) \<and>
     (\<forall>h t. p_clampedTimeDifferenceToNow P h t = p_clampedTimeDifference P (p_nowTime P h) t)"

definition documented_time :: "platform \<Rightarrow> bool" where
  "documented_time P \<longleftrightarrow>
     documented_subtraction P \<and> documented_difference P \<and> documented_clock_duration P"

text \<open>embeddedMath's random number lies in the range asked for.\<close>

definition documented_random :: "platform \<Rightarrow> bool" where
  "documented_random P \<longleftrightarrow>
     (\<forall>h lo hi. lo \<le> hi \<longrightarrow> lo \<le> p_randomUnsignedInt P h lo hi \<and> p_randomUnsignedInt P h lo hi \<le> hi)"

text \<open>
  radioSoC's \<open>assertUltraLowPower\<close> holds while the ensemble (the radio with its clock and
  power supply) is off: \<open>src/sleepers/cruft/syncSleeperObs.cpp\<close>: "radio ensemble (HFXO and DCDC) OFF".
\<close>

fun ensemble_on :: "io_event list \<Rightarrow> bool" where
  "ensemble_on [] = False"
| "ensemble_on (e # h) = (case e of EnsembleStartup \<Rightarrow> True | EnsembleShutdown \<Rightarrow> False | _ \<Rightarrow> ensemble_on h)"

definition documented_low_power :: "platform \<Rightarrow> bool" where
  "documented_low_power P \<longleftrightarrow> (\<forall>h. p_isUltraLowPower P h \<longleftrightarrow> \<not> ensemble_on h)"

lemma clampedSubtraction_unat:
  assumes "documented_subtraction P"
  shows "unat (p_clampedSubtraction P a b) = unat a - unat b"
  using assms by (simp add: documented_subtraction_def unat_sub word_le_nat_alt)

lemma deltaSubtraction_eq:
  assumes "documented_subtraction P"
  shows "p_deltaSubtraction P a b = (if b \<le> a then Some (a - b) else None)"
  using assms by (simp add: documented_subtraction_def)

lemma clampedFromNow_unat:
  assumes "documented_time P" "unat t \<le> unat (p_nowTime P h) + 0xFFFFFFFF"
  shows "unat (p_clampedTimeDifferenceFromNow P h t) = unat t - unat (p_nowTime P h)"
  using assms by (simp add: documented_time_def documented_difference_def documented_clock_duration_def)

lemma clampedToNow_unat:
  assumes "documented_time P" "unat (p_nowTime P h) \<le> unat t + 0xFFFFFFFF"
  shows "unat (p_clampedTimeDifferenceToNow P h t) = unat (p_nowTime P h) - unat t"
  using assms by (simp add: documented_time_def documented_difference_def documented_clock_duration_def)

section \<open>A concrete platform\<close>

text \<open>
  For witnesses: a unit with the given ID whose clock and time of arrival read the given constants,
  whose coin, alarm, power and mailbox answer the given booleans, and whose time
  arithmetic is exact.
\<close>

definition exact_difference :: "long_time \<Rightarrow> long_time \<Rightarrow> delta_time" where
  "exact_difference later earlier = (if earlier \<le> later then ucast (later - earlier) else 0)"

definition sample_platform ::
  "system_id \<Rightarrow> long_time \<Rightarrow> long_time \<Rightarrow> bool \<Rightarrow> bool \<Rightarrow> bool \<Rightarrow> bool \<Rightarrow> platform" where
  "sample_platform self now toa coin alarm powered mail = \<lparr>
     p_systemID = self,
     p_softdevicePresent = False,
     p_nowTime = (\<lambda>_. now),
     p_timeOfArrival = (\<lambda>_. toa),
     p_coinToss = (\<lambda>_. coin),
     p_randomUnsignedInt = (\<lambda>_ lo hi. hi),
     p_tickWithAlarm = (\<lambda>_. alarm),
     p_isRadioInUse = (\<lambda>_. False),
     p_isRadioConfigured = (\<lambda>_. True),
     p_isPacketCRCValid = (\<lambda>_. True),
     p_isPowerAbove = (\<lambda>_ _. powered),
     p_isVccAtLeast2_7 = (\<lambda>_. powered),
     p_isMail = (\<lambda>_. mail),
     p_fetchMail = (\<lambda>_. 0),
     p_provisionerStartedOK = (\<lambda>_. True),
     p_clampedTimeDifferenceFromNow = (\<lambda>_ t. exact_difference t now),
     p_clampedTimeDifferenceToNow = (\<lambda>_ t. exact_difference now t),
     p_clampedTimeDifference = exact_difference,
     p_clampedSubtraction = (\<lambda>a b. if b \<le> a then a - b else 0),
     p_deltaSubtraction = (\<lambda>a b. if b \<le> a then Some (a - b) else None),
     p_elapsedToAdvanceConverter = Some id,
     p_remoteLogging = False,
     p_bleProvisioned = True,
     p_reasonForWake = (\<lambda>_. SleepTimerExpired),
     p_receivedPacket = (\<lambda>_. replicate 11 0),
     p_elapsed = (\<lambda>_ t. now - t),
     p_isLowPower = (\<lambda>_. True),
     p_isUltraLowPower = (\<lambda>h. \<not> ensemble_on h),
     p_noResetsOccurred = (\<lambda>_. True),
     p_isRadioPower = (\<lambda>_. True),
     p_wasFault = False,
     p_isInfoMail = (\<lambda>_. False),
     p_fetchInfoMail = (\<lambda>_. 0),
     p_provisionSession = (\<lambda>_. None)\<rparr>"

lemma exact_difference_unat:
  assumes "unat later \<le> unat earlier + 0xFFFFFFFF"
  shows "unat (exact_difference later earlier) = unat later - unat earlier"
proof (cases "earlier \<le> later")
  case True
  then have d: "unat (later - earlier) = unat later - unat earlier"
    by (simp add: unat_sub)
  also have "\<dots> < 2 ^ 32"
    using assms by simp
  finally have "unat (later - earlier) < 2 ^ 32" .
  then show ?thesis
    using True d by (simp add: exact_difference_def unsigned_ucast_eq take_bit_nat_eq_self)
next
  case False
  then show ?thesis
    by (simp add: exact_difference_def word_le_nat_alt)
qed

lemma sample_platform_documented:
  "documented_time (sample_platform self now toa coin alarm powered mail)"
  "documented_subtraction (sample_platform self now toa coin alarm powered mail)"
  "documented_random (sample_platform self now toa coin alarm powered mail)"
  "documented_low_power (sample_platform self now toa coin alarm powered mail)"
  by (simp_all add: documented_time_def documented_subtraction_def documented_difference_def
      documented_clock_duration_def documented_random_def documented_low_power_def sample_platform_def
      exact_difference_unat)

end
