(* ===== verification/Serializer.thy ===== *)
theory Serializer
  imports Message Platform
begin

text \<open>
  The over-the-air format: \<open>src/message/serializer.cpp\<close> and \<open>otaPacket.h\<close>.  A packet is the 11
  bytes type, masterID (6, little-endian), offset (3, little-endian), work.  The
  buffer belongs to the radio; the serializer copies each field in and out by \<open>memcpy\<close>.
  The functions modelled are those compiled without \<open>RANGE_FILTERING\<close>.
\<close>

section \<open>Layout\<close>

definition TypeTSSIndex :: nat where "TypeTSSIndex = 0"
definition TypeTSSLength :: nat where "TypeTSSLength = 1"
definition MasterIndex :: nat where "MasterIndex = 1"
definition MasterIDLength :: nat where "MasterIDLength = 6"
definition OffsetIndex :: nat where "OffsetIndex = 7"
definition OffsetLength :: nat where "OffsetLength = 3"
definition WorkIndex :: nat where "WorkIndex = 10"
definition WorkLength :: nat where "WorkLength = 1"

text \<open>\<open>Radio::FixedPayloadCount\<close>, which the code asserts statically to be 11.\<close>

definition FixedPayloadCount :: nat where "FixedPayloadCount = 11"

lemmas ota_layout [params] =
  TypeTSSIndex_def TypeTSSLength_def MasterIndex_def MasterIDLength_def
  OffsetIndex_def OffsetLength_def WorkIndex_def WorkLength_def FixedPayloadCount_def

section \<open>Copying bytes\<close>

definition put_bytes :: "nat \<Rightarrow> u8 list \<Rightarrow> u8 list \<Rightarrow> u8 list" where
  "put_bytes i bs buf = take i buf @ bs @ drop (i + length bs) buf"

definition get_bytes :: "nat \<Rightarrow> nat \<Rightarrow> u8 list \<Rightarrow> u8 list" where
  "get_bytes i n buf = take n (drop i buf)"

text \<open>The low-order bytes of an integer in memory, as a little-endian processor keeps them.\<close>

fun le_bytes :: "nat \<Rightarrow> 'a::len word \<Rightarrow> u8 list" where
  "le_bytes 0 w = []"
| "le_bytes (Suc n) w = ucast w # le_bytes n (drop_bit 8 w)"

fun le_word :: "u8 list \<Rightarrow> 'a::len word" where
  "le_word [] = 0"
| "le_word (b # bs) = or (ucast b) (push_bit 8 (le_word bs))"

section \<open>The serializer\<close>

record serializer_state = platform_state +
  radioBufferPtrIsSet :: bool
  radioBufferSize :: u8

definition Serializer_init :: "u8 \<Rightarrow> 'a serializer_state_scheme \<Rightarrow> 'a serializer_state_scheme" where
  "Serializer_init aBufferSize s = s\<lparr>radioBufferPtrIsSet := True, radioBufferSize := aBufferSize\<rparr>"

definition unserializeType :: "'a serializer_state_scheme \<Rightarrow> message_type" where
  "unserializeType s =
     SyncMessage_messageTypeFromRaw (le_word (get_bytes TypeTSSIndex TypeTSSLength (radioBuffer s)))"

definition serializeTypeCommonIntoStream ::
  "sync_message \<Rightarrow> 'a serializer_state_scheme \<Rightarrow> 'a serializer_state_scheme" where
  "serializeTypeCommonIntoStream msg s = s\<lparr>radioBuffer :=
     put_bytes TypeTSSIndex (le_bytes TypeTSSLength (message_type_value (msg_type msg))) (radioBuffer s)\<rparr>"

definition unserializeWork :: "'a serializer_state_scheme \<Rightarrow> payload" where
  "unserializeWork s = le_word (get_bytes WorkIndex WorkLength (radioBuffer s))"

definition serializeWorkCommonIntoStream ::
  "sync_message \<Rightarrow> 'a serializer_state_scheme \<Rightarrow> 'a serializer_state_scheme" where
  "serializeWorkCommonIntoStream msg s = s\<lparr>radioBuffer :=
     put_bytes WorkIndex (le_bytes WorkLength (work msg)) (radioBuffer s)\<rparr>"

definition unserializeMasterID :: "'a serializer_state_scheme \<Rightarrow> system_id option" where
  "unserializeMasterID s = do {
     require (MasterIDLength \<le> 8);
     Some (le_word (get_bytes MasterIndex MasterIDLength (radioBuffer s)))
   }"

definition serializeMasterIDCommonIntoStream ::
  "sync_message \<Rightarrow> 'a serializer_state_scheme \<Rightarrow> 'a serializer_state_scheme" where
  "serializeMasterIDCommonIntoStream msg s = s\<lparr>radioBuffer :=
     put_bytes MasterIndex (le_bytes MasterIDLength (msg_masterID msg)) (radioBuffer s)\<rparr>"

definition unserializeOffset :: "'a serializer_state_scheme \<Rightarrow> delta_time" where
  "unserializeOffset s = le_word (get_bytes OffsetIndex OffsetLength (radioBuffer s))"

definition unserializeOffsetInto :: "'a serializer_state_scheme \<Rightarrow> delta_time option" where
  "unserializeOffsetInto s = DeltaSync_set (unserializeOffset s)"

definition serializeOffsetCommonIntoStream ::
  "sync_message \<Rightarrow> 'a serializer_state_scheme \<Rightarrow> 'a serializer_state_scheme" where
  "serializeOffsetCommonIntoStream msg s = s\<lparr>radioBuffer :=
     put_bytes OffsetIndex (le_bytes OffsetLength (deltaToNextSyncPoint msg)) (radioBuffer s)\<rparr>"

definition unserializeOTAFieldsIntoMessageFields ::
  "message_type \<Rightarrow> 'a serializer_state_scheme \<Rightarrow> sync_message option" where
  "unserializeOTAFieldsIntoMessageFields receivedMsgType s = do {
     master \<leftarrow> unserializeMasterID s;
     offset \<leftarrow> unserializeOffsetInto s;
     Some \<lparr>msg_type = receivedMsgType, deltaToNextSyncPoint = offset,
           msg_masterID = master, work = unserializeWork s\<rparr>
   }"

text \<open>The inner option of the result is the pointer: \<open>None\<close> is \<open>nullptr\<close>.\<close>

definition Serializer_unserialize :: "'a serializer_state_scheme \<Rightarrow> sync_message option option" where
  "Serializer_unserialize s =
     (let t = unserializeType s
      in if t \<noteq> Invalid
         then map_option Some (unserializeOTAFieldsIntoMessageFields t s)
         else Some None)"

definition Serializer_serializeSyncMessageIntoRadioBuffer ::
  "sync_message \<Rightarrow> 'a serializer_state_scheme \<Rightarrow> 'a serializer_state_scheme option" where
  "Serializer_serializeSyncMessageIntoRadioBuffer msg s = do {
     require (radioBufferPtrIsSet s);
     let s = serializeTypeCommonIntoStream msg s;
     let s = serializeMasterIDCommonIntoStream msg s;
     let s = serializeOffsetCommonIntoStream msg s;
     Some (serializeWorkCommonIntoStream msg s)
   }"

section \<open>Bytes and words\<close>

lemma length_le_bytes [simp]: "length (le_bytes n w) = n"
  by (induction n arbitrary: w) simp_all

lemma le_word_le_bytes: "le_word (le_bytes n w) = take_bit (8 * n) (w :: 'a::len word)"
proof (induction n arbitrary: w)
  case 0
  then show ?case by simp
next
  case (Suc n)
  show ?case
    unfolding le_bytes.simps le_word.simps Suc.IH
    by (rule bit_word_eqI)
      (auto simp: bit_or_iff bit_push_bit_iff bit_take_bit_iff bit_drop_bit_eq bit_ucast_iff)
qed

lemma length_put_bytes [simp]:
  "i + length bs \<le> length buf \<Longrightarrow> length (put_bytes i bs buf) = length buf"
  by (simp add: put_bytes_def)

lemma get_put_bytes_same:
  "i + length bs \<le> length buf \<Longrightarrow> n = length bs \<Longrightarrow> get_bytes i n (put_bytes i bs buf) = bs"
  by (simp add: get_bytes_def put_bytes_def)

lemma get_put_bytes_before:
  assumes "j + n \<le> i" "i \<le> length buf"
  shows "get_bytes j n (put_bytes i bs buf) = get_bytes j n buf"
  using assms by (auto simp: get_bytes_def put_bytes_def drop_take min_def)

lemma get_put_bytes_after:
  assumes "i + length bs \<le> j" "i + length bs \<le> length buf"
  shows "get_bytes j n (put_bytes i bs buf) = get_bytes j n buf"
  using assms by (simp add: get_bytes_def put_bytes_def add.commute)

section \<open>The fields as codecs\<close>

text \<open>
  The code keeps its readers and writers in "matched pairs for each field".  The contract of a pair:
  the writer fills exactly the field's bytes, and the reader turns
  what was written into a normalised value (the value itself where the bytes hold all of it).
\<close>

locale field_codec =
  fixes idx len :: nat
    and enc :: "'v \<Rightarrow> u8 list"
    and dec :: "u8 list \<Rightarrow> 'v"
    and norm :: "'v \<Rightarrow> 'v"
  assumes enc_length: "length (enc v) = len"
    and dec_enc: "dec (enc v) = norm v"
    and fits: "idx + len \<le> FixedPayloadCount"
begin

lemma read_back:
  assumes "length buf = FixedPayloadCount"
  shows "dec (get_bytes idx len (put_bytes idx (enc v) buf)) = norm v"
  using assms fits by (simp add: get_put_bytes_same enc_length dec_enc)

lemma keeps_size:
  assumes "length buf = FixedPayloadCount"
  shows "length (put_bytes idx (enc v) buf) = FixedPayloadCount"
  using assms fits by (simp add: enc_length)

lemma keeps_earlier:
  assumes "length buf = FixedPayloadCount" "j + n \<le> idx"
  shows "get_bytes j n (put_bytes idx (enc v) buf) = get_bytes j n buf"
  using assms fits by (intro get_put_bytes_before) simp_all

lemma keeps_later:
  assumes "length buf = FixedPayloadCount" "idx + len \<le> j"
  shows "get_bytes j n (put_bytes idx (enc v) buf) = get_bytes j n buf"
  using assms fits by (intro get_put_bytes_after) (simp_all add: enc_length)

end

text \<open>A field whose bytes hold every value of its type reads back what was written.\<close>

locale exact_field_codec = field_codec +
  assumes norm_id: "norm v = v"
begin

lemma read_back_exact:
  assumes "length buf = FixedPayloadCount"
  shows "dec (get_bytes idx len (put_bytes idx (enc v) buf)) = v"
  using read_back [OF assms, of v] by (simp add: norm_id)

end

interpretation type_field: field_codec TypeTSSIndex TypeTSSLength
  "\<lambda>t. le_bytes TypeTSSLength (message_type_value t)"
  "\<lambda>bs. SyncMessage_messageTypeFromRaw (le_word bs)"
  "\<lambda>t. SyncMessage_messageTypeFromRaw (message_type_value t)"
  by unfold_locales (simp_all only: length_le_bytes le_word_le_bytes ota_layout, simp_all add: take_bit_word_eq_self)

interpretation master_field: field_codec MasterIndex MasterIDLength
  "\<lambda>w::system_id. le_bytes MasterIDLength w" le_word "take_bit 48"
  by unfold_locales (simp_all only: length_le_bytes le_word_le_bytes ota_layout, simp_all add: take_bit_word_eq_self)

interpretation offset_field: field_codec OffsetIndex OffsetLength
  "\<lambda>d::delta_time. le_bytes OffsetLength d" le_word "take_bit 24"
  by unfold_locales (simp_all only: length_le_bytes le_word_le_bytes ota_layout, simp_all add: take_bit_word_eq_self)

interpretation work_field: exact_field_codec WorkIndex WorkLength
  "\<lambda>w::payload. le_bytes WorkLength w" le_word id
  by unfold_locales (simp_all only: length_le_bytes le_word_le_bytes ota_layout, simp_all add: take_bit_word_eq_self)

text \<open>The regions do not overlap: each writer leaves the other fields' bytes alone.\<close>

lemma field_regions:
  "TypeTSSIndex + TypeTSSLength \<le> MasterIndex"
  "TypeTSSIndex + TypeTSSLength \<le> OffsetIndex"
  "TypeTSSIndex + TypeTSSLength \<le> WorkIndex"
  "MasterIndex + MasterIDLength \<le> OffsetIndex"
  "MasterIndex + MasterIDLength \<le> WorkIndex"
  "OffsetIndex + OffsetLength \<le> WorkIndex"
  by (simp_all add: params)

lemmas codec_facts =
  type_field.keeps_size master_field.keeps_size offset_field.keeps_size work_field.keeps_size
  type_field.read_back master_field.read_back offset_field.read_back work_field.read_back_exact
  master_field.keeps_earlier offset_field.keeps_earlier work_field.keeps_earlier

lemmas serializer_writers =
  serializeTypeCommonIntoStream_def serializeMasterIDCommonIntoStream_def
  serializeOffsetCommonIntoStream_def serializeWorkCommonIntoStream_def

definition packet_of :: "sync_message \<Rightarrow> u8 list \<Rightarrow> u8 list" where
  "packet_of msg buf =
     put_bytes WorkIndex (le_bytes WorkLength (work msg))
      (put_bytes OffsetIndex (le_bytes OffsetLength (deltaToNextSyncPoint msg))
       (put_bytes MasterIndex (le_bytes MasterIDLength (msg_masterID msg))
        (put_bytes TypeTSSIndex (le_bytes TypeTSSLength (message_type_value (msg_type msg))) buf)))"

lemma serialize_eq:
  "Serializer_serializeSyncMessageIntoRadioBuffer msg s =
     (if radioBufferPtrIsSet s then Some (s\<lparr>radioBuffer := packet_of msg (radioBuffer s)\<rparr>) else None)"
  by (simp add: Serializer_serializeSyncMessageIntoRadioBuffer_def serializer_writers packet_of_def Let_def)

lemma packet_of_fields:
  assumes "length buf = FixedPayloadCount"
  shows "SyncMessage_messageTypeFromRaw (le_word (get_bytes TypeTSSIndex TypeTSSLength (packet_of msg buf))) =
           SyncMessage_messageTypeFromRaw (message_type_value (msg_type msg))"
    and "le_word (get_bytes MasterIndex MasterIDLength (packet_of msg buf)) = take_bit 48 (msg_masterID msg)"
    and "le_word (get_bytes OffsetIndex OffsetLength (packet_of msg buf)) =
           take_bit 24 (deltaToNextSyncPoint msg)"
    and "le_word (get_bytes WorkIndex WorkLength (packet_of msg buf)) = work msg"
    and "length (packet_of msg buf) = FixedPayloadCount"
  using assms by (simp_all add: packet_of_def codec_facts field_regions del: le_bytes.simps le_word.simps)

text \<open>What a unit reads after another serialized a message into the packet.\<close>

lemma unserialize_packet:
  assumes "radioBuffer s = packet_of msg buf" "length buf = FixedPayloadCount"
  shows "Serializer_unserialize s =
    (let t = SyncMessage_messageTypeFromRaw (message_type_value (msg_type msg));
         d = take_bit 24 (deltaToNextSyncPoint msg)
     in if t = Invalid then Some None
        else if d \<le> NormalSyncPeriodDuration
        then Some (Some \<lparr>msg_type = t, deltaToNextSyncPoint = d,
                         msg_masterID = take_bit 48 (msg_masterID msg), work = work msg\<rparr>)
        else None)"
  using assms
  by (simp add: Serializer_unserialize_def unserializeType_def unserializeOTAFieldsIntoMessageFields_def
      unserializeMasterID_def unserializeOffsetInto_def unserializeOffset_def unserializeWork_def
      packet_of_fields DeltaSync_set_eq Let_def MasterIDLength_def [symmetric])
    (simp add: MasterIDLength_def)

lemma take_bit_24_valid_offset:
  assumes "d \<le> NormalSyncPeriodDuration"
  shows "take_bit 24 d = d"
proof -
  have "unat d < 2 ^ 24"
    using assms by (simp add: params word_le_nat_alt)
  then have "unat (take_bit 24 d) = unat d"
    by (simp add: unsigned_take_bit_eq take_bit_nat_eq_self)
  then show ?thesis
    by (simp add: word_unat_eq_iff)
qed

lemma take_bit_48_id:
  assumes "unat (i :: system_id) < 2 ^ 48"
  shows "take_bit 48 i = i"
  using assms by (simp add: word_unat_eq_iff unsigned_take_bit_eq take_bit_nat_eq_self)

end
