(* ===== verification/Schedule.thy ===== *)
theory Schedule
  imports Serializer
begin

text \<open>
  The sync period clock: \<open>src/clique/schedule.cpp\<close>, the sender's offset
  \<open>src/modules/syncOffset.cpp\<close> and the times within the sync slot
  \<open>src/slots/syncing/syncSlotSchedule.cpp\<close>.  Logging is not modelled.
\<close>

section \<open>State and operations\<close>

record schedule_state = serializer_state +
  startTimeOfSyncPeriod :: long_time
  unadjustedEndTimeOfSyncPeriod :: long_time
  endTimeOfSyncPeriod :: long_time

definition rollPeriodForwardDiscretely :: "'a schedule_state_scheme \<Rightarrow> 'a schedule_state_scheme" where
  "rollPeriodForwardDiscretely s =
     (let s = s\<lparr>startTimeOfSyncPeriod := endTimeOfSyncPeriod s\<rparr>;
          s = s\<lparr>endTimeOfSyncPeriod := startTimeOfSyncPeriod s + ucast NormalSyncPeriodDuration\<rparr>
      in s\<lparr>unadjustedEndTimeOfSyncPeriod := endTimeOfSyncPeriod s\<rparr>)"

definition Schedule_rollPeriodForward :: "'a schedule_state_scheme \<Rightarrow> 'a schedule_state_scheme" where
  "Schedule_rollPeriodForward s = rollPeriodForwardDiscretely s"

definition Schedule_init :: "platform \<Rightarrow> 'a schedule_state_scheme \<Rightarrow> 'a schedule_state_scheme" where
  "Schedule_init P s =
     (let (now, s) = LongClock_nowTime P s
      in Schedule_rollPeriodForward (s\<lparr>startTimeOfSyncPeriod := now\<rparr>))"

definition Schedule_setEndTimeOfSyncPeriodToNow ::
  "platform \<Rightarrow> 'a schedule_state_scheme \<Rightarrow> 'a schedule_state_scheme" where
  "Schedule_setEndTimeOfSyncPeriodToNow P s =
     (let (now, s) = LongClock_nowTime P s in s\<lparr>endTimeOfSyncPeriod := now\<rparr>)"

definition Schedule_timeOfNextSyncPoint :: "'a schedule_state_scheme \<Rightarrow> long_time" where
  "Schedule_timeOfNextSyncPoint s = endTimeOfSyncPeriod s"

definition Schedule_timeOfUnadjustedNextSyncPoint :: "'a schedule_state_scheme \<Rightarrow> long_time" where
  "Schedule_timeOfUnadjustedNextSyncPoint s = unadjustedEndTimeOfSyncPeriod s"

definition Schedule_adjust :: "long_time \<Rightarrow> 'a schedule_state_scheme \<Rightarrow> 'a schedule_state_scheme option" where
  "Schedule_adjust newEndTime s = do {
     let s = s\<lparr>endTimeOfSyncPeriod := newEndTime\<rparr>;
     require (unadjustedEndTimeOfSyncPeriod s \<le> endTimeOfSyncPeriod s);
     require (endTimeOfSyncPeriod s - startTimeOfSyncPeriod s \<le> ucast (2 * NormalSyncPeriodDuration));
     Some s
   }"

definition Schedule_adjustedEventTimeFromMsg ::
  "platform \<Rightarrow> sync_message \<Rightarrow> 'a schedule_state_scheme \<Rightarrow> long_time" where
  "Schedule_adjustedEventTimeFromMsg P msg s =
     (let delta = deltaToNextSyncPoint msg;
          toa = Radio_timeOfArrival P s
      in toa + ucast delta)"

definition Schedule_adjustedSyncPeriodEndTimeFromMsg ::
  "platform \<Rightarrow> sync_message \<Rightarrow> 'a schedule_state_scheme \<Rightarrow> long_time option" where
  "Schedule_adjustedSyncPeriodEndTimeFromMsg P msg s = do {
     let result = Schedule_adjustedEventTimeFromMsg P msg s;
     let result = (if result < Schedule_timeOfNextSyncPoint s
                   then result + ucast NormalSyncPeriodDuration else result);
     require (result - startTimeOfSyncPeriod s \<le> ucast (2 * NormalSyncPeriodDuration));
     Some result
   }"

definition Schedule_adjustBySyncMsg ::
  "platform \<Rightarrow> sync_message \<Rightarrow> 'a schedule_state_scheme \<Rightarrow> 'a schedule_state_scheme option" where
  "Schedule_adjustBySyncMsg P msg s = do {
     newEndTime \<leftarrow> Schedule_adjustedSyncPeriodEndTimeFromMsg P msg s;
     Schedule_adjust newEndTime s
   }"

definition Schedule_adjustWithRandomAddedTime ::
  "platform \<Rightarrow> 'a schedule_state_scheme \<Rightarrow> 'a schedule_state_scheme option" where
  "Schedule_adjustWithRandomAddedTime P s =
     (let (randomOffset, s) = Random_unsignedInt P 0 NormalSyncPeriodDuration s
      in Schedule_adjust
           (startTimeOfSyncPeriod s + ucast NormalSyncPeriodDuration + ucast randomOffset) s)"

definition Schedule_adjustedEndTimeFromCliqueHistoryOffset ::
  "platform \<Rightarrow> delta_time \<Rightarrow> 'a schedule_state_scheme \<Rightarrow> long_time \<times> 'a schedule_state_scheme" where
  "Schedule_adjustedEndTimeFromCliqueHistoryOffset P offset s =
     (let (now, s) = LongClock_nowTime P s in (now + ucast offset, s))"

definition Schedule_adjustByCliqueHistoryOffset ::
  "platform \<Rightarrow> delta_time \<Rightarrow> 'a schedule_state_scheme \<Rightarrow> 'a schedule_state_scheme option" where
  "Schedule_adjustByCliqueHistoryOffset P offset s =
     (let (newEndTime, s) = Schedule_adjustedEndTimeFromCliqueHistoryOffset P offset s
      in Schedule_adjust newEndTime s)"

definition Schedule_deltaNowToNextSyncPoint ::
  "platform \<Rightarrow> 'a schedule_state_scheme \<Rightarrow> delta_time \<times> 'a schedule_state_scheme" where
  "Schedule_deltaNowToNextSyncPoint P s =
     clampedTimeDifferenceFromNow P (Schedule_timeOfNextSyncPoint s) s"

definition Schedule_deltaNowToNextUnadjustedSyncPoint ::
  "platform \<Rightarrow> 'a schedule_state_scheme \<Rightarrow> delta_time \<times> 'a schedule_state_scheme" where
  "Schedule_deltaNowToNextUnadjustedSyncPoint P s =
     clampedTimeDifferenceFromNow P (Schedule_timeOfUnadjustedNextSyncPoint s) s"

definition Schedule_deltaPastSyncPointToNow ::
  "platform \<Rightarrow> 'a schedule_state_scheme \<Rightarrow> delta_time \<times> 'a schedule_state_scheme" where
  "Schedule_deltaPastSyncPointToNow P s = clampedTimeDifferenceToNow P (startTimeOfSyncPeriod s) s"

definition Schedule_latestTimeToEndSlots :: "'a schedule_state_scheme \<Rightarrow> long_time" where
  "Schedule_latestTimeToEndSlots s = Schedule_timeOfNextSyncPoint s"

definition Schedule_clampTimeBeforeLatestSlotMark ::
  "long_time \<Rightarrow> 'a schedule_state_scheme \<Rightarrow> long_time" where
  "Schedule_clampTimeBeforeLatestSlotMark proposedTime s =
     (let cutoffTime = Schedule_latestTimeToEndSlots s
      in if cutoffTime < proposedTime then cutoffTime else proposedTime)"

text \<open>\<open>src/modules/syncOffset.cpp\<close>\<close>

definition SyncOffset_calculate ::
  "platform \<Rightarrow> 'a schedule_state_scheme \<Rightarrow> delta_time \<times> 'a schedule_state_scheme" where
  "SyncOffset_calculate P s =
     (let (rawOffset, s) = Schedule_deltaNowToNextSyncPoint P s
      in (p_clampedSubtraction P rawOffset SendLatency, s))"

text \<open>\<open>src/slots/syncing/syncSlotSchedule.cpp\<close>\<close>

definition SyncSlotSchedule_timeOfThisSyncSlotMiddleSubslot :: "'a schedule_state_scheme \<Rightarrow> long_time" where
  "SyncSlotSchedule_timeOfThisSyncSlotMiddleSubslot s =
     startTimeOfSyncPeriod s + ucast DeltaSyncSlotStartToSyncSlotXmit"

definition SyncSlotSchedule_timeOfThisSyncSlotEnd :: "'a schedule_state_scheme \<Rightarrow> long_time" where
  "SyncSlotSchedule_timeOfThisSyncSlotEnd s = startTimeOfSyncPeriod s + ucast VirtualSlotDuration"

definition SyncSlotSchedule_deltaToThisSyncSlotMiddleSubslot ::
  "platform \<Rightarrow> 'a schedule_state_scheme \<Rightarrow> delta_time \<times> 'a schedule_state_scheme" where
  "SyncSlotSchedule_deltaToThisSyncSlotMiddleSubslot P s =
     clampedTimeDifferenceFromNow P (SyncSlotSchedule_timeOfThisSyncSlotMiddleSubslot s) s"

definition SyncSlotSchedule_deltaToThisSyncSlotEnd ::
  "platform \<Rightarrow> 'a schedule_state_scheme \<Rightarrow> delta_time \<times> 'a schedule_state_scheme" where
  "SyncSlotSchedule_deltaToThisSyncSlotEnd P s =
     clampedTimeDifferenceFromNow P (SyncSlotSchedule_timeOfThisSyncSlotEnd s) s"

section \<open>The invariant of the period\<close>

text \<open>
  The sync period has its normal length, is never shortened, and is stretched to at most
  twice its length.  The invariant also says that the 64-bit clock does not wrap within the period
  (it wraps after 17 million years of 32768 Hz ticks).
\<close>

definition schedule_inv :: "'a schedule_state_scheme \<Rightarrow> bool" where
  "schedule_inv s \<longleftrightarrow>
     unat (unadjustedEndTimeOfSyncPeriod s) = unat (startTimeOfSyncPeriod s) + 80000 \<and>
     unat (unadjustedEndTimeOfSyncPeriod s) \<le> unat (endTimeOfSyncPeriod s) \<and>
     unat (endTimeOfSyncPeriod s) \<le> unat (startTimeOfSyncPeriod s) + 160000"

text \<open>The clock is not within a few sync periods of wrapping.\<close>

definition far_from_wrap :: "long_time \<Rightarrow> bool" where
  "far_from_wrap t \<longleftrightarrow> unat t < 2 ^ 63"

lemma period_unat [simp]: "unat NormalSyncPeriodDuration = 80000"
  by (simp add: params)

lemma period_u64: "(ucast NormalSyncPeriodDuration :: u64) = 80000"
  by (simp add: params)

lemma two_periods_u64: "(ucast (2 * NormalSyncPeriodDuration) :: u64) = 160000"
  by (simp add: params)

lemma unat_plus_period:
  assumes "far_from_wrap t"
  shows "unat (t + ucast NormalSyncPeriodDuration) = unat t + 80000"
  using assms unat_time_plus [of t NormalSyncPeriodDuration] by (simp add: far_from_wrap_def)

section \<open>Rolling the period forward\<close>

lemma rollPeriodForward_sel:
  "startTimeOfSyncPeriod (Schedule_rollPeriodForward s) = endTimeOfSyncPeriod s"
  "endTimeOfSyncPeriod (Schedule_rollPeriodForward s) = endTimeOfSyncPeriod s + ucast NormalSyncPeriodDuration"
  "unadjustedEndTimeOfSyncPeriod (Schedule_rollPeriodForward s) =
     endTimeOfSyncPeriod s + ucast NormalSyncPeriodDuration"
  by (simp_all add: Schedule_rollPeriodForward_def rollPeriodForwardDiscretely_def Let_def)

lemma rollPeriodForward_frame [frame, simp]:
  "io (Schedule_rollPeriodForward s) = io s"
  "timers (Schedule_rollPeriodForward s) = timers s"
  "radioBuffer (Schedule_rollPeriodForward s) = radioBuffer s"
  "schedule_state.more (Schedule_rollPeriodForward s) = schedule_state.more s"
  by (simp_all add: Schedule_rollPeriodForward_def rollPeriodForwardDiscretely_def Let_def)

lemma rollPeriodForward_inv:
  assumes "far_from_wrap (endTimeOfSyncPeriod s)"
  shows "schedule_inv (Schedule_rollPeriodForward s)"
  using assms by (simp add: schedule_inv_def rollPeriodForward_sel unat_plus_period)

section \<open>Adjusting the end of the period\<close>

lemma adjust_eq:
  assumes "schedule_inv s"
  shows "Schedule_adjust t s =
    (if unat (unadjustedEndTimeOfSyncPeriod s) \<le> unat t \<and> unat t \<le> unat (startTimeOfSyncPeriod s) + 160000
     then Some (s\<lparr>endTimeOfSyncPeriod := t\<rparr>) else None)"
proof (cases "unadjustedEndTimeOfSyncPeriod s \<le> t")
  case True
  with assms have "startTimeOfSyncPeriod s \<le> t"
    by (simp add: schedule_inv_def word_le_nat_alt)
  then have "unat (t - startTimeOfSyncPeriod s) = unat t - unat (startTimeOfSyncPeriod s)"
    by (rule unat_sub_le)
  with True assms show ?thesis
    by (auto simp: Schedule_adjust_def two_periods_u64 word_le_nat_alt schedule_inv_def)
next
  case False
  then show ?thesis
    by (simp add: Schedule_adjust_def word_le_nat_alt)
qed

lemma adjust_Some_sel:
  assumes "Schedule_adjust t s = Some s'"
  shows "s' = s\<lparr>endTimeOfSyncPeriod := t\<rparr>"
  using assms by (auto simp: Schedule_adjust_def Let_def split: if_splits)

lemma adjust_inv:
  assumes "schedule_inv s" "Schedule_adjust t s = Some s'"
  shows "schedule_inv s'"
  using assms adjust_eq [of s t] by (auto simp: schedule_inv_def split: if_splits)

text \<open>The new end computed from a message: the event time, or one period later where that
  would shorten the current period.\<close>

definition message_end_time :: "long_time \<Rightarrow> delta_time \<Rightarrow> long_time \<Rightarrow> nat" where
  "message_end_time toa delta endTime =
     (let t = unat toa + unat delta in if t < unat endTime then t + 80000 else t)"

lemma adjustedEventTime_unat:
  assumes "far_from_wrap (Radio_timeOfArrival P s)"
  shows "unat (Schedule_adjustedEventTimeFromMsg P msg s) =
           unat (Radio_timeOfArrival P s) + unat (deltaToNextSyncPoint msg)"
proof -
  have "unat (Radio_timeOfArrival P s) + unat (deltaToNextSyncPoint msg) < 18446744073709551616"
    using assms unat_u32_bound [of "deltaToNextSyncPoint msg"] by (simp add: far_from_wrap_def)
  then show ?thesis
    by (simp add: Schedule_adjustedEventTimeFromMsg_def Let_def unat_time_plus)
qed

lemma message_end_word:
  assumes "far_from_wrap (Radio_timeOfArrival P s)"
    and r_def: "r = Schedule_adjustedEventTimeFromMsg P msg s"
  shows "unat (if r < endTimeOfSyncPeriod s then r + ucast NormalSyncPeriodDuration else r) =
           message_end_time (Radio_timeOfArrival P s) (deltaToNextSyncPoint msg) (endTimeOfSyncPeriod s)"
proof -
  have r: "unat r = unat (Radio_timeOfArrival P s) + unat (deltaToNextSyncPoint msg)"
    unfolding r_def by (rule adjustedEventTime_unat) fact
  have "unat r + unat NormalSyncPeriodDuration < 18446744073709551616"
    using assms(1) unat_u32_bound [of "deltaToNextSyncPoint msg"] r by (simp add: far_from_wrap_def)
  then have "unat (r + ucast NormalSyncPeriodDuration) = unat r + 80000"
    using unat_time_plus [of r NormalSyncPeriodDuration] by simp
  then show ?thesis
    by (simp add: message_end_time_def Let_def r word_less_nat_alt)
qed

lemma adjustBySyncMsg_cases:
  assumes "schedule_inv s" "far_from_wrap (Radio_timeOfArrival P s)"
    and arrived: "startTimeOfSyncPeriod s \<le> Radio_timeOfArrival P s"
    and e_def: "e = message_end_time (Radio_timeOfArrival P s) (deltaToNextSyncPoint msg) (endTimeOfSyncPeriod s)"
  shows "e \<le> unat (startTimeOfSyncPeriod s) + 160000 \<Longrightarrow>
           \<exists>t. unat t = e \<and> Schedule_adjustBySyncMsg P msg s = Some (s\<lparr>endTimeOfSyncPeriod := t\<rparr>)"
    and "unat (startTimeOfSyncPeriod s) + 160000 < e \<Longrightarrow> Schedule_adjustBySyncMsg P msg s = None"
proof -
  define r where "r = Schedule_adjustedEventTimeFromMsg P msg s"
  define t where "t = (if r < endTimeOfSyncPeriod s then r + ucast NormalSyncPeriodDuration else r)"
  have t: "unat t = e"
    unfolding t_def e_def by (rule message_end_word [OF _ r_def]) fact
  have end_le: "unat (unadjustedEndTimeOfSyncPeriod s) \<le> e"
    using assms(1) arrived
    by (auto simp: e_def message_end_time_def Let_def schedule_inv_def word_le_nat_alt)
  have le: "startTimeOfSyncPeriod s \<le> t"
    using end_le t assms(1) by (simp add: schedule_inv_def word_le_nat_alt)
  have diff: "unat (t - startTimeOfSyncPeriod s) = e - unat (startTimeOfSyncPeriod s)"
    using unat_sub_le [OF le] t by simp
  have eq: "Schedule_adjustBySyncMsg P msg s =
      (if e \<le> unat (startTimeOfSyncPeriod s) + 160000 then Schedule_adjust t s else None)"
    unfolding Schedule_adjustBySyncMsg_def Schedule_adjustedSyncPeriodEndTimeFromMsg_def
      Schedule_timeOfNextSyncPoint_def Let_def r_def [symmetric] t_def [symmetric]
    by (simp add: two_periods_u64 word_le_nat_alt diff) linarith
  show "\<exists>t. unat t = e \<and> Schedule_adjustBySyncMsg P msg s = Some (s\<lparr>endTimeOfSyncPeriod := t\<rparr>)"
    if "e \<le> unat (startTimeOfSyncPeriod s) + 160000"
    using that end_le assms(1) by (intro exI [of _ t]) (simp add: eq adjust_eq t schedule_inv_def)
  show "Schedule_adjustBySyncMsg P msg s = None" if "unat (startTimeOfSyncPeriod s) + 160000 < e"
    using that by (simp add: eq)
qed

lemma adjustBySyncMsg_SomeD:
  assumes "Schedule_adjustBySyncMsg P msg s = Some s'"
  obtains t where "s' = s\<lparr>endTimeOfSyncPeriod := t\<rparr>"
  using assms unfolding Schedule_adjustBySyncMsg_def
  by (elim bind_SomeE) (auto dest: adjust_Some_sel)

lemma adjustBySyncMsg_inv:
  assumes "schedule_inv s" "Schedule_adjustBySyncMsg P msg s = Some s'"
  shows "schedule_inv s'"
  using assms(2) unfolding Schedule_adjustBySyncMsg_def
  by (elim bind_SomeE) (rule adjust_inv [OF assms(1)])

lemma adjustWithRandomAddedTime_total:
  assumes "documented_random P" "schedule_inv s" "far_from_wrap (startTimeOfSyncPeriod s)"
  obtains t where
    "Schedule_adjustWithRandomAddedTime P s = Some (emit (RandomUnsignedInt 0 NormalSyncPeriodDuration)
       s\<lparr>endTimeOfSyncPeriod := t\<rparr>)"
    "unat t = unat (startTimeOfSyncPeriod s) + 80000
       + unat (p_randomUnsignedInt P (io s) 0 NormalSyncPeriodDuration)"
    "unat (p_randomUnsignedInt P (io s) 0 NormalSyncPeriodDuration) \<le> 80000"
proof -
  define x where "x = p_randomUnsignedInt P (io s) 0 NormalSyncPeriodDuration"
  define s1 where "s1 = emit (RandomUnsignedInt 0 NormalSyncPeriodDuration) s"
  define t where "t = startTimeOfSyncPeriod s + ucast NormalSyncPeriodDuration + ucast x"
  have x: "unat x \<le> 80000"
    using assms(1) unfolding documented_random_def
    by (elim allE [of _ "io s"] allE [of _ 0] allE [of _ NormalSyncPeriodDuration])
       (simp add: x_def word_le_nat_alt)
  have sel: "startTimeOfSyncPeriod s1 = startTimeOfSyncPeriod s"
    "unadjustedEndTimeOfSyncPeriod s1 = unadjustedEndTimeOfSyncPeriod s"
    "endTimeOfSyncPeriod s1 = endTimeOfSyncPeriod s"
    by (simp_all add: s1_def emit_def)
  have a: "unat (startTimeOfSyncPeriod s + ucast NormalSyncPeriodDuration) =
      unat (startTimeOfSyncPeriod s) + 80000"
    by (rule unat_plus_period) fact
  have t: "unat t = unat (startTimeOfSyncPeriod s) + 80000 + unat x"
    unfolding t_def using assms(3) x
    by (subst unat_time_plus) (simp_all add: a far_from_wrap_def)
  have "schedule_inv s1"
    using assms(2) by (simp add: schedule_inv_def sel)
  then have "Schedule_adjust t s1 = Some (s1\<lparr>endTimeOfSyncPeriod := t\<rparr>)"
    using x assms(2) by (simp add: adjust_eq sel t schedule_inv_def)
  then have "Schedule_adjustWithRandomAddedTime P s = Some (s1\<lparr>endTimeOfSyncPeriod := t\<rparr>)"
    by (simp add: Schedule_adjustWithRandomAddedTime_def Random_unsignedInt_def t_def x_def
        s1_def [symmetric] sel)
  then show thesis
    using that [of t] t x by (simp add: s1_def x_def emit_def)
qed

text \<open>An adjustment by the clique history is an adjustment to the reading of the clock.\<close>

lemma adjustByCliqueHistoryOffset_eq:
  "Schedule_adjustByCliqueHistoryOffset P d s =
     Schedule_adjust (p_nowTime P (io s) + ucast d) (emit GetNowTime s)"
  by (simp add: Schedule_adjustByCliqueHistoryOffset_def Schedule_adjustedEndTimeFromCliqueHistoryOffset_def
      LongClock_nowTime_def)

section \<open>Clamping and offsets\<close>

lemma clampTime_eq: "Schedule_clampTimeBeforeLatestSlotMark t s = min t (endTimeOfSyncPeriod s)"
  by (auto simp: Schedule_clampTimeBeforeLatestSlotMark_def Schedule_latestTimeToEndSlots_def
      Schedule_timeOfNextSyncPoint_def min_def Let_def)

lemma SyncOffset_calculate_unat:
  assumes "documented_time P"
    and "unat (endTimeOfSyncPeriod s) \<le> unat (p_nowTime P (io s)) + 0xFFFFFFFF"
  shows "unat (fst (SyncOffset_calculate P s)) =
           unat (endTimeOfSyncPeriod s) - unat (p_nowTime P (io s)) - 4"
  using assms
  by (simp add: SyncOffset_calculate_def Schedule_deltaNowToNextSyncPoint_def
      clampedTimeDifferenceFromNow_def Schedule_timeOfNextSyncPoint_def clampedFromNow_unat
      clampedSubtraction_unat documented_time_def params split_beta)

lemma SyncOffset_calculate_snd [simp]: "snd (SyncOffset_calculate P s) = emit GetNowTime s"
  by (simp add: SyncOffset_calculate_def Schedule_deltaNowToNextSyncPoint_def
      clampedTimeDifferenceFromNow_def)

end
