(* ===== verification/Policy.thy ===== *)
theory Policy
  imports Schedule
begin

text \<open>
  The history of masters (\<open>src/cliqueHistory/cliqueHistory.cpp\<close>), the dropout monitor
  (\<open>src/policy/dropoutMonitor.cpp\<close>), the policies that decide when to transmit sync
  (\<open>src/policy/syncPolicy\<close>) and when a merger is done (\<open>src/slots/merge/mergePolicy.cpp\<close>).

  The counters share a contract, the locale \<open>episode\<close>: every tick counts, and the first tick past
  the limit, and no earlier one, ends the episode.
\<close>

section \<open>Clique history\<close>

record clique_record =
  rec_masterID :: system_id
  offsetToNextMastersSync :: delta_time
  countSlaves :: u32

definition RecordCount :: u32 where
  "RecordCount = 6"

record history_state = schedule_state +
  cliqueRecords :: "clique_record list"
  currentCliqueIndex :: u32

definition CliqueHistory_init :: "platform \<Rightarrow> 'a history_state_scheme \<Rightarrow> 'a history_state_scheme" where
  "CliqueHistory_init P s =
     s\<lparr>cliqueRecords := (cliqueRecords s)
         [0 := (cliqueRecords s ! 0)\<lparr>rec_masterID := p_systemID P, offsetToNextMastersSync := 0\<rparr>]\<rparr>"

definition CliqueHistory_add ::
  "system_id \<Rightarrow> delta_time \<Rightarrow> 'a history_state_scheme \<Rightarrow> 'a history_state_scheme" where
  "CliqueHistory_add newMasterID offsetToNextClique s =
     (if currentCliqueIndex s < RecordCount - 1 then
        let s = s\<lparr>currentCliqueIndex := currentCliqueIndex s + 1\<rparr>;
            i = unat (currentCliqueIndex s);
            s = s\<lparr>cliqueRecords := (cliqueRecords s)
                  [i := (cliqueRecords s ! i)\<lparr>rec_masterID := newMasterID\<rparr>]\<rparr>
        in s\<lparr>cliqueRecords := (cliqueRecords s)
               [0 := (cliqueRecords s ! 0)\<lparr>offsetToNextMastersSync := offsetToNextClique\<rparr>]\<rparr>
      else s)"

definition CliqueHistory_setCurrentCliqueRecordToFormerClique ::
  "'a history_state_scheme \<Rightarrow> 'a history_state_scheme option" where
  "CliqueHistory_setCurrentCliqueRecordToFormerClique s = do {
     require (currentCliqueIndex s > 0);
     Some (s\<lparr>currentCliqueIndex := currentCliqueIndex s - 1\<rparr>)
   }"

definition CliqueHistory_isCurrentCliqueRecordSelf :: "platform \<Rightarrow> 'a history_state_scheme \<Rightarrow> bool" where
  "CliqueHistory_isCurrentCliqueRecordSelf P s \<longleftrightarrow>
     rec_masterID (cliqueRecords s ! unat (currentCliqueIndex s)) = p_systemID P"

definition CliqueHistory_currentCliqueRecordMasterID :: "'a history_state_scheme \<Rightarrow> system_id" where
  "CliqueHistory_currentCliqueRecordMasterID s = rec_masterID (cliqueRecords s ! 0)"

definition CliqueHistory_offsetToCurrentClique :: delta_time where
  "CliqueHistory_offsetToCurrentClique = 1"

text \<open>The index stays within the array, and the first record is self.\<close>

definition history_inv :: "platform \<Rightarrow> 'a history_state_scheme \<Rightarrow> bool" where
  "history_inv P s \<longleftrightarrow>
     length (cliqueRecords s) = 6 \<and> unat (currentCliqueIndex s) < 6 \<and>
     rec_masterID (cliqueRecords s ! 0) = p_systemID P"

lemma RecordCount_pred: "RecordCount - 1 = 5"
  by (simp add: RecordCount_def)

lemma CliqueHistory_init_inv:
  assumes "length (cliqueRecords s) = 6" "unat (currentCliqueIndex s) < 6"
  shows "history_inv P (CliqueHistory_init P s)"
proof -
  have "0 < length (cliqueRecords s)"
    using assms by simp
  then show ?thesis
    using assms by (simp add: history_inv_def CliqueHistory_init_def)
qed

lemma unat_suc_small:
  assumes "(w :: u32) < 5"
  shows "unat (w + 1) = Suc (unat w)"
proof -
  have "unat w + unat (1 :: u32) < 4294967296"
    using assms by (simp add: word_less_nat_alt)
  from unat_add_u32 [OF this] show ?thesis
    by simp
qed

lemma CliqueHistory_add_inv:
  assumes "history_inv P s"
  shows "history_inv P (CliqueHistory_add m d s)"
proof (cases "currentCliqueIndex s < 5")
  case True
  have suc: "unat (currentCliqueIndex s + 1) = Suc (unat (currentCliqueIndex s))"
    using True by (rule unat_suc_small)
  have lt: "unat (currentCliqueIndex s) < 5"
    using True by (simp add: word_less_nat_alt)
  have nonempty: "cliqueRecords s \<noteq> []"
    using assms by (auto simp: history_inv_def)
  show ?thesis
    using assms True lt nonempty
    by (simp add: history_inv_def CliqueHistory_add_def RecordCount_pred suc Let_def)
next
  case False
  then show ?thesis
    using assms by (simp add: history_inv_def CliqueHistory_add_def RecordCount_pred)
qed

lemma CliqueHistory_former_inv:
  assumes "history_inv P s" "CliqueHistory_setCurrentCliqueRecordToFormerClique s = Some s'"
  shows "history_inv P s'"
  using assms
  by (auto simp: history_inv_def CliqueHistory_setCurrentCliqueRecordToFormerClique_def
      unat_sub word_le_nat_alt word_less_nat_alt split: if_splits)

text \<open>Adding and going back is the record that was current before.\<close>

lemma CliqueHistory_former_add:
  assumes "currentCliqueIndex s < 5"
  shows "\<exists>s'. CliqueHistory_setCurrentCliqueRecordToFormerClique (CliqueHistory_add m d s) = Some s' \<and>
           currentCliqueIndex s' = currentCliqueIndex s"
proof -
  have "unat (currentCliqueIndex s + 1) = Suc (unat (currentCliqueIndex s))"
    using assms by (rule unat_suc_small)
  then have "0 < currentCliqueIndex s + 1"
    by (simp add: word_less_nat_alt)
  then show ?thesis
    using assms
    by (simp add: CliqueHistory_setCurrentCliqueRecordToFormerClique_def CliqueHistory_add_def
        RecordCount_pred Let_def)
qed

section \<open>Episodes\<close>

text \<open>Repeating an operation that answers a boolean; the answers, in order.\<close>

fun repeat_op :: "('s \<Rightarrow> (bool \<times> 's) option) \<Rightarrow> nat \<Rightarrow> 's \<Rightarrow> (bool list \<times> 's) option" where
  "repeat_op f 0 s = Some ([], s)"
| "repeat_op f (Suc n) s = do {
     (b, s) \<leftarrow> f s;
     (bs, s) \<leftarrow> repeat_op f n s;
     Some (b # bs, s)
   }"

lemma repeat_op_snoc:
  "repeat_op f n s = Some (bs, s1) \<Longrightarrow> f s1 = Some (b, s2) \<Longrightarrow>
     repeat_op f (Suc n) s = Some (bs @ [b], s2)"
proof (induction n arbitrary: s bs)
  case 0
  then show ?case by simp
next
  case (Suc n)
  obtain c s' cs where split: "f s = Some (c, s')" "repeat_op f n s' = Some (cs, s1)" "bs = c # cs"
    using Suc.prems(1) by (auto elim!: bind_case_prod_SomeE)
  have "repeat_op f (Suc n) s' = Some (cs @ [b], s2)"
    by (rule Suc.IH) (fact split(2), fact Suc.prems(2))
  then show ?case
    by (subst repeat_op.simps(2)) (simp only: split bind.bind_lunit case_prod_conv append_Cons)
qed

locale episode =
  fixes tick :: "'s \<Rightarrow> (bool \<times> 's) option"
    and valid :: "'s \<Rightarrow> bool"
    and count :: "'s \<Rightarrow> nat"
    and limit :: nat
  assumes tick_counts: "valid s \<Longrightarrow> count s < limit \<Longrightarrow>
      \<exists>s'. tick s = Some (False, s') \<and> valid s' \<and> count s' = Suc (count s)"
    and tick_ends: "valid s \<Longrightarrow> count s = limit \<Longrightarrow> \<exists>s'. tick s = Some (True, s')"
begin

lemma before_limit:
  assumes "valid s" "count s + n \<le> limit"
  shows "\<exists>s'. repeat_op tick n s = Some (replicate n False, s') \<and> valid s' \<and> count s' = count s + n"
  using assms
proof (induction n arbitrary: s)
  case 0
  then show ?case by simp
next
  case (Suc n)
  obtain s1 where s1: "tick s = Some (False, s1)" "valid s1" "count s1 = Suc (count s)"
    using tick_counts [of s] Suc.prems by auto
  obtain s2 where "repeat_op tick n s1 = Some (replicate n False, s2)" "valid s2" "count s2 = count s1 + n"
    using Suc.IH [of s1] Suc.prems s1 by auto
  then show ?case
    using s1 by simp
qed

text \<open>The first answer \<open>True\<close> is the one past the limit.\<close>

lemma ends_past_limit:
  assumes "valid s" "count s \<le> limit"
  shows "\<exists>s'. repeat_op tick (Suc (limit - count s)) s =
                Some (replicate (limit - count s) False @ [True], s')"
proof -
  obtain s1 where s1: "repeat_op tick (limit - count s) s = Some (replicate (limit - count s) False, s1)"
    "valid s1" "count s1 = limit"
    using before_limit [of s "limit - count s"] assms by auto
  obtain s2 where "tick s1 = Some (True, s2)"
    using tick_ends s1(2,3) by blast
  then show ?thesis
    using repeat_op_snoc [OF s1(1)] by blast
qed

end

text \<open>An episode that starts over by itself.\<close>

locale restarting_episode = episode +
  assumes restarts: "valid s \<Longrightarrow> count s = limit \<Longrightarrow> tick s = Some (True, s') \<Longrightarrow>
      valid s' \<and> count s' = 0"
begin

lemma tick_total:
  assumes "valid s" "count s \<le> limit"
  shows "\<exists>b s'. tick s = Some (b, s') \<and> valid s' \<and> count s' \<le> limit"
proof (cases "count s = limit")
  case True
  then obtain s' where "tick s = Some (True, s')"
    using tick_ends assms by blast
  then show ?thesis
    using restarts [OF assms(1) True] by auto
next
  case False
  then have "count s < limit"
    using assms by simp
  from tick_counts [OF assms(1) this] show ?thesis
    using \<open>count s < limit\<close> by auto
qed

lemma never_stuck:
  assumes "valid s" "count s \<le> limit"
  shows "\<exists>bs s'. repeat_op tick n s = Some (bs, s') \<and> valid s' \<and> count s' \<le> limit"
  using assms
proof (induction n arbitrary: s)
  case 0
  then show ?case by simp
next
  case (Suc n)
  obtain b s1 where s1: "tick s = Some (b, s1)" "valid s1" "count s1 \<le> limit"
    using tick_total [OF Suc.prems] by blast
  obtain bs s2 where "repeat_op tick n s1 = Some (bs, s2)" "valid s2" "count s2 \<le> limit"
    using Suc.IH [OF s1(2,3)] by blast
  then show ?case
    using s1 by auto
qed

end

section \<open>Dropout monitor\<close>

record policy_state = history_state +
  countSyncSlotsWithoutSyncMsg :: event_count
  isAdvancedStage :: bool
  countSentMergeSyncs :: int

definition DropoutMonitor_reset :: "'a policy_state_scheme \<Rightarrow> 'a policy_state_scheme" where
  "DropoutMonitor_reset s = s\<lparr>countSyncSlotsWithoutSyncMsg := 0\<rparr>"

definition DropoutMonitor_heardSync :: "'a policy_state_scheme \<Rightarrow> 'a policy_state_scheme" where
  "DropoutMonitor_heardSync s = DropoutMonitor_reset s"

definition DropoutMonitor_isDropout :: "'a policy_state_scheme \<Rightarrow> (bool \<times> 'a policy_state_scheme) option" where
  "DropoutMonitor_isDropout s = do {
     require (countSyncSlotsWithoutSyncMsg s \<le> maxMissingSyncsPerDropout);
     let s = s\<lparr>countSyncSlotsWithoutSyncMsg := countSyncSlotsWithoutSyncMsg s + 1\<rparr>;
     let result = countSyncSlotsWithoutSyncMsg s > maxMissingSyncsPerDropout;
     let s = (if result then DropoutMonitor_reset s else s);
     Some (result, s)
   }"

definition dropout_inv :: "'a policy_state_scheme \<Rightarrow> bool" where
  "dropout_inv s \<longleftrightarrow> unat (countSyncSlotsWithoutSyncMsg s) \<le> 80"

lemma isDropout_eq:
  assumes "dropout_inv s"
  shows "DropoutMonitor_isDropout s =
    (if unat (countSyncSlotsWithoutSyncMsg s) = 80
     then Some (True, s\<lparr>countSyncSlotsWithoutSyncMsg := 0\<rparr>)
     else Some (False, s\<lparr>countSyncSlotsWithoutSyncMsg := countSyncSlotsWithoutSyncMsg s + 1\<rparr>))"
proof -
  have suc: "unat (countSyncSlotsWithoutSyncMsg s + 1) = Suc (unat (countSyncSlotsWithoutSyncMsg s))"
    using unat_add_u32 [of "countSyncSlotsWithoutSyncMsg s" 1] assms by (simp add: dropout_inv_def)
  show ?thesis
    using assms
    by (auto simp: DropoutMonitor_isDropout_def DropoutMonitor_reset_def dropout_inv_def params suc
        word_nat_order Let_def)
qed

lemma isDropout_inv:
  assumes "DropoutMonitor_isDropout s = Some (b, s')"
  shows "dropout_inv s'"
  using assms
  by (auto simp: DropoutMonitor_isDropout_def DropoutMonitor_reset_def dropout_inv_def params
      word_nat_order Let_def split: if_splits)

interpretation dropout: restarting_episode
  DropoutMonitor_isDropout "\<lambda>_. True" "\<lambda>s. unat (countSyncSlotsWithoutSyncMsg s)" 80
proof unfold_locales
  fix s :: "'a policy_state_scheme"
  assume lt: "unat (countSyncSlotsWithoutSyncMsg s) < 80"
  have "unat (countSyncSlotsWithoutSyncMsg s + 1) = Suc (unat (countSyncSlotsWithoutSyncMsg s))"
    using unat_add_u32 [of "countSyncSlotsWithoutSyncMsg s" 1] lt by simp
  then show "\<exists>s'. DropoutMonitor_isDropout s = Some (False, s') \<and> True \<and>
      unat (countSyncSlotsWithoutSyncMsg s') = Suc (unat (countSyncSlotsWithoutSyncMsg s))"
    using lt by (simp add: isDropout_eq dropout_inv_def)
next
  fix s :: "'a policy_state_scheme"
  assume "unat (countSyncSlotsWithoutSyncMsg s) = 80"
  then show "\<exists>s'. DropoutMonitor_isDropout s = Some (True, s')"
    by (simp add: isDropout_eq dropout_inv_def)
next
  fix s s' :: "'a policy_state_scheme"
  assume "unat (countSyncSlotsWithoutSyncMsg s) = 80" "DropoutMonitor_isDropout s = Some (True, s')"
  then show "True \<and> unat (countSyncSlotsWithoutSyncMsg s') = 0"
    by (auto simp: isDropout_eq dropout_inv_def)
qed

section \<open>Transmitting sync\<close>

text \<open>\<open>RandomAlarmingCircularClock\<close> is a class of embeddedMath: its calls are events.\<close>

definition MasterTransmitSyncPolicy_init :: "'a platform_state_scheme \<Rightarrow> 'a platform_state_scheme" where
  "MasterTransmitSyncPolicy_init s = emit (AlarmInit CountSyncPeriodsToChooseMasterSyncXmits) s"

definition MasterTransmitSyncPolicy_reset :: "'a platform_state_scheme \<Rightarrow> 'a platform_state_scheme" where
  "MasterTransmitSyncPolicy_reset s = emit AlarmWrap (MasterTransmitSyncPolicy_init s)"

definition MasterTransmitSyncPolicy_shouldTransmitSync ::
  "platform \<Rightarrow> 'a platform_state_scheme \<Rightarrow> bool \<times> 'a platform_state_scheme" where
  "MasterTransmitSyncPolicy_shouldTransmitSync P s = Alarm_tickWithAlarm P s"

definition MasterTransmitSyncPolicy_disarmForOneCycle ::
  "'a platform_state_scheme \<Rightarrow> 'a platform_state_scheme" where
  "MasterTransmitSyncPolicy_disarmForOneCycle s = emit AlarmDisarm s"

definition AdaptiveTransmitSyncPolicy_reset :: "'a policy_state_scheme \<Rightarrow> 'a policy_state_scheme" where
  "AdaptiveTransmitSyncPolicy_reset s = (MasterTransmitSyncPolicy_reset s)\<lparr>isAdvancedStage := False\<rparr>"

definition AdaptiveTransmitSyncPolicy_shouldTransmitSync ::
  "platform \<Rightarrow> 'a policy_state_scheme \<Rightarrow> bool \<times> 'a policy_state_scheme" where
  "AdaptiveTransmitSyncPolicy_shouldTransmitSync P s =
     (if isAdvancedStage s then MasterTransmitSyncPolicy_shouldTransmitSync P s
      else Random_coinToss P s)"

definition AdaptiveTransmitSyncPolicy_advanceStage :: "'a policy_state_scheme \<Rightarrow> 'a policy_state_scheme" where
  "AdaptiveTransmitSyncPolicy_advanceStage s = s\<lparr>isAdvancedStage := True\<rparr>"

definition AdaptiveTransmitSyncPolicy_disarmForOneCycle ::
  "'a policy_state_scheme \<Rightarrow> 'a policy_state_scheme" where
  "AdaptiveTransmitSyncPolicy_disarmForOneCycle s = MasterTransmitSyncPolicy_disarmForOneCycle s"

lemmas xmit_policy_defs =
  MasterTransmitSyncPolicy_init_def MasterTransmitSyncPolicy_reset_def
  MasterTransmitSyncPolicy_shouldTransmitSync_def MasterTransmitSyncPolicy_disarmForOneCycle_def
  AdaptiveTransmitSyncPolicy_reset_def AdaptiveTransmitSyncPolicy_shouldTransmitSync_def
  AdaptiveTransmitSyncPolicy_advanceStage_def AdaptiveTransmitSyncPolicy_disarmForOneCycle_def

section \<open>Merge policy\<close>

text \<open>\<open>countSentMergeSyncs\<close> is a C++ \<open>int\<close>; it is zeroed at restart and the assertion keeps it
  at most 7, so it does not overflow.\<close>

definition MergePolicy_restart :: "'a policy_state_scheme \<Rightarrow> 'a policy_state_scheme" where
  "MergePolicy_restart s = s\<lparr>countSentMergeSyncs := 0\<rparr>"

definition MergePolicy_shouldScheduleMerge ::
  "platform \<Rightarrow> 'a policy_state_scheme \<Rightarrow> bool \<times> 'a policy_state_scheme" where
  "MergePolicy_shouldScheduleMerge P s = Random_coinToss P s"

definition MergePolicy_checkCompletionOfMergerRole ::
  "'a policy_state_scheme \<Rightarrow> (bool \<times> 'a policy_state_scheme) option" where
  "MergePolicy_checkCompletionOfMergerRole s = do {
     require (countSentMergeSyncs s \<le> uint CountSyncsPerMerger);
     let s = s\<lparr>countSentMergeSyncs := countSentMergeSyncs s + 1\<rparr>;
     let result = countSentMergeSyncs s > uint CountSyncsPerMerger;
     Some (result, s)
   }"

lemma checkCompletion_eq:
  "MergePolicy_checkCompletionOfMergerRole s =
     (if countSentMergeSyncs s \<le> 6
      then Some (countSentMergeSyncs s = 6, s\<lparr>countSentMergeSyncs := countSentMergeSyncs s + 1\<rparr>)
      else None)"
  by (auto simp: MergePolicy_checkCompletionOfMergerRole_def params)

interpretation merge_episode: episode
  MergePolicy_checkCompletionOfMergerRole "\<lambda>s. 0 \<le> countSentMergeSyncs s"
  "\<lambda>s. nat (countSentMergeSyncs s)" 6
proof unfold_locales
  fix s :: "'a policy_state_scheme"
  assume "0 \<le> countSentMergeSyncs s" "nat (countSentMergeSyncs s) < 6"
  then show "\<exists>s'. MergePolicy_checkCompletionOfMergerRole s = Some (False, s') \<and>
      0 \<le> countSentMergeSyncs s' \<and> nat (countSentMergeSyncs s') = Suc (nat (countSentMergeSyncs s))"
    by (auto simp: checkCompletion_eq)
next
  fix s :: "'a policy_state_scheme"
  assume "0 \<le> countSentMergeSyncs s" "nat (countSentMergeSyncs s) = 6"
  then show "\<exists>s'. MergePolicy_checkCompletionOfMergerRole s = Some (True, s')"
    by (auto simp: checkCompletion_eq)
qed

end
