(* ===== verification/CliqueRoles.thy ===== *)
theory CliqueRoles
  imports Policy
begin

text \<open>
  Who is master of the clique: \<open>src/clique/cliqueRoles.cpp\<close>.  The build configuration
  (\<open>src/config.h\<close>) defines \<open>LEAST_ID_IS_BETTER_CLIQUE\<close>: the clique with the numerically
  smaller master ID is the better one.  The comparison is an election; the locale \<open>election\<close>
  states what it relies on (a strict order) and proves what a unit that joins every better clique it
  hears ends up with.
\<close>

section \<open>Operations\<close>

record clique_state = policy_state +
  masterID :: system_id

definition Clique_isMsgFromMyClique :: "system_id \<Rightarrow> 'a clique_state_scheme \<Rightarrow> bool" where
  "Clique_isMsgFromMyClique otherMasterID s \<longleftrightarrow> masterID s = otherMasterID"

definition Clique_isOtherCliqueBetter :: "system_id \<Rightarrow> 'a clique_state_scheme \<Rightarrow> bool" where
  "Clique_isOtherCliqueBetter otherMasterID s \<longleftrightarrow> masterID s > otherMasterID"

definition Clique_getMasterID :: "'a clique_state_scheme \<Rightarrow> system_id" where
  "Clique_getMasterID s = masterID s"

definition Clique_setSelfMastership :: "platform \<Rightarrow> 'a clique_state_scheme \<Rightarrow> 'a clique_state_scheme" where
  "Clique_setSelfMastership P s = s\<lparr>masterID := p_systemID P\<rparr>"

definition Clique_updateMastership :: "system_id \<Rightarrow> 'a clique_state_scheme \<Rightarrow> 'a clique_state_scheme" where
  "Clique_updateMastership otherID s =
     (if masterID s \<noteq> otherID
      then CliqueHistory_add otherID 1 (s\<lparr>masterID := otherID\<rparr>)
      else s)"

definition Clique_isSelfMaster :: "platform \<Rightarrow> 'a clique_state_scheme \<Rightarrow> bool" where
  "Clique_isSelfMaster P s \<longleftrightarrow> masterID s = p_systemID P"

definition Clique_assumeMastership :: "platform \<Rightarrow> 'a clique_state_scheme \<Rightarrow> 'a clique_state_scheme" where
  "Clique_assumeMastership P s = Clique_setSelfMastership P s"

section \<open>Facts\<close>

lemma setSelfMastership_isSelfMaster [simp]:
  "Clique_isSelfMaster P (Clique_setSelfMastership P s)"
  "Clique_isSelfMaster P (Clique_assumeMastership P s)"
  by (simp_all add: Clique_isSelfMaster_def Clique_assumeMastership_def Clique_setSelfMastership_def)

lemma CliqueHistory_add_masterID [frame, simp]: "masterID (CliqueHistory_add m d s) = masterID s"
  by (simp add: CliqueHistory_add_def Let_def)

lemma updateMastership_masterID [simp]: "masterID (Clique_updateMastership m s) = m"
  by (simp add: Clique_updateMastership_def)

lemma updateMastership_history:
  assumes "history_inv P s"
  shows "history_inv P (Clique_updateMastership m s)"
proof -
  have "history_inv P (s\<lparr>masterID := m\<rparr>)"
    using assms by (simp add: history_inv_def)
  then show ?thesis
    using assms by (simp add: Clique_updateMastership_def CliqueHistory_add_inv)
qed

lemma updateMastership_schedule [frame, simp]:
  "startTimeOfSyncPeriod (Clique_updateMastership m s) = startTimeOfSyncPeriod s"
  "endTimeOfSyncPeriod (Clique_updateMastership m s) = endTimeOfSyncPeriod s"
  "unadjustedEndTimeOfSyncPeriod (Clique_updateMastership m s) = unadjustedEndTimeOfSyncPeriod s"
  "io (Clique_updateMastership m s) = io s"
  "timers (Clique_updateMastership m s) = timers s"
  by (simp_all add: Clique_updateMastership_def CliqueHistory_add_def Let_def)

section \<open>Election\<close>

text \<open>A unit that hears these masters in turn joins each one better than its own.\<close>

definition join_better :: "('id \<Rightarrow> 'id \<Rightarrow> bool) \<Rightarrow> 'id \<Rightarrow> 'id \<Rightarrow> 'id" where
  "join_better better mine heard = (if better heard mine then heard else mine)"

locale election =
  fixes better :: "'id \<Rightarrow> 'id \<Rightarrow> bool"
  assumes irreflexive: "\<not> better a a"
    and transitive: "better a b \<Longrightarrow> better b c \<Longrightarrow> better a c"
    and total: "a \<noteq> b \<Longrightarrow> better a b \<or> better b a"
begin

lemma asymmetric: "better a b \<Longrightarrow> \<not> better b a"
  using irreflexive transitive by blast

lemma join_best:
  "\<not> better mine (join_better better mine heard)" "\<not> better heard (join_better better mine heard)"
  using irreflexive asymmetric by (auto simp: join_better_def)

lemma foldl_join_in: "foldl (join_better better) a xs \<in> insert a (set xs)"
proof (induction xs arbitrary: a)
  case Nil
  then show ?case by simp
next
  case (Cons x xs)
  have "foldl (join_better better) (join_better better a x) xs \<in> insert (join_better better a x) (set xs)"
    by (rule Cons.IH)
  moreover have "join_better better a x = a \<or> join_better better a x = x"
    by (simp add: join_better_def)
  ultimately show ?case
    by auto
qed

lemma foldl_join_best: "x \<in> insert a (set xs) \<Longrightarrow> \<not> better x (foldl (join_better better) a xs)"
proof (induction xs arbitrary: a x)
  case Nil
  then show ?case using irreflexive by simp
next
  case (Cons y ys)
  have start: "\<not> better (join_better better a y) (foldl (join_better better) (join_better better a y) ys)"
    using Cons.IH [of "join_better better a y" "join_better better a y"] by simp
  consider "x = a" | "x = y" | "x \<in> set ys"
    using Cons.prems by auto
  then show ?case
  proof cases
    case 1
    then show ?thesis
      using start join_best(1) [of a y] total transitive by (metis foldl_Cons)
  next
    case 2
    then show ?thesis
      using start join_best(2) [of y a] total transitive by (metis foldl_Cons)
  next
    case 3
    then show ?thesis
      using Cons.IH [of x "join_better better a y"] by simp
  qed
qed

text \<open>Whatever the order in which they are heard, the result is the same.\<close>

lemma foldl_join_set:
  assumes "insert a (set xs) = insert b (set ys)"
  shows "foldl (join_better better) a xs = foldl (join_better better) b ys"
proof (rule ccontr)
  assume "foldl (join_better better) a xs \<noteq> foldl (join_better better) b ys"
  then have "better (foldl (join_better better) a xs) (foldl (join_better better) b ys) \<or> better (foldl (join_better better) b ys) (foldl (join_better better) a xs)"
    by (rule total)
  then show False
    using foldl_join_best [of _ a xs] foldl_join_best [of _ b ys] foldl_join_in [of a xs]
      foldl_join_in [of b ys] assms by metis
qed

end

text \<open>The code's comparison of the other clique's ID with the master ID of self.\<close>

interpretation clique_election: election
  "\<lambda>other mine. Clique_isOtherCliqueBetter other (s\<lparr>masterID := mine\<rparr>)" for s :: "'a clique_state_scheme"
  by unfold_locales (auto simp: Clique_isOtherCliqueBetter_def)

lemma clique_join_eq:
  "join_better (\<lambda>other mine. Clique_isOtherCliqueBetter other (s\<lparr>masterID := mine\<rparr>)) mine heard =
     min mine heard"
  by (auto simp: join_better_def Clique_isOtherCliqueBetter_def min_def)

end
