(* ===== verification/Fishing.thy ===== *)
theory Fishing
  imports CliqueRoles
begin

text \<open>
  Fishing for other cliques: the session length (\<open>src/fishPolicy/slottedFishSession.cpp\<close>), trolling
  (\<open>syncRecoveryfishPolicy.cpp\<close>, \<open>utils.h\<close>), deep fishing (\<open>deepFishingPolicy.cpp\<close>,
  \<open>src/slots/fishing/deepFishing.cpp\<close>), the manager that switches between them
  (\<open>src/slots/fishing/fishingManager.cpp\<close>), the memoized times of the fish slot
  (\<open>src/slots/fishing/fishSchedule.cpp\<close>) and the manager of fishing by power
  (\<open>src/fishPolicy/fishPowerMgr.cpp\<close>).  This theory holds the definitions; the facts are in
  \<open>Trolling\<close> and \<open>FishSessions\<close>.
\<close>

section \<open>State\<close>

text \<open>The callbacks handed to deep fishing (\<open>nullptr\<close> before the first episode).\<close>

datatype fish_callback = NullCallback | EndWithNoAction | EndWithRecoverMaster

datatype fishing_mode = Trolling | DeepFishing

record fishing_state = clique_state +
  dynamicFishSessionDurationInTicks :: delta_time
  sessionDurationInSlots :: slot_count
  upCounter :: slot_count
  downCounter :: slot_count
  currentStartSlotOrdinal :: slot_count
  currentEndSlotOrdinal :: slot_count
  direction :: bool
  countFishings :: u32
  deltaSyncPointToSyncPointOfFishee :: delta_time
  fishPolicyDoneCallback :: fish_callback
  fishingMode :: fishing_mode
  memoStartTimeOfFishSlot :: long_time
  memoEndTimeOfFishSlot :: long_time
  isMaxFishing :: bool

section \<open>Session length\<close>

definition SlottedFishSession_durationInTicks :: "'a fishing_state_scheme \<Rightarrow> delta_time" where
  "SlottedFishSession_durationInTicks s = dynamicFishSessionDurationInTicks s"

definition SlottedFishSession_durationInSlots :: "'a fishing_state_scheme \<Rightarrow> slot_count" where
  "SlottedFishSession_durationInSlots s = sessionDurationInSlots s"

section \<open>Trolling\<close>

definition SyncRecoveryTrollingPolicy_getInitialUpCounter :: slot_count where
  "SyncRecoveryTrollingPolicy_getInitialUpCounter = FirstSlotOrdinalToFish"

definition SyncRecoveryTrollingPolicy_getInitialDownCounter :: "'a fishing_state_scheme \<Rightarrow> slot_count" where
  "SyncRecoveryTrollingPolicy_getInitialDownCounter s =
     LastSlotOrdinalShouldFish - SlottedFishSession_durationInSlots s + 1"

definition incrementCounterModuloSleepingSlots :: "slot_count \<Rightarrow> 'a fishing_state_scheme \<Rightarrow> slot_count" where
  "incrementCounterModuloSleepingSlots counter s =
     (let result = counter + SlottedFishSession_durationInSlots s
      in if result + SlottedFishSession_durationInSlots s > LastSlotOrdinalShouldFish
         then SyncRecoveryTrollingPolicy_getInitialUpCounter
         else result)"

definition decrementCounterModuloSleepingSlots :: "slot_count \<Rightarrow> 'a fishing_state_scheme \<Rightarrow> slot_count" where
  "decrementCounterModuloSleepingSlots counter s =
     (if counter < FirstSlotOrdinalToFish + SlottedFishSession_durationInSlots s
      then SyncRecoveryTrollingPolicy_getInitialDownCounter s
      else counter - SlottedFishSession_durationInSlots s)"

definition isInRange :: "'a fishing_state_scheme \<Rightarrow> bool" where
  "isInRange s \<longleftrightarrow>
     currentStartSlotOrdinal s \<ge> FirstSlotOrdinalToFish \<and>
     currentEndSlotOrdinal s \<le> LastSlotOrdinalShouldFish"

definition setSessionForStartSlot :: "slot_count \<Rightarrow> 'a fishing_state_scheme \<Rightarrow> 'a fishing_state_scheme option" where
  "setSessionForStartSlot startSlot s = do {
     let s = s\<lparr>currentStartSlotOrdinal := startSlot\<rparr>;
     let s = s\<lparr>currentEndSlotOrdinal :=
                 currentStartSlotOrdinal s + SlottedFishSession_durationInSlots s - 1\<rparr>;
     require (isInRange s);
     Some s
   }"

definition SyncRecoveryTrollingPolicy_restart :: "'a fishing_state_scheme \<Rightarrow> 'a fishing_state_scheme option" where
  "SyncRecoveryTrollingPolicy_restart s = do {
     let s = s\<lparr>upCounter := SyncRecoveryTrollingPolicy_getInitialUpCounter\<rparr>;
     let s = s\<lparr>downCounter := SyncRecoveryTrollingPolicy_getInitialDownCounter s\<rparr>;
     s \<leftarrow> setSessionForStartSlot (upCounter s) s;
     Some (s\<lparr>direction := True\<rparr>)
   }"

definition SyncRecoveryTrollingPolicy_currentSessionStartSlotOrdinal ::
  "'a fishing_state_scheme \<Rightarrow> slot_count" where
  "SyncRecoveryTrollingPolicy_currentSessionStartSlotOrdinal s = currentStartSlotOrdinal s"

definition SyncRecoveryTrollingPolicy_currentSessionEndSlotOrdinal ::
  "'a fishing_state_scheme \<Rightarrow> slot_count" where
  "SyncRecoveryTrollingPolicy_currentSessionEndSlotOrdinal s = currentEndSlotOrdinal s"

definition SyncRecoveryTrollingPolicy_checkDone :: bool where
  "SyncRecoveryTrollingPolicy_checkDone = False"

definition SyncRecoveryTrollingPolicy_proceedToNextFishSlotOrdinal ::
  "'a fishing_state_scheme \<Rightarrow> 'a fishing_state_scheme option" where
  "SyncRecoveryTrollingPolicy_proceedToNextFishSlotOrdinal s =
     (let (next, s) =
        (if direction s then
           let s = s\<lparr>upCounter := incrementCounterModuloSleepingSlots (upCounter s) s\<rparr>
           in (upCounter s, s)
         else
           let s = s\<lparr>downCounter := decrementCounterModuloSleepingSlots (downCounter s) s\<rparr>
           in (downCounter s, s))
      in setSessionForStartSlot next (s\<lparr>direction := \<not> direction s\<rparr>))"

definition SyncRecoveryTrollingPolicy_preFishing :: "'a fishing_state_scheme \<Rightarrow> 'a fishing_state_scheme option" where
  "SyncRecoveryTrollingPolicy_preFishing s = SyncRecoveryTrollingPolicy_proceedToNextFishSlotOrdinal s"

text \<open>The slot's start within the period is a 32-bit product, added to a 64-bit time.\<close>

definition SyncRecoveryTrollingPolicy_getStartTimeToFish :: "'a fishing_state_scheme \<Rightarrow> long_time" where
  "SyncRecoveryTrollingPolicy_getStartTimeToFish s =
     startTimeOfSyncPeriod s + ucast ((currentStartSlotOrdinal s - 1) * VirtualSlotDuration)"

definition SyncRecoveryTrollingPolicy_getFishSessionDurationTicks :: "'a fishing_state_scheme \<Rightarrow> delta_time" where
  "SyncRecoveryTrollingPolicy_getFishSessionDurationTicks s = SlottedFishSession_durationInTicks s"

definition isCoverFirstSleepingSlot :: "'a fishing_state_scheme \<Rightarrow> bool" where
  "isCoverFirstSleepingSlot s \<longleftrightarrow> currentStartSlotOrdinal s = FirstSlotOrdinalToFish"

definition isAbutFirstSleepingSlot :: "'a fishing_state_scheme \<Rightarrow> bool" where
  "isAbutFirstSleepingSlot s \<longleftrightarrow> currentStartSlotOrdinal s = FirstSlotOrdinalToFish + 1"

definition isCoverLastSleepingSlot :: "'a fishing_state_scheme \<Rightarrow> bool" where
  "isCoverLastSleepingSlot s \<longleftrightarrow>
     SyncRecoveryTrollingPolicy_currentSessionEndSlotOrdinal s \<ge> LastSlotOrdinalShouldFish"

definition isAbutLastSleepingSlot :: "'a fishing_state_scheme \<Rightarrow> bool" where
  "isAbutLastSleepingSlot s \<longleftrightarrow>
     SyncRecoveryTrollingPolicy_currentSessionEndSlotOrdinal s = LastSlotOrdinalShouldFish - 1"

definition SyncRecoveryTrollingPolicy_isFishSessionNearStartSyncPeriod ::
  "'a fishing_state_scheme \<Rightarrow> bool" where
  "SyncRecoveryTrollingPolicy_isFishSessionNearStartSyncPeriod s \<longleftrightarrow>
     isCoverFirstSleepingSlot s \<or> isAbutFirstSleepingSlot s"

definition SyncRecoveryTrollingPolicy_isFishSessionNearEndSyncPeriod ::
  "'a fishing_state_scheme \<Rightarrow> bool" where
  "SyncRecoveryTrollingPolicy_isFishSessionNearEndSyncPeriod s \<longleftrightarrow>
     isCoverLastSleepingSlot s \<or> isAbutLastSleepingSlot s"

section \<open>Changing the session length\<close>

definition SlottedFishSession_incrementFishSessionDuration ::
  "slot_count \<Rightarrow> 'a fishing_state_scheme \<Rightarrow> 'a fishing_state_scheme option" where
  "SlottedFishSession_incrementFishSessionDuration increment s =
     (let trialResult = sessionDurationInSlots s + increment
      in if trialResult > MaxTrollingRealFishSessionDurationSlots then Some s
         else SyncRecoveryTrollingPolicy_restart
                (s\<lparr>sessionDurationInSlots := trialResult,
                   dynamicFishSessionDurationInTicks := trialResult * MinTrollingFishSessionDurationTicks\<rparr>))"

text \<open>The function returns before the statements that would decrement.\<close>

definition SlottedFishSession_decrementFishSessionDuration ::
  "slot_count \<Rightarrow> 'a fishing_state_scheme \<Rightarrow> 'a fishing_state_scheme" where
  "SlottedFishSession_decrementFishSessionDuration decrement s = s"

definition SlottedFishSession_setDurationToMinDuration :: "'a fishing_state_scheme \<Rightarrow> 'a fishing_state_scheme" where
  "SlottedFishSession_setDurationToMinDuration s =
     s\<lparr>sessionDurationInSlots := 1,
       dynamicFishSessionDurationInTicks := MinTrollingFishSessionDurationTicks\<rparr>"

definition FishPowerMgr_init :: "'a platform_state_scheme \<Rightarrow> 'a platform_state_scheme" where
  "FishPowerMgr_init s = emit VccInit s"

definition FishPowerMgr_manage :: "platform \<Rightarrow> 'a fishing_state_scheme \<Rightarrow> 'a fishing_state_scheme option" where
  "FishPowerMgr_manage P s =
     (let (atLeast2_7V, s) = Vcc_measureAtLeast2_7 P s
      in if atLeast2_7V then
           (if \<not> isMaxFishing s then do {
              s \<leftarrow> SlottedFishSession_incrementFishSessionDuration 20 s;
              Some (s\<lparr>isMaxFishing := True\<rparr>)
            } else Some s)
         else Some ((SlottedFishSession_setDurationToMinDuration s)\<lparr>isMaxFishing := False\<rparr>))"

section \<open>Deep fishing\<close>

definition DeepFishingPolicy_restart ::
  "delta_time \<Rightarrow> fish_callback \<Rightarrow> 'a fishing_state_scheme \<Rightarrow> 'a fishing_state_scheme" where
  "DeepFishingPolicy_restart aDeltaToSyncPointOfFish aCallback s =
     s\<lparr>countFishings := 0,
       fishPolicyDoneCallback := aCallback,
       deltaSyncPointToSyncPointOfFishee := aDeltaToSyncPointOfFish\<rparr>"

definition DeepFishingPolicy_getStartTimeToFish ::
  "'a fishing_state_scheme \<Rightarrow> long_time \<times> 'a fishing_state_scheme" where
  "DeepFishingPolicy_getStartTimeToFish s =
     (let s = s\<lparr>countFishings := countFishings s + 1\<rparr>
      in (startTimeOfSyncPeriod s + ucast (deltaSyncPointToSyncPointOfFishee s), s))"

definition DeepFishingPolicy_getFishSessionDurationTicks :: delta_time where
  "DeepFishingPolicy_getFishSessionDurationTicks = DeepFishSessionDurationTicks"

definition DeepFishing_endWithRecoverMaster :: "platform \<Rightarrow> 'a fishing_state_scheme \<Rightarrow> 'a fishing_state_scheme" where
  "DeepFishing_endWithRecoverMaster P s = Clique_assumeMastership P s"

text \<open>Calling the callback; calling \<open>nullptr\<close> is excluded by the assertion before the call.\<close>

fun call_fish_callback :: "platform \<Rightarrow> fish_callback \<Rightarrow> 'a fishing_state_scheme \<Rightarrow> 'a fishing_state_scheme" where
  "call_fish_callback P NullCallback s = s"
| "call_fish_callback P EndWithNoAction s = s"
| "call_fish_callback P EndWithRecoverMaster s = DeepFishing_endWithRecoverMaster P s"

definition DeepFishingPolicy_checkDone ::
  "platform \<Rightarrow> 'a fishing_state_scheme \<Rightarrow> (bool \<times> 'a fishing_state_scheme) option" where
  "DeepFishingPolicy_checkDone P s =
     (if countFishings s > CountFishingsPerDeepFishing then do {
        require (fishPolicyDoneCallback s \<noteq> NullCallback);
        Some (True, call_fish_callback P (fishPolicyDoneCallback s) s)
      } else Some (False, s))"

definition DeepFishingPolicy_preFishing :: "'a fishing_state_scheme \<Rightarrow> 'a fishing_state_scheme" where
  "DeepFishingPolicy_preFishing s = s"

definition DeepFishingPolicy_deltaSyncPointToEndDeepFishing :: "'a fishing_state_scheme \<Rightarrow> delta_time" where
  "DeepFishingPolicy_deltaSyncPointToEndDeepFishing s =
     deltaSyncPointToSyncPointOfFishee s + DeepFishingPolicy_getFishSessionDurationTicks"

definition DeepFishingPolicy_isFishSlotStartSyncPeriod :: "'a fishing_state_scheme \<Rightarrow> bool" where
  "DeepFishingPolicy_isFishSlotStartSyncPeriod s \<longleftrightarrow>
     deltaSyncPointToSyncPointOfFishee s < ThreeSlotDuration"

definition DeepFishingPolicy_isFishSlotEndSyncPeriod :: "'a fishing_state_scheme \<Rightarrow> bool" where
  "DeepFishingPolicy_isFishSlotEndSyncPeriod s \<longleftrightarrow>
     DeepFishingPolicy_deltaSyncPointToEndDeepFishing s < DurationTilTwoSlotsFromEndSyncPeriod"

definition DeepFishingPolicy_currentSessionStartSlotOrdinal :: slot_count where
  "DeepFishingPolicy_currentSessionStartSlotOrdinal = 0"

section \<open>The fishing manager\<close>

definition FishingManager_mode :: "'a fishing_state_scheme \<Rightarrow> fishing_mode" where
  "FishingManager_mode s = fishingMode s"

definition FishingManager_switchToDeepFishing ::
  "delta_time \<Rightarrow> fish_callback \<Rightarrow> 'a fishing_state_scheme \<Rightarrow> 'a fishing_state_scheme" where
  "FishingManager_switchToDeepFishing deltaToSyncPointOfFish aCallback s =
     (if fishingMode s \<noteq> DeepFishing
      then DeepFishingPolicy_restart deltaToSyncPointOfFish aCallback (s\<lparr>fishingMode := DeepFishing\<rparr>)
      else s)"

definition FishingManager_switchToTrolling :: "'a fishing_state_scheme \<Rightarrow> 'a fishing_state_scheme" where
  "FishingManager_switchToTrolling s = s\<lparr>fishingMode := Trolling\<rparr>"

definition FishingManager_restartTrollingMode :: "'a fishing_state_scheme \<Rightarrow> 'a fishing_state_scheme option" where
  "FishingManager_restartTrollingMode s = SyncRecoveryTrollingPolicy_restart s"

definition FishingManager_checkFishingDone ::
  "platform \<Rightarrow> 'a fishing_state_scheme \<Rightarrow> 'a fishing_state_scheme option" where
  "FishingManager_checkFishingDone P s =
     (case fishingMode s of
        Trolling \<Rightarrow> Some s
      | DeepFishing \<Rightarrow> do {
          (result, s) \<leftarrow> DeepFishingPolicy_checkDone P s;
          Some (if result then FishingManager_switchToTrolling s else s)
        })"

definition FishingManager_preFishing :: "'a fishing_state_scheme \<Rightarrow> 'a fishing_state_scheme option" where
  "FishingManager_preFishing s =
     (case fishingMode s of
        Trolling \<Rightarrow> SyncRecoveryTrollingPolicy_preFishing s
      | DeepFishing \<Rightarrow> Some (DeepFishingPolicy_preFishing s))"

definition FishingManager_currentSessionStartSlotOrdinal :: "'a fishing_state_scheme \<Rightarrow> slot_count" where
  "FishingManager_currentSessionStartSlotOrdinal s =
     (case fishingMode s of
        Trolling \<Rightarrow> SyncRecoveryTrollingPolicy_currentSessionStartSlotOrdinal s
      | DeepFishing \<Rightarrow> DeepFishingPolicy_currentSessionStartSlotOrdinal)"

definition FishingManager_getStartTimeToFish ::
  "'a fishing_state_scheme \<Rightarrow> long_time \<times> 'a fishing_state_scheme" where
  "FishingManager_getStartTimeToFish s =
     (case fishingMode s of
        Trolling \<Rightarrow> (SyncRecoveryTrollingPolicy_getStartTimeToFish s, s)
      | DeepFishing \<Rightarrow> DeepFishingPolicy_getStartTimeToFish s)"

definition FishingManager_getFishSessionDurationTicks :: "'a fishing_state_scheme \<Rightarrow> delta_time" where
  "FishingManager_getFishSessionDurationTicks s =
     (case fishingMode s of
        Trolling \<Rightarrow> SyncRecoveryTrollingPolicy_getFishSessionDurationTicks s
      | DeepFishing \<Rightarrow> DeepFishingPolicy_getFishSessionDurationTicks)"

definition FishingManager_isFishSlotStartSyncPeriod :: "'a fishing_state_scheme \<Rightarrow> bool" where
  "FishingManager_isFishSlotStartSyncPeriod s =
     (case fishingMode s of
        Trolling \<Rightarrow> SyncRecoveryTrollingPolicy_isFishSessionNearStartSyncPeriod s
      | DeepFishing \<Rightarrow> DeepFishingPolicy_isFishSlotStartSyncPeriod s)"

definition FishingManager_isFishSlotEndSyncPeriod :: "'a fishing_state_scheme \<Rightarrow> bool" where
  "FishingManager_isFishSlotEndSyncPeriod s =
     (case fishingMode s of
        Trolling \<Rightarrow> SyncRecoveryTrollingPolicy_isFishSessionNearEndSyncPeriod s
      | DeepFishing \<Rightarrow> DeepFishingPolicy_isFishSlotEndSyncPeriod s)"

section \<open>The schedule of the fish slot\<close>

definition FishSchedule_memoTimeOfFishSessionStart :: "'a fishing_state_scheme \<Rightarrow> 'a fishing_state_scheme" where
  "FishSchedule_memoTimeOfFishSessionStart s =
     (let (scheduledStartTime, s) = FishingManager_getStartTimeToFish s;
          clampedResult = Schedule_clampTimeBeforeLatestSlotMark scheduledStartTime s
      in s\<lparr>memoStartTimeOfFishSlot := clampedResult\<rparr>)"

definition FishSchedule_timeOfFishSessionEnd :: "'a fishing_state_scheme \<Rightarrow> long_time" where
  "FishSchedule_timeOfFishSessionEnd s =
     (let scheduledEndTime = memoStartTimeOfFishSlot s + ucast (FishingManager_getFishSessionDurationTicks s)
      in Schedule_clampTimeBeforeLatestSlotMark scheduledEndTime s)"

definition FishSchedule_memoTimeOfFishSessionEnd :: "'a fishing_state_scheme \<Rightarrow> 'a fishing_state_scheme" where
  "FishSchedule_memoTimeOfFishSessionEnd s = s\<lparr>memoEndTimeOfFishSlot := FishSchedule_timeOfFishSessionEnd s\<rparr>"

definition FishSchedule_setStartAndEndTimes :: "'a fishing_state_scheme \<Rightarrow> 'a fishing_state_scheme" where
  "FishSchedule_setStartAndEndTimes s =
     FishSchedule_memoTimeOfFishSessionEnd (FishSchedule_memoTimeOfFishSessionStart s)"

definition FishSchedule_deltaToFishSessionStart ::
  "platform \<Rightarrow> 'a fishing_state_scheme \<Rightarrow> delta_time \<times> 'a fishing_state_scheme" where
  "FishSchedule_deltaToFishSessionStart P s = clampedTimeDifferenceFromNow P (memoStartTimeOfFishSlot s) s"

definition FishSchedule_deltaToFishSessionEnd ::
  "platform \<Rightarrow> 'a fishing_state_scheme \<Rightarrow> delta_time \<times> 'a fishing_state_scheme" where
  "FishSchedule_deltaToFishSessionEnd P s = clampedTimeDifferenceFromNow P (memoEndTimeOfFishSlot s) s"

end
