(* ===== verification/Trolling.thy ===== *)
theory Trolling
  imports Fishing
begin

text \<open>
  Facts on trolling (\<open>src/fishPolicy/syncRecoveryfishPolicy.cpp\<close>, \<open>utils.h\<close>): the session stays
  within the sleeping slots, no assertion of the policy can fail, the two counters implement
  an abstract generator on natural numbers, and that generator visits every sleeping slot.
\<close>

section \<open>The abstract generator\<close>

text \<open>Sessions of \<open>d\<close> slots; the sleeping slots are 2 to 1600.\<close>

definition up_next :: "nat \<Rightarrow> nat \<Rightarrow> nat" where
  "up_next d u = (if u + d + d > 1600 then 2 else u + d)"

definition down_next :: "nat \<Rightarrow> nat \<Rightarrow> nat" where
  "down_next d w = (if w < 2 + d then 1601 - d else w - d)"

text \<open>The state of the generator: both counters, the direction of the next session, and the
  first slot of the session chosen last.\<close>

fun troll_step :: "nat \<Rightarrow> nat \<times> nat \<times> bool \<times> nat \<Rightarrow> nat \<times> nat \<times> bool \<times> nat" where
  "troll_step d (u, w, up, _) =
     (if up then (up_next d u, w, False, up_next d u) else (u, down_next d w, True, down_next d w))"

definition generator_ok :: "nat \<Rightarrow> nat \<Rightarrow> nat \<Rightarrow> bool" where
  "generator_ok d u w \<longleftrightarrow> 1 \<le> d \<and> d \<le> 100 \<and> 2 \<le> u \<and> u + d \<le> 1600 \<and> 2 \<le> w \<and> w + d \<le> 1601"

lemma generator_ok_next:
  assumes "generator_ok d u w"
  shows "generator_ok d (up_next d u) w" "generator_ok d u (down_next d w)"
  using assms by (auto simp: generator_ok_def up_next_def down_next_def)

lemma troll_step_twice:
  "(troll_step d ^^ (2 * n)) (u, w, True, x) =
     ((up_next d ^^ n) u, (down_next d ^^ n) w, True, if n = 0 then x else (down_next d ^^ n) w)"
proof (induction n)
  case 0
  then show ?case by simp
next
  case (Suc n)
  have "2 * Suc n = Suc (Suc (2 * n))"
    by simp
  then show ?case
    using Suc.IH by (simp only: funpow.simps o_apply) simp
qed

text \<open>From any position the up counter comes to the first sleeping slot, and from there goes up
  in steps of a session; the down counter likewise from the other end.\<close>

lemma up_reaches_first:
  assumes "1 \<le> d" "d \<le> 100" "2 \<le> u" "u + d \<le> 1600"
  shows "\<exists>n. 1 \<le> n \<and> n \<le> 1600 \<and> n + u \<le> 1600 \<and> (up_next d ^^ n) u = 2"
  using assms
proof (induction "1600 - u" arbitrary: u rule: less_induct)
  case less
  show ?case
  proof (cases "u + d + d > 1600")
    case True
    then show ?thesis
      using less.prems by (intro exI [of _ 1]) (simp add: up_next_def)
  next
    case False
    then have step: "up_next d u = u + d"
      by (simp add: up_next_def)
    have "1600 - (u + d) < 1600 - u" "2 \<le> u + d" "u + d + d \<le> 1600"
      using False less.prems by auto
    from less.hyps [OF this(1) less.prems(1,2) this(2,3)] obtain n where
      n: "1 \<le> n" "n + (u + d) \<le> 1600" "(up_next d ^^ n) (u + d) = 2"
      by blast
    then have "(up_next d ^^ Suc n) u = 2"
      by (simp add: funpow_swap1 step)
    then show ?thesis
      using n less.prems(1) by (intro exI [of _ "Suc n"]) simp
  qed
qed

lemma up_from_first:
  assumes "2 + j * d + d \<le> 1600"
  shows "(up_next d ^^ j) 2 = 2 + j * d"
  using assms by (induction j) (auto simp: up_next_def)

lemma down_reaches_last:
  assumes "1 \<le> d" "d \<le> 100" "2 \<le> w"
  shows "\<exists>n. 1 \<le> n \<and> n \<le> w \<and> (down_next d ^^ n) w = 1601 - d"
  using assms
proof (induction w rule: less_induct)
  case (less w)
  show ?case
  proof (cases "w < 2 + d")
    case True
    then show ?thesis
      using less.prems by (intro exI [of _ 1]) (simp add: down_next_def)
  next
    case False
    then have step: "down_next d w = w - d"
      by (simp add: down_next_def)
    have "w - d < w" "2 \<le> w - d"
      using False less.prems by auto
    from less.IH [OF this(1) less.prems(1,2) this(2)] obtain n where
      n: "1 \<le> n" "n \<le> w - d" "(down_next d ^^ n) (w - d) = 1601 - d"
      by blast
    then have "(down_next d ^^ Suc n) w = 1601 - d"
      by (simp add: funpow_swap1 step)
    then show ?thesis
      using n False less.prems(1) by (intro exI [of _ "Suc n"]) simp
  qed
qed

lemma down_from_last:
  assumes "2 + j * d + d \<le> 1601"
  shows "(down_next d ^^ j) (1601 - d) = 1601 - d - j * d"
  using assms by (induction j) (auto simp: down_next_def)

text \<open>Every sleeping slot is covered by a session, of the up counter or of the down counter.\<close>

lemma up_covers:
  assumes "generator_ok d u w" "2 \<le> k" "k + d \<le> 1600"
  shows "\<exists>n. 1 \<le> n \<and> n \<le> 3200 \<and> (up_next d ^^ n) u \<le> k \<and> k < (up_next d ^^ n) u + d"
proof -
  have ok: "1 \<le> d" "d \<le> 100" "2 \<le> u" "u + d \<le> 1600"
    using assms(1) by (auto simp: generator_ok_def)
  obtain m where m: "1 \<le> m" "m \<le> 1600" "(up_next d ^^ m) u = 2"
    using up_reaches_first [OF ok] by blast
  define j where "j = (k - 2) div d"
  have jd: "j * d \<le> k - 2" "k - 2 < j * d + d"
    using ok(1) dividend_less_times_div [of d "k - 2"]
    by (simp_all add: j_def times_div_less_eq_dividend mult.commute)
  have "j * 1 \<le> j * d"
    using ok(1) by (rule mult_le_mono2)
  then have j: "j \<le> 1600"
    using jd(1) assms(3) by linarith
  have "2 + j * d + d \<le> 1600"
    using jd(1) assms(2,3) by simp
  then have "(up_next d ^^ (j + m)) u = 2 + j * d"
    by (simp add: funpow_add m(3) up_from_first)
  then show ?thesis
    using jd assms(2) m j by (intro exI [of _ "j + m"]) auto
qed

lemma down_covers_last:
  assumes "generator_ok d u w" "1600 < k + d" "k \<le> 1600"
  shows "\<exists>n. 1 \<le> n \<and> n \<le> 3200 \<and> (down_next d ^^ n) w \<le> k \<and> k < (down_next d ^^ n) w + d"
proof -
  have ok: "1 \<le> d" "d \<le> 100" "2 \<le> w" "w \<le> 1601"
    using assms(1) by (auto simp: generator_ok_def)
  obtain n where "1 \<le> n" "n \<le> w" "(down_next d ^^ n) w = 1601 - d"
    using down_reaches_last [OF ok(1-3)] by blast
  then show ?thesis
    using assms(2,3) ok by (intro exI [of _ n]) auto
qed

definition session_covers :: "nat \<Rightarrow> nat \<Rightarrow> nat \<times> nat \<times> bool \<times> nat \<Rightarrow> bool" where
  "session_covers d k g \<longleftrightarrow> snd (snd (snd g)) \<le> k \<and> k < snd (snd (snd g)) + d"

lemma troll_covers_up:
  assumes ok: "generator_ok d u w" and k: "2 \<le> k" "k \<le> 1600"
  shows "\<exists>n. 1 \<le> n \<and> n \<le> 6400 \<and> session_covers d k ((troll_step d ^^ n) (u, w, True, x))"
proof (cases "k + d \<le> 1600")
  case True
  obtain n where n: "1 \<le> n" "n \<le> 3200" "(up_next d ^^ n) u \<le> k" "k < (up_next d ^^ n) u + d"
    using up_covers [OF ok k(1) True] by blast
  then obtain m where m: "n = Suc m"
    by (cases n) auto
  have "(troll_step d ^^ Suc (2 * m)) (u, w, True, x) =
      ((up_next d ^^ n) u, (down_next d ^^ m) w, False, (up_next d ^^ n) u)"
    using troll_step_twice [of m d u w x] m by simp
  then show ?thesis
    using n unfolding m by (intro exI [of _ "Suc (2 * m)"]) (simp add: session_covers_def)
next
  case False
  obtain n where n: "1 \<le> n" "n \<le> 3200" "(down_next d ^^ n) w \<le> k" "k < (down_next d ^^ n) w + d"
    using down_covers_last [OF ok, of k] False k(2) by auto
  then show ?thesis
    using troll_step_twice [of n d u w x]
    by (intro exI [of _ "2 * n"]) (simp add: session_covers_def)
qed

lemma troll_covers:
  assumes ok: "generator_ok d u w" and k: "2 \<le> k" "k \<le> 1600"
  shows "\<exists>n. 1 \<le> n \<and> n \<le> 6401 \<and> session_covers d k ((troll_step d ^^ n) (u, w, up, x))"
proof (cases up)
  case True
  obtain n where "1 \<le> n" "n \<le> 6400" "session_covers d k ((troll_step d ^^ n) (u, w, up, x))"
    using troll_covers_up [OF ok k, of x] True by auto
  then show ?thesis
    by (intro exI [of _ n]) simp
next
  case False
  obtain n where n: "1 \<le> n" "n \<le> 6400"
    "session_covers d k ((troll_step d ^^ n) (u, down_next d w, True, down_next d w))"
    using troll_covers_up [OF generator_ok_next(2) [OF ok] k] by blast
  have "(troll_step d ^^ Suc n) (u, w, up, x) = (troll_step d ^^ n) (u, down_next d w, True, down_next d w)"
    using False by (simp add: funpow_swap1)
  then show ?thesis
    using n by (intro exI [of _ "Suc n"]) simp
qed

section \<open>The code's counters implement the generator\<close>

definition session_slots :: "'a fishing_state_scheme \<Rightarrow> nat" where
  "session_slots s = unat (sessionDurationInSlots s)"

definition generator_of :: "'a fishing_state_scheme \<Rightarrow> nat \<times> nat \<times> bool \<times> nat" where
  "generator_of s =
     (unat (upCounter s), unat (downCounter s), direction s, unat (currentStartSlotOrdinal s))"

definition trolling_inv :: "'a fishing_state_scheme \<Rightarrow> bool" where
  "trolling_inv s \<longleftrightarrow>
     generator_ok (session_slots s) (unat (upCounter s)) (unat (downCounter s)) \<and>
     unat (dynamicFishSessionDurationInTicks s) = 50 * session_slots s \<and>
     2 \<le> unat (currentStartSlotOrdinal s) \<and>
     unat (currentStartSlotOrdinal s) \<le> unat (currentEndSlotOrdinal s) \<and>
     unat (currentEndSlotOrdinal s) \<le> 1600"

lemma initialDownCounter_unat:
  assumes "1 \<le> session_slots s" "session_slots s \<le> 100"
  shows "unat (SyncRecoveryTrollingPolicy_getInitialDownCounter s) = 1601 - session_slots s"
proof -
  have "sessionDurationInSlots s \<le> 1600"
    using assms by (simp add: session_slots_def word_le_nat_alt)
  then have "unat (1600 - sessionDurationInSlots s) = 1600 - session_slots s"
    by (simp add: unat_sub_le session_slots_def)
  then show ?thesis
    using assms unat_add_u32 [of "1600 - sessionDurationInSlots s" 1]
    by (simp add: SyncRecoveryTrollingPolicy_getInitialDownCounter_def
        SlottedFishSession_durationInSlots_def params)
qed

lemma incrementCounter_unat:
  assumes "1 \<le> session_slots s" "session_slots s \<le> 100" "unat c \<le> 1600"
  shows "unat (incrementCounterModuloSleepingSlots c s) = up_next (session_slots s) (unat c)"
proof -
  let ?d = "sessionDurationInSlots s"
  have a: "unat (c + ?d) = unat c + session_slots s"
    using assms by (subst unat_add_u32) (simp_all add: session_slots_def)
  have b: "unat (c + ?d + ?d) = unat c + session_slots s + session_slots s"
    using assms a by (subst unat_add_u32) (simp_all add: session_slots_def)
  show ?thesis
    unfolding incrementCounterModuloSleepingSlots_def SlottedFishSession_durationInSlots_def
      SyncRecoveryTrollingPolicy_getInitialUpCounter_def params Let_def word_less_nat_alt b up_next_def
    by (simp add: a)
qed

lemma decrementCounter_unat:
  assumes "1 \<le> session_slots s" "session_slots s \<le> 100" "unat c \<le> 1600"
  shows "unat (decrementCounterModuloSleepingSlots c s) = down_next (session_slots s) (unat c)"
proof -
  let ?d = "sessionDurationInSlots s"
  have a: "unat (2 + ?d) = 2 + session_slots s"
    using assms by (subst unat_add_u32) (simp_all add: session_slots_def)
  have b: "unat (c - ?d) = unat c - session_slots s" if "\<not> c < 2 + ?d"
  proof -
    have "?d \<le> c"
      using that a by (simp add: word_less_nat_alt word_le_nat_alt session_slots_def)
    then show ?thesis
      by (simp add: unat_sub_le session_slots_def)
  qed
  have lt: "c < 2 + ?d \<longleftrightarrow> unat c < 2 + session_slots s"
    by (simp add: word_less_nat_alt a)
  show ?thesis
    using b assms by (simp add: decrementCounterModuloSleepingSlots_def lt down_next_def params
        SlottedFishSession_durationInSlots_def initialDownCounter_unat)
qed

text \<open>A session that fits the sleeping slots is accepted.\<close>

lemma setSession_eq:
  assumes "1 \<le> session_slots s" "session_slots s \<le> 100" "2 \<le> unat k" "unat k + session_slots s \<le> 1601"
  obtains e where
    "setSessionForStartSlot k s = Some (s\<lparr>currentStartSlotOrdinal := k, currentEndSlotOrdinal := e\<rparr>)"
    "unat e = unat k + session_slots s - 1"
proof -
  define e where "e = k + sessionDurationInSlots s - 1"
  have "unat (k + sessionDurationInSlots s) = unat k + session_slots s"
    using assms by (subst unat_add_u32) (simp_all add: session_slots_def)
  then have e: "unat e = unat k + session_slots s - 1"
    using assms unfolding e_def by (subst unat_sub_le) (simp_all add: word_le_nat_alt)
  have "setSessionForStartSlot k s = Some (s\<lparr>currentStartSlotOrdinal := k, currentEndSlotOrdinal := e\<rparr>)"
    using e assms
    by (simp add: setSessionForStartSlot_def SlottedFishSession_durationInSlots_def isInRange_def
        e_def [symmetric] params word_le_nat_alt Let_def)
  with e show thesis
    by (rule that [rotated])
qed

lemma proceed_refines:
  assumes "trolling_inv s"
  shows "\<exists>s'. SyncRecoveryTrollingPolicy_proceedToNextFishSlotOrdinal s = Some s' \<and>
           trolling_inv s' \<and> session_slots s' = session_slots s \<and>
           generator_of s' = troll_step (session_slots s) (generator_of s) \<and>
           unat (currentEndSlotOrdinal s') = unat (currentStartSlotOrdinal s') + session_slots s - 1"
proof -
  let ?d = "session_slots s"
  have d: "1 \<le> ?d" "?d \<le> 100"
    and ok: "generator_ok ?d (unat (upCounter s)) (unat (downCounter s))"
    using assms by (auto simp: trolling_inv_def generator_ok_def)
  show ?thesis
  proof (cases "direction s")
    case True
    define u where "u = incrementCounterModuloSleepingSlots (upCounter s) s"
    define s1 where "s1 = s\<lparr>upCounter := u, direction := False\<rparr>"
    have u: "unat u = up_next ?d (unat (upCounter s))"
      unfolding u_def using ok d by (intro incrementCounter_unat) (simp_all add: generator_ok_def)
    have ok': "generator_ok ?d (unat u) (unat (downCounter s))"
      using generator_ok_next(1) [OF ok] u by simp
    have d1: "session_slots s1 = ?d"
      by (simp add: s1_def session_slots_def)
    have "2 \<le> unat u" "unat u + session_slots s1 \<le> 1601"
      using ok' d1 by (simp_all add: generator_ok_def)
    then obtain e where e: "setSessionForStartSlot u s1 =
        Some (s1\<lparr>currentStartSlotOrdinal := u, currentEndSlotOrdinal := e\<rparr>)" "unat e = unat u + ?d - 1"
      using setSession_eq [of s1 u] d d1 by metis
    have e': "unat u \<le> unat u + ?d - 1" "unat u + ?d - 1 \<le> 1600"
      using ok' d by (auto simp: generator_ok_def)
    have "SyncRecoveryTrollingPolicy_proceedToNextFishSlotOrdinal s = setSessionForStartSlot u s1"
      using True by (simp add: SyncRecoveryTrollingPolicy_proceedToNextFishSlotOrdinal_def u_def s1_def Let_def)
    then show ?thesis
      using e(1) e' e(2) ok' d assms True u
      by (simp add: trolling_inv_def generator_of_def session_slots_def s1_def generator_ok_def)
  next
    case False
    define w where "w = decrementCounterModuloSleepingSlots (downCounter s) s"
    define s1 where "s1 = s\<lparr>downCounter := w, direction := True\<rparr>"
    have w: "unat w = down_next ?d (unat (downCounter s))"
      unfolding w_def using ok d by (intro decrementCounter_unat) (simp_all add: generator_ok_def)
    have ok': "generator_ok ?d (unat (upCounter s)) (unat w)"
      using generator_ok_next(2) [OF ok] w by simp
    have d1: "session_slots s1 = ?d"
      by (simp add: s1_def session_slots_def)
    have "2 \<le> unat w" "unat w + session_slots s1 \<le> 1601"
      using ok' d1 by (simp_all add: generator_ok_def)
    then obtain e where e: "setSessionForStartSlot w s1 =
        Some (s1\<lparr>currentStartSlotOrdinal := w, currentEndSlotOrdinal := e\<rparr>)" "unat e = unat w + ?d - 1"
      using setSession_eq [of s1 w] d d1 by metis
    have e': "unat w \<le> unat w + ?d - 1" "unat w + ?d - 1 \<le> 1600"
      using ok' d by (auto simp: generator_ok_def)
    have "SyncRecoveryTrollingPolicy_proceedToNextFishSlotOrdinal s = setSessionForStartSlot w s1"
      using False by (simp add: SyncRecoveryTrollingPolicy_proceedToNextFishSlotOrdinal_def w_def s1_def Let_def)
    then show ?thesis
      using e(1) e' e(2) ok' d assms False w
      by (simp add: trolling_inv_def generator_of_def session_slots_def s1_def generator_ok_def)
  qed
qed

lemma proceed_many:
  assumes "trolling_inv s"
  shows "\<exists>s'. iterate_op SyncRecoveryTrollingPolicy_proceedToNextFishSlotOrdinal n s = Some s' \<and>
    (trolling_inv s' \<and> session_slots s' = session_slots s) \<and>
    generator_of s' = (troll_step (session_slots s) ^^ n) (generator_of s)"
proof (rule iterate_op_refines)
  show "trolling_inv s \<and> session_slots s = session_slots s"
    using assms by simp
  show "\<exists>s'. SyncRecoveryTrollingPolicy_proceedToNextFishSlotOrdinal r = Some s' \<and>
      (trolling_inv s' \<and> session_slots s' = session_slots s) \<and>
      generator_of s' = troll_step (session_slots s) (generator_of r)"
    if "trolling_inv r \<and> session_slots r = session_slots s" for r :: "'a fishing_state_scheme"
    using proceed_refines [of r] that by auto
qed

section \<open>Restart and changes of the session length\<close>

lemma restart_total:
  assumes "1 \<le> session_slots s" "session_slots s \<le> 100"
    "unat (dynamicFishSessionDurationInTicks s) = 50 * session_slots s"
  shows "\<exists>s'. SyncRecoveryTrollingPolicy_restart s = Some s' \<and> trolling_inv s' \<and>
           session_slots s' = session_slots s \<and>
           generator_of s' = (2, 1601 - session_slots s, True, 2)"
proof -
  define w where "w = SyncRecoveryTrollingPolicy_getInitialDownCounter (s\<lparr>upCounter := 2\<rparr>)"
  define s1 where "s1 = s\<lparr>upCounter := 2, downCounter := w\<rparr>"
  have slots: "session_slots s1 = session_slots s" "session_slots (s\<lparr>upCounter := 2\<rparr>) = session_slots s"
    by (simp_all add: s1_def session_slots_def)
  have w: "unat w = 1601 - session_slots s"
    unfolding w_def using assms(1,2) initialDownCounter_unat [of "s\<lparr>upCounter := 2\<rparr>"]
    by (simp add: slots)
  obtain e where e: "setSessionForStartSlot 2 s1 =
      Some (s1\<lparr>currentStartSlotOrdinal := 2, currentEndSlotOrdinal := e\<rparr>)" "unat e = 1 + session_slots s"
    using setSession_eq [of s1 2] assms slots by auto
  have "SyncRecoveryTrollingPolicy_restart s =
      Some (s1\<lparr>currentStartSlotOrdinal := 2, currentEndSlotOrdinal := e, direction := True\<rparr>)"
    using e(1) by (simp add: SyncRecoveryTrollingPolicy_restart_def Let_def params
        SyncRecoveryTrollingPolicy_getInitialUpCounter_def w_def s1_def)
  then show ?thesis
    using assms w e(2)
    by (simp add: trolling_inv_def generator_ok_def generator_of_def session_slots_def s1_def)
qed

lemma restart_inv:
  assumes "trolling_inv s"
  shows "\<exists>s'. SyncRecoveryTrollingPolicy_restart s = Some s' \<and> trolling_inv s'"
  using restart_total [of s] assms by (auto simp: trolling_inv_def generator_ok_def)

lemma setDurationToMin_inv:
  assumes "trolling_inv s"
  shows "trolling_inv (SlottedFishSession_setDurationToMinDuration s)"
  using assms
  by (auto simp: trolling_inv_def generator_ok_def SlottedFishSession_setDurationToMinDuration_def
      session_slots_def params)

lemma incrementDuration_inv:
  assumes "trolling_inv s" "unat increment \<le> 4000000000"
  shows "\<exists>s'. SlottedFishSession_incrementFishSessionDuration increment s = Some s' \<and> trolling_inv s'"
proof -
  let ?t = "sessionDurationInSlots s + increment"
  have d: "1 \<le> session_slots s" "session_slots s \<le> 100"
    using assms(1) by (auto simp: trolling_inv_def generator_ok_def)
  have t: "unat ?t = session_slots s + unat increment"
    using d assms(2) by (subst unat_add_u32) (simp_all add: session_slots_def)
  show ?thesis
  proof (cases "?t > 100")
    case True
    then show ?thesis
      using assms(1) by (simp add: SlottedFishSession_incrementFishSessionDuration_def params)
  next
    case False
    define s1 where "s1 = s\<lparr>sessionDurationInSlots := ?t, dynamicFishSessionDurationInTicks := ?t * 50\<rparr>"
    have le: "unat ?t \<le> 100"
      using False by (simp add: word_less_nat_alt)
    have "unat (?t * 50) = unat ?t * 50"
      using le by (subst unat_mult_lem [THEN iffD1]) simp_all
    then have "unat (dynamicFishSessionDurationInTicks s1) = 50 * session_slots s1"
      by (simp add: s1_def session_slots_def)
    moreover have "1 \<le> session_slots s1" "session_slots s1 \<le> 100"
      using le t d(1) by (simp_all add: s1_def session_slots_def)
    ultimately show ?thesis
      using restart_total [of s1] False
      by (auto simp: SlottedFishSession_incrementFishSessionDuration_def params s1_def)
  qed
qed

lemma FishPowerMgr_manage_inv:
  assumes "trolling_inv s"
  shows "\<exists>s'. FishPowerMgr_manage P s = Some s' \<and> trolling_inv s'"
proof -
  have inv: "trolling_inv (emit e s)" for e
    using assms by (simp add: trolling_inv_def session_slots_def emit_def)
  obtain s1 where s1: "SlottedFishSession_incrementFishSessionDuration 20 (emit MeasureVcc s) = Some s1"
    "trolling_inv s1"
    using incrementDuration_inv [OF inv, of 20 MeasureVcc] by auto
  have "trolling_inv (s1\<lparr>isMaxFishing := True\<rparr>)"
    using s1(2) by (simp add: trolling_inv_def session_slots_def)
  moreover have "trolling_inv ((SlottedFishSession_setDurationToMinDuration (emit MeasureVcc s))\<lparr>isMaxFishing := False\<rparr>)"
    using setDurationToMin_inv [OF inv] by (simp add: trolling_inv_def session_slots_def)
  ultimately show ?thesis
    using s1(1) inv by (simp add: FishPowerMgr_manage_def Vcc_measureAtLeast2_7_def)
qed

end
