(* ===== verification/FishSessions.thy ===== *)
theory FishSessions
  imports Trolling
begin

text \<open>
  Facts on the fishing session that are the same for trolling and for deep fishing (the locale
  \<open>session_source\<close>, interpreted on both policies and on the fishing manager that dispatches to
  them), on the memoized times of the fish slot, and on the end of a deep fishing episode.
\<close>

section \<open>What a fishing policy promises\<close>

text \<open>
  A policy gives the start and the duration of this period's session.  Asking for the start may
  count the session, but leaves the sync period alone; the start is not before the sync point, and
  the session does not run past the end of the 64-bit clock.
\<close>

locale session_source =
  fixes get_start :: "'s \<Rightarrow> long_time \<times> 's"
    and duration :: "'s \<Rightarrow> delta_time"
    and valid :: "'s \<Rightarrow> bool"
    and period_start :: "'s \<Rightarrow> long_time"
    and period_end :: "'s \<Rightarrow> long_time"
  assumes keeps_period: "period_start (snd (get_start s)) = period_start s"
      "period_end (snd (get_start s)) = period_end s"
    and keeps_duration: "duration (snd (get_start s)) = duration s"
    and not_before: "valid s \<Longrightarrow> period_start s \<le> fst (get_start s)"
    and no_wrap: "valid s \<Longrightarrow> unat (fst (get_start s)) + unat (duration s) < 18446744073709551616"
begin

text \<open>Clamping both times to the end of the period leaves them in order.\<close>

lemma clamped_session:
  assumes "valid s" "period_start s \<le> period_end s"
  shows "period_start s \<le> min (fst (get_start s)) (period_end s)"
    and "min (fst (get_start s)) (period_end s) \<le>
           min (min (fst (get_start s)) (period_end s) + ucast (duration s)) (period_end s)"
    and "unat (min (min (fst (get_start s)) (period_end s) + ucast (duration s)) (period_end s))
           \<le> unat (min (fst (get_start s)) (period_end s)) + unat (duration s)"
proof -
  let ?m = "min (fst (get_start s)) (period_end s)"
  show "period_start s \<le> ?m"
    using not_before assms by simp
  have "?m \<le> fst (get_start s)"
    by simp
  then have "unat ?m + unat (duration s) < 18446744073709551616"
    using no_wrap [OF assms(1)] by (simp add: word_le_nat_alt)
  then have sum: "unat (?m + ucast (duration s)) = unat ?m + unat (duration s)"
    by (rule unat_time_plus)
  then have "?m \<le> ?m + ucast (duration s)"
    by (simp add: word_le_nat_alt)
  then show "?m \<le> min (?m + ucast (duration s)) (period_end s)"
    by simp
  have "min (?m + ucast (duration s)) (period_end s) \<le> ?m + ucast (duration s)"
    by simp
  then show "unat (min (?m + ucast (duration s)) (period_end s)) \<le> unat ?m + unat (duration s)"
    by (metis sum word_le_nat_alt)
qed

end

definition session_valid :: "'a fishing_state_scheme \<Rightarrow> bool" where
  "session_valid s \<longleftrightarrow> trolling_inv s \<and> far_from_wrap (startTimeOfSyncPeriod s)"

lemma trolling_start_unat:
  assumes "session_valid s"
  shows "unat (SyncRecoveryTrollingPolicy_getStartTimeToFish s) =
           unat (startTimeOfSyncPeriod s) + (unat (currentStartSlotOrdinal s) - 1) * 50"
proof -
  have k: "1 \<le> unat (currentStartSlotOrdinal s)" "unat (currentStartSlotOrdinal s) \<le> 1600"
    using assms by (auto simp: session_valid_def trolling_inv_def)
  have pred: "unat (currentStartSlotOrdinal s - 1) = unat (currentStartSlotOrdinal s) - 1"
    using k by (subst unat_sub_le) (simp_all add: word_le_nat_alt)
  have "unat ((currentStartSlotOrdinal s - 1) * VirtualSlotDuration) =
      (unat (currentStartSlotOrdinal s) - 1) * 50"
    using k by (subst unat_mult_lem [THEN iffD1]) (simp_all add: pred params)
  then show ?thesis
    using assms k unfolding SyncRecoveryTrollingPolicy_getStartTimeToFish_def
    by (subst unat_time_plus) (auto simp: session_valid_def far_from_wrap_def)
qed

lemma deep_start_unat:
  assumes "far_from_wrap (startTimeOfSyncPeriod s)"
  shows "unat (fst (DeepFishingPolicy_getStartTimeToFish s)) =
           unat (startTimeOfSyncPeriod s) + unat (deltaSyncPointToSyncPointOfFishee s)"
  using assms unat_u32_bound [of "deltaSyncPointToSyncPointOfFishee s"]
  by (simp add: DeepFishingPolicy_getStartTimeToFish_def unat_time_plus far_from_wrap_def)

interpretation trolling_sessions: session_source
  "\<lambda>s. (SyncRecoveryTrollingPolicy_getStartTimeToFish s, s)"
  SyncRecoveryTrollingPolicy_getFishSessionDurationTicks session_valid
  startTimeOfSyncPeriod endTimeOfSyncPeriod
proof unfold_locales
  fix s :: "'a fishing_state_scheme"
  assume v: "session_valid s"
  note start = trolling_start_unat [OF v]
  show "startTimeOfSyncPeriod s \<le> fst (SyncRecoveryTrollingPolicy_getStartTimeToFish s, s)"
    by (simp add: start word_le_nat_alt)
  have "(unat (currentStartSlotOrdinal s) - 1) * 50 \<le> 80000"
    "unat (dynamicFishSessionDurationInTicks s) \<le> 5000"
    using v by (auto simp: session_valid_def trolling_inv_def generator_ok_def)
  then show "unat (fst (SyncRecoveryTrollingPolicy_getStartTimeToFish s, s)) +
      unat (SyncRecoveryTrollingPolicy_getFishSessionDurationTicks s) < 18446744073709551616"
    using v by (simp add: start session_valid_def far_from_wrap_def SlottedFishSession_durationInTicks_def
        SyncRecoveryTrollingPolicy_getFishSessionDurationTicks_def)
qed simp_all

interpretation deep_sessions: session_source
  DeepFishingPolicy_getStartTimeToFish "\<lambda>_. DeepFishingPolicy_getFishSessionDurationTicks"
  session_valid startTimeOfSyncPeriod endTimeOfSyncPeriod
proof unfold_locales
  fix s :: "'a fishing_state_scheme"
  show "startTimeOfSyncPeriod (snd (DeepFishingPolicy_getStartTimeToFish s)) = startTimeOfSyncPeriod s"
    "endTimeOfSyncPeriod (snd (DeepFishingPolicy_getStartTimeToFish s)) = endTimeOfSyncPeriod s"
    by (simp_all add: DeepFishingPolicy_getStartTimeToFish_def)
  assume v: "session_valid s"
  then have start: "unat (fst (DeepFishingPolicy_getStartTimeToFish s)) =
      unat (startTimeOfSyncPeriod s) + unat (deltaSyncPointToSyncPointOfFishee s)"
    by (intro deep_start_unat) (simp add: session_valid_def)
  show "startTimeOfSyncPeriod s \<le> fst (DeepFishingPolicy_getStartTimeToFish s)"
    by (simp add: start word_le_nat_alt)
  show "unat (fst (DeepFishingPolicy_getStartTimeToFish s)) +
      unat DeepFishingPolicy_getFishSessionDurationTicks < 18446744073709551616"
    using v start unat_u32_bound [of "deltaSyncPointToSyncPointOfFishee s"]
    by (simp add: session_valid_def far_from_wrap_def params DeepFishingPolicy_getFishSessionDurationTicks_def)
qed simp

lemma manager_start_cases:
  "FishingManager_getStartTimeToFish s =
     (if fishingMode s = Trolling then (SyncRecoveryTrollingPolicy_getStartTimeToFish s, s)
      else DeepFishingPolicy_getStartTimeToFish s)"
  "FishingManager_getFishSessionDurationTicks s =
     (if fishingMode s = Trolling then SyncRecoveryTrollingPolicy_getFishSessionDurationTicks s
      else DeepFishingPolicy_getFishSessionDurationTicks)"
  by (cases "fishingMode s"; simp add: FishingManager_getStartTimeToFish_def
      FishingManager_getFishSessionDurationTicks_def)+

lemma deep_start_mode [frame, simp]:
  "fishingMode (snd (DeepFishingPolicy_getStartTimeToFish s)) = fishingMode s"
  by (simp add: DeepFishingPolicy_getStartTimeToFish_def)

interpretation managed_sessions: session_source
  FishingManager_getStartTimeToFish FishingManager_getFishSessionDurationTicks
  session_valid startTimeOfSyncPeriod endTimeOfSyncPeriod
proof unfold_locales
  fix s :: "'a fishing_state_scheme"
  show "startTimeOfSyncPeriod (snd (FishingManager_getStartTimeToFish s)) = startTimeOfSyncPeriod s"
    "endTimeOfSyncPeriod (snd (FishingManager_getStartTimeToFish s)) = endTimeOfSyncPeriod s"
    by (simp_all add: manager_start_cases deep_sessions.keeps_period)
  show "FishingManager_getFishSessionDurationTicks (snd (FishingManager_getStartTimeToFish s)) =
      FishingManager_getFishSessionDurationTicks s"
    by (simp add: manager_start_cases)
  assume v: "session_valid s"
  show "startTimeOfSyncPeriod s \<le> fst (FishingManager_getStartTimeToFish s)"
    using trolling_sessions.not_before [OF v] deep_sessions.not_before [OF v]
    by (simp add: manager_start_cases)
  show "unat (fst (FishingManager_getStartTimeToFish s)) +
      unat (FishingManager_getFishSessionDurationTicks s) < 18446744073709551616"
    using trolling_sessions.no_wrap [OF v] deep_sessions.no_wrap [OF v]
    by (simp add: manager_start_cases)
qed

section \<open>The memoized times\<close>

lemma setStartAndEndTimes_memo:
  "memoStartTimeOfFishSlot (FishSchedule_setStartAndEndTimes s) =
     min (fst (FishingManager_getStartTimeToFish s)) (endTimeOfSyncPeriod s)"
  "memoEndTimeOfFishSlot (FishSchedule_setStartAndEndTimes s) =
     min (min (fst (FishingManager_getStartTimeToFish s)) (endTimeOfSyncPeriod s)
       + ucast (FishingManager_getFishSessionDurationTicks s)) (endTimeOfSyncPeriod s)"
proof -
  have keep: "endTimeOfSyncPeriod (snd (FishingManager_getStartTimeToFish s)) = endTimeOfSyncPeriod s"
    "FishingManager_getFishSessionDurationTicks (snd (FishingManager_getStartTimeToFish s)) =
       FishingManager_getFishSessionDurationTicks s"
    by (rule managed_sessions.keeps_period managed_sessions.keeps_duration)+
  have dur: "FishingManager_getFishSessionDurationTicks (r\<lparr>memoStartTimeOfFishSlot := t\<rparr>) =
      FishingManager_getFishSessionDurationTicks r" for r :: "'a fishing_state_scheme" and t
    by (simp add: manager_start_cases SyncRecoveryTrollingPolicy_getFishSessionDurationTicks_def
        SlottedFishSession_durationInTicks_def)
  show "memoStartTimeOfFishSlot (FishSchedule_setStartAndEndTimes s) =
      min (fst (FishingManager_getStartTimeToFish s)) (endTimeOfSyncPeriod s)"
    by (simp add: FishSchedule_setStartAndEndTimes_def FishSchedule_memoTimeOfFishSessionEnd_def
        FishSchedule_memoTimeOfFishSessionStart_def split_beta clampTime_eq keep)
  show "memoEndTimeOfFishSlot (FishSchedule_setStartAndEndTimes s) =
      min (min (fst (FishingManager_getStartTimeToFish s)) (endTimeOfSyncPeriod s)
        + ucast (FishingManager_getFishSessionDurationTicks s)) (endTimeOfSyncPeriod s)"
    by (simp add: FishSchedule_setStartAndEndTimes_def FishSchedule_memoTimeOfFishSessionEnd_def
        FishSchedule_memoTimeOfFishSessionStart_def FishSchedule_timeOfFishSessionEnd_def split_beta
        clampTime_eq keep dur)
qed

section \<open>Deep fishing is an episode\<close>

text \<open>One sync period of deep fishing: the schedule asks for the start of the session, and the end of
  the session checks whether the episode is over.\<close>

definition deep_fishing_period ::
  "platform \<Rightarrow> 'a fishing_state_scheme \<Rightarrow> (bool \<times> 'a fishing_state_scheme) option" where
  "deep_fishing_period P s = DeepFishingPolicy_checkDone P (snd (DeepFishingPolicy_getStartTimeToFish s))"

text \<open>The count equals the number of completed fishings; the limit is 6, and the seventh ends the
  episode.\<close>

interpretation deep_episode: episode
  "deep_fishing_period P" "\<lambda>s. fishPolicyDoneCallback s \<noteq> NullCallback"
  "\<lambda>s. unat (countFishings s)" 6
  for P
proof unfold_locales
  fix s :: "'a fishing_state_scheme"
  assume "unat (countFishings s) < 6"
  moreover from this have "unat (countFishings s + 1) = Suc (unat (countFishings s))"
    using unat_add_u32 [of "countFishings s" 1] by simp
  moreover assume "fishPolicyDoneCallback s \<noteq> NullCallback"
  ultimately show "\<exists>s'. deep_fishing_period P s = Some (False, s') \<and>
      fishPolicyDoneCallback s' \<noteq> NullCallback \<and> unat (countFishings s') = Suc (unat (countFishings s))"
    by (auto simp: deep_fishing_period_def DeepFishingPolicy_checkDone_def word_less_nat_alt
        DeepFishingPolicy_getStartTimeToFish_def params)
next
  fix s :: "'a fishing_state_scheme"
  assume "unat (countFishings s) = 6"
  moreover from this have "unat (countFishings s + 1) = 7"
    using unat_add_u32 [of "countFishings s" 1] by simp
  moreover assume "fishPolicyDoneCallback s \<noteq> NullCallback"
  ultimately show "\<exists>s'. deep_fishing_period P s = Some (True, s')"
    by (auto simp: deep_fishing_period_def DeepFishingPolicy_checkDone_def word_less_nat_alt
        DeepFishingPolicy_getStartTimeToFish_def params)
qed

text \<open>The same through the fishing manager, which leaves deep fishing when the policy says it is done.\<close>

definition fishing_period :: "platform \<Rightarrow> 'a fishing_state_scheme \<Rightarrow> 'a fishing_state_scheme option" where
  "fishing_period P s = FishingManager_checkFishingDone P (snd (FishingManager_getStartTimeToFish s))"

lemma fishing_period_deep:
  assumes "fishingMode s = DeepFishing" "fishPolicyDoneCallback s \<noteq> NullCallback" "unat (countFishings s) \<le> 6"
  shows "fishing_period P s =
    (if unat (countFishings s) < 6 then Some (s\<lparr>countFishings := countFishings s + 1\<rparr>)
     else Some (FishingManager_switchToTrolling
       (call_fish_callback P (fishPolicyDoneCallback s) (s\<lparr>countFishings := countFishings s + 1\<rparr>))))"
proof -
  have "unat (countFishings s + 1) = Suc (unat (countFishings s))"
    using unat_add_u32 [of "countFishings s" 1] assms(3) by simp
  then show ?thesis
    using assms by (simp add: fishing_period_def FishingManager_checkFishingDone_def manager_start_cases
        DeepFishingPolicy_checkDone_def DeepFishingPolicy_getStartTimeToFish_def word_less_nat_alt params)
qed

lemma fishing_period_counts:
  assumes "fishingMode s = DeepFishing" "fishPolicyDoneCallback s \<noteq> NullCallback"
    "unat (countFishings s) + n \<le> 6"
  shows "iterate_op (fishing_period P) n s = Some (s\<lparr>countFishings := countFishings s + of_nat n\<rparr>)"
  using assms
proof (induction n arbitrary: s)
  case 0
  then show ?case by simp
next
  case (Suc n)
  have "unat (countFishings s + 1) = Suc (unat (countFishings s))"
    using unat_add_u32 [of "countFishings s" 1] Suc.prems(3) by simp
  then show ?case
    using Suc.IH [of "s\<lparr>countFishings := countFishings s + 1\<rparr>"] Suc.prems
    by (simp add: fishing_period_deep add.assoc)
qed

end
