(* ===== verification/Clique.thy ===== *)
theory Clique
  imports FishSessions
begin

text \<open>
  The clique as this unit sees it: \<open>src/clique/clique.cpp\<close>, \<open>cliqueReversion.cpp\<close> and
  \<open>cliqueScatter.cpp\<close>.  \<open>cliqueRoles.cpp\<close> and \<open>schedule.cpp\<close> are in the theories \<open>CliqueRoles\<close>
  and \<open>Schedule\<close>.
\<close>

section \<open>Operations\<close>

definition Clique_init :: "platform \<Rightarrow> 'a fishing_state_scheme \<Rightarrow> 'a fishing_state_scheme option" where
  "Clique_init P s = do {
     let s = Clique_setSelfMastership P s;
     let s = DropoutMonitor_reset s;
     let s = AdaptiveTransmitSyncPolicy_reset s;
     let s = Schedule_init P s;
     require (Clique_isSelfMaster P s);
     Some s
   }"

definition Clique_shouldTransmitSync ::
  "platform \<Rightarrow> 'a fishing_state_scheme \<Rightarrow> bool \<times> 'a fishing_state_scheme" where
  "Clique_shouldTransmitSync P s =
     (if Clique_isSelfMaster P s then AdaptiveTransmitSyncPolicy_shouldTransmitSync P s else (False, s))"

definition Clique_resetTransmitSyncPolicy :: "'a fishing_state_scheme \<Rightarrow> 'a fishing_state_scheme" where
  "Clique_resetTransmitSyncPolicy s = AdaptiveTransmitSyncPolicy_reset s"

definition Clique_heardSync :: "platform \<Rightarrow> 'a fishing_state_scheme \<Rightarrow> 'a fishing_state_scheme" where
  "Clique_heardSync P s =
     (let s = DropoutMonitor_heardSync s
      in if Clique_isSelfMaster P s then AdaptiveTransmitSyncPolicy_disarmForOneCycle s else s)"

definition Clique_grabMastership :: "platform \<Rightarrow> 'a fishing_state_scheme \<Rightarrow> 'a fishing_state_scheme option" where
  "Clique_grabMastership P s = do {
     let s = Clique_setSelfMastership P s;
     let s = Clique_resetTransmitSyncPolicy s;
     FishingManager_restartTrollingMode s
   }"

definition Clique_revertToFormerMaster ::
  "platform \<Rightarrow> 'a fishing_state_scheme \<Rightarrow> 'a fishing_state_scheme option" where
  "Clique_revertToFormerMaster P s = do {
     let s = Clique_updateMastership (CliqueHistory_currentCliqueRecordMasterID s) s;
     s \<leftarrow> Schedule_adjustByCliqueHistoryOffset P CliqueHistory_offsetToCurrentClique s;
     FishingManager_restartTrollingMode s
   }"

definition Clique_revertByCliqueHistory ::
  "platform \<Rightarrow> 'a fishing_state_scheme \<Rightarrow> 'a fishing_state_scheme option" where
  "Clique_revertByCliqueHistory P s = do {
     s \<leftarrow> CliqueHistory_setCurrentCliqueRecordToFormerClique s;
     (if CliqueHistory_isCurrentCliqueRecordSelf P s
      then Clique_grabMastership P s
      else Clique_revertToFormerMaster P s)
   }"

definition Clique_onMasterDropout :: "platform \<Rightarrow> 'a fishing_state_scheme \<Rightarrow> 'a fishing_state_scheme option" where
  "Clique_onMasterDropout P s = Clique_revertByCliqueHistory P s"

definition Clique_checkMasterDroppedOut ::
  "platform \<Rightarrow> 'a fishing_state_scheme \<Rightarrow> 'a fishing_state_scheme option" where
  "Clique_checkMasterDroppedOut P s = do {
     (dropout, s) \<leftarrow> DropoutMonitor_isDropout s;
     (if dropout then Clique_onMasterDropout P s else Some s)
   }"

definition Clique_updateBySyncMessage ::
  "platform \<Rightarrow> sync_message \<Rightarrow> 'a fishing_state_scheme \<Rightarrow> 'a fishing_state_scheme option" where
  "Clique_updateBySyncMessage P msg s = do {
     require (SyncMessage_doesCarrySync (msg_type msg));
     let s = Clique_updateMastership (msg_masterID msg) s;
     let s = AdaptiveTransmitSyncPolicy_advanceStage s;
     Schedule_adjustBySyncMsg P msg s
   }"

definition Clique_scatterSync :: "platform \<Rightarrow> 'a fishing_state_scheme \<Rightarrow> 'a fishing_state_scheme option" where
  "Clique_scatterSync P s = do {
     s \<leftarrow> Clique_grabMastership P s;
     Schedule_adjustWithRandomAddedTime P s
   }"

section \<open>Joining a clique\<close>

text \<open>Updating by a sync message changes the master, the history, the stage of the transmit policy
  and the end of the period; the schedule part is the schedule's own adjustment.\<close>

lemma adjust_commutes:
  "Schedule_adjustBySyncMsg P msg (s\<lparr>isAdvancedStage := b\<rparr>) =
     map_option (\<lambda>s. s\<lparr>isAdvancedStage := b\<rparr>) (Schedule_adjustBySyncMsg P msg s)"
  by (simp add: Schedule_adjustBySyncMsg_def Schedule_adjustedSyncPeriodEndTimeFromMsg_def
      Schedule_adjust_def Schedule_adjustedEventTimeFromMsg_def Schedule_timeOfNextSyncPoint_def
      Radio_timeOfArrival_def Let_def)

lemma updateBySyncMessage_SomeD:
  assumes "Clique_updateBySyncMessage P msg s = Some s'"
  obtains t where "SyncMessage_doesCarrySync (msg_type msg)"
    "s' = (Clique_updateMastership (msg_masterID msg) s)\<lparr>isAdvancedStage := True, endTimeOfSyncPeriod := t\<rparr>"
proof -
  have carry: "SyncMessage_doesCarrySync (msg_type msg)"
    using assms by (simp add: Clique_updateBySyncMessage_def split: if_splits)
  then have "Schedule_adjustBySyncMsg P msg
      ((Clique_updateMastership (msg_masterID msg) s)\<lparr>isAdvancedStage := True\<rparr>) = Some s'"
    using assms by (simp add: Clique_updateBySyncMessage_def AdaptiveTransmitSyncPolicy_advanceStage_def Let_def)
  then obtain t where "s' = (Clique_updateMastership (msg_masterID msg) s)
      \<lparr>isAdvancedStage := True, endTimeOfSyncPeriod := t\<rparr>"
    by (rule adjustBySyncMsg_SomeD) blast
  with carry show thesis
    by (rule that)
qed

lemma updateBySyncMessage_masterID:
  assumes "Clique_updateBySyncMessage P msg s = Some s'"
  shows "masterID s' = msg_masterID msg"
  using assms by (auto elim!: updateBySyncMessage_SomeD)

lemma schedule_inv_cong:
  assumes "startTimeOfSyncPeriod s' = startTimeOfSyncPeriod s"
    "endTimeOfSyncPeriod s' = endTimeOfSyncPeriod s"
    "unadjustedEndTimeOfSyncPeriod s' = unadjustedEndTimeOfSyncPeriod s"
  shows "schedule_inv s' = schedule_inv s"
  using assms by (simp add: schedule_inv_def)

lemma updateBySyncMessage_inv:
  assumes "schedule_inv s" "Clique_updateBySyncMessage P msg s = Some s'"
  shows "schedule_inv s'"
proof -
  have "schedule_inv ((Clique_updateMastership (msg_masterID msg) s)\<lparr>isAdvancedStage := True\<rparr>)"
    using assms(1) by (subst schedule_inv_cong [of _ s]) simp_all
  then show ?thesis
    using assms(2) adjustBySyncMsg_inv
    by (auto simp: Clique_updateBySyncMessage_def AdaptiveTransmitSyncPolicy_advanceStage_def Let_def
        split: if_splits)
qed

text \<open>When the update succeeds: exactly when the new end is within two periods.\<close>

lemma updateBySyncMessage_total:
  assumes "schedule_inv s" "SyncMessage_doesCarrySync (msg_type msg)"
    and "far_from_wrap (Radio_timeOfArrival P s)"
    and "startTimeOfSyncPeriod s \<le> Radio_timeOfArrival P s"
    and "message_end_time (Radio_timeOfArrival P s) (deltaToNextSyncPoint msg) (endTimeOfSyncPeriod s)
           \<le> unat (startTimeOfSyncPeriod s) + 160000"
  shows "\<exists>s'. Clique_updateBySyncMessage P msg s = Some s' \<and> masterID s' = msg_masterID msg \<and>
      unat (endTimeOfSyncPeriod s') =
        message_end_time (Radio_timeOfArrival P s) (deltaToNextSyncPoint msg) (endTimeOfSyncPeriod s)"
proof -
  let ?u = "(Clique_updateMastership (msg_masterID msg) s)\<lparr>isAdvancedStage := True\<rparr>"
  have toa: "Radio_timeOfArrival P ?u = Radio_timeOfArrival P s"
    by (simp add: Radio_timeOfArrival_def)
  have inv: "schedule_inv ?u"
    using assms(1) by (subst schedule_inv_cong [of _ s]) simp_all
  obtain t where "unat t = message_end_time (Radio_timeOfArrival P s) (deltaToNextSyncPoint msg)
      (endTimeOfSyncPeriod s)"
    "Schedule_adjustBySyncMsg P msg ?u = Some (?u\<lparr>endTimeOfSyncPeriod := t\<rparr>)"
    using adjustBySyncMsg_cases(1) [OF inv, of P _ msg] assms(3-5) toa by auto
  then show ?thesis
    using assms(2) by (simp add: Clique_updateBySyncMessage_def AdaptiveTransmitSyncPolicy_advanceStage_def)
qed

lemma updateBySyncMessage_None [faults]:
  assumes "schedule_inv s" "SyncMessage_doesCarrySync (msg_type msg)"
    and "far_from_wrap (Radio_timeOfArrival P s)"
    and "startTimeOfSyncPeriod s \<le> Radio_timeOfArrival P s"
    and "\<not> message_end_time (Radio_timeOfArrival P s) (deltaToNextSyncPoint msg) (endTimeOfSyncPeriod s)
           \<le> unat (startTimeOfSyncPeriod s) + 160000"
  shows "Clique_updateBySyncMessage P msg s = None"
proof -
  let ?u = "(Clique_updateMastership (msg_masterID msg) s)\<lparr>isAdvancedStage := True\<rparr>"
  have toa: "Radio_timeOfArrival P ?u = Radio_timeOfArrival P s"
    by (simp add: Radio_timeOfArrival_def)
  have inv: "schedule_inv ?u"
    using assms(1) by (subst schedule_inv_cong [of _ s]) simp_all
  have "Schedule_adjustBySyncMsg P msg ?u = None"
    using adjustBySyncMsg_cases(2) [OF inv, of P _ msg] assms(3-5) toa by simp
  then show ?thesis
    using assms(2) by (simp add: Clique_updateBySyncMessage_def AdaptiveTransmitSyncPolicy_advanceStage_def)
qed

section \<open>Taking and losing mastership\<close>

lemma grabMastership_prepared:
  assumes "trolling_inv s"
  shows "trolling_inv (Clique_resetTransmitSyncPolicy (Clique_setSelfMastership P s))"
  using assms
  by (simp add: trolling_inv_def session_slots_def Clique_resetTransmitSyncPolicy_def
      Clique_setSelfMastership_def xmit_policy_defs emit_def)

lemma restart_frame [frame]:
  assumes "SyncRecoveryTrollingPolicy_restart s = Some s'"
  shows "\<exists>u w k e. s' = s\<lparr>upCounter := u, downCounter := w, currentStartSlotOrdinal := k,
      currentEndSlotOrdinal := e, direction := True\<rparr>"
  using assms
  by (auto simp: SyncRecoveryTrollingPolicy_restart_def setSessionForStartSlot_def Let_def split: if_splits)

lemma grabMastership_total:
  assumes "trolling_inv s"
  shows "\<exists>s'. Clique_grabMastership P s = Some s' \<and> Clique_isSelfMaster P s' \<and> trolling_inv s' \<and>
      \<not> isAdvancedStage s' \<and> generator_of s' = (2, 1601 - session_slots s, True, 2) \<and>
      startTimeOfSyncPeriod s' = startTimeOfSyncPeriod s \<and>
      endTimeOfSyncPeriod s' = endTimeOfSyncPeriod s \<and>
      unadjustedEndTimeOfSyncPeriod s' = unadjustedEndTimeOfSyncPeriod s"
proof -
  define s1 where "s1 = Clique_resetTransmitSyncPolicy (Clique_setSelfMastership P s)"
  have s1: "trolling_inv s1" "session_slots s1 = session_slots s"
    "startTimeOfSyncPeriod s1 = startTimeOfSyncPeriod s" "endTimeOfSyncPeriod s1 = endTimeOfSyncPeriod s"
    "unadjustedEndTimeOfSyncPeriod s1 = unadjustedEndTimeOfSyncPeriod s"
    "masterID s1 = p_systemID P" "\<not> isAdvancedStage s1"
    using grabMastership_prepared [OF assms]
    by (simp_all add: s1_def session_slots_def Clique_resetTransmitSyncPolicy_def
        Clique_setSelfMastership_def xmit_policy_defs emit_def)
  obtain s' where s': "SyncRecoveryTrollingPolicy_restart s1 = Some s'" "trolling_inv s'"
    "generator_of s' = (2, 1601 - session_slots s1, True, 2)"
    using restart_total [of s1] s1(1) by (auto simp: trolling_inv_def generator_ok_def)
  have "Clique_grabMastership P s = Some s'"
    using s'(1) by (simp add: Clique_grabMastership_def FishingManager_restartTrollingMode_def s1_def)
  then show ?thesis
    using s' s1 restart_frame [OF s'(1)] by (auto simp: Clique_isSelfMaster_def)
qed

text \<open>
  Reverting to the former master asks the schedule to end the period one tick after the reading of
  the clock, which is earlier than the unadjusted end wherever the clock is still
  within the period: the assertion in \<open>Schedule::adjust\<close> fails.
\<close>

lemma revertToFormerMaster_faults [faults]:
  assumes "unat (p_nowTime P (io s)) + 1 < unat (unadjustedEndTimeOfSyncPeriod s)"
  shows "Clique_revertToFormerMaster P s = None"
proof -
  define s1 where "s1 = Clique_updateMastership (CliqueHistory_currentCliqueRecordMasterID s) s"
  define t where "t = p_nowTime P (io s) + ucast CliqueHistory_offsetToCurrentClique"
  have "unat (p_nowTime P (io s)) + unat (1 :: u32) < 18446744073709551616"
    using assms unat_u64_bound [of "unadjustedEndTimeOfSyncPeriod s"] by simp
  then have "unat t = unat (p_nowTime P (io s)) + 1"
    unfolding t_def CliqueHistory_offsetToCurrentClique_def by (subst unat_time_plus) simp_all
  then have "\<not> unadjustedEndTimeOfSyncPeriod s \<le> t"
    using assms by (simp add: word_le_nat_alt)
  then have "Schedule_adjustByCliqueHistoryOffset P CliqueHistory_offsetToCurrentClique s1 = None"
    by (simp add: adjustByCliqueHistoryOffset_eq Schedule_adjust_def s1_def t_def emit_def)
  then show ?thesis
    by (simp add: Clique_revertToFormerMaster_def s1_def [symmetric])
qed

end
