(* ===== verification/Merger.thy ===== *)
theory Merger
  imports Clique
begin

text \<open>
  Merging two cliques: the record of the merger (\<open>src/cliqueMerger/cliqueMerger.cpp\<close>,
  \<open>src/clique/periodTime.cpp\<close>), the merge slot's schedule
  (\<open>src/slots/merge/mergeSchedule.cpp\<close>), the role in the sleeping part of the period
  (\<open>src/syncAgentImp/state/role.cpp\<close>) and its transitions
  (\<open>src/syncAgentImp/syncAgentRole.cpp\<close>).
\<close>

section \<open>State\<close>

datatype role = Merger | Fisher | NoFishing

record merger_state = fishing_state +
  mergerRole :: role
  mergerActive :: bool
  periodTimeToMergeSlotStart :: delta_time
  superiorMasterID :: system_id
  inferiorMasterID :: system_id
  kindOfMerger :: message_type

section \<open>Period time\<close>

definition PeriodTime_isValidValue :: "delta_time \<Rightarrow> bool" where
  "PeriodTime_isValidValue value \<longleftrightarrow> value \<le> NormalSyncPeriodDuration"

definition PeriodTime_get :: "'a merger_state_scheme \<Rightarrow> delta_time" where
  "PeriodTime_get s = periodTimeToMergeSlotStart s"

definition PeriodTime_set :: "delta_time \<Rightarrow> 'a merger_state_scheme \<Rightarrow> 'a merger_state_scheme option" where
  "PeriodTime_set value s = do {
     require (PeriodTime_isValidValue value);
     Some (s\<lparr>periodTimeToMergeSlotStart := value\<rparr>)
   }"

definition PeriodTime_convertTickOffset :: "u32 \<Rightarrow> delta_time" where
  "PeriodTime_convertTickOffset offset =
     NormalSyncPeriodDuration - (offset mod NormalSyncPeriodDuration)"

section \<open>Role\<close>

definition MergerFisherRole_isMerger :: "'a merger_state_scheme \<Rightarrow> bool" where
  "MergerFisherRole_isMerger s \<longleftrightarrow> mergerRole s = Merger"

definition MergerFisherRole_isFisher :: "'a merger_state_scheme \<Rightarrow> bool" where
  "MergerFisherRole_isFisher s \<longleftrightarrow> mergerRole s = Fisher"

definition MergerFisherRole_toFisher :: "'a merger_state_scheme \<Rightarrow> 'a merger_state_scheme" where
  "MergerFisherRole_toFisher s = s\<lparr>mergerRole := Fisher\<rparr>"

definition MergerFisherRole_toMerger :: "'a merger_state_scheme \<Rightarrow> 'a merger_state_scheme option" where
  "MergerFisherRole_toMerger s = do {
     require (MergerFisherRole_isFisher s);
     Some (s\<lparr>mergerRole := Merger\<rparr>)
   }"

definition MergerFisherRole_toNoFishing :: "'a merger_state_scheme \<Rightarrow> 'a merger_state_scheme" where
  "MergerFisherRole_toNoFishing s = s\<lparr>mergerRole := NoFishing\<rparr>"

definition MergerFisherRole_init :: "'a merger_state_scheme \<Rightarrow> 'a merger_state_scheme" where
  "MergerFisherRole_init s = MergerFisherRole_toNoFishing s"

section \<open>Clique merger\<close>

definition SyncMessage_timeOfTransmittal :: "platform \<Rightarrow> 'a platform_state_scheme \<Rightarrow> long_time" where
  "SyncMessage_timeOfTransmittal P s = Radio_timeOfArrival P s - ucast GuessedSendLatency"

definition middleOfNextSyncSlotOfFisher :: "'a merger_state_scheme \<Rightarrow> long_time" where
  "middleOfNextSyncSlotOfFisher s =
     Schedule_timeOfNextSyncPoint s + ucast DeltaSyncPointToSyncSlotMiddle"

definition nextSyncPointOfFisher :: "'a merger_state_scheme \<Rightarrow> long_time" where
  "nextSyncPointOfFisher s = Schedule_timeOfNextSyncPoint s"

definition middleOfNextSyncSlotOfCatch :: "platform \<Rightarrow> 'a merger_state_scheme \<Rightarrow> long_time" where
  "middleOfNextSyncSlotOfCatch P s = SyncMessage_timeOfTransmittal P s + ucast NormalSyncPeriodDuration"

definition pastSyncPointOfCatch :: "platform \<Rightarrow> 'a merger_state_scheme \<Rightarrow> long_time" where
  "pastSyncPointOfCatch P s = SyncMessage_timeOfTransmittal P s - ucast DeltaSyncPointToSyncSlotMiddle"

definition EarliestMergeTime :: delta_time where
  "EarliestMergeTime = 2 * VirtualSlotDuration + PreflightDelta"

definition adjustedRawTimeToMergeClique :: "delta_time \<Rightarrow> delta_time" where
  "adjustedRawTimeToMergeClique rawTime =
     (if rawTime > EarliestMergeTime then rawTime - PreflightDelta else EarliestMergeTime)"

definition periodTimeToMergeMyClique :: "platform \<Rightarrow> 'a merger_state_scheme \<Rightarrow> delta_time" where
  "periodTimeToMergeMyClique P s =
     (let rawTime = p_clampedTimeDifference P (middleOfNextSyncSlotOfFisher s) (pastSyncPointOfCatch P s)
                      mod NormalSyncPeriodDuration
      in adjustedRawTimeToMergeClique rawTime)"

definition periodTimeToMergeOtherClique :: "platform \<Rightarrow> 'a merger_state_scheme \<Rightarrow> delta_time" where
  "periodTimeToMergeOtherClique P s =
     (let rawTime = p_clampedTimeDifference P (middleOfNextSyncSlotOfCatch P s) (nextSyncPointOfFisher s)
                      mod NormalSyncPeriodDuration
      in adjustedRawTimeToMergeClique rawTime)"

definition initMergeMyClique ::
  "platform \<Rightarrow> sync_message \<Rightarrow> 'a merger_state_scheme \<Rightarrow> 'a merger_state_scheme option" where
  "initMergeMyClique P msg s = do {
     s \<leftarrow> PeriodTime_set (periodTimeToMergeMyClique P s) s;
     let s = s\<lparr>superiorMasterID := msg_masterID msg\<rparr>;
     let s = s\<lparr>inferiorMasterID := Clique_getMasterID s\<rparr>;
     let s = (if Clique_isSelfMaster P s
              then s\<lparr>kindOfMerger := MergeMyMasterDepart\<rparr>
              else s\<lparr>kindOfMerger := MergeMySlaveDepart\<rparr>);
     s \<leftarrow> Clique_updateBySyncMessage P msg s;
     require (\<not> Clique_isSelfMaster P s);
     require (kindOfMerger s = MergeMyMasterDepart \<or> kindOfMerger s = MergeMySlaveDepart);
     Some s
   }"

definition initMergeOtherClique ::
  "platform \<Rightarrow> sync_message \<Rightarrow> 'a merger_state_scheme \<Rightarrow> 'a merger_state_scheme option" where
  "initMergeOtherClique P msg s = do {
     s \<leftarrow> PeriodTime_set (periodTimeToMergeOtherClique P s) s;
     let s = s\<lparr>kindOfMerger := MergeOther\<rparr>;
     let s = s\<lparr>superiorMasterID := Clique_getMasterID s\<rparr>;
     let s = s\<lparr>inferiorMasterID := msg_masterID msg\<rparr>;
     require (kindOfMerger s = MergeOther);
     Some s
   }"

definition CliqueMerger_deactivate :: "'a merger_state_scheme \<Rightarrow> 'a merger_state_scheme" where
  "CliqueMerger_deactivate s = s\<lparr>mergerActive := False\<rparr>"

definition CliqueMerger_initFromMsg ::
  "platform \<Rightarrow> sync_message \<Rightarrow> 'a merger_state_scheme \<Rightarrow> 'a merger_state_scheme option" where
  "CliqueMerger_initFromMsg P msg s = do {
     require (FishingManager_mode s = Trolling);
     require (SyncMessage_doesCarrySync (msg_type msg));
     s \<leftarrow> (if Clique_isOtherCliqueBetter (msg_masterID msg) s
           then initMergeMyClique P msg s
           else initMergeOtherClique P msg s);
     let s = s\<lparr>mergerActive := True\<rparr>;
     require (mergerActive s);
     Some s
   }"

text \<open>Not implemented by the code: it only asserts.\<close>

definition CliqueMerger_adjustMergerBySyncMsg ::
  "sync_message \<Rightarrow> 'a merger_state_scheme \<Rightarrow> 'a merger_state_scheme option" where
  "CliqueMerger_adjustMergerBySyncMsg msg s = do {
     require (mergerActive s);
     Some s
   }"

definition MessageFactory_initMergeSyncMessage ::
  "message_type \<Rightarrow> delta_time \<Rightarrow> system_id \<Rightarrow> system_id \<Rightarrow> sync_message option" where
  "MessageFactory_initMergeSyncMessage aType aDeltaToNextSyncPoint superior inferior = do {
     delta \<leftarrow> DeltaSync_set aDeltaToNextSyncPoint;
     Some \<lparr>msg_type = aType, deltaToNextSyncPoint = delta, msg_masterID = superior, work = ucast inferior\<rparr>
   }"

definition CliqueMerger_makeMergeMsg ::
  "platform \<Rightarrow> 'a merger_state_scheme \<Rightarrow> (sync_message \<times> 'a merger_state_scheme) option" where
  "CliqueMerger_makeMergeMsg P s = do {
     require (mergerActive s);
     let (deltaSync, s) = Schedule_deltaNowToNextUnadjustedSyncPoint P s;
     msg \<leftarrow> MessageFactory_initMergeSyncMessage (kindOfMerger s) deltaSync (superiorMasterID s) (inferiorMasterID s);
     Some (msg, s)
   }"

definition CliqueMerger_getPeriodTimeToMergeSlotStart :: "'a merger_state_scheme \<Rightarrow> delta_time" where
  "CliqueMerger_getPeriodTimeToMergeSlotStart s = PeriodTime_get s"

definition CliqueMerger_deltaMergeSlotEndToSyncPoint :: "platform \<Rightarrow> 'a merger_state_scheme \<Rightarrow> delta_time" where
  "CliqueMerger_deltaMergeSlotEndToSyncPoint P s =
     (let deltaSyncPointToMergeSlotStart = PeriodTime_get s;
          deltaSyncPointToMergeSlotEnd = deltaSyncPointToMergeSlotStart + SendDuration
      in p_clampedSubtraction P NormalSyncPeriodDuration deltaSyncPointToMergeSlotEnd)"

section \<open>Merge schedule\<close>

definition MergeSchedule_timeOfThisMergeStart ::
  "delta_time \<Rightarrow> 'a merger_state_scheme \<Rightarrow> long_time option" where
  "MergeSchedule_timeOfThisMergeStart offset s = do {
     let result = startTimeOfSyncPeriod s + ucast offset;
     require (result < endTimeOfSyncPeriod s);
     Some result
   }"

definition MergeSchedule_deltaToThisMergeStart ::
  "platform \<Rightarrow> 'a merger_state_scheme \<Rightarrow> (delta_time \<times> 'a merger_state_scheme) option" where
  "MergeSchedule_deltaToThisMergeStart P s = do {
     t \<leftarrow> MergeSchedule_timeOfThisMergeStart (CliqueMerger_getPeriodTimeToMergeSlotStart s) s;
     Some (clampedTimeDifferenceFromNow P t s)
   }"

definition MergeSchedule_isMergerStartSyncPeriod :: "'a merger_state_scheme \<Rightarrow> bool" where
  "MergeSchedule_isMergerStartSyncPeriod s \<longleftrightarrow>
     CliqueMerger_getPeriodTimeToMergeSlotStart s < ThreeSlotDuration"

definition MergeSchedule_isMergerEndSyncPeriod :: "platform \<Rightarrow> 'a merger_state_scheme \<Rightarrow> bool" where
  "MergeSchedule_isMergerEndSyncPeriod P s \<longleftrightarrow>
     CliqueMerger_deltaMergeSlotEndToSyncPoint P s < TwoSlotDuration"

section \<open>Transitions of the role\<close>

definition SyncAgentImp_toFisherFromNoFishing :: "'a merger_state_scheme \<Rightarrow> 'a merger_state_scheme" where
  "SyncAgentImp_toFisherFromNoFishing s = MergerFisherRole_toFisher s"

definition SyncAgentImp_ToNoFishingFromOther :: "'a merger_state_scheme \<Rightarrow> 'a merger_state_scheme" where
  "SyncAgentImp_ToNoFishingFromOther s =
     (let s = (if MergerFisherRole_isMerger s then CliqueMerger_deactivate s else s)
      in MergerFisherRole_toNoFishing s)"

definition SyncAgentImp_toMergerFromFisher ::
  "platform \<Rightarrow> sync_message \<Rightarrow> 'a merger_state_scheme \<Rightarrow> 'a merger_state_scheme option" where
  "SyncAgentImp_toMergerFromFisher P msg s = do {
     require (SyncMessage_doesCarrySync (msg_type msg));
     require (MergerFisherRole_isFisher s);
     s \<leftarrow> MergerFisherRole_toMerger s;
     s \<leftarrow> CliqueMerger_initFromMsg P msg s;
     require (MergerFisherRole_isMerger s);
     Some s
   }"

definition SyncAgentImp_toFisherFromMerger :: "'a merger_state_scheme \<Rightarrow> 'a merger_state_scheme" where
  "SyncAgentImp_toFisherFromMerger s = CliqueMerger_deactivate (MergerFisherRole_toFisher s)"

definition SyncAgentImp_stopMerger :: "'a merger_state_scheme \<Rightarrow> 'a merger_state_scheme option" where
  "SyncAgentImp_stopMerger s = do {
     let s = MergePolicy_restart s;
     let s = SyncAgentImp_toFisherFromMerger s;
     require (MergerFisherRole_isFisher s);
     Some s
   }"

lemmas role_defs =
  MergerFisherRole_isMerger_def MergerFisherRole_isFisher_def MergerFisherRole_toFisher_def
  MergerFisherRole_toMerger_def MergerFisherRole_toNoFishing_def SyncAgentImp_toFisherFromNoFishing_def
  SyncAgentImp_ToNoFishingFromOther_def SyncAgentImp_toFisherFromMerger_def SyncAgentImp_stopMerger_def
  CliqueMerger_deactivate_def

section \<open>The time of the merge slot\<close>

lemma EarliestMergeTime_value [params]: "EarliestMergeTime = 154"
  by (simp add: EarliestMergeTime_def params)

lemma adjustedRawTime_unat:
  "unat (adjustedRawTimeToMergeClique r) = (if unat r > 154 then unat r - 54 else 154)"
proof (cases "unat r > 154")
  case True
  then have "unat (r - 54) = unat r - 54"
    by (subst unat_sub_le) (simp_all add: word_le_nat_alt)
  then show ?thesis
    using True by (simp add: adjustedRawTimeToMergeClique_def params word_less_nat_alt)
next
  case False
  then show ?thesis
    by (simp add: adjustedRawTimeToMergeClique_def params word_less_nat_alt)
qed

lemma adjustedRawTime_bounds:
  assumes "unat r < 80000"
  shows "101 \<le> unat (adjustedRawTimeToMergeClique r)" "unat (adjustedRawTimeToMergeClique r) \<le> 79945"
  using assms by (auto simp: adjustedRawTime_unat)

lemma mod_period_bound: "unat (d mod NormalSyncPeriodDuration) < 80000"
  by (simp add: unat_mod params)

lemma periodTime_bounds:
  "101 \<le> unat (periodTimeToMergeMyClique P s)" "unat (periodTimeToMergeMyClique P s) \<le> 79945"
  "101 \<le> unat (periodTimeToMergeOtherClique P s)" "unat (periodTimeToMergeOtherClique P s) \<le> 79945"
  unfolding periodTimeToMergeMyClique_def periodTimeToMergeOtherClique_def Let_def
  by (rule adjustedRawTime_bounds, rule mod_period_bound)+

text \<open>So setting the period time never fails its assertion.\<close>

lemma PeriodTime_set_merge [simp]:
  "PeriodTime_set (periodTimeToMergeMyClique P s) s =
     Some (s\<lparr>periodTimeToMergeSlotStart := periodTimeToMergeMyClique P s\<rparr>)"
  "PeriodTime_set (periodTimeToMergeOtherClique P s) s =
     Some (s\<lparr>periodTimeToMergeSlotStart := periodTimeToMergeOtherClique P s\<rparr>)"
  using periodTime_bounds [of P s]
  by (simp_all add: PeriodTime_set_def PeriodTime_isValidValue_def params word_le_nat_alt)

definition merge_time_inv :: "'a merger_state_scheme \<Rightarrow> bool" where
  "merge_time_inv s \<longleftrightarrow>
     101 \<le> unat (periodTimeToMergeSlotStart s) \<and> unat (periodTimeToMergeSlotStart s) \<le> 79945"

text \<open>The start of the merge slot is within the period: the assertion of the merge schedule holds.\<close>

lemma timeOfThisMergeStart_total:
  assumes "schedule_inv s" "far_from_wrap (startTimeOfSyncPeriod s)" "merge_time_inv s"
  shows "\<exists>t. MergeSchedule_timeOfThisMergeStart (periodTimeToMergeSlotStart s) s = Some t \<and>
           unat t = unat (startTimeOfSyncPeriod s) + unat (periodTimeToMergeSlotStart s)"
proof -
  have "unat (startTimeOfSyncPeriod s + ucast (periodTimeToMergeSlotStart s)) =
      unat (startTimeOfSyncPeriod s) + unat (periodTimeToMergeSlotStart s)"
    using assms(2,3) by (intro unat_time_plus) (simp add: far_from_wrap_def merge_time_inv_def)
  then show ?thesis
    using assms by (simp add: MergeSchedule_timeOfThisMergeStart_def word_less_nat_alt schedule_inv_def
        merge_time_inv_def)
qed

text \<open>The merge slot ends at least 49 ticks before the unadjusted end of the period.\<close>

lemma deltaMergeSlotEnd_unat:
  assumes "documented_subtraction P" "merge_time_inv s"
  shows "unat (CliqueMerger_deltaMergeSlotEndToSyncPoint P s) =
           79994 - unat (periodTimeToMergeSlotStart s)"
proof -
  have "unat (periodTimeToMergeSlotStart s + SendDuration) = unat (periodTimeToMergeSlotStart s) + 6"
    using assms(2) by (subst unat_add_u32) (simp_all add: merge_time_inv_def params)
  then show ?thesis
    using assms by (simp add: CliqueMerger_deltaMergeSlotEndToSyncPoint_def PeriodTime_get_def Let_def
        clampedSubtraction_unat)
qed

section \<open>Starting a merger\<close>

lemma initMergeOther_eq:
  "initMergeOtherClique P msg s =
     Some (s\<lparr>periodTimeToMergeSlotStart := periodTimeToMergeOtherClique P s, kindOfMerger := MergeOther,
            superiorMasterID := masterID s, inferiorMasterID := msg_masterID msg\<rparr>)"
  by (simp add: initMergeOtherClique_def Clique_getMasterID_def)

definition merging_my :: "platform \<Rightarrow> sync_message \<Rightarrow> 'a merger_state_scheme \<Rightarrow> 'a merger_state_scheme" where
  "merging_my P msg s = s\<lparr>periodTimeToMergeSlotStart := periodTimeToMergeMyClique P s,
     superiorMasterID := msg_masterID msg, inferiorMasterID := masterID s,
     kindOfMerger := (if Clique_isSelfMaster P s then MergeMyMasterDepart else MergeMySlaveDepart)\<rparr>"

lemma initMergeMy_eq:
  assumes "msg_masterID msg \<noteq> p_systemID P"
  shows "initMergeMyClique P msg s = Clique_updateBySyncMessage P msg (merging_my P msg s)"
proof (cases "Clique_updateBySyncMessage P msg (merging_my P msg s)")
  case None
  then show ?thesis
    by (simp add: initMergeMyClique_def Clique_getMasterID_def merging_my_def Let_def
        Clique_isSelfMaster_def split: if_splits)
next
  case (Some s')
  then obtain t where t: "s' = (Clique_updateMastership (msg_masterID msg) (merging_my P msg s))
      \<lparr>isAdvancedStage := True, endTimeOfSyncPeriod := t\<rparr>"
    by (rule updateBySyncMessage_SomeD)
  have "kindOfMerger (Clique_updateMastership m r) = kindOfMerger r" for m and r :: "'a merger_state_scheme"
    by (simp add: Clique_updateMastership_def CliqueHistory_add_def Let_def)
  then have "kindOfMerger s' = MergeMyMasterDepart \<or> kindOfMerger s' = MergeMySlaveDepart"
    by (simp add: t merging_my_def)
  moreover have "\<not> Clique_isSelfMaster P s'"
    using assms by (simp add: t Clique_isSelfMaster_def)
  ultimately show ?thesis
    using Some by (simp add: initMergeMyClique_def Clique_getMasterID_def merging_my_def Let_def
        Clique_isSelfMaster_def split: if_splits)
qed

end
