(* ===== verification/Modes.thy ===== *)
theory Modes
  imports Merger
begin

text \<open>
  Power levels (\<open>src/modules/syncPowerManager.cpp\<close>, for the configuration
  \<open>LOW_PRIORITY_WORK_Voc3_6\<close> that file defines), the mode of syncing
  (\<open>src/syncAgentImp/state/syncMode.cpp\<close>) and the counter that decides when to provision
  (\<open>src/provisioning/provisionManager.cpp\<close>).
\<close>

section \<open>Power\<close>

definition SyncPowerManager_isPowerForStartLoop ::
  "platform \<Rightarrow> 'a platform_state_scheme \<Rightarrow> bool \<times> 'a platform_state_scheme" where
  "SyncPowerManager_isPowerForStartLoop P s = isPowerAbove P Medium s"

definition SyncPowerManager_isPowerForWork ::
  "platform \<Rightarrow> 'a platform_state_scheme \<Rightarrow> bool \<times> 'a platform_state_scheme" where
  "SyncPowerManager_isPowerForWork P s = isPowerAbove P High s"

definition SyncPowerManager_isPowerForFishMode ::
  "platform \<Rightarrow> 'a platform_state_scheme \<Rightarrow> bool \<times> 'a platform_state_scheme" where
  "SyncPowerManager_isPowerForFishMode P s = isPowerAbove P Medium s"

definition SyncPowerManager_isPowerForFishSlot ::
  "platform \<Rightarrow> 'a platform_state_scheme \<Rightarrow> bool \<times> 'a platform_state_scheme" where
  "SyncPowerManager_isPowerForFishSlot P s = isPowerAbove P Medium s"

definition SyncPowerManager_isPowerForSyncMode ::
  "platform \<Rightarrow> 'a platform_state_scheme \<Rightarrow> bool \<times> 'a platform_state_scheme" where
  "SyncPowerManager_isPowerForSyncMode P s = isPowerAbove P UltraLow s"

definition SyncPowerManager_isPowerForSyncSlot ::
  "platform \<Rightarrow> 'a platform_state_scheme \<Rightarrow> bool \<times> 'a platform_state_scheme" where
  "SyncPowerManager_isPowerForSyncSlot P s = isPowerAbove P UltraLow s"

definition SyncPowerManager_init :: "'a platform_state_scheme \<Rightarrow> 'a platform_state_scheme" where
  "SyncPowerManager_init s = emit PowerManagerInit s"

definition SyncPowerManager_enterBrownoutDetectMode :: "'a platform_state_scheme \<Rightarrow> 'a platform_state_scheme" where
  "SyncPowerManager_enterBrownoutDetectMode s = emit EnterBrownoutDetectMode s"

lemmas power_defs =
  SyncPowerManager_isPowerForStartLoop_def SyncPowerManager_isPowerForWork_def
  SyncPowerManager_isPowerForFishMode_def SyncPowerManager_isPowerForFishSlot_def
  SyncPowerManager_isPowerForSyncMode_def SyncPowerManager_isPowerForSyncSlot_def isPowerAbove_def

text \<open>The levels are ordered, and so are the uses: work needs most, then fishing, then sync.\<close>

fun voltage_rank :: "voltage_level \<Rightarrow> nat" where
  "voltage_rank UltraLow = 0"
| "voltage_rank Low = 1"
| "voltage_rank Medium = 2"
| "voltage_rank High = 3"

instantiation voltage_level :: linorder
begin

definition less_eq_voltage_level :: "voltage_level \<Rightarrow> voltage_level \<Rightarrow> bool" where
  "less_eq_voltage_level a b \<longleftrightarrow> voltage_rank a \<le> voltage_rank b"

definition less_voltage_level :: "voltage_level \<Rightarrow> voltage_level \<Rightarrow> bool" where
  "less_voltage_level a b \<longleftrightarrow> voltage_rank a < voltage_rank b"

instance
proof
  fix a b c :: voltage_level
  show "a < b \<longleftrightarrow> a \<le> b \<and> \<not> b \<le> a"
    by (auto simp: less_eq_voltage_level_def less_voltage_level_def)
  show "a \<le> a" "a \<le> b \<Longrightarrow> b \<le> c \<Longrightarrow> a \<le> c" "a \<le> b \<or> b \<le> a"
    by (auto simp: less_eq_voltage_level_def)
  show "a \<le> b \<Longrightarrow> b \<le> a \<Longrightarrow> a = b"
    by (cases a; cases b) (simp_all add: less_eq_voltage_level_def)
qed

end

lemma voltage_order [simp]:
  "UltraLow < Low" "Low < Medium" "Medium < High" "UltraLow < Medium" "UltraLow < High" "Low < High"
  by (simp_all add: less_voltage_level_def)

text \<open>Documented behaviour of the power manager: what is above a level is above every lower one
  (for the same measurement, that is, the same history).\<close>

definition documented_power :: "platform \<Rightarrow> bool" where
  "documented_power P \<longleftrightarrow>
     (\<forall>h lo hi. lo \<le> hi \<longrightarrow> p_isPowerAbove P h hi \<longrightarrow> p_isPowerAbove P h lo)"

section \<open>Mode\<close>

datatype sync_mode = Maintain | SyncOnly | SyncAndFishMerge | SyncAndProvision

record mode_state = merger_state +
  syncMode :: sync_mode
  provisionCounter :: int

definition ProvisionManager_shouldProvision ::
  "platform \<Rightarrow> 'a mode_state_scheme \<Rightarrow> bool \<times> 'a mode_state_scheme" where
  "ProvisionManager_shouldProvision P s =
     (if p_softdevicePresent P then
        let s = s\<lparr>provisionCounter := provisionCounter s + 1\<rparr>
        in if provisionCounter s > 5 then (True, s\<lparr>provisionCounter := 0\<rparr>) else (False, s)
      else (False, s))"

definition toSyncOnly :: "'a mode_state_scheme \<Rightarrow> 'a mode_state_scheme" where
  "toSyncOnly s = SyncAgentImp_ToNoFishingFromOther (s\<lparr>syncMode := SyncOnly\<rparr>)"

definition toSyncAndProvision :: "'a mode_state_scheme \<Rightarrow> 'a mode_state_scheme" where
  "toSyncAndProvision s = s\<lparr>syncMode := SyncAndProvision\<rparr>"

definition SyncModeManager_resetToModeMaintain :: "'a mode_state_scheme \<Rightarrow> 'a mode_state_scheme" where
  "SyncModeManager_resetToModeMaintain s = MergerFisherRole_toNoFishing (s\<lparr>syncMode := Maintain\<rparr>)"

definition SyncModeManager_mode :: "'a mode_state_scheme \<Rightarrow> sync_mode" where
  "SyncModeManager_mode s = syncMode s"

definition SyncModeManager_checkPowerAndTryModeTransitions ::
  "platform \<Rightarrow> 'a mode_state_scheme \<Rightarrow> 'a mode_state_scheme" where
  "SyncModeManager_checkPowerAndTryModeTransitions P s =
     (case syncMode s of
        Maintain \<Rightarrow>
          (let (forSync, s) = SyncPowerManager_isPowerForSyncMode P s
           in if forSync then s\<lparr>syncMode := SyncOnly\<rparr> else s)
      | SyncOnly \<Rightarrow>
          (let (forSync, s) = SyncPowerManager_isPowerForSyncMode P s
           in if \<not> forSync then s\<lparr>syncMode := Maintain\<rparr>
              else let (forFish, s) = SyncPowerManager_isPowerForFishMode P s
                   in if forFish
                      then SyncAgentImp_toFisherFromNoFishing (s\<lparr>syncMode := SyncAndFishMerge\<rparr>)
                      else s)
      | SyncAndFishMerge \<Rightarrow>
          (let (forFish, s) = SyncPowerManager_isPowerForFishMode P s
           in if \<not> forFish then toSyncOnly s
              else if p_softdevicePresent P then
                     let (provision, s) = ProvisionManager_shouldProvision P s
                     in if provision then toSyncAndProvision s else s
                   else s)
      | SyncAndProvision \<Rightarrow>
          (let (forFish, s) = SyncPowerManager_isPowerForFishMode P s
           in if \<not> forFish then toSyncOnly s
              else s\<lparr>syncMode := SyncAndFishMerge\<rparr>))"

section \<open>The diagram of modes\<close>

inductive mode_step :: "sync_mode \<Rightarrow> sync_mode \<Rightarrow> bool" where
  stay: "m \<noteq> SyncAndProvision \<Longrightarrow> mode_step m m"
| resume: "mode_step Maintain SyncOnly"
| pause: "mode_step SyncOnly Maintain"
| fish: "mode_step SyncOnly SyncAndFishMerge"
| quit: "mode_step SyncAndFishMerge SyncOnly"
| provision: "mode_step SyncAndFishMerge SyncAndProvision"
| provisioned: "mode_step SyncAndProvision SyncAndFishMerge"
| quit_provision: "mode_step SyncAndProvision SyncOnly"

inductive_simps mode_step_simps:
  "mode_step Maintain m" "mode_step SyncOnly m" "mode_step SyncAndFishMerge m"
  "mode_step SyncAndProvision m"

inductive_cases mode_step_to_Maintain: "mode_step m Maintain"

code_pred mode_step .

lemmas mode_transition_defs =
  SyncModeManager_checkPowerAndTryModeTransitions_def toSyncOnly_def toSyncAndProvision_def
  ProvisionManager_shouldProvision_def role_defs power_defs emit_def

lemma mode_transition_step:
  "mode_step (syncMode s) (syncMode (SyncModeManager_checkPowerAndTryModeTransitions P s))"
  by (cases "syncMode s") (simp_all add: mode_transition_defs mode_step_simps Let_def)

text \<open>Without the softdevice the mode for provisioning is not entered.\<close>

lemma mode_transition_no_provision:
  assumes "\<not> p_softdevicePresent P" "syncMode s \<noteq> SyncAndProvision"
  shows "syncMode (SyncModeManager_checkPowerAndTryModeTransitions P s) \<noteq> SyncAndProvision"
  using assms by (cases "syncMode s") (simp_all add: mode_transition_defs Let_def)

text \<open>The role goes with the mode, and a merger has its record.\<close>

definition role_inv :: "'a mode_state_scheme \<Rightarrow> bool" where
  "role_inv s \<longleftrightarrow>
     (mergerRole s \<noteq> NoFishing \<longleftrightarrow> syncMode s = SyncAndFishMerge \<or> syncMode s = SyncAndProvision) \<and>
     (mergerRole s = Merger \<longrightarrow> mergerActive s \<and> merge_time_inv s)"

lemma mode_transition_role_inv:
  assumes "role_inv s"
  shows "role_inv (SyncModeManager_checkPowerAndTryModeTransitions P s)"
  using assms
  by (cases "syncMode s"; cases "mergerRole s")
    (simp_all add: mode_transition_defs role_inv_def merge_time_inv_def Let_def)

lemma resetToModeMaintain_role_inv: "role_inv (SyncModeManager_resetToModeMaintain s)"
  by (simp add: SyncModeManager_resetToModeMaintain_def role_inv_def role_defs)

text \<open>Provisioning comes with every sixth check in the fishing mode.\<close>

interpretation provision_episode: episode
  "\<lambda>s. Some (ProvisionManager_shouldProvision P s)"
  "\<lambda>s. 0 \<le> provisionCounter s \<and> p_softdevicePresent P" "\<lambda>s. nat (provisionCounter s)" 5
  for P
proof unfold_locales
  fix s :: "'a mode_state_scheme"
  assume "0 \<le> provisionCounter s \<and> p_softdevicePresent P" "nat (provisionCounter s) < 5"
  then show "\<exists>s'. Some (ProvisionManager_shouldProvision P s) = Some (False, s') \<and>
      (0 \<le> provisionCounter s' \<and> p_softdevicePresent P) \<and>
      nat (provisionCounter s') = Suc (nat (provisionCounter s))"
    by (auto simp: ProvisionManager_shouldProvision_def Let_def)
next
  fix s :: "'a mode_state_scheme"
  assume "0 \<le> provisionCounter s \<and> p_softdevicePresent P" "nat (provisionCounter s) = 5"
  then show "\<exists>s'. Some (ProvisionManager_shouldProvision P s) = Some (True, s')"
    by (auto simp: ProvisionManager_shouldProvision_def Let_def)
qed

end
