(* ===== verification/Network.thy ===== *)
theory Network
  imports Modes
begin

text \<open>
  Control of the clique as a network: the clique's granularity
  (\<open>src/network/granularity.cpp\<close>), the repeater of control messages
  (\<open>sendRepeater.cpp\<close>), what master and slaves repeat (\<open>intraCliqueManager.cpp\<close>), reactions to
  control messages (\<open>topology.cpp\<close>, \<open>scatter.cpp\<close>) and to provisionings
  (\<open>topologyProvisioner.cpp\<close>), and the control of the app's work
  (\<open>src/work/workControlProxy.cpp\<close>, \<open>src/provisioning/workProvisioner.cpp\<close>).
\<close>

section \<open>State\<close>

text \<open>The actions handed to the repeater, to be taken when it is done.\<close>

datatype repeat_callback =
    NoRepeatCallback
  | OnDoneGranularityWithAction
  | OnDoneRepeatingUpstream
  | OnDoneScatter

record network_state = mode_state +
  cliqueGranularity :: net_granularity
  rememberedGranularity :: net_granularity
  repeaterIsActive :: bool
  repeaterMessageType :: message_type
  repeaterValue :: u8
  onDoneCallback :: repeat_callback
  repeaterCounter :: u32
  heardWork :: bool
  workTimeCallbackIsSet :: bool
  workCycleCallbackIsSet :: bool
  countMergeSyncHeard :: u8

section \<open>Granularity\<close>

fun Granularity_xmitPowerForGranularity :: "net_granularity \<Rightarrow> xmit_power" where
  "Granularity_xmitPowerForGranularity Small = Minus40"
| "Granularity_xmitPowerForGranularity MediumGranularity = Minus12"
| "Granularity_xmitPowerForGranularity Large = Plus0"
| "Granularity_xmitPowerForGranularity InvalidGranularity = Minus40"

definition Granularity_getCliqueGranularity :: "'a network_state_scheme \<Rightarrow> net_granularity" where
  "Granularity_getCliqueGranularity s = cliqueGranularity s"

definition Granularity_getCliqueGranularityRaw :: "'a network_state_scheme \<Rightarrow> u8" where
  "Granularity_getCliqueGranularityRaw s = Granularity_getRaw (cliqueGranularity s)"

definition Granularity_trySetGranularity ::
  "net_granularity \<Rightarrow> 'a network_state_scheme \<Rightarrow> 'a network_state_scheme" where
  "Granularity_trySetGranularity granularity s =
     (if granularity = InvalidGranularity then s
      else emit (ConfigureXmitPower (Granularity_xmitPowerForGranularity granularity))
             (s\<lparr>cliqueGranularity := granularity\<rparr>))"

section \<open>Scatter\<close>

definition Scatter_scatter :: "platform \<Rightarrow> 'a fishing_state_scheme \<Rightarrow> 'a fishing_state_scheme option" where
  "Scatter_scatter P s = Clique_scatterSync P s"

section \<open>The repeater\<close>

definition SendRepeater_isActive :: "'a network_state_scheme \<Rightarrow> bool" where
  "SendRepeater_isActive s = repeaterIsActive s"

definition SendRepeater_start ::
  "message_type \<Rightarrow> u8 \<Rightarrow> repeat_callback \<Rightarrow> 'a network_state_scheme \<Rightarrow> 'a network_state_scheme" where
  "SendRepeater_start aType value callback s =
     (if SendRepeater_isActive s then s
      else s\<lparr>repeaterIsActive := True, repeaterMessageType := aType, repeaterValue := value,
             onDoneCallback := callback, repeaterCounter := 0\<rparr>)"

definition SendRepeater_currentMsgType :: "'a network_state_scheme \<Rightarrow> message_type" where
  "SendRepeater_currentMsgType s = repeaterMessageType s"

definition SendRepeater_currentPayload :: "'a network_state_scheme \<Rightarrow> payload" where
  "SendRepeater_currentPayload s = repeaterValue s"

definition SendRepeater_shouldSend ::
  "platform \<Rightarrow> 'a network_state_scheme \<Rightarrow> bool \<times> 'a network_state_scheme" where
  "SendRepeater_shouldSend P s =
     (if SendRepeater_isActive s then
        let (heads, s) = Random_coinToss P s
        in if heads then (True, s\<lparr>repeaterCounter := repeaterCounter s + 1\<rparr>) else (False, s)
      else (False, s))"

definition SendRepeater_stop :: "'a network_state_scheme \<Rightarrow> 'a network_state_scheme" where
  "SendRepeater_stop s = s\<lparr>repeaterIsActive := False\<rparr>"

definition onDoneGranularityWithAction ::
  "platform \<Rightarrow> 'a network_state_scheme \<Rightarrow> 'a network_state_scheme option" where
  "onDoneGranularityWithAction P s = do {
     require (Clique_isSelfMaster P s);
     Some (Granularity_trySetGranularity (rememberedGranularity s) s)
   }"

definition onDoneRepeatingUpstream ::
  "platform \<Rightarrow> 'a network_state_scheme \<Rightarrow> 'a network_state_scheme option" where
  "onDoneRepeatingUpstream P s = do {
     require (\<not> Clique_isSelfMaster P s);
     Some s
   }"

definition onDoneScatter :: "platform \<Rightarrow> 'a network_state_scheme \<Rightarrow> 'a network_state_scheme option" where
  "onDoneScatter P s = do {
     require (Clique_isSelfMaster P s);
     Scatter_scatter P s
   }"

text \<open>Calling an unset callback is a jump through a null pointer: a fault.\<close>

fun call_repeat_callback ::
  "platform \<Rightarrow> repeat_callback \<Rightarrow> 'a network_state_scheme \<Rightarrow> 'a network_state_scheme option" where
  "call_repeat_callback P NoRepeatCallback s = None"
| "call_repeat_callback P OnDoneGranularityWithAction s = onDoneGranularityWithAction P s"
| "call_repeat_callback P OnDoneRepeatingUpstream s = onDoneRepeatingUpstream P s"
| "call_repeat_callback P OnDoneScatter s = onDoneScatter P s"

definition SendRepeater_checkDoneAndEnactControl ::
  "platform \<Rightarrow> 'a network_state_scheme \<Rightarrow> 'a network_state_scheme option" where
  "SendRepeater_checkDoneAndEnactControl P s = do {
     require (repeaterIsActive s);
     (if repeaterCounter s > CountRepeatsPerControlSync
      then call_repeat_callback P (onDoneCallback s) (s\<lparr>repeaterIsActive := False, repeaterCounter := 0\<rparr>)
      else Some s)
   }"

section \<open>What master and slaves repeat\<close>

definition IntraCliqueManager_isActive :: "'a network_state_scheme \<Rightarrow> bool" where
  "IntraCliqueManager_isActive s = SendRepeater_isActive s"

definition IntraCliqueManager_abort :: "'a network_state_scheme \<Rightarrow> 'a network_state_scheme" where
  "IntraCliqueManager_abort s = SendRepeater_stop s"

definition IntraCliqueManager_checkDoneAndEnactControl ::
  "platform \<Rightarrow> 'a network_state_scheme \<Rightarrow> 'a network_state_scheme option" where
  "IntraCliqueManager_checkDoneAndEnactControl P s = SendRepeater_checkDoneAndEnactControl P s"

definition IntraCliqueManager_doUpstreamCliqueSizeChange ::
  "net_granularity \<Rightarrow> 'a network_state_scheme \<Rightarrow> 'a network_state_scheme" where
  "IntraCliqueManager_doUpstreamCliqueSizeChange g s =
     SendRepeater_start ControlNetGranularity (Granularity_getRaw g) OnDoneRepeatingUpstream s"

definition IntraCliqueManager_doDownstreamCliqueSizeChange ::
  "net_granularity \<Rightarrow> 'a network_state_scheme \<Rightarrow> 'a network_state_scheme" where
  "IntraCliqueManager_doDownstreamCliqueSizeChange g s =
     SendRepeater_start MasterSync (Granularity_getRaw g) OnDoneGranularityWithAction
       (s\<lparr>rememberedGranularity := g\<rparr>)"

definition IntraCliqueManager_doUpstreamScatter :: "'a network_state_scheme \<Rightarrow> 'a network_state_scheme" where
  "IntraCliqueManager_doUpstreamScatter s =
     SendRepeater_start ControlScatterClique 1 OnDoneRepeatingUpstream s"

definition IntraCliqueManager_doDownstreamScatter :: "'a network_state_scheme \<Rightarrow> 'a network_state_scheme" where
  "IntraCliqueManager_doDownstreamScatter s = SendRepeater_start ControlScatterClique 1 OnDoneScatter s"

definition IntraCliqueManager_doUpstreamWorkTime ::
  "u32 \<Rightarrow> 'a network_state_scheme \<Rightarrow> 'a network_state_scheme" where
  "IntraCliqueManager_doUpstreamWorkTime clockAdvance s =
     SendRepeater_start ControlWorkTime (ucast clockAdvance) OnDoneRepeatingUpstream s"

definition IntraCliqueManager_doUpstreamWorkCycle ::
  "u32 \<Rightarrow> 'a network_state_scheme \<Rightarrow> 'a network_state_scheme" where
  "IntraCliqueManager_doUpstreamWorkCycle workCycle s =
     SendRepeater_start ControlWorkCycle (ucast workCycle) OnDoneRepeatingUpstream s"

definition IntraCliqueManager_currentMsgType :: "'a network_state_scheme \<Rightarrow> message_type" where
  "IntraCliqueManager_currentMsgType s = SendRepeater_currentMsgType s"

definition IntraCliqueManager_currentPayload :: "'a network_state_scheme \<Rightarrow> payload" where
  "IntraCliqueManager_currentPayload s = SendRepeater_currentPayload s"

definition IntraCliqueManager_shouldSendControlSync ::
  "platform \<Rightarrow> 'a network_state_scheme \<Rightarrow> bool \<times> 'a network_state_scheme" where
  "IntraCliqueManager_shouldSendControlSync P s =
     (if IntraCliqueManager_isActive s then SendRepeater_shouldSend P s else (False, s))"

section \<open>Reacting to control messages\<close>

definition cancelAnyUpstreamingInProgress ::
  "platform \<Rightarrow> 'a network_state_scheme \<Rightarrow> 'a network_state_scheme" where
  "cancelAnyUpstreamingInProgress P s =
     (if \<not> Clique_isSelfMaster P s \<and> IntraCliqueManager_isActive s
      then IntraCliqueManager_abort s else s)"

definition NetworkTopology_masterTellCliqueGranularityChange ::
  "net_granularity \<Rightarrow> 'a network_state_scheme \<Rightarrow> 'a network_state_scheme" where
  "NetworkTopology_masterTellCliqueGranularityChange g s =
     IntraCliqueManager_doDownstreamCliqueSizeChange g s"

definition NetworkTopology_masterTellCliqueToScatter ::
  "'a network_state_scheme \<Rightarrow> 'a network_state_scheme" where
  "NetworkTopology_masterTellCliqueToScatter s = IntraCliqueManager_doDownstreamScatter s"

definition NetworkTopology_handleNetGranularityMessage ::
  "platform \<Rightarrow> sync_message \<Rightarrow> 'a network_state_scheme \<Rightarrow> 'a network_state_scheme" where
  "NetworkTopology_handleNetGranularityMessage P msg s =
     (let granularity = Granularity_getFromRaw (work msg)
      in if granularity = InvalidGranularity then s
         else if Clique_isMsgFromMyClique (msg_masterID msg) s then
           (if Clique_isSelfMaster P s
            then NetworkTopology_masterTellCliqueGranularityChange granularity s
            else cancelAnyUpstreamingInProgress P s)
         else s)"

definition NetworkTopology_handleScatterMessage ::
  "platform \<Rightarrow> sync_message \<Rightarrow> 'a network_state_scheme \<Rightarrow> 'a network_state_scheme option" where
  "NetworkTopology_handleScatterMessage P msg s =
     (if Clique_isMsgFromMyClique (msg_masterID msg) s then
        (if Clique_isSelfMaster P s
         then Some (NetworkTopology_masterTellCliqueToScatter s)
         else Scatter_scatter P (cancelAnyUpstreamingInProgress P s))
      else Some s)"

section \<open>Reacting to provisionings\<close>

definition NetTopologyProvisioner_handleNetGranularityProvisioning ::
  "platform \<Rightarrow> u32 \<Rightarrow> 'a network_state_scheme \<Rightarrow> 'a network_state_scheme" where
  "NetTopologyProvisioner_handleNetGranularityProvisioning P provisionedValue s =
     (let granularity = Granularity_getFromRaw (ucast provisionedValue)
      in if granularity = InvalidGranularity then s
         else if Clique_isSelfMaster P s
         then NetworkTopology_masterTellCliqueGranularityChange granularity s
         else IntraCliqueManager_doUpstreamCliqueSizeChange granularity s)"

definition NetTopologyProvisioner_handleScatterProvisioning ::
  "platform \<Rightarrow> u32 \<Rightarrow> 'a network_state_scheme \<Rightarrow> 'a network_state_scheme" where
  "NetTopologyProvisioner_handleScatterProvisioning P provisionedValue s =
     (if Clique_isSelfMaster P s then IntraCliqueManager_doDownstreamScatter s
      else IntraCliqueManager_doUpstreamScatter s)"

section \<open>Control of the app's work\<close>

definition isMsgForSelfAsMaster :: "platform \<Rightarrow> sync_message \<Rightarrow> 'a network_state_scheme \<Rightarrow> bool" where
  "isMsgForSelfAsMaster P msg s \<longleftrightarrow>
     Clique_isMsgFromMyClique (msg_masterID msg) s \<and> Clique_isSelfMaster P s"

text \<open>The app sets the callbacks; whether one is set is what the state keeps of it.\<close>

definition WorkControlProxy_setWorkTimeControlCallback ::
  "bool \<Rightarrow> 'a network_state_scheme \<Rightarrow> 'a network_state_scheme" where
  "WorkControlProxy_setWorkTimeControlCallback aCallback s = s\<lparr>workTimeCallbackIsSet := aCallback\<rparr>"

definition WorkControlProxy_setWorkCycleControlCallback ::
  "bool \<Rightarrow> 'a network_state_scheme \<Rightarrow> 'a network_state_scheme" where
  "WorkControlProxy_setWorkCycleControlCallback aCallback s = s\<lparr>workCycleCallbackIsSet := aCallback\<rparr>"

definition WorkControlProxy_getWorkTimeControlCallback :: "'a network_state_scheme \<Rightarrow> bool" where
  "WorkControlProxy_getWorkTimeControlCallback s = workTimeCallbackIsSet s"

definition WorkControlProxy_getWorkCycleControlCallback :: "'a network_state_scheme \<Rightarrow> bool" where
  "WorkControlProxy_getWorkCycleControlCallback s = workCycleCallbackIsSet s"

definition WorkControlProxy_callWorkTime :: "u32 \<Rightarrow> 'a network_state_scheme \<Rightarrow> 'a network_state_scheme option" where
  "WorkControlProxy_callWorkTime v s = do {
     require (workTimeCallbackIsSet s);
     Some (emit (AppWorkTime v) s)
   }"

definition WorkControlProxy_callWorkCycle :: "u32 \<Rightarrow> 'a network_state_scheme \<Rightarrow> 'a network_state_scheme option" where
  "WorkControlProxy_callWorkCycle v s = do {
     require (workCycleCallbackIsSet s);
     Some (emit (AppWorkCycle v) s)
   }"

definition WorkControlProxy_handleWorkTimeMessage ::
  "platform \<Rightarrow> sync_message \<Rightarrow> 'a network_state_scheme \<Rightarrow> 'a network_state_scheme option" where
  "WorkControlProxy_handleWorkTimeMessage P msg s =
     (if isMsgForSelfAsMaster P msg s then WorkControlProxy_callWorkTime (ucast (work msg)) s else Some s)"

definition WorkControlProxy_handleWorkCycleMessage ::
  "platform \<Rightarrow> sync_message \<Rightarrow> 'a network_state_scheme \<Rightarrow> 'a network_state_scheme option" where
  "WorkControlProxy_handleWorkCycleMessage P msg s =
     (if isMsgForSelfAsMaster P msg s then WorkControlProxy_callWorkCycle (ucast (work msg)) s else Some s)"

definition provisionWorkCycle :: "platform \<Rightarrow> u32 \<Rightarrow> 'a network_state_scheme \<Rightarrow> 'a network_state_scheme option" where
  "provisionWorkCycle P workCycle s =
     (if Clique_isSelfMaster P s then WorkControlProxy_callWorkCycle workCycle s
      else Some (IntraCliqueManager_doUpstreamWorkCycle workCycle s))"

text \<open>The converter is a function of the app; the pointer to it may be null.\<close>

definition provisionWorkTime :: "platform \<Rightarrow> u32 \<Rightarrow> 'a network_state_scheme \<Rightarrow> 'a network_state_scheme option" where
  "provisionWorkTime P periodsElapsed s = do {
     converter \<leftarrow> p_elapsedToAdvanceConverter P;
     let clockAdvance = converter periodsElapsed;
     (if Clique_isSelfMaster P s then WorkControlProxy_callWorkTime clockAdvance s
      else Some (IntraCliqueManager_doUpstreamWorkTime clockAdvance s))
   }"

section \<open>Work heard and work to send\<close>

definition WorkIn_resetState :: "'a network_state_scheme \<Rightarrow> 'a network_state_scheme" where
  "WorkIn_resetState s = s\<lparr>heardWork := False\<rparr>"

definition WorkIn_hearWork :: "'a network_state_scheme \<Rightarrow> 'a network_state_scheme" where
  "WorkIn_hearWork s = s\<lparr>heardWork := True\<rparr>"

definition WorkIn_isHeardWork :: "'a network_state_scheme \<Rightarrow> bool" where
  "WorkIn_isHeardWork s = heardWork s"

definition WorkOut_isNeedSendWork ::
  "platform \<Rightarrow> 'a platform_state_scheme \<Rightarrow> bool \<times> 'a platform_state_scheme" where
  "WorkOut_isNeedSendWork P s = Mailbox_isMail P s"

definition WorkOut_fetch :: "platform \<Rightarrow> 'a platform_state_scheme \<Rightarrow> payload \<times> 'a platform_state_scheme" where
  "WorkOut_fetch P s = Mailbox_fetch P s"

section \<open>An episode of repeating\<close>

text \<open>
  One sync slot in which the coin says to send: \<open>shouldSend\<close> counts, and the caller then checks
  whether the repeater is done.  The answer is whether the repeater is still active.
\<close>

definition repeat_slot :: "platform \<Rightarrow> 'a network_state_scheme \<Rightarrow> (bool \<times> 'a network_state_scheme) option" where
  "repeat_slot P s =
     (let (send, s) = SendRepeater_shouldSend P s
      in if send then do {
           s \<leftarrow> SendRepeater_checkDoneAndEnactControl P s;
           Some (\<not> repeaterIsActive s, s)
         } else Some (False, s))"

text \<open>The contract of an episode, for the action that cannot fail: that of a slave.\<close>

interpretation upstream_episode: episode
  "repeat_slot P"
  "\<lambda>s. repeaterIsActive s \<and> onDoneCallback s = OnDoneRepeatingUpstream \<and>
       \<not> Clique_isSelfMaster P s \<and> (\<forall>h. p_coinToss P h)"
  "\<lambda>s. unat (repeaterCounter s)" 4
  for P
proof unfold_locales
  fix s :: "'a network_state_scheme"
  assume v: "repeaterIsActive s \<and> onDoneCallback s = OnDoneRepeatingUpstream \<and>
      \<not> Clique_isSelfMaster P s \<and> (\<forall>h. p_coinToss P h)" and lt: "unat (repeaterCounter s) < 4"
  have "unat (repeaterCounter s + 1) = Suc (unat (repeaterCounter s))"
    using unat_add_u32 [of "repeaterCounter s" 1] lt by simp
  then show "\<exists>s'. repeat_slot P s = Some (False, s') \<and>
      (repeaterIsActive s' \<and> onDoneCallback s' = OnDoneRepeatingUpstream \<and>
       \<not> Clique_isSelfMaster P s' \<and> (\<forall>h. p_coinToss P h)) \<and>
      unat (repeaterCounter s') = Suc (unat (repeaterCounter s))"
    using v lt
    by (simp add: repeat_slot_def SendRepeater_shouldSend_def SendRepeater_isActive_def params
        SendRepeater_checkDoneAndEnactControl_def Random_coinToss_def word_less_nat_alt
        Clique_isSelfMaster_def emit_def Let_def)
next
  fix s :: "'a network_state_scheme"
  assume v: "repeaterIsActive s \<and> onDoneCallback s = OnDoneRepeatingUpstream \<and>
      \<not> Clique_isSelfMaster P s \<and> (\<forall>h. p_coinToss P h)" and eq: "unat (repeaterCounter s) = 4"
  have "unat (repeaterCounter s + 1) = 5"
    using unat_add_u32 [of "repeaterCounter s" 1] eq by simp
  then show "\<exists>s'. repeat_slot P s = Some (True, s')"
    using v
    by (simp add: repeat_slot_def SendRepeater_shouldSend_def SendRepeater_isActive_def params
        SendRepeater_checkDoneAndEnactControl_def Random_coinToss_def word_less_nat_alt
        onDoneRepeatingUpstream_def Clique_isSelfMaster_def emit_def Let_def)
qed

end
