(* ===== verification/Sender.thy ===== *)
theory Sender
  imports Network
begin

text \<open>
  Making and transmitting messages (\<open>src/message/messageFactory.h\<close>,
  \<open>src/modules/syncSender.cpp\<close>), and publishing provisionings to their subscribers
  (\<open>src/provisioning/provisioningPublisher.cpp\<close>, \<open>provisionerCallback.cpp\<close>).
\<close>

section \<open>Message factory\<close>

text \<open>The factory fills and returns its one message; the filled message is the result.  The
  work of a merge message (its low byte of the inferior master ID) is in theory \<open>Merger\<close>.\<close>

definition MessageFactory_initNonSyncMessage ::
  "message_type \<Rightarrow> system_id \<Rightarrow> payload \<Rightarrow> sync_message option" where
  "MessageFactory_initNonSyncMessage msgType aMasterID workPayload = do {
     delta \<leftarrow> DeltaSync_set 0;
     Some \<lparr>msg_type = msgType, deltaToNextSyncPoint = delta, msg_masterID = aMasterID, work = workPayload\<rparr>
   }"

definition MessageFactory_initAbandonMastershipMessage :: "system_id \<Rightarrow> sync_message option" where
  "MessageFactory_initAbandonMastershipMessage aMasterID = do {
     delta \<leftarrow> DeltaSync_set 0;
     Some \<lparr>msg_type = AbandonMastership, deltaToNextSyncPoint = delta, msg_masterID = aMasterID, work = 0\<rparr>
   }"

definition MessageFactory_initInfoMessage :: "system_id \<Rightarrow> payload \<Rightarrow> sync_message option" where
  "MessageFactory_initInfoMessage aMasterID workPayload =
     MessageFactory_initNonSyncMessage Info aMasterID workPayload"

definition MessageFactory_initSyncMessage ::
  "platform \<Rightarrow> message_type \<Rightarrow> payload \<Rightarrow> 'a network_state_scheme \<Rightarrow>
     (sync_message \<times> 'a network_state_scheme) option" where
  "MessageFactory_initSyncMessage P msgType workPayload s = do {
     require (SyncMessage_doesCarrySync msgType);
     let (offset, s) = SyncOffset_calculate P s;
     delta \<leftarrow> DeltaSync_set offset;
     Some (\<lparr>msg_type = msgType, deltaToNextSyncPoint = delta,
            msg_masterID = Clique_getMasterID s, work = workPayload\<rparr>, s)
   }"

section \<open>Sender\<close>

definition sendMessage :: "sync_message \<Rightarrow> 'a serializer_state_scheme \<Rightarrow> 'a serializer_state_scheme option" where
  "sendMessage msg s = do {
     s \<leftarrow> Serializer_serializeSyncMessageIntoRadioBuffer msg s;
     Some (emit (TransmitStatic (radioBuffer s)) s)
   }"

definition getMasterSyncPayload :: "'a network_state_scheme \<Rightarrow> payload" where
  "getMasterSyncPayload s = Granularity_getCliqueGranularityRaw s"

definition SyncSender_sendMasterSync :: "platform \<Rightarrow> 'a network_state_scheme \<Rightarrow> 'a network_state_scheme option" where
  "SyncSender_sendMasterSync P s = do {
     (msg, s) \<leftarrow> MessageFactory_initSyncMessage P MasterSync (getMasterSyncPayload s) s;
     sendMessage msg s
   }"

definition SyncSender_sendMergeSync :: "platform \<Rightarrow> 'a network_state_scheme \<Rightarrow> 'a network_state_scheme option" where
  "SyncSender_sendMergeSync P s = do {
     (msg, s) \<leftarrow> CliqueMerger_makeMergeMsg P s;
     sendMessage msg s
   }"

definition SyncSender_sendWorkSync ::
  "platform \<Rightarrow> payload \<Rightarrow> 'a network_state_scheme \<Rightarrow> 'a network_state_scheme option" where
  "SyncSender_sendWorkSync P workPayload s = do {
     (msg, s) \<leftarrow> MessageFactory_initSyncMessage P WorkSync workPayload s;
     sendMessage msg s
   }"

text \<open>The assertion names the function \<open>isSelfMaster\<close> without calling it: it is always true.\<close>

definition SyncSender_sendAbandonMastership :: "'a network_state_scheme \<Rightarrow> 'a network_state_scheme option" where
  "SyncSender_sendAbandonMastership s = do {
     require True;
     msg \<leftarrow> MessageFactory_initAbandonMastershipMessage (Clique_getMasterID s);
     sendMessage msg s
   }"

definition SyncSender_sendInfo :: "payload \<Rightarrow> 'a network_state_scheme \<Rightarrow> 'a network_state_scheme option" where
  "SyncSender_sendInfo workPayload s = do {
     msg \<leftarrow> MessageFactory_initInfoMessage (Clique_getMasterID s) workPayload;
     sendMessage msg s
   }"

definition SyncSender_sendControlSync :: "platform \<Rightarrow> 'a network_state_scheme \<Rightarrow> 'a network_state_scheme option" where
  "SyncSender_sendControlSync P s = do {
     (msg, s) \<leftarrow> MessageFactory_initSyncMessage P (IntraCliqueManager_currentMsgType s)
                    (IntraCliqueManager_currentPayload s) s;
     sendMessage msg s
   }"

section \<open>Provisioning\<close>

text \<open>The publisher casts a raw index to the enumeration, so other values than the enumerators
  can occur.\<close>

datatype provisionable_property =
    WorkTimeProperty
  | ScatterProperty
  | WorkCycleProperty
  | NetGranularityProperty
  | InvalidProperty
  | UnnamedProperty u32

definition ProvisioningPublisher_ppiFromRawPPI :: "u32 \<Rightarrow> provisionable_property" where
  "ProvisioningPublisher_ppiFromRawPPI index =
     (if index = 0 then WorkTimeProperty
      else if index = 1 then ScatterProperty
      else if index = 2 then WorkCycleProperty
      else if index = 3 then NetGranularityProperty
      else if index = 4 then InvalidProperty
      else UnnamedProperty index)"

fun raw_property_index :: "provisionable_property \<Rightarrow> u32" where
  "raw_property_index WorkTimeProperty = 0"
| "raw_property_index ScatterProperty = 1"
| "raw_property_index WorkCycleProperty = 2"
| "raw_property_index NetGranularityProperty = 3"
| "raw_property_index InvalidProperty = 4"
| "raw_property_index (UnnamedProperty index) = index"

datatype provision_callback =
    NoProvisionCallback
  | ProvisionWorkTime
  | ProvisionWorkCycle
  | HandleNetGranularityProvisioning
  | HandleScatterProvisioning

record provisioning_state = network_state +
  provisioningCallbacks :: "provision_callback list"

definition calculateElapsedSyncPeriods :: "u8 \<Rightarrow> u32" where
  "calculateElapsedSyncPeriods offsetTime =
     (let ticksElapsed = (10 * ucast offsetTime * TicksPerSecond) div 255
      in ticksElapsed div NormalSyncPeriodDuration)"

text \<open>The filter on signal strength is not implemented by the code.\<close>

definition shouldFilter :: "8 word \<Rightarrow> bool" where
  "shouldFilter rssi = False"

fun mangleProvisionedValue :: "provisionable_property \<Rightarrow> provisioned_value \<Rightarrow> u32 option" where
  "mangleProvisionedValue WorkTimeProperty v = Some (calculateElapsedSyncPeriods (pv_offset v))"
| "mangleProvisionedValue ScatterProperty v = Some (ucast (pv_value v))"
| "mangleProvisionedValue WorkCycleProperty v = Some (ucast (pv_value v))"
| "mangleProvisionedValue NetGranularityProperty v = Some (ucast (pv_value v))"
| "mangleProvisionedValue InvalidProperty v = None"
| "mangleProvisionedValue (UnnamedProperty _) v = None"

definition ProvisioningPublisher_subscribe ::
  "provisionable_property \<Rightarrow> provision_callback \<Rightarrow> 'a provisioning_state_scheme \<Rightarrow>
     'a provisioning_state_scheme option" where
  "ProvisioningPublisher_subscribe propertyIndex aCallback s = do {
     let rawPropertyIndex = raw_property_index propertyIndex;
     require (rawPropertyIndex < 4);
     Some (s\<lparr>provisioningCallbacks := (provisioningCallbacks s)[unat rawPropertyIndex := aCallback]\<rparr>)
   }"

fun call_provision_callback ::
  "platform \<Rightarrow> provision_callback \<Rightarrow> u32 \<Rightarrow> 'a provisioning_state_scheme \<Rightarrow>
     'a provisioning_state_scheme option" where
  "call_provision_callback P NoProvisionCallback v s = None"
| "call_provision_callback P ProvisionWorkTime v s = provisionWorkTime P v s"
| "call_provision_callback P ProvisionWorkCycle v s = provisionWorkCycle P v s"
| "call_provision_callback P HandleNetGranularityProvisioning v s =
     Some (NetTopologyProvisioner_handleNetGranularityProvisioning P v s)"
| "call_provision_callback P HandleScatterProvisioning v s =
     Some (NetTopologyProvisioner_handleScatterProvisioning P v s)"

definition ProvisioningPublisher_notify ::
  "platform \<Rightarrow> provisionable_property \<Rightarrow> provisioned_value \<Rightarrow> 8 word \<Rightarrow>
     'a provisioning_state_scheme \<Rightarrow> 'a provisioning_state_scheme option" where
  "ProvisioningPublisher_notify P propertyIndex provisionedValue rssi s =
     (let rawPropertyIndex = raw_property_index propertyIndex
      in if shouldFilter rssi then Some s
         else do {
           convertedValue \<leftarrow> mangleProvisionedValue propertyIndex provisionedValue;
           let callback = provisioningCallbacks s ! unat rawPropertyIndex;
           require (callback \<noteq> NoProvisionCallback);
           call_provision_callback P callback convertedValue s
         })"

definition NetTopologyProvisioner_subscribeToProvisionings ::
  "'a provisioning_state_scheme \<Rightarrow> 'a provisioning_state_scheme option" where
  "NetTopologyProvisioner_subscribeToProvisionings s = do {
     s \<leftarrow> ProvisioningPublisher_subscribe NetGranularityProperty HandleNetGranularityProvisioning s;
     ProvisioningPublisher_subscribe ScatterProperty HandleScatterProvisioning s
   }"

definition WorkProvisioner_subscribeToProvisionings ::
  "'a provisioning_state_scheme \<Rightarrow> 'a provisioning_state_scheme option" where
  "WorkProvisioner_subscribeToProvisionings s = do {
     s \<leftarrow> ProvisioningPublisher_subscribe WorkTimeProperty ProvisionWorkTime s;
     ProvisioningPublisher_subscribe WorkCycleProperty ProvisionWorkCycle s
   }"

section \<open>What is transmitted\<close>

lemma sendMessage_eq:
  "sendMessage msg s =
     (if radioBufferPtrIsSet s
      then Some (emit (TransmitStatic (packet_of msg (radioBuffer s)))
                   (s\<lparr>radioBuffer := packet_of msg (radioBuffer s)\<rparr>))
      else None)"
  by (simp add: sendMessage_def serialize_eq)

text \<open>A sync message can be made exactly when the offset to the next sync point fits a sync period.\<close>

lemma initSyncMessage_eq:
  "MessageFactory_initSyncMessage P t w s =
     (if SyncMessage_doesCarrySync t \<and> fst (SyncOffset_calculate P s) \<le> NormalSyncPeriodDuration
      then Some (\<lparr>msg_type = t, deltaToNextSyncPoint = fst (SyncOffset_calculate P s),
                  msg_masterID = masterID s, work = w\<rparr>, emit GetNowTime s)
      else None)"
proof -
  obtain d where d: "SyncOffset_calculate P s = (d, emit GetNowTime s)"
    using SyncOffset_calculate_snd by (metis prod.collapse)
  moreover have "masterID (emit GetNowTime s) = masterID s"
    by (simp add: emit_def)
  ultimately show ?thesis
    by (simp add: MessageFactory_initSyncMessage_def DeltaSync_set_eq Clique_getMasterID_def)
qed

lemma makeMergeMsg_shape:
  assumes "CliqueMerger_makeMergeMsg P s = Some (msg, s1)"
  shows "s1 = emit GetNowTime s" "msg_type msg = kindOfMerger s"
    "deltaToNextSyncPoint msg \<le> NormalSyncPeriodDuration"
  using assms
  by (auto simp: CliqueMerger_makeMergeMsg_def Schedule_deltaNowToNextUnadjustedSyncPoint_def
      clampedTimeDifferenceFromNow_def MessageFactory_initMergeSyncMessage_def DeltaSync_set_eq emit_def
      split: if_splits)

text \<open>The work control types do not carry sync, so sending what a slave repeats fails.\<close>

lemma sendControlSync_work_control_faults [faults]:
  assumes "repeaterMessageType s = ControlWorkTime \<or> repeaterMessageType s = ControlWorkCycle"
  shows "SyncSender_sendControlSync P s = None"
  using assms
  by (auto simp: SyncSender_sendControlSync_def initSyncMessage_eq IntraCliqueManager_currentMsgType_def
      SendRepeater_currentMsgType_def)

section \<open>Elapsed sync periods\<close>

text \<open>The product of the conversion does not wrap.\<close>

lemma calculateElapsedSyncPeriods_unat:
  "unat (calculateElapsedSyncPeriods b) = 10 * unat b * 32768 div 255 div 80000"
proof -
  have b: "unat b < 256"
    by (rule unat_u8_bound)
  have up: "unat (ucast b :: u32) = unat b"
    using b by (simp add: unsigned_ucast_eq take_bit_nat_eq_self)
  have "unat (327680 * ucast b :: u32) = 327680 * unat b"
    using b by (subst unat_mult_lem [THEN iffD1]) (simp_all add: up)
  then have "unat (calculateElapsedSyncPeriods b) = 327680 * unat b div 255 div 80000"
    by (simp add: calculateElapsedSyncPeriods_def params Let_def unat_div mult.commute)
  then show ?thesis
    by (simp add: mult.assoc mult.commute)
qed

end
