(* ===== verification/Handlers.thy ===== *)
theory Handlers
  imports Sender
begin

text \<open>
  What a unit does with a received message: \<open>src/modules/syncBehaviour.cpp\<close>,
  \<open>src/messageHandler/commonMessageHandler.cpp\<close>, \<open>syncSlotMsgHandler.cpp\<close>,
  \<open>fishSlotMsgHandler.cpp\<close>, \<open>deepFishingMessageHandler.cpp\<close>, \<open>messageDispatcher.cpp\<close> and
  \<open>src/receiver/receiver.cpp\<close>.  This theory holds the definitions; the facts are in
  \<open>Handling\<close>.
\<close>

section \<open>Sync behaviour\<close>

datatype handling_result =
    KeepListening
  | StopListeningHeardMasterSync
  | StopListeningHeardWorkSync
  | StopListeningHeardMergeSync
  | TimedOut

definition handleSuperiorOrSameSyncWhileMerging ::
  "sync_message \<Rightarrow> 'a network_state_scheme \<Rightarrow> 'a network_state_scheme option" where
  "handleSuperiorOrSameSyncWhileMerging msg s =
     (if Clique_isMsgFromMyClique (msg_masterID msg) s then Some s else SyncAgentImp_stopMerger s)"

definition SyncBehaviour_handleSuperiorOrSameSyncMsg ::
  "platform \<Rightarrow> sync_message \<Rightarrow> 'a network_state_scheme \<Rightarrow> 'a network_state_scheme option" where
  "SyncBehaviour_handleSuperiorOrSameSyncMsg P msg s = do {
     s \<leftarrow> Clique_updateBySyncMessage P msg s;
     (if MergerFisherRole_isMerger s then handleSuperiorOrSameSyncWhileMerging msg s else Some s)
   }"

definition SyncBehaviour_filterSyncMsg ::
  "platform \<Rightarrow> sync_message \<Rightarrow> 'a network_state_scheme \<Rightarrow> (bool \<times> 'a network_state_scheme) option" where
  "SyncBehaviour_filterSyncMsg P msg s = do {
     require (SyncMessage_doesCarrySync (msg_type msg));
     (if Clique_isMsgFromMyClique (msg_masterID msg) s then do {
        s \<leftarrow> SyncBehaviour_handleSuperiorOrSameSyncMsg P msg s;
        Some (True, Clique_heardSync P s)
      }
      else if Clique_isOtherCliqueBetter (msg_masterID msg) s then do {
        s \<leftarrow> SyncBehaviour_handleSuperiorOrSameSyncMsg P msg s;
        Some (True, Clique_heardSync P s)
      }
      else Some (False, s))
   }"

definition SyncBehaviour_shouldTransmitSync ::
  "platform \<Rightarrow> 'a network_state_scheme \<Rightarrow> bool \<times> 'a network_state_scheme" where
  "SyncBehaviour_shouldTransmitSync P s = Clique_shouldTransmitSync P s"

section \<open>Messages handled the same in every slot\<close>

definition CommonMessageHandler_handleInfoMessage ::
  "sync_message \<Rightarrow> 'a network_state_scheme \<Rightarrow> (handling_result \<times> 'a network_state_scheme) option" where
  "CommonMessageHandler_handleInfoMessage msg s = Some (KeepListening, s)"

definition CommonMessageHandler_handleControlMessageSetGranularity ::
  "platform \<Rightarrow> sync_message \<Rightarrow> 'a network_state_scheme \<Rightarrow>
     (handling_result \<times> 'a network_state_scheme) option" where
  "CommonMessageHandler_handleControlMessageSetGranularity P msg s =
     Some (KeepListening, NetworkTopology_handleNetGranularityMessage P msg s)"

definition CommonMessageHandler_handleControlMessageScatter ::
  "platform \<Rightarrow> sync_message \<Rightarrow> 'a network_state_scheme \<Rightarrow>
     (handling_result \<times> 'a network_state_scheme) option" where
  "CommonMessageHandler_handleControlMessageScatter P msg s = do {
     s \<leftarrow> NetworkTopology_handleScatterMessage P msg s;
     Some (KeepListening, s)
   }"

definition CommonMessageHandler_handleControlMessageWorkTime ::
  "platform \<Rightarrow> sync_message \<Rightarrow> 'a network_state_scheme \<Rightarrow>
     (handling_result \<times> 'a network_state_scheme) option" where
  "CommonMessageHandler_handleControlMessageWorkTime P msg s = do {
     s \<leftarrow> WorkControlProxy_handleWorkTimeMessage P msg s;
     Some (KeepListening, s)
   }"

definition CommonMessageHandler_handleControlMessageWorkCycle ::
  "platform \<Rightarrow> sync_message \<Rightarrow> 'a network_state_scheme \<Rightarrow>
     (handling_result \<times> 'a network_state_scheme) option" where
  "CommonMessageHandler_handleControlMessageWorkCycle P msg s = do {
     s \<leftarrow> WorkControlProxy_handleWorkCycleMessage P msg s;
     Some (KeepListening, s)
   }"

section \<open>Sync slot\<close>

text \<open>\<open>src/syncAgentImp/syncAgentToApp.cpp\<close>\<close>

definition SyncAgentImp_relayHeardWorkToApp :: "payload \<Rightarrow> 'a platform_state_scheme \<Rightarrow> 'a platform_state_scheme" where
  "SyncAgentImp_relayHeardWorkToApp w s = emit (AppWork w) s"

definition handleWorkAspectOfWorkCarryingMsg ::
  "sync_message \<Rightarrow> 'a network_state_scheme \<Rightarrow> 'a network_state_scheme" where
  "handleWorkAspectOfWorkCarryingMsg msg s =
     (if Clique_isMsgFromMyClique (msg_masterID msg) s
      then SyncAgentImp_relayHeardWorkToApp (work msg) (WorkIn_hearWork s)
      else s)"

definition handleSyncAspectOfSyncCarryingMsg ::
  "platform \<Rightarrow> sync_message \<Rightarrow> 'a network_state_scheme \<Rightarrow>
     (handling_result \<times> 'a network_state_scheme) option" where
  "handleSyncAspectOfSyncCarryingMsg P msg s = do {
     (heardSync, s) \<leftarrow> SyncBehaviour_filterSyncMsg P msg s;
     Some (if heardSync then StopListeningHeardMasterSync else KeepListening, s)
   }"

definition handleGranularityAspectOfMasterSync ::
  "sync_message \<Rightarrow> 'a network_state_scheme \<Rightarrow> 'a network_state_scheme" where
  "handleGranularityAspectOfMasterSync msg s =
     (let newGranularity = Granularity_getFromRaw (work msg)
      in if newGranularity \<noteq> Granularity_getCliqueGranularity s
         then Granularity_trySetGranularity newGranularity s else s)"

definition getFishingDeltaFromMergeMsg ::
  "platform \<Rightarrow> sync_message \<Rightarrow> 'a network_state_scheme \<Rightarrow> delta_time \<times> 'a network_state_scheme" where
  "getFishingDeltaFromMergeMsg P msg s =
     (let timeOfSyncPtOfMerge = Schedule_adjustedEventTimeFromMsg P msg s;
          (deltaNowToTimeOfSyncPtOfMerge, s) = clampedTimeDifferenceFromNow P timeOfSyncPtOfMerge s;
          (past, s) = Schedule_deltaPastSyncPointToNow P s
      in (deltaNowToTimeOfSyncPtOfMerge + past, s))"

definition handleEnticingInferiorMessage ::
  "platform \<Rightarrow> sync_message \<Rightarrow> 'a network_state_scheme \<Rightarrow>
     (handling_result \<times> 'a network_state_scheme) option" where
  "handleEnticingInferiorMessage P msg s =
     (let (delta, s) = getFishingDeltaFromMergeMsg P msg s
      in Some (KeepListening, FishingManager_switchToDeepFishing delta EndWithNoAction s))"

definition handleMasterMergedAwayMessage ::
  "platform \<Rightarrow> sync_message \<Rightarrow> 'a network_state_scheme \<Rightarrow>
     (handling_result \<times> 'a network_state_scheme) option" where
  "handleMasterMergedAwayMessage P msg s =
     (let (delta, s) = getFishingDeltaFromMergeMsg P msg s
      in Some (KeepListening, FishingManager_switchToDeepFishing delta EndWithRecoverMaster s))"

definition handleSlaveMergedAwayMessage ::
  "platform \<Rightarrow> sync_message \<Rightarrow> 'a network_state_scheme \<Rightarrow>
     (handling_result \<times> 'a network_state_scheme) option" where
  "handleSlaveMergedAwayMessage P msg s =
     (let (delta, s) = getFishingDeltaFromMergeMsg P msg s
      in Some (KeepListening, FishingManager_switchToDeepFishing delta EndWithNoAction s))"

definition SyncSlotMessageHandler_handleMasterSyncMessage ::
  "platform \<Rightarrow> sync_message \<Rightarrow> 'a network_state_scheme \<Rightarrow>
     (handling_result \<times> 'a network_state_scheme) option" where
  "SyncSlotMessageHandler_handleMasterSyncMessage P msg s =
     handleSyncAspectOfSyncCarryingMsg P msg (handleGranularityAspectOfMasterSync msg s)"

definition SyncSlotMessageHandler_handleWorkSyncMessage ::
  "platform \<Rightarrow> sync_message \<Rightarrow> 'a network_state_scheme \<Rightarrow>
     (handling_result \<times> 'a network_state_scheme) option" where
  "SyncSlotMessageHandler_handleWorkSyncMessage P msg s =
     handleSyncAspectOfSyncCarryingMsg P msg (handleWorkAspectOfWorkCarryingMsg msg s)"

definition SyncSlotMessageHandler_handleAbandonMastershipMessage ::
  "platform \<Rightarrow> sync_message \<Rightarrow> 'a network_state_scheme \<Rightarrow>
     (handling_result \<times> 'a network_state_scheme) option" where
  "SyncSlotMessageHandler_handleAbandonMastershipMessage P msg s =
     Some (KeepListening, Clique_assumeMastership P s)"

definition countMergeSync :: "(handling_result \<times> 'a network_state_scheme) option \<Rightarrow>
    (handling_result \<times> 'a network_state_scheme) option" where
  "countMergeSync r = do {
     (result, s) \<leftarrow> r;
     Some (result, s\<lparr>countMergeSyncHeard := countMergeSyncHeard s + 1\<rparr>)
   }"

definition SyncSlotMessageHandler_handle ::
  "platform \<Rightarrow> sync_message \<Rightarrow> 'a network_state_scheme \<Rightarrow>
     (handling_result \<times> 'a network_state_scheme) option" where
  "SyncSlotMessageHandler_handle P msg s =
     (case msg_type msg of
        MasterSync \<Rightarrow> SyncSlotMessageHandler_handleMasterSyncMessage P msg s
      | MergeOther \<Rightarrow> countMergeSync (handleEnticingInferiorMessage P msg s)
      | MergeMyMasterDepart \<Rightarrow> countMergeSync (handleMasterMergedAwayMessage P msg s)
      | MergeMySlaveDepart \<Rightarrow> countMergeSync (handleSlaveMergedAwayMessage P msg s)
      | WorkSync \<Rightarrow> SyncSlotMessageHandler_handleWorkSyncMessage P msg s
      | AbandonMastership \<Rightarrow> SyncSlotMessageHandler_handleAbandonMastershipMessage P msg s
      | Info \<Rightarrow> CommonMessageHandler_handleInfoMessage msg s
      | ControlNetGranularity \<Rightarrow> CommonMessageHandler_handleControlMessageSetGranularity P msg s
      | ControlScatterClique \<Rightarrow> CommonMessageHandler_handleControlMessageScatter P msg s
      | ControlWorkTime \<Rightarrow> CommonMessageHandler_handleControlMessageWorkTime P msg s
      | ControlWorkCycle \<Rightarrow> CommonMessageHandler_handleControlMessageWorkCycle P msg s
      | Invalid \<Rightarrow> Some (KeepListening, s))"

section \<open>Fish slot\<close>

definition handleCatchFromDeepFishing ::
  "platform \<Rightarrow> sync_message \<Rightarrow> 'a network_state_scheme \<Rightarrow>
     (handling_result \<times> 'a network_state_scheme) option" where
  "handleCatchFromDeepFishing P msg s = do {
     require (SyncMessage_doesCarrySync (msg_type msg));
     (if Clique_isOtherCliqueBetter (msg_masterID msg) s then do {
        s \<leftarrow> Clique_updateBySyncMessage P msg s;
        Some (StopListeningHeardMasterSync, FishingManager_switchToTrolling s)
      } else Some (KeepListening, s))
   }"

definition doFishedSyncMsg ::
  "platform \<Rightarrow> sync_message \<Rightarrow> 'a network_state_scheme \<Rightarrow>
     (handling_result \<times> 'a network_state_scheme) option" where
  "doFishedSyncMsg P msg s =
     (case FishingManager_mode s of
        Trolling \<Rightarrow> do {
          s \<leftarrow> SyncAgentImp_toMergerFromFisher P msg s;
          Some (StopListeningHeardMasterSync, s)
        }
      | DeepFishing \<Rightarrow> handleCatchFromDeepFishing P msg s)"

definition FishSlotMessageHandler_handleMasterSyncMessage ::
  "platform \<Rightarrow> sync_message \<Rightarrow> 'a network_state_scheme \<Rightarrow>
     (handling_result \<times> 'a network_state_scheme) option" where
  "FishSlotMessageHandler_handleMasterSyncMessage P msg s = doFishedSyncMsg P msg s"

definition FishSlotMessageHandler_handleWorkSyncMessage ::
  "platform \<Rightarrow> sync_message \<Rightarrow> 'a network_state_scheme \<Rightarrow>
     (handling_result \<times> 'a network_state_scheme) option" where
  "FishSlotMessageHandler_handleWorkSyncMessage P msg s = do {
     (_, s) \<leftarrow> doFishedSyncMsg P msg s;
     Some (StopListeningHeardWorkSync, s)
   }"

definition FishSlotMessageHandler_handleMergeSyncMessage ::
  "sync_message \<Rightarrow> 'a network_state_scheme \<Rightarrow> (handling_result \<times> 'a network_state_scheme) option" where
  "FishSlotMessageHandler_handleMergeSyncMessage msg s = Some (StopListeningHeardMergeSync, s)"

definition FishSlotMessageHandler_handleAbandonMastershipMessage ::
  "sync_message \<Rightarrow> 'a network_state_scheme \<Rightarrow> (handling_result \<times> 'a network_state_scheme) option" where
  "FishSlotMessageHandler_handleAbandonMastershipMessage msg s = Some (KeepListening, s)"

definition FishSlotMessageHandler_handle ::
  "platform \<Rightarrow> sync_message \<Rightarrow> 'a network_state_scheme \<Rightarrow>
     (handling_result \<times> 'a network_state_scheme) option" where
  "FishSlotMessageHandler_handle P msg s =
     (case msg_type msg of
        MasterSync \<Rightarrow> FishSlotMessageHandler_handleMasterSyncMessage P msg s
      | WorkSync \<Rightarrow> FishSlotMessageHandler_handleWorkSyncMessage P msg s
      | MergeMyMasterDepart \<Rightarrow> FishSlotMessageHandler_handleMergeSyncMessage msg s
      | MergeMySlaveDepart \<Rightarrow> FishSlotMessageHandler_handleMergeSyncMessage msg s
      | MergeOther \<Rightarrow> FishSlotMessageHandler_handleMergeSyncMessage msg s
      | AbandonMastership \<Rightarrow> FishSlotMessageHandler_handleAbandonMastershipMessage msg s
      | Info \<Rightarrow> CommonMessageHandler_handleInfoMessage msg s
      | ControlNetGranularity \<Rightarrow> Some (KeepListening, s)
      | ControlScatterClique \<Rightarrow> Some (KeepListening, s)
      | ControlWorkTime \<Rightarrow> Some (KeepListening, s)
      | ControlWorkCycle \<Rightarrow> Some (KeepListening, s)
      | Invalid \<Rightarrow> Some (KeepListening, s))"

section \<open>Dispatch\<close>

text \<open>The handler the receiver was started with; the code stores a function pointer.\<close>

datatype message_handler = NoHandler | SyncSlotHandler | FishSlotHandler

record receiver_state = provisioning_state +
  handler :: message_handler

fun call_handler ::
  "platform \<Rightarrow> message_handler \<Rightarrow> sync_message \<Rightarrow> 'a receiver_state_scheme \<Rightarrow>
     (handling_result \<times> 'a receiver_state_scheme) option" where
  "call_handler P NoHandler msg s = None"
| "call_handler P SyncSlotHandler msg s = SyncSlotMessageHandler_handle P msg s"
| "call_handler P FishSlotHandler msg s = FishSlotMessageHandler_handle P msg s"

definition handleValidMessageAndSetContinuation ::
  "platform \<Rightarrow> message_handler \<Rightarrow> sync_message \<Rightarrow> 'a receiver_state_scheme \<Rightarrow>
     (handling_result \<times> 'a receiver_state_scheme) option" where
  "handleValidMessageAndSetContinuation P h msg s = do {
     (handlingResult, s) \<leftarrow> call_handler P h msg s;
     (if handlingResult \<noteq> KeepListening then do {
        require (\<not> Ensemble_isRadioInUse P s);
        Some (handlingResult, s)
      } else Some (handlingResult, emit StartReceiving s))
   }"

definition MessageDispatcher_dispatch ::
  "platform \<Rightarrow> message_handler \<Rightarrow> 'a receiver_state_scheme \<Rightarrow>
     (handling_result \<times> 'a receiver_state_scheme) option" where
  "MessageDispatcher_dispatch P h s =
     (if Ensemble_isPacketCRCValid P s then do {
        received \<leftarrow> Serializer_unserialize s;
        (case received of
           Some msg \<Rightarrow> handleValidMessageAndSetContinuation P h msg s
         | None \<Rightarrow> Some (KeepListening, emit StartReceiving s))
      } else Some (KeepListening, emit StartReceiving s))"

definition Receiver_onMsgReceived :: "platform \<Rightarrow> 'a receiver_state_scheme \<Rightarrow> 'a receiver_state_scheme option" where
  "Receiver_onMsgReceived P s = do {
     (_, s) \<leftarrow> MessageDispatcher_dispatch P (handler s) s;
     Some s
   }"

definition Receiver_startWithHandler :: "message_handler \<Rightarrow> 'a receiver_state_scheme \<Rightarrow> 'a receiver_state_scheme" where
  "Receiver_startWithHandler h s = emit ReceiveStatic (s\<lparr>handler := h\<rparr>)"

definition Receiver_stop :: "'a platform_state_scheme \<Rightarrow> 'a platform_state_scheme" where
  "Receiver_stop s = emit StopReceive s"

end
