(* ===== verification/Handling.thy ===== *)
theory Handling
  imports Handlers
begin

text \<open>
  Facts on the handling of messages: the invariant of the unit, that every handler of either slot
  keeps it (the locale \<open>slot_handler\<close>, interpreted on both), and what a sync message
  does to the mastership of the unit.
\<close>

section \<open>The invariant of the unit\<close>

definition master_inv :: "platform \<Rightarrow> 'a network_state_scheme \<Rightarrow> bool" where
  "master_inv P s \<longleftrightarrow> masterID s \<le> p_systemID P"

definition merge_policy_inv :: "'a network_state_scheme \<Rightarrow> bool" where
  "merge_policy_inv s \<longleftrightarrow> 0 \<le> countSentMergeSyncs s \<and> countSentMergeSyncs s \<le> 6"

definition deep_inv :: "'a network_state_scheme \<Rightarrow> bool" where
  "deep_inv s \<longleftrightarrow> (fishingMode s = DeepFishing \<longrightarrow> fishPolicyDoneCallback s \<noteq> NullCallback)"

definition repeater_inv :: "'a network_state_scheme \<Rightarrow> bool" where
  "repeater_inv s \<longleftrightarrow> (repeaterIsActive s \<longrightarrow> onDoneCallback s \<noteq> NoRepeatCallback)"

text \<open>The mode for provisioning is used only with the softdevice.\<close>

definition provision_inv :: "platform \<Rightarrow> 'a network_state_scheme \<Rightarrow> bool" where
  "provision_inv P s \<longleftrightarrow> (syncMode s = SyncAndProvision \<longrightarrow> p_softdevicePresent P)"

definition unit_inv :: "platform \<Rightarrow> 'a network_state_scheme \<Rightarrow> bool" where
  "unit_inv P s \<longleftrightarrow>
     schedule_inv s \<and> history_inv P s \<and> dropout_inv s \<and> merge_policy_inv s \<and>
     master_inv P s \<and> trolling_inv s \<and> deep_inv s \<and> role_inv s \<and> repeater_inv s \<and>
     provision_inv P s"

lemmas inv_parts =
  schedule_inv_def history_inv_def dropout_inv_def merge_policy_inv_def master_inv_def
  trolling_inv_def session_slots_def deep_inv_def role_inv_def merge_time_inv_def repeater_inv_def provision_inv_def

lemmas unit_inv_parts = unit_inv_def inv_parts

text \<open>What the fields of the invariant are: an operation that leaves these alone keeps it.\<close>

lemma unit_inv_emit [simp]: "unit_inv P (emit e s) = unit_inv P s"
  by (simp add: unit_inv_parts emit_def)

section \<open>Operations that keep the invariant\<close>

lemma updateMastership_shape:
  obtains r i where "Clique_updateMastership m s = s\<lparr>masterID := m, cliqueRecords := r, currentCliqueIndex := i\<rparr>"
proof -
  define u where "u = Clique_updateMastership m s"
  have "u = s\<lparr>masterID := m, cliqueRecords := cliqueRecords u, currentCliqueIndex := currentCliqueIndex u\<rparr>"
    by (simp add: u_def Clique_updateMastership_def CliqueHistory_add_def Let_def)
  then show thesis
    using that by (simp add: u_def)
qed

lemma updateBySyncMessage_unit_inv:
  assumes "unit_inv P s" "msg_masterID msg \<le> p_systemID P"
    and "Clique_updateBySyncMessage P msg s = Some s'"
  shows "unit_inv P s'"
proof -
  obtain t where t: "s' = (Clique_updateMastership (msg_masterID msg) s)
      \<lparr>isAdvancedStage := True, endTimeOfSyncPeriod := t\<rparr>"
    using assms(3) by (rule updateBySyncMessage_SomeD)
  have h: "history_inv P (Clique_updateMastership (msg_masterID msg) s)"
    using assms(1) by (intro updateMastership_history) (simp add: unit_inv_def)
  obtain r i where shape: "Clique_updateMastership (msg_masterID msg) s =
      s\<lparr>masterID := msg_masterID msg, cliqueRecords := r, currentCliqueIndex := i\<rparr>"
    by (rule updateMastership_shape)
  have "schedule_inv s'"
    using updateBySyncMessage_inv assms by (auto simp: unit_inv_def)
  moreover have "history_inv P s'"
    using h by (simp add: t history_inv_def)
  ultimately show ?thesis
    using assms(1,2) by (simp add: unit_inv_parts t shape)
qed

lemma grabMastership_unit_inv:
  assumes "unit_inv P s" "Clique_grabMastership P s = Some s'"
  shows "unit_inv P s'"
proof -
  have "trolling_inv s"
    using assms(1) by (simp add: unit_inv_def)
  from grabMastership_total [OF this, of P] assms(2) have "trolling_inv s'"
    by auto
  moreover have "SyncRecoveryTrollingPolicy_restart
      (Clique_resetTransmitSyncPolicy (Clique_setSelfMastership P s)) = Some s'"
    using assms(2) by (simp add: Clique_grabMastership_def FishingManager_restartTrollingMode_def)
  from restart_frame [OF this] obtain u w k e where
    "s' = (Clique_resetTransmitSyncPolicy (Clique_setSelfMastership P s))\<lparr>upCounter := u,
      downCounter := w, currentStartSlotOrdinal := k, currentEndSlotOrdinal := e, direction := True\<rparr>"
    by blast
  ultimately show ?thesis
    using assms(1) by (simp add: unit_inv_parts Clique_resetTransmitSyncPolicy_def
        Clique_setSelfMastership_def xmit_policy_defs emit_def)
qed

lemma adjustWithRandomAddedTime_unit_inv:
  assumes "unit_inv P s" "Schedule_adjustWithRandomAddedTime P s = Some s'"
  shows "unit_inv P s'"
proof -
  let ?s1 = "emit (RandomUnsignedInt 0 NormalSyncPeriodDuration) s"
  obtain t where "Schedule_adjust t ?s1 = Some s'"
    using assms(2) by (auto simp: Schedule_adjustWithRandomAddedTime_def Random_unsignedInt_def)
  moreover from this have "s' = ?s1\<lparr>endTimeOfSyncPeriod := t\<rparr>"
    by (rule adjust_Some_sel)
  moreover have "unit_inv P ?s1"
    using assms(1) by simp
  ultimately show ?thesis
    using adjust_inv [of ?s1 t s'] by (simp add: unit_inv_parts)
qed

lemma scatterSync_unit_inv:
  assumes "unit_inv P s" "Clique_scatterSync P s = Some s'"
  shows "unit_inv P s'"
  using assms(2) unfolding Clique_scatterSync_def
  by (elim bind_SomeE) (blast intro: assms(1) grabMastership_unit_inv adjustWithRandomAddedTime_unit_inv)

lemma assumeMastership_unit_inv:
  "unit_inv P s \<Longrightarrow> unit_inv P (Clique_assumeMastership P s)"
  by (simp add: unit_inv_parts Clique_assumeMastership_def Clique_setSelfMastership_def)

lemma heardSync_unit_inv: "unit_inv P s \<Longrightarrow> unit_inv P (Clique_heardSync P s)"
  by (simp add: unit_inv_parts Clique_heardSync_def DropoutMonitor_heardSync_def DropoutMonitor_reset_def
      xmit_policy_defs emit_def Let_def)

lemma stopMerger_unit_inv:
  assumes "unit_inv P s" "mergerRole s \<noteq> NoFishing" "SyncAgentImp_stopMerger s = Some s'"
  shows "unit_inv P s'"
proof -
  have "s' = s\<lparr>countSentMergeSyncs := 0, mergerRole := Fisher, mergerActive := False\<rparr>"
    using assms(3) by (simp add: role_defs MergePolicy_restart_def)
  then show ?thesis
    using assms(1,2) by (simp add: unit_inv_parts)
qed

lemma trySetGranularity_unit_inv:
  "unit_inv P s \<Longrightarrow> unit_inv P (Granularity_trySetGranularity g s)"
  by (simp add: unit_inv_parts Granularity_trySetGranularity_def emit_def)

lemma SendRepeater_start_unit_inv:
  "unit_inv P s \<Longrightarrow> cb \<noteq> NoRepeatCallback \<Longrightarrow> unit_inv P (SendRepeater_start t v cb s)"
  by (simp add: unit_inv_parts SendRepeater_start_def)

lemma SendRepeater_stop_unit_inv: "unit_inv P s \<Longrightarrow> unit_inv P (SendRepeater_stop s)"
  by (simp add: unit_inv_parts SendRepeater_stop_def)

lemma switchToDeepFishing_unit_inv:
  "unit_inv P s \<Longrightarrow> cb \<noteq> NullCallback \<Longrightarrow> unit_inv P (FishingManager_switchToDeepFishing d cb s)"
  by (simp add: unit_inv_parts FishingManager_switchToDeepFishing_def DeepFishingPolicy_restart_def)

lemma switchToTrolling_unit_inv: "unit_inv P s \<Longrightarrow> unit_inv P (FishingManager_switchToTrolling s)"
  by (simp add: unit_inv_parts FishingManager_switchToTrolling_def)

lemma switchToDeepFishing_simps [simp]:
  "unit_inv P (s\<lparr>countMergeSyncHeard := n\<rparr>) = unit_inv P s"
  "unit_inv P (s\<lparr>heardWork := b\<rparr>) = unit_inv P s"
  "unit_inv P (s\<lparr>rememberedGranularity := g\<rparr>) = unit_inv P s"
  by (simp_all add: unit_inv_parts)

lemma cancelAnyUpstreaming_unit_inv:
  "unit_inv P s \<Longrightarrow> unit_inv P (cancelAnyUpstreamingInProgress P s)"
  by (simp add: cancelAnyUpstreamingInProgress_def IntraCliqueManager_abort_def SendRepeater_stop_unit_inv)

lemma handleNetGranularity_unit_inv:
  "unit_inv P s \<Longrightarrow> unit_inv P (NetworkTopology_handleNetGranularityMessage P msg s)"
  by (simp add: NetworkTopology_handleNetGranularityMessage_def cancelAnyUpstreaming_unit_inv
      NetworkTopology_masterTellCliqueGranularityChange_def SendRepeater_start_unit_inv
      IntraCliqueManager_doDownstreamCliqueSizeChange_def Let_def)

lemma handleScatterMessage_unit_inv:
  assumes "unit_inv P s" "NetworkTopology_handleScatterMessage P msg s = Some s'"
  shows "unit_inv P s'"
  using assms scatterSync_unit_inv [OF cancelAnyUpstreaming_unit_inv]
  by (auto simp: NetworkTopology_handleScatterMessage_def NetworkTopology_masterTellCliqueToScatter_def
      IntraCliqueManager_doDownstreamScatter_def Scatter_scatter_def
      intro: SendRepeater_start_unit_inv split: if_splits)

lemma handleWork_unit_inv:
  assumes "unit_inv P s"
  shows "WorkControlProxy_handleWorkTimeMessage P msg s = Some s' \<Longrightarrow> unit_inv P s'"
    and "WorkControlProxy_handleWorkCycleMessage P msg s = Some s' \<Longrightarrow> unit_inv P s'"
  using assms
  by (auto simp: WorkControlProxy_handleWorkTimeMessage_def WorkControlProxy_handleWorkCycleMessage_def
      WorkControlProxy_callWorkTime_def WorkControlProxy_callWorkCycle_def split: if_splits)

section \<open>Sync messages\<close>

lemma updateBySyncMessage_role:
  assumes "Clique_updateBySyncMessage P msg s = Some s'"
  shows "mergerRole s' = mergerRole s" "syncMode s' = syncMode s"
    "startTimeOfSyncPeriod s' = startTimeOfSyncPeriod s"
proof -
  obtain t where t: "s' = (Clique_updateMastership (msg_masterID msg) s)
      \<lparr>isAdvancedStage := True, endTimeOfSyncPeriod := t\<rparr>"
    using assms by (rule updateBySyncMessage_SomeD)
  obtain r i where "Clique_updateMastership (msg_masterID msg) s =
      s\<lparr>masterID := msg_masterID msg, cliqueRecords := r, currentCliqueIndex := i\<rparr>"
    by (rule updateMastership_shape)
  then show "mergerRole s' = mergerRole s" "syncMode s' = syncMode s"
    "startTimeOfSyncPeriod s' = startTimeOfSyncPeriod s"
    by (simp_all add: t)
qed

lemma handleSuperiorOrSame_inv:
  assumes "unit_inv P s" "msg_masterID msg \<le> p_systemID P"
    and "SyncBehaviour_handleSuperiorOrSameSyncMsg P msg s = Some s'"
  shows "unit_inv P s'" "masterID s' = msg_masterID msg"
proof -
  obtain s1 where s1: "Clique_updateBySyncMessage P msg s = Some s1"
    "(if MergerFisherRole_isMerger s1 then handleSuperiorOrSameSyncWhileMerging msg s1 else Some s1) = Some s'"
    using assms(3) unfolding SyncBehaviour_handleSuperiorOrSameSyncMsg_def by (elim bind_SomeE)
  have "unit_inv P s1" "masterID s1 = msg_masterID msg"
    using updateBySyncMessage_unit_inv [OF assms(1,2) s1(1)] updateBySyncMessage_masterID [OF s1(1)]
    by simp_all
  moreover from this have "s' = s1"
    using s1(2) by (auto simp: handleSuperiorOrSameSyncWhileMerging_def Clique_isMsgFromMyClique_def
        split: if_splits)
  ultimately show "unit_inv P s'" "masterID s' = msg_masterID msg"
    by simp_all
qed

lemma heardSync_masterID [simp]: "masterID (Clique_heardSync P s) = masterID s"
  by (simp add: Clique_heardSync_def DropoutMonitor_heardSync_def DropoutMonitor_reset_def
      xmit_policy_defs emit_def Let_def)

text \<open>The master after a sync message is the better of the two.\<close>

lemma filterSyncMsg_inv:
  assumes "unit_inv P s" "SyncBehaviour_filterSyncMsg P msg s = Some (kept, s')"
  shows "unit_inv P s'" "masterID s' = min (masterID s) (msg_masterID msg)"
    "kept \<longleftrightarrow> msg_masterID msg \<le> masterID s"
proof -
  have own: "masterID s \<le> p_systemID P"
    using assms(1) by (simp add: unit_inv_def master_inv_def)
  have "unit_inv P s' \<and> masterID s' = min (masterID s) (msg_masterID msg) \<and>
      (kept \<longleftrightarrow> msg_masterID msg \<le> masterID s)"
  proof (cases "msg_masterID msg \<le> masterID s")
    case True
    then obtain s1 where s1: "SyncBehaviour_handleSuperiorOrSameSyncMsg P msg s = Some s1" "kept"
      "s' = Clique_heardSync P s1"
      using assms(2) by (auto simp: SyncBehaviour_filterSyncMsg_def Clique_isMsgFromMyClique_def
          Clique_isOtherCliqueBetter_def elim!: bind_SomeE split: if_splits)
    have "msg_masterID msg \<le> p_systemID P"
      using True own by simp
    from handleSuperiorOrSame_inv [OF assms(1) this s1(1)] show ?thesis
      using s1 True heardSync_unit_inv by (simp add: min_def)
  next
    case False
    then show ?thesis
      using assms by (auto simp: SyncBehaviour_filterSyncMsg_def Clique_isMsgFromMyClique_def
          Clique_isOtherCliqueBetter_def min_def split: if_splits)
  qed
  then show "unit_inv P s'" "masterID s' = min (masterID s) (msg_masterID msg)"
    "kept \<longleftrightarrow> msg_masterID msg \<le> masterID s"
    by simp_all
qed

lemma handleSyncAspect_unit_inv:
  assumes "unit_inv P s" "handleSyncAspectOfSyncCarryingMsg P msg s = Some (r, s')"
  shows "unit_inv P s'"
  using assms(2) filterSyncMsg_inv(1) [OF assms(1)] unfolding handleSyncAspectOfSyncCarryingMsg_def
  by (auto elim!: bind_case_prod_SomeE)

section \<open>Handlers\<close>

text \<open>
  What the dispatcher relies on, for the handler of either slot: a handler that returns keeps the
  invariant, and asks to go on listening for every message that does not concern the unit.
\<close>

locale slot_handler =
  fixes handle :: "platform \<Rightarrow> sync_message \<Rightarrow> 's \<Rightarrow> (handling_result \<times> 's) option"
    and inv :: "platform \<Rightarrow> 's \<Rightarrow> bool"
  assumes handle_inv: "inv P s \<Longrightarrow> handle P msg s = Some (r, s') \<Longrightarrow> inv P s'"
    and handle_invalid: "msg_type msg = Invalid \<Longrightarrow> handle P msg s = Some (KeepListening, s)"
begin

text \<open>A sequence of messages, each handled in turn.\<close>

lemma handle_all_inv:
  assumes "inv P s" "foldl (\<lambda>st msg. Option.bind st (\<lambda>s. map_option snd (handle P msg s))) (Some s) msgs = Some s'"
  shows "inv P s'"
  using assms
proof (induction msgs arbitrary: s)
  case Nil
  then show ?case by simp
next
  case (Cons m ms)
  have none: "foldl (\<lambda>st msg. Option.bind st (\<lambda>s. map_option snd (handle P msg s))) None ms = None"
    by (induction ms) simp_all
  show ?case
  proof (cases "handle P m s")
    case None
    then show ?thesis
      using Cons.prems(2) none by simp
  next
    case (Some p)
    then obtain r s1 where p: "handle P m s = Some (r, s1)"
      by (cases p) simp
    then show ?thesis
      using Cons.IH [of s1] handle_inv [OF Cons.prems(1) p] Cons.prems(2) by simp
  qed
qed

end

lemma getFishingDelta_unit_inv [simp]:
  "unit_inv P (snd (getFishingDeltaFromMergeMsg P msg s)) = unit_inv P s"
  by (simp add: getFishingDeltaFromMergeMsg_def clampedTimeDifferenceFromNow_def
      Schedule_deltaPastSyncPointToNow_def clampedTimeDifferenceToNow_def Let_def)

lemma merge_messages_unit_inv:
  assumes "unit_inv P s"
  shows "countMergeSync (handleEnticingInferiorMessage P msg s) = Some (r, s') \<Longrightarrow> unit_inv P s'"
    and "countMergeSync (handleMasterMergedAwayMessage P msg s) = Some (r, s') \<Longrightarrow> unit_inv P s'"
    and "countMergeSync (handleSlaveMergedAwayMessage P msg s) = Some (r, s') \<Longrightarrow> unit_inv P s'"
proof -
  obtain d s1 where d: "getFishingDeltaFromMergeMsg P msg s = (d, s1)"
    by fastforce
  then have "unit_inv P s1"
    using assms getFishingDelta_unit_inv [of P msg s] by simp
  then show "countMergeSync (handleEnticingInferiorMessage P msg s) = Some (r, s') \<Longrightarrow> unit_inv P s'"
    "countMergeSync (handleMasterMergedAwayMessage P msg s) = Some (r, s') \<Longrightarrow> unit_inv P s'"
    "countMergeSync (handleSlaveMergedAwayMessage P msg s) = Some (r, s') \<Longrightarrow> unit_inv P s'"
    by (auto simp: countMergeSync_def handleEnticingInferiorMessage_def handleMasterMergedAwayMessage_def
        handleSlaveMergedAwayMessage_def d intro: switchToDeepFishing_unit_inv)
qed

lemma sync_slot_handle_inv:
  assumes "unit_inv P s" "SyncSlotMessageHandler_handle P msg s = Some (r, s')"
  shows "unit_inv P s'"
proof -
  have granularity: "unit_inv P (handleGranularityAspectOfMasterSync msg s)"
    using assms(1) by (simp add: handleGranularityAspectOfMasterSync_def trySetGranularity_unit_inv Let_def)
  have work: "unit_inv P (handleWorkAspectOfWorkCarryingMsg msg s)"
    using assms(1) by (simp add: handleWorkAspectOfWorkCarryingMsg_def SyncAgentImp_relayHeardWorkToApp_def
        WorkIn_hearWork_def)
  show ?thesis
    using assms(2) handleSyncAspect_unit_inv [OF granularity] handleSyncAspect_unit_inv [OF work]
      merge_messages_unit_inv [OF assms(1)] assumeMastership_unit_inv [OF assms(1)]
      handleNetGranularity_unit_inv [OF assms(1)] handleScatterMessage_unit_inv [OF assms(1)]
      handleWork_unit_inv [OF assms(1)] assms(1)
    unfolding SyncSlotMessageHandler_handle_def
    by (cases "msg_type msg")
      (auto simp: SyncSlotMessageHandler_handleMasterSyncMessage_def
        SyncSlotMessageHandler_handleWorkSyncMessage_def CommonMessageHandler_handleInfoMessage_def
        SyncSlotMessageHandler_handleAbandonMastershipMessage_def
        CommonMessageHandler_handleControlMessageSetGranularity_def
        CommonMessageHandler_handleControlMessageScatter_def
        CommonMessageHandler_handleControlMessageWorkTime_def
        CommonMessageHandler_handleControlMessageWorkCycle_def elim!: bind_SomeE)
qed

section \<open>Fishing\<close>

lemma updateBySyncMessage_shape:
  assumes "Clique_updateBySyncMessage P msg s = Some s'"
  obtains r i t where "s' = s\<lparr>masterID := msg_masterID msg, cliqueRecords := r, currentCliqueIndex := i,
      isAdvancedStage := True, endTimeOfSyncPeriod := t\<rparr>"
proof -
  obtain t where t: "s' = (Clique_updateMastership (msg_masterID msg) s)
      \<lparr>isAdvancedStage := True, endTimeOfSyncPeriod := t\<rparr>"
    using assms by (rule updateBySyncMessage_SomeD)
  obtain r i where "Clique_updateMastership (msg_masterID msg) s =
      s\<lparr>masterID := msg_masterID msg, cliqueRecords := r, currentCliqueIndex := i\<rparr>"
    by (rule updateMastership_shape)
  with t show thesis
    by (intro that [where r = r and i = i and t = t]) simp
qed

lemma updateBySyncMessage_history:
  assumes "history_inv P s" "Clique_updateBySyncMessage P msg s = Some s'"
  shows "history_inv P s'"
proof -
  obtain t where t: "s' = (Clique_updateMastership (msg_masterID msg) s)
      \<lparr>isAdvancedStage := True, endTimeOfSyncPeriod := t\<rparr>"
    using assms(2) by (rule updateBySyncMessage_SomeD)
  show ?thesis
    using updateMastership_history [OF assms(1), of "msg_masterID msg"] by (simp add: t history_inv_def)
qed

text \<open>Starting a merger, in both cases.\<close>

definition fished_other :: "platform \<Rightarrow> sync_message \<Rightarrow> 'a merger_state_scheme \<Rightarrow> 'a merger_state_scheme" where
  "fished_other P msg s = s\<lparr>mergerRole := Merger, mergerActive := True,
     periodTimeToMergeSlotStart := periodTimeToMergeOtherClique P s, kindOfMerger := MergeOther,
     superiorMasterID := masterID s, inferiorMasterID := msg_masterID msg\<rparr>"

lemma toMergerFromFisher_other:
  assumes "SyncMessage_doesCarrySync (msg_type msg)" "mergerRole s = Fisher" "fishingMode s = Trolling"
    and "masterID s \<le> msg_masterID msg"
  shows "SyncAgentImp_toMergerFromFisher P msg s = Some (fished_other P msg s)"
proof -
  have "periodTimeToMergeOtherClique P (s\<lparr>mergerRole := r\<rparr>) = periodTimeToMergeOtherClique P s" for r
    by (simp add: periodTimeToMergeOtherClique_def middleOfNextSyncSlotOfCatch_def nextSyncPointOfFisher_def
        SyncMessage_timeOfTransmittal_def Radio_timeOfArrival_def Schedule_timeOfNextSyncPoint_def)
  moreover have "\<not> msg_masterID msg < masterID s"
    using assms(4) by simp
  ultimately show ?thesis
    using assms(1-3) by (simp add: SyncAgentImp_toMergerFromFisher_def CliqueMerger_initFromMsg_def role_defs
        FishingManager_mode_def Clique_isOtherCliqueBetter_def initMergeOther_eq fished_other_def)
qed

lemma toMergerFromFisher_my:
  assumes "SyncMessage_doesCarrySync (msg_type msg)" "mergerRole s = Fisher" "fishingMode s = Trolling"
    and "msg_masterID msg < masterID s" "masterID s \<le> p_systemID P"
  shows "SyncAgentImp_toMergerFromFisher P msg s =
    map_option (\<lambda>s. s\<lparr>mergerActive := True\<rparr>)
      (Clique_updateBySyncMessage P msg (merging_my P msg (s\<lparr>mergerRole := Merger\<rparr>)))"
proof -
  have "msg_masterID msg \<noteq> p_systemID P"
    using assms(4,5) by simp
  then have my: "initMergeMyClique P msg r = Clique_updateBySyncMessage P msg (merging_my P msg r)"
    for r :: "'a merger_state_scheme"
    by (rule initMergeMy_eq)
  show ?thesis
  proof (cases "Clique_updateBySyncMessage P msg (merging_my P msg (s\<lparr>mergerRole := Merger\<rparr>))")
    case None
    then show ?thesis
      using assms by (simp add: SyncAgentImp_toMergerFromFisher_def CliqueMerger_initFromMsg_def role_defs
          FishingManager_mode_def Clique_isOtherCliqueBetter_def my)
  next
    case (Some s1)
    then have "mergerRole s1 = Merger"
      by (rule updateBySyncMessage_shape) (simp add: merging_my_def)
    then show ?thesis
      using assms Some by (simp add: SyncAgentImp_toMergerFromFisher_def CliqueMerger_initFromMsg_def
          role_defs FishingManager_mode_def Clique_isOtherCliqueBetter_def my)
  qed
qed

lemma toMergerFromFisher_unit_inv:
  assumes "unit_inv P s" "SyncAgentImp_toMergerFromFisher P msg s = Some s'"
  shows "unit_inv P s'"
proof -
  have pre: "SyncMessage_doesCarrySync (msg_type msg)" "mergerRole s = Fisher" "fishingMode s = Trolling"
    using assms(2) by (auto simp: SyncAgentImp_toMergerFromFisher_def CliqueMerger_initFromMsg_def
        FishingManager_mode_def role_defs split: if_splits)
  have own: "masterID s \<le> p_systemID P"
    using assms(1) by (simp add: unit_inv_def master_inv_def)
  show ?thesis
  proof (cases "msg_masterID msg < masterID s")
    case True
    define s0 where "s0 = merging_my P msg (s\<lparr>mergerRole := Merger\<rparr>)"
    obtain s1 where s1: "Clique_updateBySyncMessage P msg s0 = Some s1" "s' = s1\<lparr>mergerActive := True\<rparr>"
      using assms(2) toMergerFromFisher_my [OF pre True own] by (auto simp: s0_def)
    have "schedule_inv s0" "history_inv P s0"
      using assms(1) by (simp_all add: s0_def merging_my_def unit_inv_parts)
    then have "schedule_inv s1" "history_inv P s1"
      using updateBySyncMessage_inv updateBySyncMessage_history s1(1) by blast+
    moreover obtain r i t where "s1 = s0\<lparr>masterID := msg_masterID msg, cliqueRecords := r,
        currentCliqueIndex := i, isAdvancedStage := True, endTimeOfSyncPeriod := t\<rparr>"
      using s1(1) by (rule updateBySyncMessage_shape)
    ultimately show ?thesis
      using assms(1) own True pre periodTime_bounds(1,2) [of P "s\<lparr>mergerRole := Merger\<rparr>"]
      by (simp add: s1(2) s0_def merging_my_def unit_inv_parts)
  next
    case False
    then have "s' = fished_other P msg s"
      using assms(2) toMergerFromFisher_other [OF pre, of P] by simp
    then show ?thesis
      using assms(1) pre periodTime_bounds(3,4) [of P s] by (simp add: fished_other_def unit_inv_parts)
  qed
qed

lemma handleCatch_unit_inv:
  assumes "unit_inv P s" "handleCatchFromDeepFishing P msg s = Some (r, s')"
  shows "unit_inv P s'"
proof (cases "Clique_isOtherCliqueBetter (msg_masterID msg) s")
  case True
  then have "msg_masterID msg < masterID s" "masterID s \<le> p_systemID P"
    using assms(1) by (simp_all add: Clique_isOtherCliqueBetter_def unit_inv_def master_inv_def)
  then have "msg_masterID msg \<le> p_systemID P"
    by simp
  moreover obtain s1 where "Clique_updateBySyncMessage P msg s = Some s1"
    "s' = FishingManager_switchToTrolling s1"
    using assms(2) True by (auto simp: handleCatchFromDeepFishing_def split: if_splits elim!: bind_SomeE)
  ultimately show ?thesis
    using updateBySyncMessage_unit_inv [OF assms(1)] switchToTrolling_unit_inv by blast
next
  case False
  then show ?thesis
    using assms by (auto simp: handleCatchFromDeepFishing_def split: if_splits)
qed

lemma doFished_unit_inv:
  assumes "unit_inv P s" "doFishedSyncMsg P msg s = Some (r, s')"
  shows "unit_inv P s'"
  using assms(2) toMergerFromFisher_unit_inv [OF assms(1)] handleCatch_unit_inv [OF assms(1)]
  by (auto simp: doFishedSyncMsg_def split: fishing_mode.splits elim!: bind_SomeE)

lemma fish_slot_handle_inv:
  assumes "unit_inv P s" "FishSlotMessageHandler_handle P msg s = Some (r, s')"
  shows "unit_inv P s'"
  using assms(2) doFished_unit_inv [OF assms(1)] assms(1)
  unfolding FishSlotMessageHandler_handle_def
  by (cases "msg_type msg")
    (auto simp: FishSlotMessageHandler_handleMasterSyncMessage_def
      FishSlotMessageHandler_handleWorkSyncMessage_def FishSlotMessageHandler_handleMergeSyncMessage_def
      FishSlotMessageHandler_handleAbandonMastershipMessage_def CommonMessageHandler_handleInfoMessage_def
      elim!: bind_case_prod_SomeE)

interpretation sync_slot: slot_handler SyncSlotMessageHandler_handle unit_inv
proof unfold_locales
  fix P and s s' :: "'a network_state_scheme" and msg r
  show "unit_inv P s \<Longrightarrow> SyncSlotMessageHandler_handle P msg s = Some (r, s') \<Longrightarrow> unit_inv P s'"
    by (rule sync_slot_handle_inv)
  show "msg_type msg = Invalid \<Longrightarrow> SyncSlotMessageHandler_handle P msg s = Some (KeepListening, s)"
    by (simp add: SyncSlotMessageHandler_handle_def)
qed

interpretation fish_slot: slot_handler FishSlotMessageHandler_handle unit_inv
proof unfold_locales
  fix P and s s' :: "'a network_state_scheme" and msg r
  show "unit_inv P s \<Longrightarrow> FishSlotMessageHandler_handle P msg s = Some (r, s') \<Longrightarrow> unit_inv P s'"
    by (rule fish_slot_handle_inv)
  show "msg_type msg = Invalid \<Longrightarrow> FishSlotMessageHandler_handle P msg s = Some (KeepListening, s)"
    by (simp add: FishSlotMessageHandler_handle_def)
qed

section \<open>Dispatch\<close>

lemma call_handler_inv:
  assumes "unit_inv P s" "call_handler P h msg s = Some (r, s')"
  shows "unit_inv P s'"
  using assms sync_slot.handle_inv fish_slot.handle_inv by (cases h) auto

lemma dispatch_inv:
  assumes "unit_inv P s" "MessageDispatcher_dispatch P h s = Some (r, s')"
  shows "unit_inv P s'"
  using assms(2) call_handler_inv [OF assms(1)] assms(1)
  by (auto simp: MessageDispatcher_dispatch_def handleValidMessageAndSetContinuation_def
      elim!: bind_SomeE bind_case_prod_SomeE split: if_splits option.splits)

lemma onMsgReceived_inv:
  assumes "unit_inv P s" "Receiver_onMsgReceived P s = Some s'"
  shows "unit_inv P s'"
  using assms(2) dispatch_inv [OF assms(1)]
  by (auto simp: Receiver_onMsgReceived_def elim!: bind_case_prod_SomeE)

end
