(* ===== verification/Tasks.thy ===== *)
theory Tasks
  imports Handling
begin

text \<open>
  The run-to-completion tasks of the agent and how each schedules the next:
  \<open>src/schedule/radioPrelude.cpp\<close>, \<open>sleepDuration.cpp\<close>, \<open>syncSchedule.cpp\<close>,
  \<open>src/slots/sync/syncSlot.cpp\<close>, \<open>syncSlotProperty.cpp\<close>, \<open>src/slots/syncing/syncSlotStep.cpp\<close>,
  \<open>src/slots/fish/fishSlot.cpp\<close>, \<open>src/task\<close>, \<open>src/provisioning/provisionTask.cpp\<close>,
  \<open>provisionerCallback.cpp\<close> and the parts of \<open>src/syncAgentImp\<close> that start the agent.
\<close>

section \<open>State\<close>

datatype sync_slot_kind = KindSendControlSync | KindSendWorkSync | KindSendSync | KindListen

record agent_state = receiver_state +
  preludeIsStarted :: bool
  slotKind :: sync_slot_kind

section \<open>Radio prelude\<close>

definition RadioPrelude_doIt :: "'a agent_state_scheme \<Rightarrow> 'a agent_state_scheme" where
  "RadioPrelude_doIt s = (emit StartHFXO s)\<lparr>preludeIsStarted := True\<rparr>"

definition RadioPrelude_undo :: "'a agent_state_scheme \<Rightarrow> 'a agent_state_scheme" where
  "RadioPrelude_undo s = (emit StopHFXO s)\<lparr>preludeIsStarted := False\<rparr>"

definition RadioPrelude_isDone :: "'a agent_state_scheme \<Rightarrow> bool" where
  "RadioPrelude_isDone s = preludeIsStarted s"

definition RadioPrelude_shouldUndoAfterSyncing :: "'a agent_state_scheme \<Rightarrow> bool option" where
  "RadioPrelude_shouldUndoAfterSyncing s = do {
     require (RadioPrelude_isDone s);
     (case SyncModeManager_mode s of
        Maintain \<Rightarrow> None
      | SyncAndFishMerge \<Rightarrow>
          (case mergerRole s of
             Fisher \<Rightarrow> Some (\<not> FishingManager_isFishSlotStartSyncPeriod s)
           | Merger \<Rightarrow> Some (\<not> MergeSchedule_isMergerStartSyncPeriod s)
           | NoFishing \<Rightarrow> Some True)
      | SyncOnly \<Rightarrow> Some True
      | SyncAndProvision \<Rightarrow> Some False)
   }"

definition RadioPrelude_shouldUndoAfterFishing :: "'a agent_state_scheme \<Rightarrow> bool" where
  "RadioPrelude_shouldUndoAfterFishing s \<longleftrightarrow> \<not> FishingManager_isFishSlotEndSyncPeriod s"

definition RadioPrelude_shouldUndoAfterMerging :: "platform \<Rightarrow> 'a agent_state_scheme \<Rightarrow> bool" where
  "RadioPrelude_shouldUndoAfterMerging P s \<longleftrightarrow> \<not> MergeSchedule_isMergerEndSyncPeriod P s"

definition RadioPrelude_shouldUndoAfterProvisioning :: bool where
  "RadioPrelude_shouldUndoAfterProvisioning = True"

definition RadioPrelude_tryUndoAfterSyncing ::
  "'a agent_state_scheme \<Rightarrow> (bool \<times> 'a agent_state_scheme) option" where
  "RadioPrelude_tryUndoAfterSyncing s = do {
     result \<leftarrow> RadioPrelude_shouldUndoAfterSyncing s;
     Some (result, if result then RadioPrelude_undo s else s)
   }"

definition RadioPrelude_tryUndoAfterFishing :: "'a agent_state_scheme \<Rightarrow> bool \<times> 'a agent_state_scheme" where
  "RadioPrelude_tryUndoAfterFishing s =
     (let result = RadioPrelude_shouldUndoAfterFishing s
      in (result, if result then RadioPrelude_undo s else s))"

definition RadioPrelude_tryUndoAfterMerging ::
  "platform \<Rightarrow> 'a agent_state_scheme \<Rightarrow> bool \<times> 'a agent_state_scheme" where
  "RadioPrelude_tryUndoAfterMerging P s =
     (let result = RadioPrelude_shouldUndoAfterMerging P s
      in (result, if result then RadioPrelude_undo s else s))"

definition RadioPrelude_tryUndoAfterProvisioning :: "'a agent_state_scheme \<Rightarrow> bool \<times> 'a agent_state_scheme" where
  "RadioPrelude_tryUndoAfterProvisioning s =
     (let result = RadioPrelude_shouldUndoAfterProvisioning
      in (result, if result then RadioPrelude_undo s else s))"

section \<open>Durations\<close>

definition SleepDuration_powerCheckInterval :: delta_time where
  "SleepDuration_powerCheckInterval = TimeoutWaitingForSyncPowerSleeper"

definition SleepDuration_preludeTilNextTask :: delta_time where
  "SleepDuration_preludeTilNextTask = VirtualSlotDuration"

definition SleepDuration_nowTilSyncPoint ::
  "platform \<Rightarrow> 'a agent_state_scheme \<Rightarrow> delta_time \<times> 'a agent_state_scheme" where
  "SleepDuration_nowTilSyncPoint P s = Schedule_deltaNowToNextSyncPoint P s"

definition SleepDuration_nowTilFishStart ::
  "platform \<Rightarrow> 'a agent_state_scheme \<Rightarrow> delta_time \<times> 'a agent_state_scheme" where
  "SleepDuration_nowTilFishStart P s = FishSchedule_deltaToFishSessionStart P s"

definition SleepDuration_nowTilPreludeWSync ::
  "platform \<Rightarrow> 'a agent_state_scheme \<Rightarrow> (delta_time \<times> 'a agent_state_scheme) option" where
  "SleepDuration_nowTilPreludeWSync P s = do {
     let (d, s) = SleepDuration_nowTilSyncPoint P s;
     d \<leftarrow> p_deltaSubtraction P d SleepDuration_preludeTilNextTask;
     Some (d, s)
   }"

definition SleepDuration_nowTilPreludeWFish ::
  "platform \<Rightarrow> 'a agent_state_scheme \<Rightarrow> (delta_time \<times> 'a agent_state_scheme) option" where
  "SleepDuration_nowTilPreludeWFish P s = do {
     let (d, s) = SleepDuration_nowTilFishStart P s;
     d \<leftarrow> p_deltaSubtraction P d SleepDuration_preludeTilNextTask;
     Some (d, s)
   }"

section \<open>Scheduling the next task\<close>

definition SyncSchedule_checkPowerReserve :: "'a agent_state_scheme \<Rightarrow> 'a agent_state_scheme" where
  "SyncSchedule_checkPowerReserve s =
     TaskTimer_schedule CheckPowerReserve SleepDuration_powerCheckInterval s"

definition SyncSchedule_maintainSyncPeriodFromMaintainSyncPeriod ::
  "platform \<Rightarrow> 'a agent_state_scheme \<Rightarrow> 'a agent_state_scheme" where
  "SyncSchedule_maintainSyncPeriodFromMaintainSyncPeriod P s =
     (let (d, s) = SleepDuration_nowTilSyncPoint P s
      in TaskTimer_schedule StartSyncPeriodMaintain d s)"

definition SyncSchedule_initialSyncPeriod :: "platform \<Rightarrow> 'a agent_state_scheme \<Rightarrow> 'a agent_state_scheme" where
  "SyncSchedule_initialSyncPeriod P s = SyncSchedule_maintainSyncPeriodFromMaintainSyncPeriod P s"

definition SyncSchedule_maintainSyncPeriod :: "platform \<Rightarrow> 'a agent_state_scheme \<Rightarrow> 'a agent_state_scheme" where
  "SyncSchedule_maintainSyncPeriod P s = SyncSchedule_maintainSyncPeriodFromMaintainSyncPeriod P s"

definition SyncSchedule_radioPreludeTaskWSync ::
  "platform \<Rightarrow> 'a agent_state_scheme \<Rightarrow> 'a agent_state_scheme option" where
  "SyncSchedule_radioPreludeTaskWSync P s = do {
     (d, s) \<leftarrow> SleepDuration_nowTilPreludeWSync P s;
     Some (TaskTimer_schedule TheRadioPreludeTaskWSync d s)
   }"

definition SyncSchedule_syncSlotAfterSyncSlot ::
  "platform \<Rightarrow> 'a agent_state_scheme \<Rightarrow> 'a agent_state_scheme option" where
  "SyncSchedule_syncSlotAfterSyncSlot P s = do {
     require (\<not> RadioPrelude_isDone s);
     SyncSchedule_radioPreludeTaskWSync P s
   }"

definition SyncSchedule_startSyncSlotFromPreludeStart :: "'a agent_state_scheme \<Rightarrow> 'a agent_state_scheme" where
  "SyncSchedule_startSyncSlotFromPreludeStart s =
     TaskTimer_schedule StartSyncSlotAfterPrelude SleepDuration_preludeTilNextTask s"

definition SyncSchedule_startSyncSlotWithoutScheduledPrelude ::
  "platform \<Rightarrow> 'a agent_state_scheme \<Rightarrow> 'a agent_state_scheme" where
  "SyncSchedule_startSyncSlotWithoutScheduledPrelude P s =
     (let (d, s) = SleepDuration_nowTilSyncPoint P s
      in TaskTimer_schedule StartSyncSlotWithoutScheduledPrelude d s)"

definition SyncSchedule_syncSendTask :: "platform \<Rightarrow> 'a agent_state_scheme \<Rightarrow> 'a agent_state_scheme" where
  "SyncSchedule_syncSendTask P s =
     (let (d, s) = SyncSlotSchedule_deltaToThisSyncSlotMiddleSubslot P s
      in TaskTimer_schedule SendSync d s)"

definition SyncSchedule_syncSlotEndFromListen :: "platform \<Rightarrow> 'a agent_state_scheme \<Rightarrow> 'a agent_state_scheme" where
  "SyncSchedule_syncSlotEndFromListen P s =
     (let (d, s) = SyncSlotSchedule_deltaToThisSyncSlotEnd P s
      in TaskTimer_schedule EndSyncSlotListen d s)"

definition SyncSchedule_syncSlotEndFromSend :: "platform \<Rightarrow> 'a agent_state_scheme \<Rightarrow> 'a agent_state_scheme" where
  "SyncSchedule_syncSlotEndFromSend P s =
     (let (d, s) = SyncSlotSchedule_deltaToThisSyncSlotEnd P s
      in TaskTimer_schedule EndSyncSlotSend d s)"

definition SyncSchedule_omitNonsyncSlot :: "platform \<Rightarrow> 'a agent_state_scheme \<Rightarrow> 'a agent_state_scheme option" where
  "SyncSchedule_omitNonsyncSlot P s = SyncSchedule_syncSlotAfterSyncSlot P (RadioPrelude_undo s)"

definition SyncSchedule_radioPreludeTaskWFish ::
  "platform \<Rightarrow> 'a agent_state_scheme \<Rightarrow> 'a agent_state_scheme option" where
  "SyncSchedule_radioPreludeTaskWFish P s = do {
     (d, s) \<leftarrow> SleepDuration_nowTilPreludeWFish P s;
     Some (TaskTimer_schedule TheRadioPreludeTaskWFish d s)
   }"

definition SyncSchedule_startFishSlotFromPreludeStart :: "'a agent_state_scheme \<Rightarrow> 'a agent_state_scheme" where
  "SyncSchedule_startFishSlotFromPreludeStart s =
     TaskTimer_schedule FishSlotStart SleepDuration_preludeTilNextTask s"

definition SyncSchedule_fishSlotStart :: "platform \<Rightarrow> 'a agent_state_scheme \<Rightarrow> 'a agent_state_scheme option" where
  "SyncSchedule_fishSlotStart P s = do {
     require (RadioPrelude_isDone s);
     let (d, s) = SleepDuration_nowTilFishStart P s;
     Some (TaskTimer_schedule FishSlotStart d s)
   }"

definition SyncSchedule_fishing :: "platform \<Rightarrow> 'a agent_state_scheme \<Rightarrow> 'a agent_state_scheme option" where
  "SyncSchedule_fishing P s =
     (if RadioPrelude_isDone s then SyncSchedule_fishSlotStart P s
      else SyncSchedule_radioPreludeTaskWFish P s)"

definition SyncSchedule_fishSlotEnd :: "'a agent_state_scheme \<Rightarrow> 'a agent_state_scheme" where
  "SyncSchedule_fishSlotEnd s =
     TaskTimer_schedule FishSlotEnd (FishingManager_getFishSessionDurationTicks s) s"

definition SyncSchedule_syncSlotAfterFishSlot ::
  "platform \<Rightarrow> 'a agent_state_scheme \<Rightarrow> 'a agent_state_scheme option" where
  "SyncSchedule_syncSlotAfterFishSlot P s =
     (let (undone, s) = RadioPrelude_tryUndoAfterFishing s
      in if undone then do {
           require (\<not> RadioPrelude_isDone s);
           SyncSchedule_radioPreludeTaskWSync P s
         } else Some (SyncSchedule_startSyncSlotWithoutScheduledPrelude P s))"

definition SyncSchedule_merger :: "platform \<Rightarrow> 'a agent_state_scheme \<Rightarrow> 'a agent_state_scheme option" where
  "SyncSchedule_merger P s = do {
     (d, s) \<leftarrow> MergeSchedule_deltaToThisMergeStart P s;
     Some (TaskTimer_schedule MergerStartAndEnd d s)
   }"

definition SyncSchedule_syncSlotAfterMerging ::
  "platform \<Rightarrow> 'a agent_state_scheme \<Rightarrow> 'a agent_state_scheme option" where
  "SyncSchedule_syncSlotAfterMerging P s =
     (let (undone, s) = RadioPrelude_tryUndoAfterMerging P s
      in if undone then do {
           require (\<not> RadioPrelude_isDone s);
           SyncSchedule_radioPreludeTaskWSync P s
         } else Some (SyncSchedule_startSyncSlotWithoutScheduledPrelude P s))"

definition ProvisionSchedule_deltaToProvisionStart :: delta_time where
  "ProvisionSchedule_deltaToProvisionStart = 0"

definition ProvisionSchedule_deltaToProvisionEnd :: delta_time where
  "ProvisionSchedule_deltaToProvisionEnd = 0"

definition SyncSchedule_provisionStart :: "'a agent_state_scheme \<Rightarrow> 'a agent_state_scheme" where
  "SyncSchedule_provisionStart s = TaskTimer_schedule ProvisionStart ProvisionSchedule_deltaToProvisionStart s"

definition SyncSchedule_provisionEnd :: "'a agent_state_scheme \<Rightarrow> 'a agent_state_scheme" where
  "SyncSchedule_provisionEnd s = TaskTimer_schedule ProvisionEnd ProvisionSchedule_deltaToProvisionEnd s"

text \<open>After provisioning the code asks the question it asks after merging.\<close>

definition SyncSchedule_syncSlotAfterProvisioning ::
  "platform \<Rightarrow> 'a agent_state_scheme \<Rightarrow> 'a agent_state_scheme option" where
  "SyncSchedule_syncSlotAfterProvisioning P s =
     (let (undone, s) = RadioPrelude_tryUndoAfterMerging P s
      in if undone then do {
           require (\<not> RadioPrelude_isDone s);
           SyncSchedule_radioPreludeTaskWSync P s
         } else Some (SyncSchedule_startSyncSlotWithoutScheduledPrelude P s))"

section \<open>The sync slot\<close>

definition SyncAgentImp_callbackAppPreSync :: "'a platform_state_scheme \<Rightarrow> 'a platform_state_scheme" where
  "SyncAgentImp_callbackAppPreSync s = emit AppSyncPoint s"

definition SyncAgentImp_preludeToSyncPeriod ::
  "platform \<Rightarrow> 'a agent_state_scheme \<Rightarrow> 'a agent_state_scheme option" where
  "SyncAgentImp_preludeToSyncPeriod P s = do {
     let s = Schedule_rollPeriodForward s;
     require (\<not> Ensemble_isRadioInUse P s);
     Some (WorkIn_resetState s)
   }"

definition SyncSlot_bookkeepingAtStartSyncSlot ::
  "platform \<Rightarrow> 'a agent_state_scheme \<Rightarrow> 'a agent_state_scheme option" where
  "SyncSlot_bookkeepingAtStartSyncSlot P s = SyncAgentImp_preludeToSyncPeriod P s"

definition SyncSlot_bookkeepingAtPreludeToSyncSlot ::
  "platform \<Rightarrow> 'a agent_state_scheme \<Rightarrow> 'a agent_state_scheme option" where
  "SyncSlot_bookkeepingAtPreludeToSyncSlot P s = do {
     let s = SyncAgentImp_callbackAppPreSync s;
     let s = SyncModeManager_checkPowerAndTryModeTransitions P s;
     FishPowerMgr_manage P s
   }"

definition SyncSlot_beginListen :: "'a agent_state_scheme \<Rightarrow> 'a agent_state_scheme" where
  "SyncSlot_beginListen s = Receiver_startWithHandler SyncSlotHandler s"

definition SyncSlot_endListen :: "platform \<Rightarrow> 'a agent_state_scheme \<Rightarrow> 'a agent_state_scheme option" where
  "SyncSlot_endListen P s = do {
     let s = Receiver_stop s;
     (if \<not> Clique_isSelfMaster P s then Clique_checkMasterDroppedOut P s else Some s)
   }"

definition SyncSlotProperty_decideKind ::
  "platform \<Rightarrow> 'a agent_state_scheme \<Rightarrow> sync_slot_kind \<times> 'a agent_state_scheme" where
  "SyncSlotProperty_decideKind P s =
     (let (needXmitSync, s) = SyncBehaviour_shouldTransmitSync P s;
          (control, s) = IntraCliqueManager_shouldSendControlSync P s
      in if control then (KindSendControlSync, s)
         else let (mail, s) = WorkOut_isNeedSendWork P s
              in if mail then (KindSendWorkSync, s)
                 else if needXmitSync then (KindSendSync, s)
                 else (KindListen, s))"

definition SyncSlot_dispatchSyncSlotKind ::
  "platform \<Rightarrow> 'a agent_state_scheme \<Rightarrow> 'a agent_state_scheme option" where
  "SyncSlot_dispatchSyncSlotKind P s =
     (let (kind, s) = SyncSlotProperty_decideKind P s;
          s = s\<lparr>slotKind := kind\<rparr>
      in case kind of
           KindSendControlSync \<Rightarrow>
             IntraCliqueManager_checkDoneAndEnactControl P (SyncSchedule_syncSendTask P s)
         | KindSendWorkSync \<Rightarrow> Some (SyncSchedule_syncSendTask P s)
         | KindSendSync \<Rightarrow> Some (SyncSchedule_syncSendTask P s)
         | KindListen \<Rightarrow> Some (SyncSchedule_syncSlotEndFromListen P (SyncSlot_beginListen s)))"

definition SyncSlotStep_sendWorkSync :: "platform \<Rightarrow> 'a agent_state_scheme \<Rightarrow> 'a agent_state_scheme option" where
  "SyncSlotStep_sendWorkSync P s =
     (let (work, s) = WorkOut_fetch P s in SyncSender_sendWorkSync P work s)"

definition SyncSlotStep_sendSync :: "platform \<Rightarrow> 'a agent_state_scheme \<Rightarrow> 'a agent_state_scheme option" where
  "SyncSlotStep_sendSync P s = SyncSender_sendMasterSync P s"

definition SyncSlotStep_sendControlSync :: "platform \<Rightarrow> 'a agent_state_scheme \<Rightarrow> 'a agent_state_scheme option" where
  "SyncSlotStep_sendControlSync P s = SyncSender_sendControlSync P s"

definition FishSlot_beginListen :: "'a agent_state_scheme \<Rightarrow> 'a agent_state_scheme" where
  "FishSlot_beginListen s = Receiver_startWithHandler FishSlotHandler s"

definition FishSlot_endListen :: "'a agent_state_scheme \<Rightarrow> 'a agent_state_scheme" where
  "FishSlot_endListen s = Receiver_stop s"

section \<open>Tasks\<close>

definition SSTask_radioPrelude :: "'a agent_state_scheme \<Rightarrow> 'a agent_state_scheme" where
  "SSTask_radioPrelude s = RadioPrelude_doIt s"

definition theRadioPreludeTaskWSync :: "platform \<Rightarrow> 'a agent_state_scheme \<Rightarrow> 'a agent_state_scheme option" where
  "theRadioPreludeTaskWSync P s = do {
     let s = SyncSchedule_startSyncSlotFromPreludeStart s;
     let s = SSTask_radioPrelude s;
     SyncSlot_bookkeepingAtPreludeToSyncSlot P s
   }"

definition theRadioPreludeTaskWFish :: "'a agent_state_scheme \<Rightarrow> 'a agent_state_scheme option" where
  "theRadioPreludeTaskWFish s = do {
     let s = SyncSchedule_startFishSlotFromPreludeStart s;
     Some (SSTask_radioPrelude s)
   }"

definition SSTask_tryFishOrMerge :: "platform \<Rightarrow> 'a agent_state_scheme \<Rightarrow> 'a agent_state_scheme option" where
  "SSTask_tryFishOrMerge P s =
     (case mergerRole s of
        Merger \<Rightarrow>
          (let (should, s) = MergePolicy_shouldScheduleMerge P s
           in if should then SyncSchedule_merger P s else SyncSchedule_omitNonsyncSlot P s)
      | Fisher \<Rightarrow>
          (let (powered, s) = SyncPowerManager_isPowerForFishSlot P s
           in if powered then SyncSchedule_fishing P (FishSchedule_setStartAndEndTimes s)
              else SyncSchedule_omitNonsyncSlot P s)
      | NoFishing \<Rightarrow> SyncSchedule_omitNonsyncSlot P s)"

text \<open>In mode \<open>SyncAndProvision\<close> the call is compiled only with the softdevice.\<close>

definition scheduleNonSyncTask :: "platform \<Rightarrow> 'a agent_state_scheme \<Rightarrow> 'a agent_state_scheme option" where
  "scheduleNonSyncTask P s = do {
     s \<leftarrow> FishingManager_preFishing s;
     (_, s) \<leftarrow> RadioPrelude_tryUndoAfterSyncing s;
     (case SyncModeManager_mode s of
        SyncOnly \<Rightarrow> SyncSchedule_syncSlotAfterSyncSlot P s
      | SyncAndFishMerge \<Rightarrow> SSTask_tryFishOrMerge P s
      | SyncAndProvision \<Rightarrow>
          Some (if p_softdevicePresent P then SyncSchedule_provisionStart s else s)
      | Maintain \<Rightarrow> None)
   }"

definition SSTask_sendSync :: "platform \<Rightarrow> 'a agent_state_scheme \<Rightarrow> 'a agent_state_scheme option" where
  "SSTask_sendSync P s = do {
     s \<leftarrow> (case slotKind s of
             KindSendWorkSync \<Rightarrow> SyncSlotStep_sendWorkSync P s
           | KindSendSync \<Rightarrow> SyncSlotStep_sendSync P s
           | KindSendControlSync \<Rightarrow> SyncSlotStep_sendControlSync P s
           | KindListen \<Rightarrow> None);
     Some (SyncSchedule_syncSlotEndFromSend P s)
   }"

definition SSTask_endSyncSlotListen :: "platform \<Rightarrow> 'a agent_state_scheme \<Rightarrow> 'a agent_state_scheme option" where
  "SSTask_endSyncSlotListen P s = do {
     s \<leftarrow> SyncSlot_endListen P s;
     scheduleNonSyncTask P s
   }"

definition SSTask_endSyncSlotSend :: "platform \<Rightarrow> 'a agent_state_scheme \<Rightarrow> 'a agent_state_scheme option" where
  "SSTask_endSyncSlotSend P s = do {
     require (RadioPrelude_isDone s);
     scheduleNonSyncTask P s
   }"

definition SSTask_startSyncPeriodMaintain :: "platform \<Rightarrow> 'a agent_state_scheme \<Rightarrow> 'a agent_state_scheme option" where
  "SSTask_startSyncPeriodMaintain P s = do {
     require (\<not> RadioPrelude_isDone s);
     s \<leftarrow> SyncSlot_bookkeepingAtPreludeToSyncSlot P s;
     s \<leftarrow> SyncSlot_bookkeepingAtStartSyncSlot P s;
     (case SyncModeManager_mode s of
        Maintain \<Rightarrow> Some (SyncSchedule_maintainSyncPeriod P s)
      | SyncOnly \<Rightarrow> SyncSchedule_radioPreludeTaskWSync P s
      | SyncAndFishMerge \<Rightarrow> SyncSchedule_radioPreludeTaskWSync P s
      | SyncAndProvision \<Rightarrow> SyncSchedule_radioPreludeTaskWSync P s)
   }"

definition SSTask_startSyncSlotAfterPrelude :: "platform \<Rightarrow> 'a agent_state_scheme \<Rightarrow> 'a agent_state_scheme option" where
  "SSTask_startSyncSlotAfterPrelude P s = do {
     require (RadioPrelude_isDone s);
     s \<leftarrow> SyncSlot_bookkeepingAtStartSyncSlot P s;
     (case SyncModeManager_mode s of
        Maintain \<Rightarrow> Some (RadioPrelude_undo (SyncSchedule_maintainSyncPeriod P s))
      | SyncOnly \<Rightarrow> SyncSlot_dispatchSyncSlotKind P s
      | SyncAndFishMerge \<Rightarrow> SyncSlot_dispatchSyncSlotKind P s
      | SyncAndProvision \<Rightarrow> SyncSlot_dispatchSyncSlotKind P s)
   }"

definition SSTask_startSyncSlotWithoutScheduledPrelude ::
  "platform \<Rightarrow> 'a agent_state_scheme \<Rightarrow> 'a agent_state_scheme option" where
  "SSTask_startSyncSlotWithoutScheduledPrelude P s = SSTask_startSyncSlotAfterPrelude P s"

definition SSTask_fishSlotStart :: "'a agent_state_scheme \<Rightarrow> 'a agent_state_scheme option" where
  "SSTask_fishSlotStart s = do {
     require (RadioPrelude_isDone s);
     let s = SyncSchedule_fishSlotEnd s;
     Some (FishSlot_beginListen s)
   }"

definition SSTask_fishSlotEnd :: "platform \<Rightarrow> 'a agent_state_scheme \<Rightarrow> 'a agent_state_scheme option" where
  "SSTask_fishSlotEnd P s = do {
     let s = FishSlot_endListen s;
     require (RadioPrelude_isDone s);
     s \<leftarrow> FishingManager_checkFishingDone P s;
     SyncSchedule_syncSlotAfterFishSlot P s
   }"

definition SSTask_mergerStartAndEnd :: "platform \<Rightarrow> 'a agent_state_scheme \<Rightarrow> 'a agent_state_scheme option" where
  "SSTask_mergerStartAndEnd P s = do {
     s \<leftarrow> SyncSender_sendMergeSync P s;
     (complete, s) \<leftarrow> MergePolicy_checkCompletionOfMergerRole s;
     s \<leftarrow> (if complete then SyncAgentImp_stopMerger s else Some s);
     SyncSchedule_syncSlotAfterMerging P s
   }"

definition SyncAgentImp_initEnsembleProtocol :: "'a platform_state_scheme \<Rightarrow> 'a platform_state_scheme" where
  "SyncAgentImp_initEnsembleProtocol s = emit SetRadioUseCase s"

definition SSTask_provisionEnd :: "platform \<Rightarrow> 'a agent_state_scheme \<Rightarrow> 'a agent_state_scheme option" where
  "SSTask_provisionEnd P s = do {
     let s = emit ProvisionerShutdown s;
     let s = SyncAgentImp_initEnsembleProtocol s;
     SyncSchedule_syncSlotAfterProvisioning P s
   }"

definition SSTask_provisionStart :: "platform \<Rightarrow> 'a agent_state_scheme \<Rightarrow> 'a agent_state_scheme option" where
  "SSTask_provisionStart P s = do {
     require (RadioPrelude_isDone s);
     let (startedOK, s) = Provisioner_start P s;
     (if startedOK then Some s else SSTask_provisionEnd P s)
   }"

text \<open>Callbacks of the provisioner, in the context of its softdevice.\<close>

definition ProvisionerCallback_succeed ::
  "platform \<Rightarrow> provisioned_value \<Rightarrow> 8 word \<Rightarrow> 'a agent_state_scheme \<Rightarrow> 'a agent_state_scheme option" where
  "ProvisionerCallback_succeed P provision rssi s = do {
     let index = ProvisioningPublisher_ppiFromRawPPI (ucast (pv_index provision));
     s \<leftarrow> (if index \<noteq> InvalidProperty then ProvisioningPublisher_notify P index provision rssi s else Some s);
     Some (SyncSchedule_provisionEnd s)
   }"

definition ProvisionerCallback_fail :: "'a agent_state_scheme \<Rightarrow> 'a agent_state_scheme option" where
  "ProvisionerCallback_fail s = Some (SyncSchedule_provisionEnd s)"

section \<open>Starting the agent\<close>

definition SyncAgentImp_init :: "platform \<Rightarrow> 'a agent_state_scheme \<Rightarrow> 'a agent_state_scheme option" where
  "SyncAgentImp_init P s = do {
     let s = SyncModeManager_resetToModeMaintain s;
     let s = SyncAgentImp_initEnsembleProtocol s;
     s \<leftarrow> (if p_softdevicePresent P then do {
             s \<leftarrow> NetTopologyProvisioner_subscribeToProvisionings s;
             s \<leftarrow> WorkProvisioner_subscribeToProvisionings s;
             Some (emit ProvisionerInit s)
           } else Some s);
     let s = Serializer_init (of_nat FixedPayloadCount) s;
     s \<leftarrow> Clique_init P s;
     let s = CliqueHistory_init P s;
     let s = FishPowerMgr_init s;
     let s = s\<lparr>countMergeSyncHeard := 0\<rparr>;
     require (Clique_isSelfMaster P s);
     require (\<not> Ensemble_isRadioInUse P s);
     require (Ensemble_isConfigured P s);
     Some s
   }"

definition SyncAgentImp_preludeToLoop :: "platform \<Rightarrow> 'a agent_state_scheme \<Rightarrow> 'a agent_state_scheme option" where
  "SyncAgentImp_preludeToLoop P s = do {
     require (Clique_isSelfMaster P s);
     require (\<not> Ensemble_isRadioInUse P s);
     let s = SyncPowerManager_enterBrownoutDetectMode s;
     let s = SyncModeManager_resetToModeMaintain s;
     Some (Schedule_setEndTimeOfSyncPeriodToNow P s)
   }"

definition SyncAgentImp_scatter :: "platform \<Rightarrow> 'a agent_state_scheme \<Rightarrow> 'a agent_state_scheme option" where
  "SyncAgentImp_scatter P s = do {
     s \<leftarrow> Clique_scatterSync P s;
     let s = SyncModeManager_resetToModeMaintain s;
     Some (WorkIn_resetState s)
   }"

definition SSTask_checkPowerReserve :: "platform \<Rightarrow> 'a agent_state_scheme \<Rightarrow> 'a agent_state_scheme option" where
  "SSTask_checkPowerReserve P s =
     (let (powered, s) = SyncPowerManager_isPowerForStartLoop P s
      in if powered then do {
           let s = emit AppPowerReserve s;
           s \<leftarrow> SyncAgentImp_init P s;
           s \<leftarrow> SyncAgentImp_preludeToLoop P s;
           Some (SyncSchedule_initialSyncPeriod P s)
         } else Some (SyncSchedule_checkPowerReserve s))"

section \<open>Running a task\<close>

fun run_task :: "platform \<Rightarrow> task \<Rightarrow> 'a agent_state_scheme \<Rightarrow> 'a agent_state_scheme option" where
  "run_task P CheckPowerReserve s = SSTask_checkPowerReserve P s"
| "run_task P StartSyncPeriodMaintain s = SSTask_startSyncPeriodMaintain P s"
| "run_task P TheRadioPreludeTaskWSync s = theRadioPreludeTaskWSync P s"
| "run_task P TheRadioPreludeTaskWFish s = theRadioPreludeTaskWFish s"
| "run_task P StartSyncSlotAfterPrelude s = SSTask_startSyncSlotAfterPrelude P s"
| "run_task P StartSyncSlotWithoutScheduledPrelude s = SSTask_startSyncSlotWithoutScheduledPrelude P s"
| "run_task P SendSync s = SSTask_sendSync P s"
| "run_task P EndSyncSlotListen s = SSTask_endSyncSlotListen P s"
| "run_task P EndSyncSlotSend s = SSTask_endSyncSlotSend P s"
| "run_task P FishSlotStart s = SSTask_fishSlotStart s"
| "run_task P FishSlotEnd s = SSTask_fishSlotEnd P s"
| "run_task P MergerStartAndEnd s = SSTask_mergerStartAndEnd P s"
| "run_task P ProvisionStart s = SSTask_provisionStart P s"
| "run_task P ProvisionEnd s = SSTask_provisionEnd P s"

end
