(* ===== verification/PowerOn.thy ===== *)
theory PowerOn
  imports Tasks
begin

text \<open>
  The state of a unit at power on, before any code has run: the initial values of the file-scope
  variables the records model.  Variables without an initializer have static storage, so they
  are zero.  The enumerations without an initializer take the enumerator whose value is zero:
  \<open>Role::Merger\<close>, \<open>SyncSlotKind::sendSync\<close>.  Message types start at one, so a zero
  \<open>MessageType\<close> is none of them; \<open>Invalid\<close> stands for it, and both variables of that type
  are written before they are read.
\<close>

definition powered_on :: agent_state where
  "powered_on = \<lparr>
     io = [],
     timers = [],
     radioBuffer = replicate 11 0,
     radioBufferPtrIsSet = False,
     radioBufferSize = 0,
     startTimeOfSyncPeriod = 0,
     unadjustedEndTimeOfSyncPeriod = 0,
     endTimeOfSyncPeriod = 0,
     cliqueRecords = replicate 6 \<lparr>rec_masterID = 0, offsetToNextMastersSync = 0, countSlaves = 0\<rparr>,
     currentCliqueIndex = 0,
     countSyncSlotsWithoutSyncMsg = 0,
     isAdvancedStage = False,
     countSentMergeSyncs = 0,
     masterID = 0,
     dynamicFishSessionDurationInTicks = MinTrollingFishSessionDurationTicks,
     sessionDurationInSlots = 1,
     upCounter = FirstSlotOrdinalToFish,
     downCounter = LastSlotOrdinalShouldFish,
     currentStartSlotOrdinal = FirstSlotOrdinalToFish,
     currentEndSlotOrdinal = FirstSlotOrdinalToFish,
     direction = True,
     countFishings = 0,
     deltaSyncPointToSyncPointOfFishee = 0,
     fishPolicyDoneCallback = NullCallback,
     fishingMode = Trolling,
     memoStartTimeOfFishSlot = 0,
     memoEndTimeOfFishSlot = 0,
     isMaxFishing = False,
     mergerRole = Merger,
     mergerActive = False,
     periodTimeToMergeSlotStart = 0,
     superiorMasterID = 0,
     inferiorMasterID = 0,
     kindOfMerger = Invalid,
     syncMode = Maintain,
     provisionCounter = 0,
     cliqueGranularity = Large,
     rememberedGranularity = Small,
     repeaterIsActive = False,
     repeaterMessageType = Invalid,
     repeaterValue = 0,
     onDoneCallback = NoRepeatCallback,
     repeaterCounter = 0,
     heardWork = False,
     workTimeCallbackIsSet = False,
     workCycleCallbackIsSet = False,
     countMergeSyncHeard = 0,
     provisioningCallbacks = replicate 4 NoProvisionCallback,
     handler = NoHandler,
     preludeIsStarted = False,
     slotKind = KindSendSync\<rparr>"

text \<open>A unit in its sync period \<open>0 .. 80000\<close>, the state many witnesses start from.\<close>

definition sample_unit :: "system_id \<Rightarrow> system_id \<Rightarrow> agent_state" where
  "sample_unit self master = powered_on\<lparr>
     radioBufferPtrIsSet := True,
     unadjustedEndTimeOfSyncPeriod := 80000,
     endTimeOfSyncPeriod := 80000,
     cliqueRecords := (cliqueRecords powered_on)
       [0 := \<lparr>rec_masterID = self, offsetToNextMastersSync = 0, countSlaves = 0\<rparr>],
     masterID := master,
     mergerRole := NoFishing\<rparr>"

lemmas sample_defs = sample_unit_def powered_on_def

end
