(* ===== verification/Phases.thy ===== *)
theory Phases
  imports PowerOn
begin

text \<open>
  What the operations below the level of tasks leave alone: the tasks the timer holds, the mode, the
  radio's prelude, the kind of the sync slot, the receiver's handler and the start of the period.  The relation
  \<open>same_phase\<close> collects these fields; every handler of messages keeps the unit in its phase.
\<close>

definition same_phase :: "'a agent_state_scheme \<Rightarrow> 'a agent_state_scheme \<Rightarrow> bool" where
  "same_phase s s' \<longleftrightarrow>
     timers s' = timers s \<and> syncMode s' = syncMode s \<and> preludeIsStarted s' = preludeIsStarted s \<and>
     slotKind s' = slotKind s \<and> handler s' = handler s \<and>
     startTimeOfSyncPeriod s' = startTimeOfSyncPeriod s"

named_theorems phases "operations that keep the phase"

lemma same_phase_refl [simp]: "same_phase s s"
  by (simp add: same_phase_def)

lemma same_phase_trans [trans]: "same_phase s r \<Longrightarrow> same_phase r t \<Longrightarrow> same_phase s t"
  by (simp add: same_phase_def)

lemma same_phase_emit [simp]:
  "same_phase s (emit e r) = same_phase s r"
  "same_phase (emit e r) s = same_phase r s"
  by (auto simp: same_phase_def emit_def)

section \<open>Mastership and schedule\<close>

lemma updateBySyncMessage_phase [phases]:
  fixes s :: "'a agent_state_scheme"
  assumes "Clique_updateBySyncMessage P msg s = Some s'"
  shows "same_phase s s'"
  using assms by (rule updateBySyncMessage_shape) (simp add: same_phase_def)

lemma heardSync_phase [simp]:
  fixes s :: "'a agent_state_scheme"
  shows "same_phase s (Clique_heardSync P r) = same_phase s r"
  by (simp add: same_phase_def Clique_heardSync_def DropoutMonitor_heardSync_def DropoutMonitor_reset_def
      xmit_policy_defs emit_def Let_def)

lemma restart_phase [phases]:
  fixes s :: "'a agent_state_scheme"
  assumes "SyncRecoveryTrollingPolicy_restart s = Some s'"
  shows "same_phase s s'"
  using restart_frame [OF assms] by (auto simp: same_phase_def)

lemma grabMastership_phase [phases]:
  fixes s :: "'a agent_state_scheme"
  assumes "Clique_grabMastership P s = Some s'"
  shows "same_phase s s'"
proof -
  have "SyncRecoveryTrollingPolicy_restart
      (Clique_resetTransmitSyncPolicy (Clique_setSelfMastership P s)) = Some s'"
    using assms by (simp add: Clique_grabMastership_def FishingManager_restartTrollingMode_def)
  from restart_phase [OF this] show ?thesis
    by (simp add: same_phase_def Clique_resetTransmitSyncPolicy_def Clique_setSelfMastership_def
        xmit_policy_defs emit_def)
qed

lemma adjust_phase [phases]:
  fixes s :: "'a agent_state_scheme"
  assumes "Schedule_adjust t s = Some s'"
  shows "same_phase s s'"
  using adjust_Some_sel [OF assms] by (simp add: same_phase_def)

lemma scatterSync_phase [phases]:
  fixes s :: "'a agent_state_scheme"
  assumes "Clique_scatterSync P s = Some s'"
  shows "same_phase s s'"
proof -
  obtain s1 where "Clique_grabMastership P s = Some s1" "Schedule_adjustWithRandomAddedTime P s1 = Some s'"
    using assms unfolding Clique_scatterSync_def by (elim bind_SomeE)
  moreover from this obtain t where "Schedule_adjust t (emit (RandomUnsignedInt 0 NormalSyncPeriodDuration) s1) = Some s'"
    by (auto simp: Schedule_adjustWithRandomAddedTime_def Random_unsignedInt_def)
  ultimately show ?thesis
    using grabMastership_phase [of P s s1] adjust_phase [of _ "emit (RandomUnsignedInt 0 NormalSyncPeriodDuration) s1" s']
    by (auto intro: same_phase_trans)
qed

lemma updateMastership_phase [simp]:
  fixes s :: "'a agent_state_scheme"
  shows "same_phase s (Clique_updateMastership m s)"
  by (rule updateMastership_shape [of m s]) (simp add: same_phase_def)

lemma revertToFormerMaster_phase [phases]:
  fixes s :: "'a agent_state_scheme"
  assumes "Clique_revertToFormerMaster P s = Some s'"
  shows "same_phase s s'"
proof -
  obtain t s1 where t: "Schedule_adjust t (emit GetNowTime (Clique_updateMastership
      (CliqueHistory_currentCliqueRecordMasterID s) s)) = Some s1"
    "SyncRecoveryTrollingPolicy_restart s1 = Some s'"
    using assms by (auto simp: Clique_revertToFormerMaster_def adjustByCliqueHistoryOffset_eq
        FishingManager_restartTrollingMode_def elim!: bind_SomeE)
  show ?thesis
    using adjust_phase [OF t(1)] restart_phase [OF t(2)]
    by (auto intro: same_phase_trans same_phase_trans [OF updateMastership_phase])
qed

section \<open>Messages\<close>

lemma handleSuperiorOrSame_phase [phases]:
  fixes s :: "'a agent_state_scheme"
  assumes "SyncBehaviour_handleSuperiorOrSameSyncMsg P msg s = Some s'"
  shows "same_phase s s'"
proof -
  obtain s1 where s1: "Clique_updateBySyncMessage P msg s = Some s1"
    "(if MergerFisherRole_isMerger s1 then handleSuperiorOrSameSyncWhileMerging msg s1 else Some s1) = Some s'"
    using assms unfolding SyncBehaviour_handleSuperiorOrSameSyncMsg_def by (elim bind_SomeE)
  have "same_phase s s1"
    using s1(1) by (rule updateBySyncMessage_phase)
  then show ?thesis
    using s1(2) by (auto simp: same_phase_def handleSuperiorOrSameSyncWhileMerging_def role_defs
        MergePolicy_restart_def split: if_splits)
qed

lemma filterSyncMsg_phase [phases]:
  fixes s :: "'a agent_state_scheme"
  assumes "SyncBehaviour_filterSyncMsg P msg s = Some (kept, s')"
  shows "same_phase s s'"
  using assms handleSuperiorOrSame_phase
  by (auto simp: SyncBehaviour_filterSyncMsg_def split: if_splits elim!: bind_SomeE)

lemma control_phase [simp]:
  fixes s :: "'a agent_state_scheme"
  shows "same_phase s (Granularity_trySetGranularity g r) = same_phase s r"
    "same_phase s (SendRepeater_start t v cb r) = same_phase s r"
    "same_phase s (SendRepeater_stop r) = same_phase s r"
    "same_phase s (cancelAnyUpstreamingInProgress P r) = same_phase s r"
    "same_phase s (FishingManager_switchToDeepFishing d c r) = same_phase s r"
    "same_phase s (FishingManager_switchToTrolling r) = same_phase s r"
    "same_phase s (Clique_assumeMastership P r) = same_phase s r"
    "same_phase s (r\<lparr>heardWork := b\<rparr>) = same_phase s r"
    "same_phase s (r\<lparr>countMergeSyncHeard := n\<rparr>) = same_phase s r"
    "same_phase s (r\<lparr>rememberedGranularity := g\<rparr>) = same_phase s r"
  by (simp_all add: same_phase_def Granularity_trySetGranularity_def emit_def SendRepeater_start_def
      SendRepeater_stop_def cancelAnyUpstreamingInProgress_def IntraCliqueManager_abort_def
      FishingManager_switchToDeepFishing_def DeepFishingPolicy_restart_def FishingManager_switchToTrolling_def
      Clique_assumeMastership_def Clique_setSelfMastership_def)

lemma control_message_phase [phases]:
  fixes s :: "'a agent_state_scheme"
  shows "same_phase s (NetworkTopology_handleNetGranularityMessage P msg s)"
    and "NetworkTopology_handleScatterMessage P msg s = Some s' \<Longrightarrow> same_phase s s'"
    and "WorkControlProxy_handleWorkTimeMessage P msg s = Some s' \<Longrightarrow> same_phase s s'"
    and "WorkControlProxy_handleWorkCycleMessage P msg s = Some s' \<Longrightarrow> same_phase s s'"
proof -
  show "same_phase s (NetworkTopology_handleNetGranularityMessage P msg s)"
    by (simp add: NetworkTopology_handleNetGranularityMessage_def Let_def
        NetworkTopology_masterTellCliqueGranularityChange_def IntraCliqueManager_doDownstreamCliqueSizeChange_def)
  show "NetworkTopology_handleScatterMessage P msg s = Some s' \<Longrightarrow> same_phase s s'"
    using scatterSync_phase [of P "cancelAnyUpstreamingInProgress P s" s']
    by (auto simp: NetworkTopology_handleScatterMessage_def NetworkTopology_masterTellCliqueToScatter_def
        IntraCliqueManager_doDownstreamScatter_def Scatter_scatter_def
        intro: same_phase_trans [of s "cancelAnyUpstreamingInProgress P s"] split: if_splits)
  show "WorkControlProxy_handleWorkTimeMessage P msg s = Some s' \<Longrightarrow> same_phase s s'"
    "WorkControlProxy_handleWorkCycleMessage P msg s = Some s' \<Longrightarrow> same_phase s s'"
    by (auto simp: WorkControlProxy_handleWorkTimeMessage_def WorkControlProxy_handleWorkCycleMessage_def
        WorkControlProxy_callWorkTime_def WorkControlProxy_callWorkCycle_def split: if_splits)
qed

lemma merge_message_phase [phases]:
  fixes s :: "'a agent_state_scheme"
  shows "countMergeSync (handleEnticingInferiorMessage P msg s) = Some (r, s') \<Longrightarrow> same_phase s s'"
    and "countMergeSync (handleMasterMergedAwayMessage P msg s) = Some (r, s') \<Longrightarrow> same_phase s s'"
    and "countMergeSync (handleSlaveMergedAwayMessage P msg s) = Some (r, s') \<Longrightarrow> same_phase s s'"
  by (auto simp: countMergeSync_def handleEnticingInferiorMessage_def handleMasterMergedAwayMessage_def
      handleSlaveMergedAwayMessage_def getFishingDeltaFromMergeMsg_def clampedTimeDifferenceFromNow_def
      Schedule_deltaPastSyncPointToNow_def clampedTimeDifferenceToNow_def)

lemma sync_aspect_phase [phases]:
  fixes s :: "'a agent_state_scheme"
  assumes "handleSyncAspectOfSyncCarryingMsg P msg s = Some (r, s')"
  shows "same_phase s s'"
  using assms filterSyncMsg_phase unfolding handleSyncAspectOfSyncCarryingMsg_def
  by (auto elim!: bind_case_prod_SomeE)

lemma sync_slot_handle_phase [phases]:
  fixes s :: "'a agent_state_scheme"
  assumes "SyncSlotMessageHandler_handle P msg s = Some (r, s')"
  shows "same_phase s s'"
proof -
  have granularity: "same_phase s (handleGranularityAspectOfMasterSync msg s)"
    by (simp add: handleGranularityAspectOfMasterSync_def Let_def)
  have work: "same_phase s (handleWorkAspectOfWorkCarryingMsg msg s)"
    by (simp add: handleWorkAspectOfWorkCarryingMsg_def SyncAgentImp_relayHeardWorkToApp_def WorkIn_hearWork_def)
  show ?thesis
    using assms sync_aspect_phase [THEN same_phase_trans [OF granularity]]
      sync_aspect_phase [THEN same_phase_trans [OF work]] merge_message_phase control_message_phase
    unfolding SyncSlotMessageHandler_handle_def
    by (cases "msg_type msg")
      (auto simp: SyncSlotMessageHandler_handleMasterSyncMessage_def
        SyncSlotMessageHandler_handleWorkSyncMessage_def CommonMessageHandler_handleInfoMessage_def
        SyncSlotMessageHandler_handleAbandonMastershipMessage_def
        CommonMessageHandler_handleControlMessageSetGranularity_def
        CommonMessageHandler_handleControlMessageScatter_def
        CommonMessageHandler_handleControlMessageWorkTime_def
        CommonMessageHandler_handleControlMessageWorkCycle_def elim!: bind_SomeE)
qed

lemma initMerge_phase [phases]:
  fixes s :: "'a agent_state_scheme"
  shows "initMergeMyClique P msg s = Some s' \<Longrightarrow> same_phase s s'"
    and "initMergeOtherClique P msg s = Some s' \<Longrightarrow> same_phase s s'"
proof -
  show "same_phase s s'" if my: "initMergeMyClique P msg s = Some s'"
  proof -
    obtain r where "Clique_updateBySyncMessage P msg (merging_my P msg s) = Some r" "s' = r"
      using my by (auto simp: initMergeMyClique_def Clique_getMasterID_def merging_my_def Let_def
          Clique_isSelfMaster_def split: if_splits elim!: bind_SomeE)
    then show ?thesis
      using updateBySyncMessage_phase [of P msg "merging_my P msg s" r] by (simp add: same_phase_def merging_my_def)
  qed
  show "initMergeOtherClique P msg s = Some s' \<Longrightarrow> same_phase s s'"
    by (auto simp: initMergeOther_eq same_phase_def)
qed

lemma toMergerFromFisher_phase [phases]:
  fixes s :: "'a agent_state_scheme"
  assumes "SyncAgentImp_toMergerFromFisher P msg s = Some s'"
  shows "same_phase s s'"
proof -
  have "\<exists>r. (initMergeMyClique P msg (s\<lparr>mergerRole := Merger\<rparr>) = Some r \<or>
      initMergeOtherClique P msg (s\<lparr>mergerRole := Merger\<rparr>) = Some r) \<and> s' = r\<lparr>mergerActive := True\<rparr>"
    using assms by (auto simp: SyncAgentImp_toMergerFromFisher_def CliqueMerger_initFromMsg_def role_defs
        split: if_splits elim!: bind_SomeE)
  then obtain r where r: "initMergeMyClique P msg (s\<lparr>mergerRole := Merger\<rparr>) = Some r \<or>
      initMergeOtherClique P msg (s\<lparr>mergerRole := Merger\<rparr>) = Some r" "s' = r\<lparr>mergerActive := True\<rparr>"
    by blast
  then have "same_phase (s\<lparr>mergerRole := Merger\<rparr>) r"
    using initMerge_phase by blast
  then show ?thesis
    by (simp add: r(2) same_phase_def)
qed

lemma fish_slot_handle_phase [phases]:
  fixes s :: "'a agent_state_scheme"
  assumes "FishSlotMessageHandler_handle P msg s = Some (r, s')"
  shows "same_phase s s'"
proof -
  have catch: "same_phase s t" if "handleCatchFromDeepFishing P msg s = Some (q, t)" for q t
    using that updateBySyncMessage_phase [of P msg s]
    by (auto simp: handleCatchFromDeepFishing_def split: if_splits elim!: bind_SomeE)
  have fished: "same_phase s t" if "doFishedSyncMsg P msg s = Some (q, t)" for q t
    using that catch toMergerFromFisher_phase [of P msg s]
    by (auto simp: doFishedSyncMsg_def split: fishing_mode.splits elim!: bind_SomeE)
  show ?thesis
    using assms fished unfolding FishSlotMessageHandler_handle_def
    by (cases "msg_type msg")
      (auto simp: FishSlotMessageHandler_handleMasterSyncMessage_def
        FishSlotMessageHandler_handleWorkSyncMessage_def FishSlotMessageHandler_handleMergeSyncMessage_def
        FishSlotMessageHandler_handleAbandonMastershipMessage_def CommonMessageHandler_handleInfoMessage_def
        elim!: bind_case_prod_SomeE)
qed

lemma onMsgReceived_phase [phases]:
  fixes s :: "'a agent_state_scheme"
  assumes "Receiver_onMsgReceived P s = Some s'"
  shows "same_phase s s'"
proof -
  have call: "same_phase s t" if "call_handler P h msg s = Some (q, t)" for h msg q t
    using that sync_slot_handle_phase fish_slot_handle_phase by (cases h) auto
  show ?thesis
    using assms call
    by (auto simp: Receiver_onMsgReceived_def MessageDispatcher_dispatch_def
        handleValidMessageAndSetContinuation_def elim!: bind_SomeE bind_case_prod_SomeE
        split: if_splits option.splits)
qed

end
