(* ===== verification/Pending.thy ===== *)
theory Pending
  imports Phases
begin

text \<open>
  The invariant of the agent between two events: exactly one task is pending (or the provisioner
  runs and will call back), and the state is one that task relies on; and what schedules the next
  task establishes it again.
\<close>

section \<open>What a pending task relies on\<close>

text \<open>\<open>unit_inv\<close> without the schedule, which is set up only when the first period starts.\<close>

definition core_inv :: "platform \<Rightarrow> 'a network_state_scheme \<Rightarrow> bool" where
  "core_inv P s \<longleftrightarrow>
     history_inv P s \<and> dropout_inv s \<and> merge_policy_inv s \<and> master_inv P s \<and> trolling_inv s \<and>
     deep_inv s \<and> role_inv s \<and> repeater_inv s \<and> provision_inv P s"

lemma unit_inv_core: "unit_inv P s \<longleftrightarrow> schedule_inv s \<and> core_inv P s"
  by (simp add: unit_inv_def core_inv_def)

text \<open>The variables a unit keeps from power on until it is initialized.\<close>

definition boot_ok :: "'a agent_state_scheme \<Rightarrow> bool" where
  "boot_ok s \<longleftrightarrow>
     length (cliqueRecords s) = 6 \<and> unat (currentCliqueIndex s) < 6 \<and> merge_policy_inv s \<and>
     trolling_inv s \<and> deep_inv s \<and> repeater_inv s \<and> handler s = NoHandler \<and> \<not> preludeIsStarted s"

fun task_ok :: "platform \<Rightarrow> task \<Rightarrow> 'a agent_state_scheme \<Rightarrow> bool" where
  "task_ok P CheckPowerReserve s \<longleftrightarrow> boot_ok s"
| "task_ok P StartSyncPeriodMaintain s \<longleftrightarrow>
     core_inv P s \<and> \<not> preludeIsStarted s \<and> (handler s = NoHandler \<or> schedule_inv s)"
| "task_ok P TheRadioPreludeTaskWSync s \<longleftrightarrow> unit_inv P s \<and> \<not> preludeIsStarted s"
| "task_ok P TheRadioPreludeTaskWFish s \<longleftrightarrow> unit_inv P s \<and> \<not> preludeIsStarted s"
| "task_ok P StartSyncSlotAfterPrelude s \<longleftrightarrow> unit_inv P s \<and> preludeIsStarted s"
| "task_ok P StartSyncSlotWithoutScheduledPrelude s \<longleftrightarrow> unit_inv P s"
| "task_ok P SendSync s \<longleftrightarrow>
     unit_inv P s \<and> preludeIsStarted s \<and> syncMode s \<noteq> Maintain \<and> slotKind s \<noteq> KindListen"
| "task_ok P EndSyncSlotListen s \<longleftrightarrow> unit_inv P s \<and> preludeIsStarted s \<and> syncMode s \<noteq> Maintain"
| "task_ok P EndSyncSlotSend s \<longleftrightarrow> unit_inv P s \<and> preludeIsStarted s \<and> syncMode s \<noteq> Maintain"
| "task_ok P FishSlotStart s \<longleftrightarrow> unit_inv P s \<and> preludeIsStarted s"
| "task_ok P FishSlotEnd s \<longleftrightarrow> unit_inv P s \<and> preludeIsStarted s"
| "task_ok P MergerStartAndEnd s \<longleftrightarrow> unit_inv P s \<and> syncMode s = SyncAndFishMerge"
| "task_ok P ProvisionStart s \<longleftrightarrow> unit_inv P s \<and> preludeIsStarted s \<and> syncMode s = SyncAndProvision"
| "task_ok P ProvisionEnd s \<longleftrightarrow> unit_inv P s \<and> syncMode s = SyncAndProvision"

text \<open>While the provisioner runs no task is scheduled; its callback schedules the next.\<close>

definition provisioning_ok :: "platform \<Rightarrow> 'a agent_state_scheme \<Rightarrow> bool" where
  "provisioning_ok P s \<longleftrightarrow> unit_inv P s \<and> preludeIsStarted s \<and> syncMode s = SyncAndProvision"

text \<open>The moments between two tasks: what the unit waits for.\<close>

datatype moment = Pending task | Provisioning

definition agent_at :: "moment set \<Rightarrow> platform \<Rightarrow> 'a agent_state_scheme \<Rightarrow> bool" where
  "agent_at M P s \<longleftrightarrow>
     (\<exists>t d. timers s = [(t, d)] \<and> Pending t \<in> M \<and> task_ok P t s) \<or>
     (timers s = [] \<and> Provisioning \<in> M \<and> provisioning_ok P s)"

definition agent_inv :: "platform \<Rightarrow> 'a agent_state_scheme \<Rightarrow> bool" where
  "agent_inv P s \<longleftrightarrow> agent_at UNIV P s"

text \<open>
  The diagram of the tasks: what a unit may wait for after each.  The sync slot ends in the kind of
  slot the mode and the role allow, and each of these leads back to the next sync slot.
\<close>

abbreviation next_sync :: "moment set" where
  "next_sync \<equiv> {Pending TheRadioPreludeTaskWSync, Pending StartSyncSlotWithoutScheduledPrelude}"

abbreviation sync_slot :: "moment set" where
  "sync_slot \<equiv> {Pending SendSync, Pending EndSyncSlotListen}"

abbreviation nonsync_slot :: "moment set" where
  "nonsync_slot \<equiv> {Pending TheRadioPreludeTaskWSync, Pending TheRadioPreludeTaskWFish, Pending FishSlotStart,
     Pending MergerStartAndEnd, Pending ProvisionStart}"

fun successors :: "moment \<Rightarrow> moment set" where
  "successors (Pending CheckPowerReserve) = {Pending CheckPowerReserve, Pending StartSyncPeriodMaintain}"
| "successors (Pending StartSyncPeriodMaintain) =
     {Pending StartSyncPeriodMaintain, Pending TheRadioPreludeTaskWSync}"
| "successors (Pending TheRadioPreludeTaskWSync) = {Pending StartSyncSlotAfterPrelude}"
| "successors (Pending TheRadioPreludeTaskWFish) = {Pending FishSlotStart}"
| "successors (Pending StartSyncSlotAfterPrelude) = insert (Pending StartSyncPeriodMaintain) sync_slot"
| "successors (Pending StartSyncSlotWithoutScheduledPrelude) =
     insert (Pending StartSyncPeriodMaintain) sync_slot"
| "successors (Pending SendSync) = {Pending EndSyncSlotSend}"
| "successors (Pending EndSyncSlotListen) = nonsync_slot"
| "successors (Pending EndSyncSlotSend) = nonsync_slot"
| "successors (Pending FishSlotStart) = {Pending FishSlotEnd}"
| "successors (Pending FishSlotEnd) = next_sync"
| "successors (Pending MergerStartAndEnd) = next_sync"
| "successors (Pending ProvisionStart) = insert Provisioning next_sync"
| "successors (Pending ProvisionEnd) = next_sync"
| "successors Provisioning = {Pending ProvisionEnd}"

section \<open>Fields outside the invariant of the unit\<close>

lemma unit_inv_agent_fields [simp]:
  fixes s :: "'a agent_state_scheme"
  shows "unit_inv P (s\<lparr>timers := ts\<rparr>) = unit_inv P s" "unit_inv P (s\<lparr>preludeIsStarted := b\<rparr>) = unit_inv P s"
    "unit_inv P (s\<lparr>slotKind := k\<rparr>) = unit_inv P s" "unit_inv P (s\<lparr>handler := h\<rparr>) = unit_inv P s"
    "unit_inv P (s\<lparr>radioBuffer := bs\<rparr>) = unit_inv P s" "unit_inv P (s\<lparr>io := es\<rparr>) = unit_inv P s"
    "unit_inv P (TaskTimer_schedule t d s) = unit_inv P s"
  by (simp_all add: unit_inv_parts TaskTimer_schedule_def emit_def)

lemma core_inv_agent_fields [simp]:
  fixes s :: "'a agent_state_scheme"
  shows "core_inv P (s\<lparr>timers := ts\<rparr>) = core_inv P s" "core_inv P (s\<lparr>preludeIsStarted := b\<rparr>) = core_inv P s"
    "core_inv P (TaskTimer_schedule t d s) = core_inv P s" "core_inv P (emit e s) = core_inv P s"
    "core_inv P (s\<lparr>heardWork := b\<rparr>) = core_inv P s"
  by (simp_all add: core_inv_def inv_parts TaskTimer_schedule_def emit_def)

lemma schedule_inv_agent_fields [simp]:
  fixes s :: "'a agent_state_scheme"
  shows "schedule_inv (TaskTimer_schedule t d s) = schedule_inv s" "schedule_inv (emit e s) = schedule_inv s"
    "schedule_inv (s\<lparr>preludeIsStarted := b\<rparr>) = schedule_inv s" "schedule_inv (s\<lparr>heardWork := b\<rparr>) = schedule_inv s"
  by (simp_all add: schedule_inv_def TaskTimer_schedule_def emit_def)

lemma schedule_agent_sel [simp]:
  fixes s :: "'a agent_state_scheme"
  shows "preludeIsStarted (TaskTimer_schedule t d s) = preludeIsStarted s"
    "syncMode (TaskTimer_schedule t d s) = syncMode s" "slotKind (TaskTimer_schedule t d s) = slotKind s"
    "handler (TaskTimer_schedule t d s) = handler s"
    "preludeIsStarted (emit e s) = preludeIsStarted s" "syncMode (emit e s) = syncMode s"
    "slotKind (emit e s) = slotKind s" "handler (emit e s) = handler s"
  by (simp_all add: TaskTimer_schedule_def emit_def)

lemma prelude_ops [simp]:
  fixes s :: "'a agent_state_scheme"
  shows "preludeIsStarted (RadioPrelude_undo s) = False" "preludeIsStarted (RadioPrelude_doIt s) = True"
    "timers (RadioPrelude_undo s) = timers s" "timers (RadioPrelude_doIt s) = timers s"
    "syncMode (RadioPrelude_undo s) = syncMode s" "syncMode (RadioPrelude_doIt s) = syncMode s"
    "handler (RadioPrelude_undo s) = handler s" "mergerRole (RadioPrelude_undo s) = mergerRole s"
    "schedule_inv (RadioPrelude_undo s) = schedule_inv s" "core_inv P (RadioPrelude_undo s) = core_inv P s"
    "unit_inv P (RadioPrelude_undo s) = unit_inv P s" "unit_inv P (RadioPrelude_doIt s) = unit_inv P s"
  by (simp_all add: RadioPrelude_undo_def RadioPrelude_doIt_def unit_inv_core) (simp_all add: emit_def)

section \<open>Scheduling the next task\<close>

lemma agent_atI:
  "timers s = [] \<Longrightarrow> Pending t \<in> M \<Longrightarrow> task_ok P t (TaskTimer_schedule t d s) \<Longrightarrow>
     agent_at M P (TaskTimer_schedule t d s)"
  by (auto simp: agent_at_def)

lemma radioPreludeTaskWSync_ok:
  assumes "SyncSchedule_radioPreludeTaskWSync P s = Some s'" "timers s = []" "unit_inv P s" "\<not> preludeIsStarted s"
    "Pending TheRadioPreludeTaskWSync \<in> M"
  shows "agent_at M P s'"
  using assms by (auto simp: SyncSchedule_radioPreludeTaskWSync_def SleepDuration_nowTilPreludeWSync_def
      SleepDuration_nowTilSyncPoint_def Schedule_deltaNowToNextSyncPoint_def clampedTimeDifferenceFromNow_def
      Let_def intro!: agent_atI elim!: bind_SomeE)

lemma withoutPrelude_ok:
  assumes "timers s = []" "unit_inv P s"
    "Pending StartSyncSlotWithoutScheduledPrelude \<in> M"
  shows "agent_at M P (SyncSchedule_startSyncSlotWithoutScheduledPrelude P s)"
  using assms by (auto simp: SyncSchedule_startSyncSlotWithoutScheduledPrelude_def SleepDuration_nowTilSyncPoint_def
      Schedule_deltaNowToNextSyncPoint_def clampedTimeDifferenceFromNow_def intro!: agent_atI)

lemma syncSlotAfter_ok:
  assumes "timers s = []" "unit_inv P s"
    "next_sync \<subseteq> M"
  shows "SyncSchedule_syncSlotAfterFishSlot P s = Some s' \<Longrightarrow> agent_at M P s'"
    and "SyncSchedule_syncSlotAfterMerging P s = Some s' \<Longrightarrow> agent_at M P s'"
    and "SyncSchedule_syncSlotAfterProvisioning P s = Some s' \<Longrightarrow> agent_at M P s'"
  using assms radioPreludeTaskWSync_ok [of P "RadioPrelude_undo s" s'] withoutPrelude_ok [of s P]
  by (auto simp: SyncSchedule_syncSlotAfterFishSlot_def SyncSchedule_syncSlotAfterMerging_def
      SyncSchedule_syncSlotAfterProvisioning_def RadioPrelude_tryUndoAfterFishing_def
      RadioPrelude_tryUndoAfterMerging_def Let_def split: if_splits)

lemma omitNonsyncSlot_ok:
  assumes "timers s = []" "unit_inv P s" "SyncSchedule_omitNonsyncSlot P s = Some s'"
    "Pending TheRadioPreludeTaskWSync \<in> M"
  shows "agent_at M P s'"
  using assms radioPreludeTaskWSync_ok [of P "RadioPrelude_undo s" s']
  by (auto simp: SyncSchedule_omitNonsyncSlot_def SyncSchedule_syncSlotAfterSyncSlot_def split: if_splits)

lemma merger_ok:
  assumes "timers s = []" "unit_inv P s" "syncMode s = SyncAndFishMerge" "SyncSchedule_merger P s = Some s'"
    "Pending MergerStartAndEnd \<in> M"
  shows "agent_at M P s'"
  using assms by (auto simp: SyncSchedule_merger_def MergeSchedule_deltaToThisMergeStart_def
      clampedTimeDifferenceFromNow_def intro!: agent_atI elim!: bind_SomeE)

lemma fishing_ok:
  assumes "timers s = []" "unit_inv P s" "SyncSchedule_fishing P s = Some s'"
    "Pending FishSlotStart \<in> M" "Pending TheRadioPreludeTaskWFish \<in> M"
  shows "agent_at M P s'"
  using assms by (auto simp: SyncSchedule_fishing_def SyncSchedule_fishSlotStart_def
      SyncSchedule_radioPreludeTaskWFish_def SleepDuration_nowTilFishStart_def SleepDuration_nowTilPreludeWFish_def
      FishSchedule_deltaToFishSessionStart_def clampedTimeDifferenceFromNow_def RadioPrelude_isDone_def Let_def
      intro!: agent_atI split: if_splits elim!: bind_SomeE)

lemma repeater_fields_unit_inv:
  "unit_inv P (s\<lparr>repeaterCounter := n\<rparr>) = unit_inv P s"
  "unit_inv P s \<Longrightarrow> unit_inv P (s\<lparr>repeaterIsActive := False, repeaterCounter := n\<rparr>)"
  by (simp_all add: unit_inv_parts)

section \<open>Operations of the sync slot and of fishing\<close>

text \<open>An operation that keeps both the phase and the invariant of the unit.\<close>

definition steady :: "platform \<Rightarrow> 'a agent_state_scheme \<Rightarrow> 'a agent_state_scheme \<Rightarrow> bool" where
  "steady P s s' \<longleftrightarrow> same_phase s s' \<and> (unit_inv P s \<longrightarrow> unit_inv P s')"

lemma steady_refl [simp]: "steady P s s"
  by (simp add: steady_def)

lemma steady_trans [trans]: "steady P s r \<Longrightarrow> steady P r t \<Longrightarrow> steady P s t"
  by (auto simp: steady_def intro: same_phase_trans)

lemma steady_emit [simp]: "steady P s (emit e r) = steady P s r" "steady P (emit e s) r = steady P s r"
  by (simp_all add: steady_def)

lemma steadyD:
  assumes "steady P s s'"
  shows "timers s' = timers s" "syncMode s' = syncMode s" "preludeIsStarted s' = preludeIsStarted s"
    "slotKind s' = slotKind s" "handler s' = handler s" "unit_inv P s \<Longrightarrow> unit_inv P s'"
    "startTimeOfSyncPeriod s' = startTimeOfSyncPeriod s"
  using assms by (simp_all add: steady_def same_phase_def)

lemma sendMessage_steady:
  fixes s :: "'a agent_state_scheme"
  assumes "sendMessage msg s = Some s'"
  shows "steady P s s'"
  using assms by (auto simp: sendMessage_eq steady_def same_phase_def emit_def split: if_splits)

lemma initSync_send_steady:
  fixes s :: "'a agent_state_scheme"
  assumes "Option.bind (MessageFactory_initSyncMessage P t w s) (\<lambda>(msg, s). sendMessage msg s) = Some s'"
  shows "steady Q s s'"
proof -
  obtain msg where "sendMessage msg (emit GetNowTime s) = Some s'"
    using assms by (auto simp: initSyncMessage_eq split: if_splits)
  then show ?thesis
    using sendMessage_steady [of msg "emit GetNowTime s" s' Q] by simp
qed

lemma sendSteps_steady:
  fixes s :: "'a agent_state_scheme"
  shows "SyncSlotStep_sendWorkSync P s = Some s' \<Longrightarrow> steady P s s'"
    and "SyncSlotStep_sendSync P s = Some s' \<Longrightarrow> steady P s s'"
    and "SyncSlotStep_sendControlSync P s = Some s' \<Longrightarrow> steady P s s'"
  using initSync_send_steady [of P WorkSync _ "emit FetchMail s" s' P] initSync_send_steady [of P _ _ s s' P]
  by (auto simp: SyncSlotStep_sendWorkSync_def SyncSlotStep_sendSync_def SyncSlotStep_sendControlSync_def
      WorkOut_fetch_def Mailbox_fetch_def SyncSender_sendWorkSync_def SyncSender_sendMasterSync_def
      SyncSender_sendControlSync_def)

lemma sendMergeSync_steady:
  fixes s :: "'a agent_state_scheme"
  assumes "SyncSender_sendMergeSync P s = Some s'"
  shows "steady P s s'"
proof -
  obtain msg where "sendMessage msg (emit GetNowTime s) = Some s'"
    using assms makeMergeMsg_shape(1) [of P s] by (auto simp: SyncSender_sendMergeSync_def elim!: bind_case_prod_SomeE)
  then show ?thesis
    using sendMessage_steady [of msg "emit GetNowTime s" s' P] by simp
qed

lemma checkDone_steady:
  fixes s :: "'a agent_state_scheme"
  assumes "IntraCliqueManager_checkDoneAndEnactControl P s = Some s'"
  shows "steady P s s'"
proof -
  define r where "r = s\<lparr>repeaterIsActive := False, repeaterCounter := 0\<rparr>"
  have r: "steady P s r"
    unfolding steady_def r_def
    by (intro conjI impI repeater_fields_unit_inv(2)) (simp add: same_phase_def)
  show ?thesis
  proof (cases "repeaterCounter s > CountRepeatsPerControlSync")
    case False
    then have "s' = s"
      using assms by (simp add: IntraCliqueManager_checkDoneAndEnactControl_def
          SendRepeater_checkDoneAndEnactControl_def split: if_splits)
    then show ?thesis by simp
  next
    case True
    then have call: "call_repeat_callback P (onDoneCallback s) r = Some s'"
      using assms unfolding IntraCliqueManager_checkDoneAndEnactControl_def
        SendRepeater_checkDoneAndEnactControl_def r_def by (simp split: if_splits)
    have "steady P r s'"
    proof (cases "onDoneCallback s")
      case OnDoneGranularityWithAction
      then show ?thesis
        using call trySetGranularity_unit_inv [of P r "rememberedGranularity r"]
        by (auto simp: onDoneGranularityWithAction_def steady_def split: if_splits)
    next
      case OnDoneScatter
      then show ?thesis
        using call scatterSync_phase [of P r s'] scatterSync_unit_inv [of P r s']
        by (auto simp: onDoneScatter_def Scatter_scatter_def steady_def split: if_splits)
    qed (use call in \<open>simp_all add: onDoneRepeatingUpstream_def split: if_splits\<close>)
    with r show ?thesis by (rule steady_trans)
  qed
qed

lemma decideKind_steady:
  fixes s :: "'a agent_state_scheme"
  assumes "SyncSlotProperty_decideKind P s = (k, s')"
  shows "steady P s s'"
proof -
  have repeat: "steady P q (q\<lparr>repeaterCounter := n\<rparr>)" for q :: "'a agent_state_scheme" and n
    by (simp add: steady_def same_phase_def repeater_fields_unit_inv(1))
  have control: "steady P q (snd (IntraCliqueManager_shouldSendControlSync P q))" for q :: "'a agent_state_scheme"
    using repeat [of "emit CoinToss q"] by (simp add: IntraCliqueManager_shouldSendControlSync_def
        SendRepeater_shouldSend_def Random_coinToss_def Let_def)
  have transmit: "steady P q (snd (SyncBehaviour_shouldTransmitSync P q))" for q :: "'a agent_state_scheme"
    by (simp add: SyncBehaviour_shouldTransmitSync_def Clique_shouldTransmitSync_def xmit_policy_defs
        Alarm_tickWithAlarm_def Random_coinToss_def)
  show ?thesis
    using assms control [THEN steady_trans [OF transmit]]
    by (auto simp: SyncSlotProperty_decideKind_def WorkOut_isNeedSendWork_def Mailbox_isMail_def split_beta Let_def
        split: if_splits)
qed

lemma dispatchSyncSlotKind_ok:
  fixes s :: "'a agent_state_scheme"
  assumes "SyncSlot_dispatchSyncSlotKind P s = Some s'" "timers s = []" "unit_inv P s"
    "preludeIsStarted s" "syncMode s \<noteq> Maintain"
    "sync_slot \<subseteq> M"
  shows "agent_at M P s'"
proof -
  obtain k r where k: "SyncSlotProperty_decideKind P s = (k, r)"
    by fastforce
  note r = steadyD [OF decideKind_steady [OF k]]
  define q where "q = SyncSchedule_syncSendTask P (r\<lparr>slotKind := k\<rparr>)"
  have q: "\<exists>d. timers q = [(SendSync, d)]" "unit_inv P q" "preludeIsStarted q" "syncMode q \<noteq> Maintain" "slotKind q = k"
    using r assms(2-5) by (simp_all add: q_def SyncSchedule_syncSendTask_def
        SyncSlotSchedule_deltaToThisSyncSlotMiddleSubslot_def clampedTimeDifferenceFromNow_def Let_def)
  have send: "agent_at M P t" if "steady P q t" "k \<noteq> KindListen" for t
    using steadyD [OF that(1)] that(2) q assms(6) by (auto simp: agent_at_def)
  show ?thesis
  proof (cases k)
    case KindSendControlSync
    then have "IntraCliqueManager_checkDoneAndEnactControl P q = Some s'"
      using assms(1) by (simp add: SyncSlot_dispatchSyncSlotKind_def k q_def)
    from send [OF checkDone_steady [OF this]] KindSendControlSync show ?thesis by simp
  next
    case KindListen
    then have "s' = SyncSchedule_syncSlotEndFromListen P (SyncSlot_beginListen (r\<lparr>slotKind := k\<rparr>))"
      using assms(1) by (simp add: SyncSlot_dispatchSyncSlotKind_def k)
    then show ?thesis
      using r assms(2-6) by (auto simp: SyncSchedule_syncSlotEndFromListen_def SyncSlot_beginListen_def
          Receiver_startWithHandler_def SyncSlotSchedule_deltaToThisSyncSlotEnd_def clampedTimeDifferenceFromNow_def
          intro!: agent_atI)
  qed (use send [of q] assms(1) in \<open>simp_all add: SyncSlot_dispatchSyncSlotKind_def k q_def\<close>)
qed

section \<open>Between the sync slot and the next\<close>

lemma proceed_frame [frame]:
  assumes "SyncRecoveryTrollingPolicy_proceedToNextFishSlotOrdinal s = Some s'"
  shows "s' = s\<lparr>upCounter := upCounter s', downCounter := downCounter s',
      currentStartSlotOrdinal := currentStartSlotOrdinal s', currentEndSlotOrdinal := currentEndSlotOrdinal s',
      direction := direction s'\<rparr>"
  using assms
  by (auto simp: SyncRecoveryTrollingPolicy_proceedToNextFishSlotOrdinal_def setSessionForStartSlot_def Let_def
      split: if_splits)

lemma trolling_fields_unit_inv:
  assumes "unit_inv P s" "trolling_inv s'"
    and "s' = s\<lparr>upCounter := u, downCounter := w, currentStartSlotOrdinal := k, currentEndSlotOrdinal := e, direction := b\<rparr>"
  shows "unit_inv P s'"
  using assms(1,2) unfolding assms(3) by (simp add: unit_inv_parts)

lemma preFishing_steady:
  fixes s :: "'a agent_state_scheme"
  assumes "FishingManager_preFishing s = Some s'"
  shows "steady P s s'"
proof (cases "fishingMode s")
  case Trolling
  then have p: "SyncRecoveryTrollingPolicy_proceedToNextFishSlotOrdinal s = Some s'"
    using assms by (simp add: FishingManager_preFishing_def SyncRecoveryTrollingPolicy_preFishing_def)
  obtain u w k e b where shape: "s' = s\<lparr>upCounter := u, downCounter := w, currentStartSlotOrdinal := k,
      currentEndSlotOrdinal := e, direction := b\<rparr>"
    using proceed_frame [OF p] by blast
  have "unit_inv P s'" if "unit_inv P s"
    using proceed_refines [of s] p that trolling_fields_unit_inv [OF that _ shape] by (auto simp: unit_inv_def)
  moreover have "same_phase s s'"
    by (simp add: shape same_phase_def)
  ultimately show ?thesis
    by (simp add: steady_def)
qed (use assms in \<open>simp add: FishingManager_preFishing_def DeepFishingPolicy_preFishing_def\<close>)

lemma fish_times_unit_inv:
  "unit_inv P (s\<lparr>countFishings := c\<rparr>) = unit_inv P s"
  "unit_inv P (s\<lparr>memoStartTimeOfFishSlot := t\<rparr>) = unit_inv P s"
  "unit_inv P (s\<lparr>memoEndTimeOfFishSlot := t\<rparr>) = unit_inv P s"
  by (simp_all add: unit_inv_parts)

lemma setStartAndEndTimes_steady:
  fixes s :: "'a agent_state_scheme"
  shows "steady P s (FishSchedule_setStartAndEndTimes s)"
proof -
  have "steady P s (snd (FishingManager_getStartTimeToFish s))"
    by (simp add: manager_start_cases DeepFishingPolicy_getStartTimeToFish_def steady_def same_phase_def
        fish_times_unit_inv)
  then show ?thesis
    by (simp add: FishSchedule_setStartAndEndTimes_def FishSchedule_memoTimeOfFishSessionEnd_def
        FishSchedule_memoTimeOfFishSessionStart_def split_beta Let_def steady_def same_phase_def fish_times_unit_inv)
qed

lemma tryFishOrMerge_ok:
  fixes s :: "'a agent_state_scheme"
  assumes "SSTask_tryFishOrMerge P s = Some s'" "timers s = []" "unit_inv P s" "syncMode s = SyncAndFishMerge"
    "nonsync_slot \<subseteq> M"
  shows "agent_at M P s'"
proof -
  have M: "Pending TheRadioPreludeTaskWSync \<in> M" "Pending TheRadioPreludeTaskWFish \<in> M"
    "Pending FishSlotStart \<in> M" "Pending MergerStartAndEnd \<in> M"
    using assms(5) by auto
  show ?thesis
  proof (cases "mergerRole s")
    case Merger
    define r where "r = emit CoinToss s"
    have r: "timers r = []" "unit_inv P r" "syncMode r = SyncAndFishMerge"
      using assms(2-4) by (simp_all add: r_def)
    have "SyncSchedule_merger P r = Some s' \<or> SyncSchedule_omitNonsyncSlot P r = Some s'"
      using assms(1) Merger
      by (simp add: SSTask_tryFishOrMerge_def MergePolicy_shouldScheduleMerge_def Random_coinToss_def r_def
          split: if_splits)
    then show ?thesis
      using merger_ok [OF r _ M(4)] omitNonsyncSlot_ok [OF r(1,2) _ M(1)] by blast
  next
    case Fisher
    define r where "r = emit (MeasurePower Medium) s"
    have r: "timers r = []" "unit_inv P r"
      using assms(2,3) by (simp_all add: r_def)
    note f = steadyD(1,6) [OF setStartAndEndTimes_steady [of P r]]
    have "SyncSchedule_fishing P (FishSchedule_setStartAndEndTimes r) = Some s' \<or>
        SyncSchedule_omitNonsyncSlot P r = Some s'"
      using assms(1) Fisher by (simp add: SSTask_tryFishOrMerge_def power_defs r_def split: if_splits)
    then show ?thesis
      using fishing_ok [OF trans [OF f(1) r(1)] f(2) [OF r(2)] _ M(3,2)] omitNonsyncSlot_ok [OF r _ M(1)] by blast
  next
    case NoFishing
    then show ?thesis
      using assms(1) omitNonsyncSlot_ok [OF assms(2,3) _ M(1)] by (simp add: SSTask_tryFishOrMerge_def)
  qed
qed

end
