(* ===== verification/Agent.thy ===== *)
theory Agent
  imports Pending
begin

text \<open>
  The agent as a whole: a unit runs the tasks of its timer, receives packets and is called back by
  the provisioner, in any order.  Every task keeps the invariant of the theory \<open>Pending\<close>.
\<close>

section \<open>The end of the sync slot\<close>

lemma isDropout_steady:
  fixes s :: "'a agent_state_scheme"
  assumes "DropoutMonitor_isDropout s = Some (b, r)"
  shows "steady P s r"
proof -
  have inv: "dropout_inv r"
    using isDropout_inv [OF assms] .
  have shape: "r = s\<lparr>countSyncSlotsWithoutSyncMsg := countSyncSlotsWithoutSyncMsg r\<rparr>"
    using assms by (auto simp: DropoutMonitor_isDropout_def DropoutMonitor_reset_def Let_def split: if_splits)
  have "unit_inv P (s\<lparr>countSyncSlotsWithoutSyncMsg := n\<rparr>)"
    if "unit_inv P s" "dropout_inv (s\<lparr>countSyncSlotsWithoutSyncMsg := n\<rparr>)" for n
    using that by (simp add: unit_inv_parts)
  then have "unit_inv P s \<Longrightarrow> unit_inv P r"
    using inv by (subst shape, subst (asm) shape) blast
  moreover have "same_phase s r"
    by (subst shape) (simp add: same_phase_def)
  ultimately show ?thesis
    by (simp add: steady_def)
qed

lemma former_steady:
  fixes s :: "'a agent_state_scheme"
  assumes "CliqueHistory_setCurrentCliqueRecordToFormerClique s = Some r"
  shows "steady P s r"
proof -
  have shape: "r = s\<lparr>currentCliqueIndex := currentCliqueIndex s - 1\<rparr>"
    using assms by (auto simp: CliqueHistory_setCurrentCliqueRecordToFormerClique_def split: if_splits)
  have "unit_inv P r" if "unit_inv P s"
  proof -
    have "history_inv P r"
      using that CliqueHistory_former_inv [OF _ assms] by (simp add: unit_inv_def)
    then show ?thesis
      using that by (simp add: shape unit_inv_parts)
  qed
  then show ?thesis
    by (simp add: steady_def shape same_phase_def)
qed

lemma trolling_restart_unit_inv:
  assumes "unit_inv P s" "SyncRecoveryTrollingPolicy_restart s = Some s'"
  shows "unit_inv P s'"
proof -
  have "trolling_inv s"
    using assms(1) by (simp add: unit_inv_def)
  then have "trolling_inv s'"
    using restart_total [of s] assms(2) by (auto simp: trolling_inv_def generator_ok_def)
  moreover obtain u w k e where "s' = s\<lparr>upCounter := u, downCounter := w, currentStartSlotOrdinal := k,
      currentEndSlotOrdinal := e, direction := True\<rparr>"
    using restart_frame [OF assms(2)] by blast
  ultimately show ?thesis
    using assms(1) trolling_fields_unit_inv by blast
qed

lemma revertToFormerMaster_steady:
  fixes s :: "'a agent_state_scheme"
  assumes "Clique_revertToFormerMaster P s = Some s'"
  shows "steady P s s'"
proof -
  define r where "r = Clique_updateMastership (CliqueHistory_currentCliqueRecordMasterID s) s"
  obtain t q where q: "Schedule_adjust t (emit GetNowTime r) = Some q" "SyncRecoveryTrollingPolicy_restart q = Some s'"
    using assms by (auto simp: Clique_revertToFormerMaster_def adjustByCliqueHistoryOffset_eq r_def
        FishingManager_restartTrollingMode_def elim!: bind_SomeE)
  have "unit_inv P s'" if inv: "unit_inv P s"
  proof -
    have "history_inv P r"
      unfolding r_def using inv by (intro updateMastership_history) (simp add: unit_inv_def)
    moreover obtain rs i where "r = s\<lparr>masterID := CliqueHistory_currentCliqueRecordMasterID s,
        cliqueRecords := rs, currentCliqueIndex := i\<rparr>"
      unfolding r_def by (rule updateMastership_shape)
    ultimately have "unit_inv P r"
      using inv by (simp add: unit_inv_parts CliqueHistory_currentCliqueRecordMasterID_def)
    moreover have "schedule_inv q" if "unit_inv P r"
      using adjust_inv [OF _ q(1)] that by (simp add: unit_inv_core)
    ultimately have "unit_inv P q"
      using adjust_Some_sel [OF q(1)] by (simp add: unit_inv_parts emit_def)
    then show ?thesis
      using q(2) by (rule trolling_restart_unit_inv)
  qed
  then show ?thesis
    using revertToFormerMaster_phase [OF assms] by (simp add: steady_def)
qed

lemma endListen_steady:
  fixes s :: "'a agent_state_scheme"
  assumes "SyncSlot_endListen P s = Some s'"
  shows "steady P s s'"
proof -
  have "steady P (Receiver_stop s) s'"
  proof (cases "Clique_isSelfMaster P (Receiver_stop s)")
    case True
    then show ?thesis
      using assms by (simp add: SyncSlot_endListen_def)
  next
    case False
    obtain b r where r: "DropoutMonitor_isDropout (Receiver_stop s) = Some (b, r)"
      "(if b then Clique_onMasterDropout P r else Some r) = Some s'"
      using assms False by (auto simp: SyncSlot_endListen_def Clique_checkMasterDroppedOut_def
          elim!: bind_case_prod_SomeE)
    have "steady P r s'"
    proof (cases b)
      case True
      then obtain q where q: "CliqueHistory_setCurrentCliqueRecordToFormerClique r = Some q"
        "(if CliqueHistory_isCurrentCliqueRecordSelf P q then Clique_grabMastership P q
          else Clique_revertToFormerMaster P q) = Some s'"
        using r(2) by (auto simp: Clique_onMasterDropout_def Clique_revertByCliqueHistory_def elim!: bind_SomeE)
      have "steady P q s'"
        using q(2) revertToFormerMaster_steady [of P q s'] grabMastership_phase [of P q s']
          grabMastership_unit_inv [of P q s'] by (auto simp: steady_def split: if_splits)
      with former_steady [OF q(1)] show ?thesis
        by (rule steady_trans)
    qed (use r(2) in simp)
    with isDropout_steady [OF r(1)] show ?thesis
      by (rule steady_trans)
  qed
  then show ?thesis
    by (simp add: Receiver_stop_def)
qed

lemma scheduleNonSyncTask_ok:
  fixes s :: "'a agent_state_scheme"
  assumes "scheduleNonSyncTask P s = Some s'" "timers s = []" "unit_inv P s"
    "nonsync_slot \<subseteq> M"
  shows "agent_at M P s'"
proof -
  obtain r b q where r: "FishingManager_preFishing s = Some r" "RadioPrelude_tryUndoAfterSyncing r = Some (b, q)"
    "(case syncMode q of SyncOnly \<Rightarrow> SyncSchedule_syncSlotAfterSyncSlot P q
        | SyncAndFishMerge \<Rightarrow> SSTask_tryFishOrMerge P q
        | SyncAndProvision \<Rightarrow> Some (if p_softdevicePresent P then SyncSchedule_provisionStart q else q)
        | Maintain \<Rightarrow> None) = Some s'"
    using assms(1) unfolding scheduleNonSyncTask_def SyncModeManager_mode_def
    by (elim bind_SomeE bind_case_prod_SomeE)
  note steady = steadyD [OF preFishing_steady [OF r(1)]]
  have q: "timers q = []" "unit_inv P q" "syncMode q = syncMode r"
    "syncMode r = SyncAndProvision \<Longrightarrow> preludeIsStarted q"
    using r(2) steady(1) steady(6) assms(2,3)
    by (auto simp: RadioPrelude_tryUndoAfterSyncing_def RadioPrelude_shouldUndoAfterSyncing_def
        RadioPrelude_isDone_def SyncModeManager_mode_def split: if_splits elim!: bind_SomeE)
  show ?thesis
  proof (cases "syncMode q")
    case SyncOnly
    then show ?thesis
      using r(3) q(1,2) assms(4) radioPreludeTaskWSync_ok [of P q s' M]
      by (auto simp: SyncSchedule_syncSlotAfterSyncSlot_def RadioPrelude_isDone_def split: if_splits)
  next
    case SyncAndFishMerge
    then show ?thesis
      using r(3) tryFishOrMerge_ok [OF _ q(1,2) _ assms(4)] by simp
  next
    case SyncAndProvision
    then have "p_softdevicePresent P"
      using q(2) by (simp add: unit_inv_def provision_inv_def)
    then show ?thesis
      using r(3) q SyncAndProvision assms(4) by (auto simp: SyncSchedule_provisionStart_def intro!: agent_atI)
  qed (use r(3) in simp)
qed

section \<open>The mode and the length of the session\<close>

lemma mode_transition_shape:
  fixes s :: "'a agent_state_scheme"
  assumes "u = SyncModeManager_checkPowerAndTryModeTransitions P s"
  shows "u = s\<lparr>io := io u, syncMode := syncMode u, provisionCounter := provisionCounter u,
      mergerRole := mergerRole u, mergerActive := mergerActive u\<rparr>"
  unfolding assms by (cases "syncMode s") (simp_all add: mode_transition_defs Let_def)

lemma mode_transition_core:
  fixes s :: "'a agent_state_scheme"
  assumes "core_inv P s"
  shows "core_inv P (SyncModeManager_checkPowerAndTryModeTransitions P s)"
proof -
  define u where "u = SyncModeManager_checkPowerAndTryModeTransitions P s"
  have "role_inv u"
    using assms mode_transition_role_inv [of s P] by (simp add: u_def core_inv_def)
  moreover have "provision_inv P u"
    using assms mode_transition_no_provision [of P s] by (auto simp: u_def core_inv_def provision_inv_def)
  moreover have "core_inv P (s\<lparr>io := e, syncMode := m, provisionCounter := n, mergerRole := r, mergerActive := a\<rparr>)"
    if "role_inv (s\<lparr>io := e, syncMode := m, provisionCounter := n, mergerRole := r, mergerActive := a\<rparr>)"
      "provision_inv P (s\<lparr>io := e, syncMode := m, provisionCounter := n, mergerRole := r, mergerActive := a\<rparr>)"
    for e m n r a
    using assms that by (simp add: core_inv_def history_inv_def dropout_inv_def merge_policy_inv_def master_inv_def
        trolling_inv_def session_slots_def deep_inv_def repeater_inv_def)
  ultimately show ?thesis
    using mode_transition_shape [OF u_def] by (metis u_def)
qed

lemma manage_shape:
  fixes s :: "'a agent_state_scheme"
  assumes "FishPowerMgr_manage P s = Some t"
  shows "t = s\<lparr>io := io t, dynamicFishSessionDurationInTicks := dynamicFishSessionDurationInTicks t,
      sessionDurationInSlots := sessionDurationInSlots t, upCounter := upCounter t, downCounter := downCounter t,
      currentStartSlotOrdinal := currentStartSlotOrdinal t, currentEndSlotOrdinal := currentEndSlotOrdinal t,
      direction := direction t, isMaxFishing := isMaxFishing t\<rparr>"
  using assms
  by (auto simp: FishPowerMgr_manage_def Vcc_measureAtLeast2_7_def SlottedFishSession_incrementFishSessionDuration_def
      SlottedFishSession_setDurationToMinDuration_def emit_def Let_def dest!: restart_frame
      split: if_splits elim!: bind_SomeE)

lemma manage_core:
  fixes s :: "'a agent_state_scheme"
  assumes "FishPowerMgr_manage P s = Some t" "core_inv P s"
  shows "core_inv P t"
proof -
  have "trolling_inv t"
    using FishPowerMgr_manage_inv [of s P] assms by (auto simp: core_inv_def)
  moreover have "core_inv P (s\<lparr>io := e, dynamicFishSessionDurationInTicks := d, sessionDurationInSlots := n,
      upCounter := u, downCounter := w, currentStartSlotOrdinal := k, currentEndSlotOrdinal := l,
      direction := b, isMaxFishing := m\<rparr>)"
    if "trolling_inv (s\<lparr>io := e, dynamicFishSessionDurationInTicks := d, sessionDurationInSlots := n,
      upCounter := u, downCounter := w, currentStartSlotOrdinal := k, currentEndSlotOrdinal := l,
      direction := b, isMaxFishing := m\<rparr>)"
    for e d n u w k l b m
    using assms(2) that by (simp add: core_inv_def history_inv_def dropout_inv_def merge_policy_inv_def master_inv_def
        role_inv_def merge_time_inv_def deep_inv_def repeater_inv_def provision_inv_def)
  ultimately show ?thesis
    using manage_shape [OF assms(1)] by metis
qed

lemma bookkeepingAtPrelude:
  fixes s :: "'a agent_state_scheme"
  assumes "SyncSlot_bookkeepingAtPreludeToSyncSlot P s = Some s'"
  shows "timers s' = timers s" "preludeIsStarted s' = preludeIsStarted s" "handler s' = handler s"
    "schedule_inv s' = schedule_inv s" "endTimeOfSyncPeriod s' = endTimeOfSyncPeriod s"
    "core_inv P s \<Longrightarrow> core_inv P s'"
proof -
  define r where "r = SyncAgentImp_callbackAppPreSync s"
  define u where "u = SyncModeManager_checkPowerAndTryModeTransitions P r"
  have t: "FishPowerMgr_manage P u = Some s'"
    using assms by (simp add: SyncSlot_bookkeepingAtPreludeToSyncSlot_def u_def r_def)
  have u: "timers u = timers s" "preludeIsStarted u = preludeIsStarted s" "handler u = handler s"
    "startTimeOfSyncPeriod u = startTimeOfSyncPeriod s" "endTimeOfSyncPeriod u = endTimeOfSyncPeriod s"
    "unadjustedEndTimeOfSyncPeriod u = unadjustedEndTimeOfSyncPeriod s"
    by (subst mode_transition_shape [OF u_def];
        simp add: r_def SyncAgentImp_callbackAppPreSync_def emit_def)+
  have same: "timers s' = timers s" "preludeIsStarted s' = preludeIsStarted s" "handler s' = handler s"
    "startTimeOfSyncPeriod s' = startTimeOfSyncPeriod s" "endTimeOfSyncPeriod s' = endTimeOfSyncPeriod s"
    "unadjustedEndTimeOfSyncPeriod s' = unadjustedEndTimeOfSyncPeriod s"
    by (subst manage_shape [OF t]; simp add: u)+
  then show "timers s' = timers s" "preludeIsStarted s' = preludeIsStarted s" "handler s' = handler s"
    "schedule_inv s' = schedule_inv s" "endTimeOfSyncPeriod s' = endTimeOfSyncPeriod s"
    by (simp_all add: schedule_inv_def)
  show "core_inv P s \<Longrightarrow> core_inv P s'"
    using mode_transition_core [of P r] manage_core [OF t]
    by (simp add: u_def r_def SyncAgentImp_callbackAppPreSync_def)
qed

lemma rollPeriodForward_core:
  fixes s :: "'a agent_state_scheme"
  shows "core_inv P (Schedule_rollPeriodForward s) = core_inv P s"
  by (simp add: core_inv_def inv_parts Schedule_rollPeriodForward_def rollPeriodForwardDiscretely_def Let_def)

lemma bookkeepingAtStart:
  fixes s :: "'a agent_state_scheme"
  assumes "SyncSlot_bookkeepingAtStartSyncSlot P s = Some s'" "far_from_wrap (endTimeOfSyncPeriod s)"
  shows "timers s' = timers s" "preludeIsStarted s' = preludeIsStarted s" "handler s' = handler s"
    "syncMode s' = syncMode s" "schedule_inv s'" "core_inv P s \<Longrightarrow> core_inv P s'"
proof -
  define r where "r = Schedule_rollPeriodForward s"
  have s': "s' = r\<lparr>heardWork := False\<rparr>"
    using assms(1) by (simp add: SyncSlot_bookkeepingAtStartSyncSlot_def SyncAgentImp_preludeToSyncPeriod_def
        WorkIn_resetState_def r_def Let_def split: if_splits)
  show "timers s' = timers s" "preludeIsStarted s' = preludeIsStarted s" "handler s' = handler s"
    "syncMode s' = syncMode s"
    by (simp_all add: s' r_def Schedule_rollPeriodForward_def rollPeriodForwardDiscretely_def Let_def)
  show "schedule_inv s'"
    using rollPeriodForward_inv [OF assms(2)] by (simp add: s' r_def)
  show "core_inv P s \<Longrightarrow> core_inv P s'"
    by (simp add: s' r_def rollPeriodForward_core)
qed

end
