(* ===== verification/Running.thy ===== *)
theory Running
  imports Agent
begin

text \<open>
  Every task that a unit runs, from any state the pending task relies on, leaves a state the next
  task relies on; and so does every callback of the provisioner.
\<close>

section \<open>Each task schedules the next\<close>

lemma maintainSyncPeriod_ok:
  fixes s :: "'a agent_state_scheme"
  assumes "timers s = []" "core_inv P s" "\<not> preludeIsStarted s" "handler s = NoHandler \<or> schedule_inv s"
    "Pending StartSyncPeriodMaintain \<in> M"
  shows "agent_at M P (SyncSchedule_maintainSyncPeriod P s)" "agent_at M P (SyncSchedule_initialSyncPeriod P s)"
  using assms by (auto simp: SyncSchedule_maintainSyncPeriod_def SyncSchedule_initialSyncPeriod_def
      SyncSchedule_maintainSyncPeriodFromMaintainSyncPeriod_def SleepDuration_nowTilSyncPoint_def
      Schedule_deltaNowToNextSyncPoint_def clampedTimeDifferenceFromNow_def intro!: agent_atI)

lemma preludeWSync_ok:
  fixes s :: "'a agent_state_scheme"
  assumes "theRadioPreludeTaskWSync P s = Some s'" "timers s = []" "unit_inv P s"
    "Pending StartSyncSlotAfterPrelude \<in> M"
  shows "agent_at M P s'"
proof -
  define r where "r = SSTask_radioPrelude (SyncSchedule_startSyncSlotFromPreludeStart s)"
  have r: "timers r = [(StartSyncSlotAfterPrelude, SleepDuration_preludeTilNextTask)]" "preludeIsStarted r"
    "unit_inv P r"
    using assms(2,3) by (simp_all add: r_def SSTask_radioPrelude_def SyncSchedule_startSyncSlotFromPreludeStart_def)
  have "SyncSlot_bookkeepingAtPreludeToSyncSlot P r = Some s'"
    using assms(1) by (simp add: theRadioPreludeTaskWSync_def r_def)
  from bookkeepingAtPrelude [OF this] show ?thesis
    using r assms(4) by (simp add: agent_at_def unit_inv_core)
qed

lemma preludeWFish_ok:
  fixes s :: "'a agent_state_scheme"
  assumes "theRadioPreludeTaskWFish s = Some s'" "timers s = []" "unit_inv P s"
    "Pending FishSlotStart \<in> M"
  shows "agent_at M P s'"
  using assms by (auto simp: theRadioPreludeTaskWFish_def SSTask_radioPrelude_def agent_at_def
      SyncSchedule_startFishSlotFromPreludeStart_def)

lemma startSyncSlot_ok:
  fixes s :: "'a agent_state_scheme"
  assumes "SSTask_startSyncSlotAfterPrelude P s = Some s'" "timers s = []" "unit_inv P s"
    "far_from_wrap (endTimeOfSyncPeriod s)"
    "insert (Pending StartSyncPeriodMaintain) sync_slot \<subseteq> M"
  shows "agent_at M P s'"
proof -
  obtain r where r: "SyncSlot_bookkeepingAtStartSyncSlot P s = Some r"
    "(case syncMode r of Maintain \<Rightarrow> Some (RadioPrelude_undo (SyncSchedule_maintainSyncPeriod P r))
       | SyncOnly \<Rightarrow> SyncSlot_dispatchSyncSlotKind P r
       | SyncAndFishMerge \<Rightarrow> SyncSlot_dispatchSyncSlotKind P r
       | SyncAndProvision \<Rightarrow> SyncSlot_dispatchSyncSlotKind P r) = Some s'" "preludeIsStarted s"
    using assms(1) by (auto simp: SSTask_startSyncSlotAfterPrelude_def SyncModeManager_mode_def RadioPrelude_isDone_def
        split: if_splits elim!: bind_SomeE)
  note b = bookkeepingAtStart [OF r(1) assms(4)]
  have inv: "timers r = []" "unit_inv P r" "preludeIsStarted r" "schedule_inv r" "core_inv P r"
    using assms(2,3) b r(3) by (simp_all add: unit_inv_core)
  show ?thesis
  proof (cases "syncMode r = Maintain")
    case True
    then have s': "s' = RadioPrelude_undo (SyncSchedule_maintainSyncPeriod P r)"
      using r(2) by simp
    show ?thesis
      using inv assms(5) unfolding s' by (simp add: SyncSchedule_maintainSyncPeriod_def agent_at_def
          SyncSchedule_maintainSyncPeriodFromMaintainSyncPeriod_def SleepDuration_nowTilSyncPoint_def
          Schedule_deltaNowToNextSyncPoint_def clampedTimeDifferenceFromNow_def)
  next
    case False
    then have "SyncSlot_dispatchSyncSlotKind P r = Some s'"
      using r(2) by (cases "syncMode r") simp_all
    then show ?thesis
      using inv(1-3) False by (rule dispatchSyncSlotKind_ok) (use assms(5) in auto)
  qed
qed

lemma startSyncPeriodMaintain_ok:
  fixes s :: "'a agent_state_scheme"
  assumes "SSTask_startSyncPeriodMaintain P s = Some s'" "timers s = []" "core_inv P s"
    "far_from_wrap (endTimeOfSyncPeriod s)"
    "{Pending StartSyncPeriodMaintain, Pending TheRadioPreludeTaskWSync} \<subseteq> M"
  shows "agent_at M P s'"
proof -
  obtain q r where q: "SyncSlot_bookkeepingAtPreludeToSyncSlot P s = Some q"
    "SyncSlot_bookkeepingAtStartSyncSlot P q = Some r" "\<not> preludeIsStarted s"
    "(case syncMode r of Maintain \<Rightarrow> Some (SyncSchedule_maintainSyncPeriod P r)
       | SyncOnly \<Rightarrow> SyncSchedule_radioPreludeTaskWSync P r
       | SyncAndFishMerge \<Rightarrow> SyncSchedule_radioPreludeTaskWSync P r
       | SyncAndProvision \<Rightarrow> SyncSchedule_radioPreludeTaskWSync P r) = Some s'"
    using assms(1) by (auto simp: SSTask_startSyncPeriodMaintain_def SyncModeManager_mode_def RadioPrelude_isDone_def
        split: if_splits elim!: bind_SomeE)
  note a = bookkeepingAtPrelude [OF q(1)]
  have "far_from_wrap (endTimeOfSyncPeriod q)"
    using a(5) assms(4) by simp
  note b = bookkeepingAtStart [OF q(2) this]
  have inv: "timers r = []" "unit_inv P r" "\<not> preludeIsStarted r" "core_inv P r" "schedule_inv r"
    using assms(2,3) a b q(3) by (simp_all add: unit_inv_core)
  show ?thesis
    using q(4) maintainSyncPeriod_ok(1) [OF inv(1,4,3), of M] radioPreludeTaskWSync_ok [OF _ inv(1-3), of s' M] inv(5) assms(5)
    by (cases "syncMode r") auto
qed

lemma sendSync_ok:
  fixes s :: "'a agent_state_scheme"
  assumes "SSTask_sendSync P s = Some s'" "timers s = []" "task_ok P SendSync s"
    "Pending EndSyncSlotSend \<in> M"
  shows "agent_at M P s'"
proof -
  obtain r where "steady P s r" and s': "s' = SyncSchedule_syncSlotEndFromSend P r"
    using assms(1) sendSteps_steady [of P s] by (auto simp: SSTask_sendSync_def split: sync_slot_kind.splits
        elim!: bind_SomeE)
  note r = steadyD [OF this(1)]
  show ?thesis
    using r assms(2-4) unfolding s' by (auto simp: SyncSchedule_syncSlotEndFromSend_def
        SyncSlotSchedule_deltaToThisSyncSlotEnd_def clampedTimeDifferenceFromNow_def intro!: agent_atI)
qed

lemma endSyncSlot_ok:
  fixes s :: "'a agent_state_scheme"
  assumes "timers s = []" "unit_inv P s"
    "nonsync_slot \<subseteq> M"
  shows "SSTask_endSyncSlotListen P s = Some s' \<Longrightarrow> agent_at M P s'"
    and "SSTask_endSyncSlotSend P s = Some s' \<Longrightarrow> agent_at M P s'"
proof -
  show "SSTask_endSyncSlotSend P s = Some s' \<Longrightarrow> agent_at M P s'"
    using assms scheduleNonSyncTask_ok by (auto simp: SSTask_endSyncSlotSend_def split: if_splits)
  assume "SSTask_endSyncSlotListen P s = Some s'"
  then obtain r where r: "SyncSlot_endListen P s = Some r" "scheduleNonSyncTask P r = Some s'"
    unfolding SSTask_endSyncSlotListen_def by (elim bind_SomeE)
  note steady = steadyD(1,6) [OF endListen_steady [OF r(1)]]
  show "agent_at M P s'"
    using r(2) trans [OF steady(1) assms(1)] steady(2) [OF assms(2)] assms(3) by (rule scheduleNonSyncTask_ok)
qed

section \<open>The fish slot and the merge slot\<close>

lemma fishSlotStart_ok:
  fixes s :: "'a agent_state_scheme"
  assumes "SSTask_fishSlotStart s = Some s'" "timers s = []" "unit_inv P s"
    "Pending FishSlotEnd \<in> M"
  shows "agent_at M P s'"
  using assms by (auto simp: SSTask_fishSlotStart_def SyncSchedule_fishSlotEnd_def FishSlot_beginListen_def
      Receiver_startWithHandler_def RadioPrelude_isDone_def agent_at_def split: if_splits)

lemma checkFishingDone_steady:
  fixes s :: "'a agent_state_scheme"
  assumes "FishingManager_checkFishingDone P s = Some s'"
  shows "steady P s s'"
proof -
  have callback: "steady P s (call_fish_callback P c s)" for c
    by (cases c) (simp_all add: steady_def DeepFishing_endWithRecoverMaster_def assumeMastership_unit_inv)
  have trolling: "steady P r (FishingManager_switchToTrolling r)" for r :: "'a agent_state_scheme"
    by (simp add: steady_def switchToTrolling_unit_inv)
  show ?thesis
    using assms steady_trans [OF callback trolling]
    by (auto simp: FishingManager_checkFishingDone_def DeepFishingPolicy_checkDone_def
        split: fishing_mode.splits if_splits)
qed

lemma fishSlotEnd_ok:
  fixes s :: "'a agent_state_scheme"
  assumes "SSTask_fishSlotEnd P s = Some s'" "timers s = []" "unit_inv P s"
    "next_sync \<subseteq> M"
  shows "agent_at M P s'"
proof -
  obtain r where r: "FishingManager_checkFishingDone P (FishSlot_endListen s) = Some r"
    "SyncSchedule_syncSlotAfterFishSlot P r = Some s'"
    using assms(1) by (auto simp: SSTask_fishSlotEnd_def Let_def split: if_splits elim!: bind_SomeE)
  note steady = steadyD(1,6) [OF checkFishingDone_steady [OF r(1)]]
  have "timers r = []" "unit_inv P r"
    using steady assms(2,3) by (simp_all add: FishSlot_endListen_def Receiver_stop_def)
  then show ?thesis
    by (rule syncSlotAfter_ok(1) [OF _ _ assms(4) r(2)])
qed

text \<open>The merger counts its message, and stops when it is done.\<close>

lemma completion_steady:
  fixes s :: "'a agent_state_scheme"
  assumes "MergePolicy_checkCompletionOfMergerRole s = Some (c, q)"
    and "(if c then SyncAgentImp_stopMerger q else Some q) = Some t" and "mergerRole s \<noteq> NoFishing"
  shows "steady P s t"
proof -
  have inv: "unit_inv P t" if inv: "unit_inv P s"
  proof -
    have c: "c = (countSentMergeSyncs s = 6)" "q = s\<lparr>countSentMergeSyncs := countSentMergeSyncs s + 1\<rparr>"
      "0 \<le> countSentMergeSyncs s" "countSentMergeSyncs s \<le> 6"
      using assms(1) inv by (auto simp: checkCompletion_eq unit_inv_def merge_policy_inv_def split: if_splits)
    show ?thesis
    proof (cases c)
      case True
      then have "SyncAgentImp_stopMerger s = Some t"
        using assms(2) c(2) by (simp add: role_defs MergePolicy_restart_def)
      then show ?thesis
        using stopMerger_unit_inv [OF inv] assms(3) by simp
    next
      case False
      then have t: "t = s\<lparr>countSentMergeSyncs := countSentMergeSyncs s + 1\<rparr>"
        using assms(2) c(2) by simp
      show ?thesis
        using inv c False unfolding t by (simp add: unit_inv_parts)
    qed
  qed
  moreover have "same_phase s q"
    using assms(1) by (auto simp: MergePolicy_checkCompletionOfMergerRole_def same_phase_def Let_def split: if_splits)
  moreover have "same_phase q t"
    using assms(2) by (auto simp: same_phase_def role_defs MergePolicy_restart_def split: if_splits)
  ultimately show ?thesis
    by (auto simp: steady_def intro: same_phase_trans)
qed

lemma mergerStartAndEnd_ok:
  fixes s :: "'a agent_state_scheme"
  assumes "SSTask_mergerStartAndEnd P s = Some s'" "timers s = []" "unit_inv P s" "syncMode s = SyncAndFishMerge"
    "next_sync \<subseteq> M"
  shows "agent_at M P s'"
proof -
  obtain r c q t where r: "SyncSender_sendMergeSync P s = Some r"
    "MergePolicy_checkCompletionOfMergerRole r = Some (c, q)"
    "(if c then SyncAgentImp_stopMerger q else Some q) = Some t"
    "SyncSchedule_syncSlotAfterMerging P t = Some s'"
    using assms(1) unfolding SSTask_mergerStartAndEnd_def by (elim bind_SomeE bind_case_prod_SomeE)
  note sent = steadyD(1,2,6) [OF sendMergeSync_steady [OF r(1)]]
  have "mergerRole r \<noteq> NoFishing"
    using sent assms(3,4) by (simp add: unit_inv_def role_inv_def)
  note stopped = steadyD(1,6) [OF completion_steady [OF r(2,3) this]]
  show ?thesis
    by (rule syncSlotAfter_ok(2) [OF _ _ assms(5) r(4)]) (simp_all add: sent stopped assms(2,3))
qed

section \<open>Provisioning\<close>

lemma provisionEnd_ok:
  fixes s :: "'a agent_state_scheme"
  assumes "SSTask_provisionEnd P s = Some s'" "timers s = []" "unit_inv P s"
    "next_sync \<subseteq> M"
  shows "agent_at M P s'"
  using assms syncSlotAfter_ok(3) [of "SyncAgentImp_initEnsembleProtocol (emit ProvisionerShutdown s)" P M s']
  by (simp add: SSTask_provisionEnd_def SyncAgentImp_initEnsembleProtocol_def)

lemma provisionStart_ok:
  fixes s :: "'a agent_state_scheme"
  assumes "SSTask_provisionStart P s = Some s'" "timers s = []" "task_ok P ProvisionStart s"
    "insert Provisioning next_sync \<subseteq> M"
  shows "agent_at M P s'"
  using assms provisionEnd_ok [of P "emit ProvisionerStart s" s' M]
  by (auto simp: SSTask_provisionStart_def Provisioner_start_def provisioning_ok_def agent_at_def split: if_splits)

lemma notify_steady:
  fixes s :: "'a agent_state_scheme"
  assumes "ProvisioningPublisher_notify P index v rssi s = Some s'"
  shows "steady P s s'"
proof -
  have start: "steady P r (SendRepeater_start t n c r)" if "c \<noteq> NoRepeatCallback"
    for t n c and r :: "'a agent_state_scheme"
    using that by (simp add: steady_def SendRepeater_start_unit_inv)
  have remember: "steady P r (r\<lparr>rememberedGranularity := g\<rparr>)" for g and r :: "'a agent_state_scheme"
    by (simp add: steady_def)
  have down: "steady P s (IntraCliqueManager_doDownstreamCliqueSizeChange g s)" for g
    unfolding IntraCliqueManager_doDownstreamCliqueSizeChange_def
    by (rule steady_trans [OF remember start]) simp
  have call: "steady P s s'" if "call_provision_callback P c n s = Some s'" for c n
    using that start down by (cases c)
      (auto simp: provisionWorkTime_def provisionWorkCycle_def WorkControlProxy_callWorkTime_def
        WorkControlProxy_callWorkCycle_def IntraCliqueManager_doUpstreamWorkTime_def
        IntraCliqueManager_doUpstreamWorkCycle_def NetTopologyProvisioner_handleNetGranularityProvisioning_def
        NetTopologyProvisioner_handleScatterProvisioning_def IntraCliqueManager_doUpstreamCliqueSizeChange_def
        NetworkTopology_masterTellCliqueGranularityChange_def IntraCliqueManager_doUpstreamScatter_def
        IntraCliqueManager_doDownstreamScatter_def Let_def split: if_splits elim!: bind_SomeE)
  show ?thesis
    using assms call by (auto simp: ProvisioningPublisher_notify_def Let_def split: if_splits elim!: bind_SomeE)
qed

lemma provisionerCallback_ok:
  fixes s :: "'a agent_state_scheme"
  assumes "timers s = []" "provisioning_ok P s"
    "Pending ProvisionEnd \<in> M"
  shows "ProvisionerCallback_succeed P v rssi s = Some s' \<Longrightarrow> agent_at M P s'"
    and "ProvisionerCallback_fail s = Some s' \<Longrightarrow> agent_at M P s'"
proof -
  have next_task: "agent_at M P (SyncSchedule_provisionEnd r)" if "steady P s r" for r
    using steadyD [OF that] assms
    by (auto simp: SyncSchedule_provisionEnd_def provisioning_ok_def intro!: agent_atI)
  show "ProvisionerCallback_fail s = Some s' \<Longrightarrow> agent_at M P s'"
    using next_task [of s] by (auto simp: ProvisionerCallback_fail_def)
  show "ProvisionerCallback_succeed P v rssi s = Some s' \<Longrightarrow> agent_at M P s'"
    using next_task [OF notify_steady [of P _ v rssi s]] next_task [of s]
    by (auto simp: ProvisionerCallback_succeed_def Let_def split: if_splits elim!: bind_SomeE)
qed

section \<open>Starting\<close>

lemma subscribe_shape:
  assumes "ProvisioningPublisher_subscribe p c s = Some s'"
  shows "s' = s\<lparr>provisioningCallbacks := provisioningCallbacks s'\<rparr>"
  using assms by (auto simp: ProvisioningPublisher_subscribe_def Let_def split: if_splits)

text \<open>Of a state that a unit starts from, the variables set by \<open>init\<close> do not matter.\<close>

definition started_ok :: "'a agent_state_scheme \<Rightarrow> bool" where
  "started_ok s \<longleftrightarrow> boot_ok s \<and> timers s = [] \<and> syncMode s = Maintain \<and> mergerRole s = NoFishing"

lemma started_ok_fields [simp]:
  fixes s :: "'a agent_state_scheme"
  shows "started_ok (emit e s) = started_ok s"
    "started_ok (s\<lparr>provisioningCallbacks := cs\<rparr>) = started_ok s"
    "started_ok (s\<lparr>radioBufferPtrIsSet := b, radioBufferSize := n\<rparr>) = started_ok s"
    "started_ok (s\<lparr>masterID := m\<rparr>) = started_ok s"
    "started_ok (s\<lparr>countSyncSlotsWithoutSyncMsg := k\<rparr>) = started_ok s"
    "started_ok (s\<lparr>isAdvancedStage := b\<rparr>) = started_ok s"
    "started_ok (s\<lparr>startTimeOfSyncPeriod := t\<rparr>) = started_ok s"
    "started_ok (Schedule_rollPeriodForward s) = started_ok s"
    "started_ok (s\<lparr>countMergeSyncHeard := c\<rparr>) = started_ok s"
  by (simp_all add: started_ok_def boot_ok_def inv_parts emit_def Schedule_rollPeriodForward_def
      rollPeriodForwardDiscretely_def Let_def)

lemma subscriptions_started:
  fixes s :: "'a agent_state_scheme"
  assumes "NetTopologyProvisioner_subscribeToProvisionings s = Some s' \<or>
      WorkProvisioner_subscribeToProvisionings s = Some s'" "started_ok s"
  shows "started_ok s'"
proof -
  have step: "started_ok t" if "ProvisioningPublisher_subscribe p c r = Some t" "started_ok r"
    for p c and r t :: "'a agent_state_scheme"
    using subscribe_shape [OF that(1)] that(2) started_ok_fields(2) by metis
  show ?thesis
    using assms step by (auto simp: NetTopologyProvisioner_subscribeToProvisionings_def
        WorkProvisioner_subscribeToProvisionings_def elim!: bind_SomeE)
qed

lemma Clique_init_started:
  fixes s :: "'a agent_state_scheme"
  assumes "Clique_init P s = Some s'" "started_ok s"
  shows "started_ok s'" "masterID s' = p_systemID P" "dropout_inv s'"
proof -
  have s': "s' = Schedule_init P (AdaptiveTransmitSyncPolicy_reset (DropoutMonitor_reset (Clique_setSelfMastership P s)))"
    and self: "Clique_isSelfMaster P s'"
    using assms(1) by (auto simp: Clique_init_def Let_def split: if_splits)
  show "started_ok s'"
    using assms(2) by (simp add: s' Clique_setSelfMastership_def DropoutMonitor_reset_def xmit_policy_defs
        Schedule_init_def LongClock_nowTime_def)
  show "masterID s' = p_systemID P"
    using self by (simp add: Clique_isSelfMaster_def)
  show "dropout_inv s'"
    by (simp add: s' Clique_setSelfMastership_def DropoutMonitor_reset_def xmit_policy_defs Schedule_init_def
        LongClock_nowTime_def Schedule_rollPeriodForward_def rollPeriodForwardDiscretely_def dropout_inv_def
        emit_def Let_def)
qed

lemma init_started:
  fixes s :: "'a agent_state_scheme"
  assumes "SyncAgentImp_init P s = Some s'" "boot_ok s" "timers s = []"
  shows "started_ok s'" "core_inv P s'"
proof -
  define r where "r = SyncAgentImp_initEnsembleProtocol (SyncModeManager_resetToModeMaintain s)"
  obtain q t where q: "(if p_softdevicePresent P then do {
             s \<leftarrow> NetTopologyProvisioner_subscribeToProvisionings r;
             s \<leftarrow> WorkProvisioner_subscribeToProvisionings s;
             Some (emit ProvisionerInit s)
           } else Some r) = Some q"
    and t: "Clique_init P (Serializer_init (of_nat FixedPayloadCount) q) = Some t"
    and s': "s' = (FishPowerMgr_init (CliqueHistory_init P t))\<lparr>countMergeSyncHeard := 0\<rparr>"
    using assms(1) unfolding SyncAgentImp_init_def Let_def r_def [symmetric]
    by (elim bind_SomeE) (auto split: if_splits)
  have "started_ok r"
    using assms(2,3) by (simp add: r_def SyncAgentImp_initEnsembleProtocol_def
        SyncModeManager_resetToModeMaintain_def role_defs started_ok_def boot_ok_def inv_parts emit_def)
  moreover have sub: "NetTopologyProvisioner_subscribeToProvisionings x = Some y \<Longrightarrow> started_ok x \<Longrightarrow> started_ok y"
    "WorkProvisioner_subscribeToProvisionings x = Some y \<Longrightarrow> started_ok x \<Longrightarrow> started_ok y"
    for x y :: "'a agent_state_scheme"
    using subscriptions_started [of x y] by blast+
  ultimately have "started_ok q"
    using q sub by (auto split: if_splits elim!: bind_SomeE)
  then have "started_ok (Serializer_init (of_nat FixedPayloadCount) q)"
    by (simp add: Serializer_init_def)
  note t = Clique_init_started [OF t this]
  then have "history_inv P (CliqueHistory_init P t)"
    by (intro CliqueHistory_init_inv) (simp_all add: started_ok_def boot_ok_def)
  then show "started_ok s'" "core_inv P s'"
    using t by (simp_all add: s' FishPowerMgr_init_def started_ok_def boot_ok_def core_inv_def inv_parts
        CliqueHistory_init_def emit_def)
qed

lemma boot_ok_agent_fields [simp]:
  fixes s :: "'a agent_state_scheme"
  shows "boot_ok (TaskTimer_schedule t d s) = boot_ok s" "boot_ok (emit e s) = boot_ok s"
  by (simp_all add: boot_ok_def inv_parts TaskTimer_schedule_def emit_def)

lemma checkPowerReserve_ok:
  fixes s :: "'a agent_state_scheme"
  assumes "SSTask_checkPowerReserve P s = Some s'" "timers s = []" "boot_ok s"
    "{Pending CheckPowerReserve, Pending StartSyncPeriodMaintain} \<subseteq> M"
  shows "agent_at M P s'"
proof (cases "p_isPowerAbove P (io s) Medium")
  case False
  then show ?thesis
    using assms by (auto simp: SSTask_checkPowerReserve_def power_defs SyncSchedule_checkPowerReserve_def
        intro!: agent_atI)
next
  case True
  define r where "r = emit AppPowerReserve (emit (MeasurePower Medium) s)"
  obtain q where q: "SyncAgentImp_init P r = Some q"
    and s': "s' = SyncSchedule_initialSyncPeriod P (Schedule_setEndTimeOfSyncPeriodToNow P
      (SyncModeManager_resetToModeMaintain (SyncPowerManager_enterBrownoutDetectMode q)))"
    using assms(1) True by (auto simp: SSTask_checkPowerReserve_def power_defs r_def SyncAgentImp_preludeToLoop_def
        Let_def split: if_splits elim!: bind_SomeE)
  have "boot_ok r" "timers r = []"
    using assms(2,3) by (simp_all add: r_def)
  note q = init_started [OF q this]
  define u where "u = Schedule_setEndTimeOfSyncPeriodToNow P
      (SyncModeManager_resetToModeMaintain (SyncPowerManager_enterBrownoutDetectMode q))"
  have "timers u = []" "core_inv P u" "\<not> preludeIsStarted u" "handler u = NoHandler"
    using q by (simp_all add: u_def Schedule_setEndTimeOfSyncPeriodToNow_def LongClock_nowTime_def
        SyncModeManager_resetToModeMaintain_def role_defs SyncPowerManager_enterBrownoutDetectMode_def
        started_ok_def boot_ok_def core_inv_def inv_parts emit_def)
  then show ?thesis
    unfolding s' u_def [symmetric] by (intro maintainSyncPeriod_ok(2)) (use assms(4) in simp_all)
qed

section \<open>Any task\<close>

lemma run_task_ok:
  fixes s :: "'a agent_state_scheme"
  assumes "run_task P t s = Some s'" "timers s = []" "task_ok P t s" "far_from_wrap (endTimeOfSyncPeriod s)"
  shows "agent_at (successors (Pending t)) P s'"
proof (cases t)
  case CheckPowerReserve
  then show ?thesis using assms checkPowerReserve_ok [where s = s and s' = s' and P = P and M = "successors (Pending t)"] by auto
next
  case StartSyncPeriodMaintain
  then show ?thesis using assms startSyncPeriodMaintain_ok [where s = s and s' = s' and P = P and M = "successors (Pending t)"] by auto
next
  case TheRadioPreludeTaskWSync
  then show ?thesis using assms preludeWSync_ok [where s = s and s' = s' and P = P and M = "successors (Pending t)"] by auto
next
  case TheRadioPreludeTaskWFish
  then show ?thesis using assms preludeWFish_ok [where s = s and s' = s' and P = P and M = "successors (Pending t)"] by auto
next
  case StartSyncSlotAfterPrelude
  then show ?thesis using assms startSyncSlot_ok [where s = s and s' = s' and P = P and M = "successors (Pending t)"] by auto
next
  case StartSyncSlotWithoutScheduledPrelude
  then show ?thesis
    using assms startSyncSlot_ok [where s = s and s' = s' and P = P and M = "successors (Pending t)"] by (auto simp: SSTask_startSyncSlotWithoutScheduledPrelude_def)
next
  case SendSync
  then show ?thesis using assms sendSync_ok [where s = s and s' = s' and P = P and M = "successors (Pending t)"] by auto
next
  case EndSyncSlotListen
  then show ?thesis using assms endSyncSlot_ok(1) [where s = s and s' = s' and P = P and M = "successors (Pending t)"] by auto
next
  case EndSyncSlotSend
  then show ?thesis using assms endSyncSlot_ok(2) [where s = s and s' = s' and P = P and M = "successors (Pending t)"] by auto
next
  case FishSlotStart
  then show ?thesis using assms fishSlotStart_ok [where s = s and s' = s' and P = P and M = "successors (Pending t)"] by auto
next
  case FishSlotEnd
  then show ?thesis using assms fishSlotEnd_ok [where s = s and s' = s' and P = P and M = "successors (Pending t)"] by auto
next
  case MergerStartAndEnd
  then show ?thesis using assms mergerStartAndEnd_ok [where s = s and s' = s' and P = P and M = "successors (Pending t)"] by auto
next
  case ProvisionStart
  then show ?thesis using assms provisionStart_ok [where s = s and s' = s' and P = P and M = "successors (Pending t)"] by auto
next
  case ProvisionEnd
  then show ?thesis using assms provisionEnd_ok [where s = s and s' = s' and P = P and M = "successors (Pending t)"] by auto
qed

end
