(* ===== verification/Names.thy ===== *)
theory Names
  imports Running
begin

text \<open>
  Where a unit's master comes from: the IDs that a unit believes to be masters, keeps to return to,
  announces when it merges cliques and has transmitted.  Every task and every handler keeps
  its master and the record it returns to within a set \<open>K\<close> of IDs, and what it announces and transmits
  within \<open>K \<union> L\<close>, if \<open>K\<close> holds the unit's own ID and those of the packets it hears that are
  not worse than its master's.
\<close>

section \<open>The IDs a unit holds\<close>

text \<open>The master ID in a packet, as every receiver reads it.\<close>

definition packet_master :: "u8 list \<Rightarrow> system_id" where
  "packet_master bytes = le_word (get_bytes MasterIndex MasterIDLength bytes)"

fun names_in :: "system_id set \<Rightarrow> io_event \<Rightarrow> bool" where
  "names_in K (TransmitStatic bytes) \<longleftrightarrow> packet_master bytes \<in> K"
| "names_in K e \<longleftrightarrow> True"

definition aired :: "system_id set \<Rightarrow> 'a platform_state_scheme \<Rightarrow> bool" where
  "aired K s \<longleftrightarrow> list_all (names_in K) (io s)"

definition names_inv :: "system_id set \<Rightarrow> system_id set \<Rightarrow> 'a agent_state_scheme \<Rightarrow> bool" where
  "names_inv K L s \<longleftrightarrow>
     length (radioBuffer s) = FixedPayloadCount \<and> masterID s \<in> K \<and>
     rec_masterID (cliqueRecords s ! 0) \<in> K \<and> (mergerActive s \<longrightarrow> superiorMasterID s \<in> K \<union> L) \<and>
     aired (K \<union> L) s"

lemma aired_emit [simp]: "aired K (emit e s) \<longleftrightarrow> names_in K e \<and> aired K s"
  by (simp add: aired_def emit_def)

lemma names_inv_emit [simp]: "names_inv K L (emit e s) \<longleftrightarrow> names_in (K \<union> L) e \<and> names_inv K L s"
  for s :: "'a agent_state_scheme"
  by (auto simp: names_inv_def) (simp_all add: emit_def)

lemma names_inv_fields [simp]:
  fixes s :: "'a agent_state_scheme"
  shows "names_inv K L (s\<lparr>timers := ts\<rparr>) = names_inv K L s"
    "names_inv K L (TaskTimer_schedule t d s) = names_inv K L s"
    "names_inv K L (s\<lparr>preludeIsStarted := b\<rparr>) = names_inv K L s"
    "names_inv K L (s\<lparr>slotKind := k\<rparr>) = names_inv K L s"
    "names_inv K L (s\<lparr>handler := h\<rparr>) = names_inv K L s"
    "names_inv K L (s\<lparr>heardWork := b\<rparr>) = names_inv K L s"
    "names_inv K L (s\<lparr>countMergeSyncHeard := n\<rparr>) = names_inv K L s"
    "names_inv K L (s\<lparr>rememberedGranularity := g\<rparr>) = names_inv K L s"
    "names_inv K L (s\<lparr>repeaterCounter := n32\<rparr>) = names_inv K L s"
    "names_inv K L (s\<lparr>repeaterIsActive := b\<rparr>) = names_inv K L s"
    "names_inv K L (s\<lparr>endTimeOfSyncPeriod := t1\<rparr>) = names_inv K L s"
    "names_inv K L (s\<lparr>startTimeOfSyncPeriod := t1\<rparr>) = names_inv K L s"
    "names_inv K L (s\<lparr>unadjustedEndTimeOfSyncPeriod := t1\<rparr>) = names_inv K L s"
    "names_inv K L (s\<lparr>isAdvancedStage := b\<rparr>) = names_inv K L s"
    "names_inv K L (s\<lparr>countSyncSlotsWithoutSyncMsg := n32\<rparr>) = names_inv K L s"
    "names_inv K L (s\<lparr>currentCliqueIndex := n32\<rparr>) = names_inv K L s"
    "names_inv K L (s\<lparr>workTimeCallbackIsSet := b\<rparr>) = names_inv K L s"
    "names_inv K L (s\<lparr>workCycleCallbackIsSet := b\<rparr>) = names_inv K L s"
    "names_inv K L (s\<lparr>syncMode := m\<rparr>) = names_inv K L s"
    "names_inv K L (s\<lparr>mergerRole := r\<rparr>) = names_inv K L s"
    "names_inv K L (s\<lparr>countSentMergeSyncs := i\<rparr>) = names_inv K L s"
  by (simp_all add: names_inv_def aired_def TaskTimer_schedule_def emit_def)

text \<open>A set of IDs that holds the unit's own, and what six bytes of a packet hold of each.\<close>

definition ids_for :: "platform \<Rightarrow> system_id set \<Rightarrow> system_id set \<Rightarrow> bool" where
  "ids_for P K L \<longleftrightarrow> p_systemID P \<in> K \<and> (\<forall>k\<in>K \<union> L. take_bit 48 k \<in> K \<union> L)"

text \<open>An operation that keeps the IDs in any such set.\<close>

definition keeps_names :: "platform \<Rightarrow> 'a agent_state_scheme \<Rightarrow> 'a agent_state_scheme \<Rightarrow> bool" where
  "keeps_names P s s' \<longleftrightarrow> (\<forall>K L. ids_for P K L \<longrightarrow> names_inv K L s \<longrightarrow> names_inv K L s')"

lemma keeps_namesD: "keeps_names P s s' \<Longrightarrow> ids_for P K L \<Longrightarrow> names_inv K L s \<Longrightarrow> names_inv K L s'"
  by (simp add: keeps_names_def)

lemma keeps_names_refl [simp]: "keeps_names P s s"
  by (simp add: keeps_names_def)

lemma keeps_names_trans [trans]: "keeps_names P s r \<Longrightarrow> keeps_names P r t \<Longrightarrow> keeps_names P s t"
  by (simp add: keeps_names_def)

section \<open>Mastership\<close>

lemma updateMastership_names:
  fixes s :: "'a agent_state_scheme"
  assumes "names_inv K L s" "m \<in> K"
  shows "names_inv K L (Clique_updateMastership m s)"
proof (cases "masterID s \<noteq> m \<and> currentCliqueIndex s < 5")
  case True
  then have "unat (currentCliqueIndex s + 1) = Suc (unat (currentCliqueIndex s))"
    by (simp add: unat_suc_small)
  then show ?thesis
    using assms by (cases "cliqueRecords s") (simp_all add: names_inv_def aired_def Clique_updateMastership_def
        CliqueHistory_add_def RecordCount_pred Let_def nth_list_update)
qed (use assms in \<open>auto simp: names_inv_def aired_def Clique_updateMastership_def CliqueHistory_add_def RecordCount_pred\<close>)

lemma updateBySyncMessage_names:
  fixes s :: "'a agent_state_scheme"
  assumes "Clique_updateBySyncMessage P msg s = Some s'" "names_inv K L s" "msg_masterID msg \<in> K"
  shows "names_inv K L s'"
  using assms(1) updateMastership_names [OF assms(2,3)] by (elim updateBySyncMessage_SomeD) simp

lemma restart_names:
  fixes s :: "'a agent_state_scheme"
  assumes "SyncRecoveryTrollingPolicy_restart s = Some s'"
  shows "names_inv K L s' = names_inv K L s"
  using restart_frame [OF assms] by (auto simp: names_inv_def aired_def)

lemma grabMastership_names:
  fixes s :: "'a agent_state_scheme"
  assumes "Clique_grabMastership P s = Some s'"
  shows "keeps_names P s s'"
proof -
  have "SyncRecoveryTrollingPolicy_restart
      (Clique_resetTransmitSyncPolicy (Clique_setSelfMastership P s)) = Some s'"
    using assms by (simp add: Clique_grabMastership_def FishingManager_restartTrollingMode_def)
  from restart_names [OF this] show ?thesis
    by (simp add: keeps_names_def Clique_resetTransmitSyncPolicy_def xmit_policy_defs)
      (simp add: names_inv_def aired_def Clique_setSelfMastership_def ids_for_def)
qed

lemma adjust_names:
  fixes s :: "'a agent_state_scheme"
  assumes "Schedule_adjust t s = Some s'"
  shows "names_inv K L s' = names_inv K L s"
  using adjust_Some_sel [OF assms] by simp

lemma scatterSync_names:
  fixes s :: "'a agent_state_scheme"
  assumes "Clique_scatterSync P s = Some s'"
  shows "keeps_names P s s'"
proof -
  obtain s1 where s1: "Clique_grabMastership P s = Some s1" "Schedule_adjustWithRandomAddedTime P s1 = Some s'"
    using assms unfolding Clique_scatterSync_def by (elim bind_SomeE)
  obtain t where "Schedule_adjust t (emit (RandomUnsignedInt 0 NormalSyncPeriodDuration) s1) = Some s'"
    using s1(2) by (auto simp: Schedule_adjustWithRandomAddedTime_def Random_unsignedInt_def)
  from adjust_names [OF this] grabMastership_names [OF s1(1)] show ?thesis
    by (simp add: keeps_names_def)
qed

lemma revertToFormerMaster_names:
  fixes s :: "'a agent_state_scheme"
  assumes "Clique_revertToFormerMaster P s = Some s'"
  shows "keeps_names P s s'"
proof -
  obtain t s1 where t: "Schedule_adjust t (emit GetNowTime (Clique_updateMastership
      (CliqueHistory_currentCliqueRecordMasterID s) s)) = Some s1"
    "SyncRecoveryTrollingPolicy_restart s1 = Some s'"
    using assms by (auto simp: Clique_revertToFormerMaster_def adjustByCliqueHistoryOffset_eq
        FishingManager_restartTrollingMode_def elim!: bind_SomeE)
  have "names_inv K L s' = names_inv K L (Clique_updateMastership (CliqueHistory_currentCliqueRecordMasterID s) s)" for K L
    using adjust_names [OF t(1)] restart_names [OF t(2)] by simp
  moreover have "CliqueHistory_currentCliqueRecordMasterID s \<in> K" if "names_inv K L s" for K L
    using that by (simp add: names_inv_def CliqueHistory_currentCliqueRecordMasterID_def)
  ultimately show ?thesis
    using updateMastership_names unfolding keeps_names_def by blast
qed

section \<open>Messages\<close>

lemma control_names [simp]:
  fixes s :: "'a agent_state_scheme"
  shows "names_inv K L (Granularity_trySetGranularity g s) = names_inv K L s"
    "names_inv K L (SendRepeater_start t v cb s) = names_inv K L s"
    "names_inv K L (SendRepeater_stop s) = names_inv K L s"
    "names_inv K L (cancelAnyUpstreamingInProgress P s) = names_inv K L s"
    "names_inv K L (FishingManager_switchToDeepFishing d c s) = names_inv K L s"
    "names_inv K L (FishingManager_switchToTrolling s) = names_inv K L s"
    "names_inv K L (Clique_heardSync P s) = names_inv K L s"
  by (simp_all add: Granularity_trySetGranularity_def cancelAnyUpstreamingInProgress_def IntraCliqueManager_abort_def
      Clique_heardSync_def DropoutMonitor_heardSync_def DropoutMonitor_reset_def xmit_policy_defs Let_def)
    (simp_all add: names_inv_def aired_def SendRepeater_start_def SendRepeater_stop_def
      FishingManager_switchToDeepFishing_def DeepFishingPolicy_restart_def FishingManager_switchToTrolling_def)

lemma assumeMastership_names:
  fixes s :: "'a agent_state_scheme"
  shows "keeps_names P s (Clique_assumeMastership P s)"
  by (simp add: keeps_names_def ids_for_def names_inv_def aired_def Clique_assumeMastership_def Clique_setSelfMastership_def)

lemma stopMerger_names:
  fixes s :: "'a agent_state_scheme"
  assumes "SyncAgentImp_stopMerger s = Some s'" "names_inv K L s"
  shows "names_inv K L s'"
  using assms by (auto simp: role_defs MergePolicy_restart_def names_inv_def aired_def split: if_splits)

lemma filterSyncMsg_names:
  fixes s :: "'a agent_state_scheme"
  assumes "SyncBehaviour_filterSyncMsg P msg s = Some (kept, s')" "names_inv K L s" "msg_masterID msg \<le> masterID s \<Longrightarrow> msg_masterID msg \<in> K"
  shows "names_inv K L s'"
proof -
  have "names_inv K L t" if handled: "SyncBehaviour_handleSuperiorOrSameSyncMsg P msg s = Some t"
    and K: "msg_masterID msg \<in> K" for t
  proof -
    obtain r where r: "Clique_updateBySyncMessage P msg s = Some r" "r = t \<or> SyncAgentImp_stopMerger r = Some t"
      using handled by (auto simp: SyncBehaviour_handleSuperiorOrSameSyncMsg_def
          handleSuperiorOrSameSyncWhileMerging_def split: if_splits elim!: bind_SomeE)
    then show ?thesis
      using updateBySyncMessage_names [OF r(1) assms(2) K] stopMerger_names [of r t K L] by blast
  qed
  then show ?thesis
    using assms by (auto simp: SyncBehaviour_filterSyncMsg_def Clique_isMsgFromMyClique_def
        Clique_isOtherCliqueBetter_def split: if_splits elim!: bind_SomeE)
qed

lemma control_message_names:
  fixes s :: "'a agent_state_scheme"
  shows "names_inv K L (NetworkTopology_handleNetGranularityMessage P msg s) = names_inv K L s"
    and "NetworkTopology_handleScatterMessage P msg s = Some s' \<Longrightarrow> keeps_names P s s'"
    and "WorkControlProxy_handleWorkTimeMessage P msg s = Some s' \<Longrightarrow> keeps_names P s s'"
    and "WorkControlProxy_handleWorkCycleMessage P msg s = Some s' \<Longrightarrow> keeps_names P s s'"
proof -
  show "names_inv K L (NetworkTopology_handleNetGranularityMessage P msg s) = names_inv K L s"
    by (simp add: NetworkTopology_handleNetGranularityMessage_def Let_def
        NetworkTopology_masterTellCliqueGranularityChange_def IntraCliqueManager_doDownstreamCliqueSizeChange_def)
  show "NetworkTopology_handleScatterMessage P msg s = Some s' \<Longrightarrow> keeps_names P s s'"
    using scatterSync_names [of P "cancelAnyUpstreamingInProgress P s" s']
    by (auto simp: NetworkTopology_handleScatterMessage_def NetworkTopology_masterTellCliqueToScatter_def
        IntraCliqueManager_doDownstreamScatter_def Scatter_scatter_def keeps_names_def split: if_splits)
  show "WorkControlProxy_handleWorkTimeMessage P msg s = Some s' \<Longrightarrow> keeps_names P s s'"
    "WorkControlProxy_handleWorkCycleMessage P msg s = Some s' \<Longrightarrow> keeps_names P s s'"
    by (auto simp: WorkControlProxy_handleWorkTimeMessage_def WorkControlProxy_handleWorkCycleMessage_def
        WorkControlProxy_callWorkTime_def WorkControlProxy_callWorkCycle_def keeps_names_def split: if_splits)
qed

lemma merge_message_names:
  fixes s :: "'a agent_state_scheme"
  shows "countMergeSync (handleEnticingInferiorMessage P msg s) = Some (r, s') \<Longrightarrow> keeps_names P s s'"
    and "countMergeSync (handleMasterMergedAwayMessage P msg s) = Some (r, s') \<Longrightarrow> keeps_names P s s'"
    and "countMergeSync (handleSlaveMergedAwayMessage P msg s) = Some (r, s') \<Longrightarrow> keeps_names P s s'"
  by (auto simp: countMergeSync_def handleEnticingInferiorMessage_def handleMasterMergedAwayMessage_def
      handleSlaveMergedAwayMessage_def getFishingDeltaFromMergeMsg_def clampedTimeDifferenceFromNow_def
      Schedule_deltaPastSyncPointToNow_def clampedTimeDifferenceToNow_def keeps_names_def)

lemma sync_slot_handle_names:
  fixes s :: "'a agent_state_scheme"
  assumes "SyncSlotMessageHandler_handle P msg s = Some (r, s')"
    and "names_inv K L s" "msg_masterID msg \<le> masterID s \<Longrightarrow> msg_masterID msg \<in> K" "ids_for P K L"
  shows "names_inv K L s'"
proof -
  have granularity: "names_inv K L (handleGranularityAspectOfMasterSync msg s)"
    using assms(2) by (simp add: handleGranularityAspectOfMasterSync_def Let_def)
  have work: "names_inv K L (handleWorkAspectOfWorkCarryingMsg msg s)"
    using assms(2) by (simp add: handleWorkAspectOfWorkCarryingMsg_def SyncAgentImp_relayHeardWorkToApp_def WorkIn_hearWork_def)
  have sync: "names_inv K L t" if "handleSyncAspectOfSyncCarryingMsg P msg q = Some (k, t)" "names_inv K L q"
    "masterID q = masterID s" for k and q t :: "'a agent_state_scheme"
    using that filterSyncMsg_names [of P msg q _ _ K L] assms(3)
    by (auto simp: handleSyncAspectOfSyncCarryingMsg_def elim!: bind_case_prod_SomeE)
  have master: "masterID (handleGranularityAspectOfMasterSync msg s) = masterID s"
    "masterID (handleWorkAspectOfWorkCarryingMsg msg s) = masterID s"
    by (simp_all add: handleGranularityAspectOfMasterSync_def Granularity_trySetGranularity_def
        handleWorkAspectOfWorkCarryingMsg_def SyncAgentImp_relayHeardWorkToApp_def WorkIn_hearWork_def emit_def Let_def)
  have kept: "names_inv K L t" if "keeps_names P s t" for t
    using that assms(4,2) by (rule keeps_namesD)
  show ?thesis
    using assms(1,2) sync [OF _ granularity] sync [OF _ work] master merge_message_names [THEN kept]
      control_message_names(2-4) [THEN kept] kept [OF assumeMastership_names]
    unfolding SyncSlotMessageHandler_handle_def
    by (cases "msg_type msg")
      (auto simp: SyncSlotMessageHandler_handleMasterSyncMessage_def control_message_names(1)
        SyncSlotMessageHandler_handleWorkSyncMessage_def CommonMessageHandler_handleInfoMessage_def
        SyncSlotMessageHandler_handleAbandonMastershipMessage_def
        CommonMessageHandler_handleControlMessageSetGranularity_def
        CommonMessageHandler_handleControlMessageScatter_def
        CommonMessageHandler_handleControlMessageWorkTime_def
        CommonMessageHandler_handleControlMessageWorkCycle_def elim!: bind_SomeE)
qed

text \<open>A catch makes the superior of the two masters the one that is announced.\<close>

lemma toMergerFromFisher_names:
  fixes s :: "'a agent_state_scheme"
  assumes "SyncAgentImp_toMergerFromFisher P msg s = Some s'" "names_inv K L s"
    and "msg_masterID msg \<le> masterID s \<Longrightarrow> msg_masterID msg \<in> K"
  shows "names_inv K L s'"
proof -
  define q where "q = s\<lparr>mergerRole := Merger\<rparr>"
  have "\<exists>r. (Clique_isOtherCliqueBetter (msg_masterID msg) q \<and> initMergeMyClique P msg q = Some r \<or>
      initMergeOtherClique P msg q = Some r) \<and> s' = r\<lparr>mergerActive := True\<rparr>"
    using assms(1) by (auto simp: SyncAgentImp_toMergerFromFisher_def CliqueMerger_initFromMsg_def role_defs q_def
        split: if_splits elim!: bind_SomeE)
  then obtain r where r: "Clique_isOtherCliqueBetter (msg_masterID msg) q \<and> initMergeMyClique P msg q = Some r \<or>
      initMergeOtherClique P msg q = Some r" "s' = r\<lparr>mergerActive := True\<rparr>"
    by blast
  have q: "names_inv K L q"
    using assms(2) by (simp add: q_def)
  from r(1) have "names_inv K L r \<and> superiorMasterID r \<in> K"
  proof
    assume my: "Clique_isOtherCliqueBetter (msg_masterID msg) q \<and> initMergeMyClique P msg q = Some r"
    then have K: "msg_masterID msg \<in> K"
      using assms(3) by (auto simp: Clique_isOtherCliqueBetter_def q_def)
    have u: "Clique_updateBySyncMessage P msg (merging_my P msg q) = Some r"
      using my by (auto simp: initMergeMyClique_def Clique_getMasterID_def merging_my_def Let_def
          Clique_isSelfMaster_def split: if_splits elim!: bind_SomeE)
    moreover have "names_inv K L (merging_my P msg q)"
      using q K by (simp add: names_inv_def aired_def merging_my_def)
    ultimately have "names_inv K L r"
      using K by (rule updateBySyncMessage_names)
    moreover have "superiorMasterID r = msg_masterID msg"
      using u by (elim updateBySyncMessage_shape) (simp add: merging_my_def)
    ultimately show ?thesis
      using K by simp
  next
    assume "initMergeOtherClique P msg q = Some r"
    then show ?thesis
      using q by (auto simp: initMergeOther_eq names_inv_def aired_def)
  qed
  then show ?thesis
    by (simp add: r(2) names_inv_def aired_def)
qed

lemma fish_slot_handle_names:
  fixes s :: "'a agent_state_scheme"
  assumes "FishSlotMessageHandler_handle P msg s = Some (r, s')" "names_inv K L s" "msg_masterID msg \<le> masterID s \<Longrightarrow> msg_masterID msg \<in> K"
  shows "names_inv K L s'"
proof -
  have catch: "names_inv K L t" if "handleCatchFromDeepFishing P msg s = Some (q, t)" for q t
    using that updateBySyncMessage_names [of P msg s _ K L] assms(2,3)
    by (auto simp: handleCatchFromDeepFishing_def Clique_isOtherCliqueBetter_def split: if_splits elim!: bind_SomeE)
  have fished: "names_inv K L t" if "doFishedSyncMsg P msg s = Some (q, t)" for q t
    using that catch toMergerFromFisher_names [of P msg s _ K L] assms(2,3)
    by (auto simp: doFishedSyncMsg_def split: fishing_mode.splits elim!: bind_SomeE)
  show ?thesis
    using assms(1,2) fished unfolding FishSlotMessageHandler_handle_def
    by (cases "msg_type msg")
      (auto simp: FishSlotMessageHandler_handleMasterSyncMessage_def
        FishSlotMessageHandler_handleWorkSyncMessage_def FishSlotMessageHandler_handleMergeSyncMessage_def
        FishSlotMessageHandler_handleAbandonMastershipMessage_def CommonMessageHandler_handleInfoMessage_def
        elim!: bind_case_prod_SomeE)
qed

text \<open>What the receiver reads is the packet's master ID.\<close>

lemma unserialize_master:
  assumes "Serializer_unserialize s = Some (Some msg)"
  shows "msg_masterID msg = packet_master (radioBuffer s)"
  using assms by (auto simp: Serializer_unserialize_def unserializeOTAFieldsIntoMessageFields_def
      unserializeMasterID_def packet_master_def Let_def split: if_splits elim!: bind_SomeE)

lemma onMsgReceived_names:
  fixes s :: "'a agent_state_scheme"
  assumes "Receiver_onMsgReceived P s = Some s'" "names_inv K L s" "ids_for P K L"
    and "packet_master (radioBuffer s) \<le> masterID s \<Longrightarrow> packet_master (radioBuffer s) \<in> K"
  shows "names_inv K L s'"
proof -
  have call: "names_inv K L t" if "call_handler P h msg s = Some (q, t)" "Serializer_unserialize s = Some (Some msg)"
    for h msg q t
    using that(1) unserialize_master [OF that(2)] assms(2-4)
      sync_slot_handle_names [of P msg s q t K L] fish_slot_handle_names [of P msg s q t K L] by (cases h) auto
  show ?thesis
    using assms(1,2) call
    by (auto simp: Receiver_onMsgReceived_def MessageDispatcher_dispatch_def
        handleValidMessageAndSetContinuation_def elim!: bind_SomeE bind_case_prod_SomeE
        split: if_splits option.splits)
qed

end
