(* ===== verification/System.thy ===== *)
theory System
  imports Running
begin

text \<open>
  A unit in its environment: the timer starts the pending task, packets arrive while the receiver
  has a handler, the provisioner calls back, the app sets its callbacks, and wherever a task, a
  handler or a callback faults the unit resets.  The invariant of the theory \<open>Pending\<close> holds in
  every state that is reachable from power on.
\<close>

section \<open>Steps\<close>

text \<open>A unit starts by scheduling the check of its power reserve.  A reset starts over: the variables
  take their initial values, the platform and its history go on.\<close>

definition started :: agent_state where
  "started = SyncSchedule_checkPowerReserve powered_on"

definition rebooted :: "agent_state \<Rightarrow> agent_state" where
  "rebooted s = SyncSchedule_checkPowerReserve (powered_on\<lparr>io := ResetByFault # io s\<rparr>)"

text \<open>What the environment can make the unit do; \<open>None\<close> is a fault.\<close>

datatype stimulus =
    TimerExpires
  | PacketArrives "u8 list"
  | ProvisionerSucceeds provisioned_value "8 word"
  | ProvisionerFails
  | AppConnectsWorkTime bool
  | AppConnectsWorkCycle bool

fun enabled :: "stimulus \<Rightarrow> agent_state \<Rightarrow> bool" where
  "enabled TimerExpires s \<longleftrightarrow> timers s \<noteq> [] \<and> far_from_wrap (endTimeOfSyncPeriod s)"
| "enabled (PacketArrives bytes) s \<longleftrightarrow> length bytes = 11 \<and> handler s \<noteq> NoHandler"
| "enabled (ProvisionerSucceeds v rssi) s \<longleftrightarrow> timers s = []"
| "enabled ProvisionerFails s \<longleftrightarrow> timers s = []"
| "enabled (AppConnectsWorkTime b) s \<longleftrightarrow> True"
| "enabled (AppConnectsWorkCycle b) s \<longleftrightarrow> True"

fun respond :: "platform \<Rightarrow> stimulus \<Rightarrow> agent_state \<Rightarrow> agent_state option" where
  "respond P TimerExpires s =
     (case timers s of [] \<Rightarrow> Some s | (t, d) # ts \<Rightarrow> run_task P t (s\<lparr>timers := ts\<rparr>))"
| "respond P (PacketArrives bytes) s = Receiver_onMsgReceived P (emit PacketReceived (s\<lparr>radioBuffer := bytes\<rparr>))"
| "respond P (ProvisionerSucceeds v rssi) s = ProvisionerCallback_succeed P v rssi (emit ProvisionerCalledBack s)"
| "respond P ProvisionerFails s = ProvisionerCallback_fail (emit ProvisionerCalledBack s)"
| "respond P (AppConnectsWorkTime b) s = Some (WorkControlProxy_setWorkTimeControlCallback b s)"
| "respond P (AppConnectsWorkCycle b) s = Some (WorkControlProxy_setWorkCycleControlCallback b s)"

inductive system_step :: "platform \<Rightarrow> agent_state \<Rightarrow> agent_state \<Rightarrow> bool" for P where
  responds: "enabled e s \<Longrightarrow> respond P e s = Some s' \<Longrightarrow> system_step P s s'"
| faults: "enabled e s \<Longrightarrow> respond P e s = None \<Longrightarrow> system_step P s (rebooted s)"

inductive reachable :: "platform \<Rightarrow> agent_state \<Rightarrow> bool" for P where
  start: "reachable P started"
| step: "reachable P s \<Longrightarrow> system_step P s s' \<Longrightarrow> reachable P s'"

inductive_cases system_stepE: "system_step P s s'"

text \<open>A run as a function of the stimuli, for concrete runs.\<close>

fun run_system :: "platform \<Rightarrow> stimulus list \<Rightarrow> agent_state \<Rightarrow> agent_state" where
  "run_system P [] s = s"
| "run_system P (e # es) s =
     run_system P es (case respond P e s of Some s' \<Rightarrow> s' | None \<Rightarrow> rebooted s)"

fun all_enabled :: "platform \<Rightarrow> stimulus list \<Rightarrow> agent_state \<Rightarrow> bool" where
  "all_enabled P [] s \<longleftrightarrow> True"
| "all_enabled P (e # es) s \<longleftrightarrow>
     enabled e s \<and> all_enabled P es (case respond P e s of Some s' \<Rightarrow> s' | None \<Rightarrow> rebooted s)"

lemma run_system_reachable:
  "reachable P s \<Longrightarrow> all_enabled P es s \<Longrightarrow> reachable P (run_system P es s)"
proof (induction es arbitrary: s)
  case (Cons e es)
  have "system_step P s (case respond P e s of Some s' \<Rightarrow> s' | None \<Rightarrow> rebooted s)"
    using Cons.prems(2) by (auto intro: system_step.intros split: option.splits)
  then show ?case
    using Cons by (auto intro: reachable.step)
qed simp

section \<open>Every step keeps the invariant\<close>

text \<open>What the unit waits for, read off the timer.\<close>

definition moment_of :: "'a platform_state_scheme \<Rightarrow> moment" where
  "moment_of s = (case timers s of [] \<Rightarrow> Provisioning | (t, d) # _ \<Rightarrow> Pending t)"

text \<open>Packets and the app do not move a unit along the diagram of tasks.\<close>

fun advances :: "stimulus \<Rightarrow> bool" where
  "advances TimerExpires \<longleftrightarrow> True"
| "advances (PacketArrives bytes) \<longleftrightarrow> False"
| "advances (ProvisionerSucceeds v rssi) \<longleftrightarrow> True"
| "advances ProvisionerFails \<longleftrightarrow> True"
| "advances (AppConnectsWorkTime b) \<longleftrightarrow> False"
| "advances (AppConnectsWorkCycle b) \<longleftrightarrow> False"

lemma powered_on_boot: "boot_ok (powered_on\<lparr>io := es\<rparr>)"
  by (simp add: boot_ok_def powered_on_def inv_parts generator_ok_def params)

lemma restart_agent_at:
  "agent_at {Pending CheckPowerReserve} P (SyncSchedule_checkPowerReserve (powered_on\<lparr>io := es\<rparr>))"
  unfolding SyncSchedule_checkPowerReserve_def
  by (rule agent_atI) (simp_all add: powered_on_boot, simp add: powered_on_def)

lemma rebooted_agent_at: "agent_at {Pending CheckPowerReserve} P (rebooted s)"
  unfolding rebooted_def by (rule restart_agent_at)

lemma started_agent_at: "agent_at {Pending CheckPowerReserve} P started"
  using restart_agent_at [of P "io powered_on"] by (simp add: started_def)

lemma agent_at_mono: "agent_at M P s \<Longrightarrow> M \<subseteq> N \<Longrightarrow> agent_at N P s"
  by (auto simp: agent_at_def)

lemma agent_at_moment: "agent_inv P s \<longleftrightarrow> agent_at {moment_of s} P s"
  by (auto simp: agent_inv_def agent_at_def moment_of_def)

lemma agent_at_moment_of: "agent_at M P s \<Longrightarrow> moment_of s \<in> M \<and> agent_inv P s"
  by (auto simp: agent_inv_def agent_at_def moment_of_def)

text \<open>What a pending task relies on is kept by whatever keeps the phase and the unit's invariant.\<close>

lemma task_ok_unit_inv:
  assumes "task_ok P t s" "handler s \<noteq> NoHandler"
  shows "unit_inv P s"
  using assms by (cases t) (auto simp: boot_ok_def unit_inv_core)

lemma task_ok_same_phase:
  assumes "task_ok P t s" "same_phase s s'" "unit_inv P s'" "handler s \<noteq> NoHandler"
  shows "task_ok P t s'"
  using assms by (cases t) (auto simp: same_phase_def boot_ok_def unit_inv_core)

lemma receive_agent_at:
  fixes s :: agent_state
  assumes "agent_at M P s" "handler s \<noteq> NoHandler"
    and "Receiver_onMsgReceived P (emit PacketReceived (s\<lparr>radioBuffer := bytes\<rparr>)) = Some s'"
  shows "agent_at M P s'"
proof -
  let ?r = "emit PacketReceived (s\<lparr>radioBuffer := bytes\<rparr>)"
  have phase: "same_phase s s'"
    using onMsgReceived_phase [OF assms(3)] by (simp add: same_phase_def emit_def)
  have inv: "unit_inv P s"
    using assms(1,2) task_ok_unit_inv by (auto simp: agent_at_def provisioning_ok_def)
  then have "unit_inv P s'"
    using onMsgReceived_inv [OF _ assms(3)] by simp
  then have "task_ok P t s'" if "task_ok P t s" for t
    using task_ok_same_phase [OF that phase] assms(2) by simp
  moreover have "provisioning_ok P s'" if "provisioning_ok P s"
    using that phase \<open>unit_inv P s'\<close> by (simp add: provisioning_ok_def same_phase_def)
  moreover have "timers s' = timers s"
    using phase by (simp add: same_phase_def)
  ultimately show ?thesis
    using assms(1) by (auto simp: agent_at_def)
qed

lemma connect_agent_at:
  fixes s :: agent_state
  assumes "agent_at M P s"
  shows "agent_at M P (s\<lparr>workTimeCallbackIsSet := b\<rparr>)" "agent_at M P (s\<lparr>workCycleCallbackIsSet := b\<rparr>)"
proof -
  have fields: "unit_inv P (s\<lparr>workTimeCallbackIsSet := b\<rparr>) = unit_inv P s"
    "unit_inv P (s\<lparr>workCycleCallbackIsSet := b\<rparr>) = unit_inv P s"
    "core_inv P (s\<lparr>workTimeCallbackIsSet := b\<rparr>) = core_inv P s"
    "core_inv P (s\<lparr>workCycleCallbackIsSet := b\<rparr>) = core_inv P s"
    "schedule_inv (s\<lparr>workTimeCallbackIsSet := b\<rparr>) = schedule_inv s"
    "schedule_inv (s\<lparr>workCycleCallbackIsSet := b\<rparr>) = schedule_inv s"
    "boot_ok (s\<lparr>workTimeCallbackIsSet := b\<rparr>) = boot_ok s"
    "boot_ok (s\<lparr>workCycleCallbackIsSet := b\<rparr>) = boot_ok s"
    by (simp_all add: unit_inv_parts core_inv_def boot_ok_def)
  have "task_ok P t (s\<lparr>workTimeCallbackIsSet := b\<rparr>) = task_ok P t s"
    "task_ok P t (s\<lparr>workCycleCallbackIsSet := b\<rparr>) = task_ok P t s" for t
    by (cases t; simp add: fields)+
  then show "agent_at M P (s\<lparr>workTimeCallbackIsSet := b\<rparr>)" "agent_at M P (s\<lparr>workCycleCallbackIsSet := b\<rparr>)"
    using assms by (simp_all add: agent_at_def provisioning_ok_def fields)
qed

lemma task_ok_timers [simp]:
  "task_ok P t (s\<lparr>timers := ts\<rparr>) = task_ok P t s" for s :: agent_state
  by (cases t) (simp_all add: boot_ok_def inv_parts)

lemma respond_agent_at:
  assumes "agent_inv P s" "enabled e s" "respond P e s = Some s'"
  shows "agent_at (if advances e then successors (moment_of s) else {moment_of s}) P s'"
proof (cases e)
  case TimerExpires
  then obtain t d where t: "timers s = [(t, d)]" "task_ok P t s"
    using assms(1,2) by (auto simp: agent_inv_def agent_at_def)
  have "run_task P t (s\<lparr>timers := []\<rparr>) = Some s'"
    using assms(3) TimerExpires t(1) by simp
  then have "agent_at (successors (Pending t)) P s'"
    by (rule run_task_ok) (use TimerExpires assms(2) t(2) in simp_all)
  then show ?thesis
    using t(1) TimerExpires by (simp add: moment_of_def)
next
  case (PacketArrives bytes)
  then show ?thesis
    using receive_agent_at [of "{moment_of s}" P s] assms by (simp add: agent_at_moment)
next
  case (ProvisionerSucceeds v rssi)
  then have "timers (emit ProvisionerCalledBack s) = []" "provisioning_ok P (emit ProvisionerCalledBack s)"
    "moment_of s = Provisioning"
    using assms(1,2) by (auto simp: agent_inv_def agent_at_def provisioning_ok_def moment_of_def)
  then show ?thesis
    using provisionerCallback_ok(1) [of "emit ProvisionerCalledBack s" P "successors Provisioning" v rssi s']
      assms(3) ProvisionerSucceeds by simp
next
  case ProvisionerFails
  then have "timers (emit ProvisionerCalledBack s) = []" "provisioning_ok P (emit ProvisionerCalledBack s)"
    "moment_of s = Provisioning"
    using assms(1,2) by (auto simp: agent_inv_def agent_at_def provisioning_ok_def moment_of_def)
  then show ?thesis
    using provisionerCallback_ok(2) [of "emit ProvisionerCalledBack s" P "successors Provisioning" s']
      assms(3) ProvisionerFails by simp
next
  case (AppConnectsWorkTime b)
  then show ?thesis
    using assms connect_agent_at(1) [of "{moment_of s}" P s b]
    by (auto simp: WorkControlProxy_setWorkTimeControlCallback_def agent_at_moment)
next
  case (AppConnectsWorkCycle b)
  then show ?thesis
    using assms connect_agent_at(2) [of "{moment_of s}" P s b]
    by (auto simp: WorkControlProxy_setWorkCycleControlCallback_def agent_at_moment)
qed

lemma reachable_agent_inv: "reachable P s \<Longrightarrow> agent_inv P s"
proof (induction rule: reachable.induct)
  case start
  show ?case using agent_at_moment_of [OF started_agent_at] by simp
next
  case (step s s')
  then show ?case
    using agent_at_moment_of [OF respond_agent_at] agent_at_moment_of [OF rebooted_agent_at]
    by (auto elim!: system_stepE)
qed

section \<open>Tasks that cannot fault\<close>

lemma theRadioPreludeTaskWSync_total:
  fixes s :: "'a agent_state_scheme"
  assumes "unit_inv P s"
  shows "\<exists>s'. theRadioPreludeTaskWSync P s = Some s'"
proof -
  define r where "r = SyncAgentImp_callbackAppPreSync
      (SSTask_radioPrelude (SyncSchedule_startSyncSlotFromPreludeStart s))"
  have "core_inv P r"
    using assms by (simp add: r_def SSTask_radioPrelude_def SyncSchedule_startSyncSlotFromPreludeStart_def
        SyncAgentImp_callbackAppPreSync_def RadioPrelude_doIt_def unit_inv_core)
  from mode_transition_core [OF this] have "trolling_inv (SyncModeManager_checkPowerAndTryModeTransitions P r)"
    by (simp add: core_inv_def)
  from FishPowerMgr_manage_inv [OF this, of P] show ?thesis
    by (auto simp: theRadioPreludeTaskWSync_def SyncSlot_bookkeepingAtPreludeToSyncSlot_def r_def)
qed

end
