(* ===== verification/TaskNames.thy ===== *)
theory TaskNames
  imports Names System
begin

text \<open>Every task keeps the IDs of masters that the theory \<open>Names\<close> is about.\<close>

section \<open>Transmitting\<close>

lemma sendMessage_names:
  fixes s :: "'a agent_state_scheme"
  assumes "sendMessage msg s = Some s'" "names_inv K L s" "take_bit 48 (msg_masterID msg) \<in> K \<union> L"
  shows "names_inv K L s'"
proof -
  have buf: "length (radioBuffer s) = FixedPayloadCount"
    using assms(2) by (simp add: names_inv_def)
  then have "names_inv K L (s\<lparr>radioBuffer := packet_of msg (radioBuffer s)\<rparr>)"
    using assms(2) by (simp add: names_inv_def aired_def packet_of_fields(5))
  moreover have "names_in (K \<union> L) (TransmitStatic (packet_of msg (radioBuffer s)))"
    using assms(3) by (simp add: packet_master_def packet_of_fields(2) [OF buf])
  ultimately show ?thesis
    using assms(1) by (auto simp: sendMessage_eq split: if_splits)
qed

lemma sendMessage_keeps_names:
  fixes s :: "'a agent_state_scheme"
  assumes "sendMessage msg (emit GetNowTime s) = Some s'" "\<And>K L. names_inv K L s \<Longrightarrow> msg_masterID msg \<in> K \<union> L"
  shows "keeps_names P s s'"
  using sendMessage_names [OF assms(1)] assms(2) by (simp add: keeps_names_def ids_for_def)

lemma initSync_send_names:
  fixes s :: "'a agent_state_scheme"
  assumes "Option.bind (MessageFactory_initSyncMessage P t w s) (\<lambda>(msg, s). sendMessage msg s) = Some s'"
  shows "keeps_names Q s s'"
proof -
  obtain msg where "sendMessage msg (emit GetNowTime s) = Some s'" "msg_masterID msg = masterID s"
    using assms by (auto simp: initSyncMessage_eq split: if_splits)
  then show ?thesis
    by (elim sendMessage_keeps_names) (simp add: names_inv_def)
qed

lemma sendSteps_names:
  fixes s :: "'a agent_state_scheme"
  shows "SyncSlotStep_sendWorkSync P s = Some s' \<Longrightarrow> keeps_names P s s'"
    and "SyncSlotStep_sendSync P s = Some s' \<Longrightarrow> keeps_names P s s'"
    and "SyncSlotStep_sendControlSync P s = Some s' \<Longrightarrow> keeps_names P s s'"
  using initSync_send_names [of P WorkSync _ "emit FetchMail s" s' P] initSync_send_names [of P _ _ s s' P]
  by (auto simp: SyncSlotStep_sendWorkSync_def SyncSlotStep_sendSync_def SyncSlotStep_sendControlSync_def
      WorkOut_fetch_def Mailbox_fetch_def SyncSender_sendWorkSync_def SyncSender_sendMasterSync_def
      SyncSender_sendControlSync_def keeps_names_def)

lemma sendMergeSync_names:
  fixes s :: "'a agent_state_scheme"
  assumes "SyncSender_sendMergeSync P s = Some s'"
  shows "keeps_names P s s'"
proof -
  obtain msg r where msg: "CliqueMerger_makeMergeMsg P s = Some (msg, r)" "sendMessage msg r = Some s'"
    using assms unfolding SyncSender_sendMergeSync_def by (elim bind_case_prod_SomeE)
  from msg(1) have "mergerActive s" "msg_masterID msg = superiorMasterID s"
    by (auto simp: CliqueMerger_makeMergeMsg_def Schedule_deltaNowToNextUnadjustedSyncPoint_def
        clampedTimeDifferenceFromNow_def MessageFactory_initMergeSyncMessage_def emit_def
        split: if_splits elim!: bind_SomeE)
  with msg(2) [unfolded makeMergeMsg_shape(1) [OF msg(1)]] show ?thesis
    by (elim sendMessage_keeps_names) (simp add: names_inv_def)
qed

section \<open>The sync slot\<close>

lemma decideKind_names:
  fixes s :: "'a agent_state_scheme"
  assumes "SyncSlotProperty_decideKind P s = (k, s')"
  shows "names_inv K L s' = names_inv K L s"
proof -
  have control: "names_inv K L (snd (IntraCliqueManager_shouldSendControlSync P q)) = names_inv K L q"
    for q :: "'a agent_state_scheme"
    by (simp add: IntraCliqueManager_shouldSendControlSync_def SendRepeater_shouldSend_def Random_coinToss_def Let_def)
  have transmit: "names_inv K L (snd (SyncBehaviour_shouldTransmitSync P q)) = names_inv K L q"
    for q :: "'a agent_state_scheme"
    by (simp add: SyncBehaviour_shouldTransmitSync_def Clique_shouldTransmitSync_def xmit_policy_defs
        Alarm_tickWithAlarm_def Random_coinToss_def)
  show ?thesis
    using assms
    by (auto simp: SyncSlotProperty_decideKind_def WorkOut_isNeedSendWork_def Mailbox_isMail_def split_beta Let_def
        control transmit split: if_splits)
qed

lemma checkDone_names:
  fixes s :: "'a agent_state_scheme"
  assumes "IntraCliqueManager_checkDoneAndEnactControl P s = Some s'"
  shows "keeps_names P s s'"
proof -
  have "keeps_names P r t" if "call_repeat_callback P c r = Some t" for c and r t :: "'a agent_state_scheme"
    using that scatterSync_names [of P r t]
    by (cases c) (auto simp: onDoneGranularityWithAction_def onDoneRepeatingUpstream_def onDoneScatter_def
        Scatter_scatter_def keeps_names_def split: if_splits)
  from this [of _ "s\<lparr>repeaterIsActive := False, repeaterCounter := 0\<rparr>" s'] show ?thesis
    using assms by (auto simp: IntraCliqueManager_checkDoneAndEnactControl_def
        SendRepeater_checkDoneAndEnactControl_def keeps_names_def split: if_splits)
qed

lemma dispatchSyncSlotKind_names:
  fixes s :: "'a agent_state_scheme"
  assumes "SyncSlot_dispatchSyncSlotKind P s = Some s'"
  shows "keeps_names P s s'"
proof -
  obtain k r where k: "SyncSlotProperty_decideKind P s = (k, r)"
    by fastforce
  define q where "q = SyncSchedule_syncSendTask P (r\<lparr>slotKind := k\<rparr>)"
  have q: "names_inv K L q = names_inv K L s" for K L
    using decideKind_names [OF k] by (simp add: q_def SyncSchedule_syncSendTask_def
        SyncSlotSchedule_deltaToThisSyncSlotMiddleSubslot_def clampedTimeDifferenceFromNow_def Let_def)
  have "IntraCliqueManager_checkDoneAndEnactControl P q = Some s' \<or> s' = q \<or>
      s' = SyncSchedule_syncSlotEndFromListen P (SyncSlot_beginListen (r\<lparr>slotKind := k\<rparr>))"
    using assms by (cases k) (simp_all add: SyncSlot_dispatchSyncSlotKind_def k q_def)
  then show ?thesis
    using q decideKind_names [OF k] checkDone_names [of P q s']
    by (auto simp: keeps_names_def SyncSchedule_syncSlotEndFromListen_def
        SyncSlot_beginListen_def Receiver_startWithHandler_def SyncSlotSchedule_deltaToThisSyncSlotEnd_def
        clampedTimeDifferenceFromNow_def)
qed

lemma endListen_names:
  fixes s :: "'a agent_state_scheme"
  assumes "SyncSlot_endListen P s = Some s'"
  shows "keeps_names P s s'"
proof (cases "Clique_isSelfMaster P (Receiver_stop s)")
  case True
  then show ?thesis
    using assms by (auto simp: SyncSlot_endListen_def keeps_names_def Receiver_stop_def)
next
  case False
  obtain b r where r: "DropoutMonitor_isDropout (Receiver_stop s) = Some (b, r)"
    "(if b then Clique_onMasterDropout P r else Some r) = Some s'"
    using assms False by (auto simp: SyncSlot_endListen_def Clique_checkMasterDroppedOut_def
        elim!: bind_case_prod_SomeE)
  have stop: "names_inv K L r = names_inv K L s" for K L
    using r(1) by (auto simp: DropoutMonitor_isDropout_def DropoutMonitor_reset_def Receiver_stop_def Let_def split: if_splits)
  have "keeps_names P r s'"
  proof (cases b)
    case True
    then obtain q where q: "CliqueHistory_setCurrentCliqueRecordToFormerClique r = Some q"
      "(if CliqueHistory_isCurrentCliqueRecordSelf P q then Clique_grabMastership P q
        else Clique_revertToFormerMaster P q) = Some s'"
      using r(2) by (auto simp: Clique_onMasterDropout_def Clique_revertByCliqueHistory_def elim!: bind_SomeE)
    have "keeps_names P q s'"
      using q(2) revertToFormerMaster_names [of P q s'] grabMastership_names [of P q s'] by (auto split: if_splits)
    moreover have "names_inv K L q = names_inv K L r" for K L
      using q(1) by (auto simp: CliqueHistory_setCurrentCliqueRecordToFormerClique_def split: if_splits)
    ultimately show ?thesis
      by (simp add: keeps_names_def)
  qed (use r(2) in simp)
  then show ?thesis
    by (simp add: keeps_names_def stop)
qed

section \<open>Between the sync slot and the next\<close>

text \<open>What schedules the next task reads the clock, undoes the radio's prelude and schedules.\<close>

lemma undo_names [simp]:
  fixes s :: "'a agent_state_scheme"
  shows "names_inv K L (RadioPrelude_undo s) = names_inv K L s" "names_inv K L (RadioPrelude_doIt s) = names_inv K L s"
  by (simp_all add: RadioPrelude_undo_def RadioPrelude_doIt_def)

lemma radioPreludeTaskWSync_names:
  fixes s :: "'a agent_state_scheme"
  assumes "SyncSchedule_radioPreludeTaskWSync P s = Some s'"
  shows "names_inv K L s' = names_inv K L s"
  using assms by (auto simp: SyncSchedule_radioPreludeTaskWSync_def SleepDuration_nowTilPreludeWSync_def
      SleepDuration_nowTilSyncPoint_def Schedule_deltaNowToNextSyncPoint_def clampedTimeDifferenceFromNow_def
      Let_def elim!: bind_SomeE)

lemma withoutPrelude_names [simp]:
  fixes s :: "'a agent_state_scheme"
  shows "names_inv K L (SyncSchedule_startSyncSlotWithoutScheduledPrelude P s) = names_inv K L s"
    "names_inv K L (SyncSchedule_maintainSyncPeriodFromMaintainSyncPeriod P s) = names_inv K L s"
  by (simp_all add: SyncSchedule_startSyncSlotWithoutScheduledPrelude_def SleepDuration_nowTilSyncPoint_def
      SyncSchedule_maintainSyncPeriodFromMaintainSyncPeriod_def
      Schedule_deltaNowToNextSyncPoint_def clampedTimeDifferenceFromNow_def)

lemma syncSlotAfter_names:
  fixes s :: "'a agent_state_scheme"
  shows "SyncSchedule_syncSlotAfterFishSlot P s = Some s' \<Longrightarrow> names_inv K L s' = names_inv K L s"
    and "SyncSchedule_syncSlotAfterMerging P s = Some s' \<Longrightarrow> names_inv K L s' = names_inv K L s"
    and "SyncSchedule_syncSlotAfterProvisioning P s = Some s' \<Longrightarrow> names_inv K L s' = names_inv K L s"
    and "SyncSchedule_omitNonsyncSlot P s = Some s' \<Longrightarrow> names_inv K L s' = names_inv K L s"
    and "SyncSchedule_syncSlotAfterSyncSlot P s = Some s' \<Longrightarrow> names_inv K L s' = names_inv K L s"
  using radioPreludeTaskWSync_names [of P "RadioPrelude_undo s" s' K L] radioPreludeTaskWSync_names [of P s s' K L]
  by (auto simp: SyncSchedule_syncSlotAfterFishSlot_def SyncSchedule_syncSlotAfterMerging_def
      SyncSchedule_syncSlotAfterProvisioning_def RadioPrelude_tryUndoAfterFishing_def
      SyncSchedule_omitNonsyncSlot_def SyncSchedule_syncSlotAfterSyncSlot_def
      RadioPrelude_tryUndoAfterMerging_def Let_def split: if_splits)

lemma merger_names:
  fixes s :: "'a agent_state_scheme"
  assumes "SyncSchedule_merger P s = Some s'"
  shows "names_inv K L s' = names_inv K L s"
  using assms by (auto simp: SyncSchedule_merger_def MergeSchedule_deltaToThisMergeStart_def
      clampedTimeDifferenceFromNow_def elim!: bind_SomeE)

lemma fishing_names:
  fixes s :: "'a agent_state_scheme"
  assumes "SyncSchedule_fishing P s = Some s'"
  shows "names_inv K L s' = names_inv K L s"
  using assms by (auto simp: SyncSchedule_fishing_def SyncSchedule_fishSlotStart_def
      SyncSchedule_radioPreludeTaskWFish_def SleepDuration_nowTilFishStart_def SleepDuration_nowTilPreludeWFish_def
      FishSchedule_deltaToFishSessionStart_def clampedTimeDifferenceFromNow_def Let_def
      split: if_splits elim!: bind_SomeE)

lemma setStartAndEndTimes_names [simp]:
  fixes s :: "'a agent_state_scheme"
  shows "names_inv K L (FishSchedule_setStartAndEndTimes s) = names_inv K L s"
proof -
  have "names_inv K L (snd (FishingManager_getStartTimeToFish s)) = names_inv K L s"
    by (simp add: manager_start_cases DeepFishingPolicy_getStartTimeToFish_def names_inv_def aired_def)
  then show ?thesis
    by (simp add: FishSchedule_setStartAndEndTimes_def FishSchedule_memoTimeOfFishSessionEnd_def
        FishSchedule_memoTimeOfFishSessionStart_def split_beta Let_def names_inv_def aired_def)
qed

lemma tryFishOrMerge_names:
  fixes s :: "'a agent_state_scheme"
  assumes "SSTask_tryFishOrMerge P s = Some s'"
  shows "names_inv K L s' = names_inv K L s"
proof -
  define r where "r = emit CoinToss s"
  define f where "f = emit (MeasurePower Medium) s"
  have "SyncSchedule_merger P r = Some s' \<or> SyncSchedule_omitNonsyncSlot P r = Some s' \<or>
      SyncSchedule_fishing P (FishSchedule_setStartAndEndTimes f) = Some s' \<or>
      SyncSchedule_omitNonsyncSlot P f = Some s' \<or> SyncSchedule_omitNonsyncSlot P s = Some s'"
    using assms by (auto simp: SSTask_tryFishOrMerge_def MergePolicy_shouldScheduleMerge_def Random_coinToss_def
        power_defs r_def f_def split: role.splits if_splits)
  moreover have "names_inv K L r = names_inv K L s" "names_inv K L f = names_inv K L s"
    by (simp_all add: r_def f_def)
  ultimately show ?thesis
    using merger_names [of P r s' K L] syncSlotAfter_names(4) [of P _ s' K L]
      fishing_names [of P "FishSchedule_setStartAndEndTimes f" s' K L] by (metis setStartAndEndTimes_names)
qed

lemma preFishing_names:
  fixes s :: "'a agent_state_scheme"
  assumes "FishingManager_preFishing s = Some s'"
  shows "names_inv K L s' = names_inv K L s"
proof (cases "fishingMode s")
  case Trolling
  then have p: "SyncRecoveryTrollingPolicy_proceedToNextFishSlotOrdinal s = Some s'"
    using assms by (simp add: FishingManager_preFishing_def SyncRecoveryTrollingPolicy_preFishing_def)
  obtain u w k e b where "s' = s\<lparr>upCounter := u, downCounter := w, currentStartSlotOrdinal := k,
      currentEndSlotOrdinal := e, direction := b\<rparr>"
    using proceed_frame [OF p] by blast
  then show ?thesis
    by (simp only:) (simp add: names_inv_def aired_def)
qed (use assms in \<open>simp add: FishingManager_preFishing_def DeepFishingPolicy_preFishing_def\<close>)

lemma scheduleNonSyncTask_names:
  fixes s :: "'a agent_state_scheme"
  assumes "scheduleNonSyncTask P s = Some s'"
  shows "names_inv K L s' = names_inv K L s"
proof -
  obtain r b q where r: "FishingManager_preFishing s = Some r" "RadioPrelude_tryUndoAfterSyncing r = Some (b, q)"
    "(case syncMode q of SyncOnly \<Rightarrow> SyncSchedule_syncSlotAfterSyncSlot P q
        | SyncAndFishMerge \<Rightarrow> SSTask_tryFishOrMerge P q
        | SyncAndProvision \<Rightarrow> Some (if p_softdevicePresent P then SyncSchedule_provisionStart q else q)
        | Maintain \<Rightarrow> None) = Some s'"
    using assms(1) unfolding scheduleNonSyncTask_def SyncModeManager_mode_def
    by (elim bind_SomeE bind_case_prod_SomeE)
  have "q = r \<or> q = RadioPrelude_undo r"
    using r(2) by (auto simp: RadioPrelude_tryUndoAfterSyncing_def elim!: bind_SomeE)
  then have "names_inv K L q = names_inv K L s"
    using preFishing_names [OF r(1), of K L] undo_names(1) [of K L r] by metis
  moreover have "names_inv K L s' = names_inv K L q"
    using r(3) syncSlotAfter_names(5) [of P q s' K L] tryFishOrMerge_names [of P q s' K L]
    by (auto simp: SyncSchedule_provisionStart_def split: sync_mode.splits if_splits)
  ultimately show ?thesis
    by simp
qed

section \<open>Bookkeeping\<close>

lemma mode_transition_names:
  fixes s :: "'a agent_state_scheme"
  assumes "names_inv K L s"
  shows "names_inv K L (SyncModeManager_checkPowerAndTryModeTransitions P s)"
  using assms by (cases "syncMode s") (simp_all add: mode_transition_defs Let_def names_inv_def aired_def)

lemma manage_names:
  fixes s :: "'a agent_state_scheme"
  assumes "FishPowerMgr_manage P s = Some s'" "names_inv K L s"
  shows "names_inv K L s'"
proof -
  have kept: "names_inv K L (t\<lparr>dynamicFishSessionDurationInTicks := d\<rparr>) = names_inv K L t"
    "names_inv K L (t\<lparr>sessionDurationInSlots := n\<rparr>) = names_inv K L t" "names_inv K L (t\<lparr>isMaxFishing := b\<rparr>) = names_inv K L t"
    for t :: "'a agent_state_scheme" and d n b
    by (simp_all add: names_inv_def aired_def)
  show ?thesis
    using assms
    by (auto simp: FishPowerMgr_manage_def Vcc_measureAtLeast2_7_def SlottedFishSession_incrementFishSessionDuration_def
        SlottedFishSession_setDurationToMinDuration_def Let_def kept
        dest!: restart_names [where K = K and L = L] split: if_splits elim!: bind_SomeE)
qed

lemma bookkeeping_names:
  fixes s :: "'a agent_state_scheme"
  shows "SyncSlot_bookkeepingAtPreludeToSyncSlot P s = Some s' \<Longrightarrow> names_inv K L s \<Longrightarrow> names_inv K L s'"
    and "SyncSlot_bookkeepingAtStartSyncSlot P s = Some s' \<Longrightarrow> names_inv K L s' = names_inv K L s"
proof -
  show "SyncSlot_bookkeepingAtPreludeToSyncSlot P s = Some s' \<Longrightarrow> names_inv K L s \<Longrightarrow> names_inv K L s'"
    using mode_transition_names [of K L "SyncAgentImp_callbackAppPreSync s" P] manage_names
    by (simp add: SyncSlot_bookkeepingAtPreludeToSyncSlot_def SyncAgentImp_callbackAppPreSync_def)
  show "SyncSlot_bookkeepingAtStartSyncSlot P s = Some s' \<Longrightarrow> names_inv K L s' = names_inv K L s"
    by (auto simp: SyncSlot_bookkeepingAtStartSyncSlot_def SyncAgentImp_preludeToSyncPeriod_def WorkIn_resetState_def
        Schedule_rollPeriodForward_def rollPeriodForwardDiscretely_def Let_def split: if_splits)
qed

section \<open>Tasks\<close>

lemma startSyncSlot_names:
  fixes s :: "'a agent_state_scheme"
  assumes "SSTask_startSyncSlotAfterPrelude P s = Some s'"
  shows "keeps_names P s s'"
proof -
  obtain r where r: "SyncSlot_bookkeepingAtStartSyncSlot P s = Some r"
    "s' = RadioPrelude_undo (SyncSchedule_maintainSyncPeriod P r) \<or> SyncSlot_dispatchSyncSlotKind P r = Some s'"
    using assms by (auto simp: SSTask_startSyncSlotAfterPrelude_def split: if_splits sync_mode.splits elim!: bind_SomeE)
  have "keeps_names P r s'"
    using r(2) dispatchSyncSlotKind_names [of P r s'] by (auto simp: keeps_names_def SyncSchedule_maintainSyncPeriod_def)
  then show ?thesis
    using bookkeeping_names(2) [OF r(1)] by (simp add: keeps_names_def)
qed

lemma startSyncPeriodMaintain_names:
  fixes s :: "'a agent_state_scheme"
  assumes "SSTask_startSyncPeriodMaintain P s = Some s'" "names_inv K L s"
  shows "names_inv K L s'"
proof -
  obtain q r where q: "SyncSlot_bookkeepingAtPreludeToSyncSlot P s = Some q"
    "SyncSlot_bookkeepingAtStartSyncSlot P q = Some r"
    "s' = SyncSchedule_maintainSyncPeriod P r \<or> SyncSchedule_radioPreludeTaskWSync P r = Some s'"
    using assms(1) by (auto simp: SSTask_startSyncPeriodMaintain_def split: if_splits sync_mode.splits elim!: bind_SomeE)
  have "names_inv K L r"
    using bookkeeping_names(1) [OF q(1) assms(2)] bookkeeping_names(2) [OF q(2), of K L] by simp
  then show ?thesis
    using q(3) radioPreludeTaskWSync_names [of P r s' K L] by (auto simp: SyncSchedule_maintainSyncPeriod_def)
qed

lemma checkFishingDone_names:
  fixes s :: "'a agent_state_scheme"
  assumes "FishingManager_checkFishingDone P s = Some s'"
  shows "keeps_names P s s'"
proof -
  have callback: "keeps_names P s (call_fish_callback P c s)" for c
    using assumeMastership_names by (cases c) (simp_all add: DeepFishing_endWithRecoverMaster_def)
  show ?thesis
    using assms callback
    by (auto simp: FishingManager_checkFishingDone_def DeepFishingPolicy_checkDone_def keeps_names_def
        split: fishing_mode.splits if_splits)
qed

lemma completion_names:
  fixes s :: "'a agent_state_scheme"
  assumes "MergePolicy_checkCompletionOfMergerRole s = Some (c, q)" "names_inv K L s"
  shows "names_inv K L q"
  using assms by (auto simp: MergePolicy_checkCompletionOfMergerRole_def MergePolicy_restart_def Let_def split: if_splits)

lemma notify_names:
  fixes s :: "'a agent_state_scheme"
  assumes "ProvisioningPublisher_notify P index v rssi s = Some s'"
  shows "names_inv K L s' = names_inv K L s"
proof -
  have call: "names_inv K L s' = names_inv K L s" if "call_provision_callback P c n s = Some s'" for c n
    using that by (cases c)
      (auto simp: provisionWorkTime_def provisionWorkCycle_def WorkControlProxy_callWorkTime_def
        WorkControlProxy_callWorkCycle_def IntraCliqueManager_doUpstreamWorkTime_def
        IntraCliqueManager_doDownstreamCliqueSizeChange_def
        IntraCliqueManager_doUpstreamWorkCycle_def NetTopologyProvisioner_handleNetGranularityProvisioning_def
        NetTopologyProvisioner_handleScatterProvisioning_def IntraCliqueManager_doUpstreamCliqueSizeChange_def
        NetworkTopology_masterTellCliqueGranularityChange_def IntraCliqueManager_doUpstreamScatter_def
        IntraCliqueManager_doDownstreamScatter_def Let_def split: if_splits elim!: bind_SomeE)
  show ?thesis
    using assms call by (auto simp: ProvisioningPublisher_notify_def Let_def split: if_splits elim!: bind_SomeE)
qed

lemma provisioner_names:
  fixes s :: "'a agent_state_scheme"
  shows "ProvisionerCallback_succeed P v rssi s = Some s' \<Longrightarrow> names_inv K L s' = names_inv K L s"
    and "ProvisionerCallback_fail s = Some s' \<Longrightarrow> names_inv K L s' = names_inv K L s"
    and "SSTask_provisionEnd P s = Some s' \<Longrightarrow> names_inv K L s' = names_inv K L s"
    and "SSTask_provisionStart P s = Some s' \<Longrightarrow> names_inv K L s' = names_inv K L s"
proof -
  show "ProvisionerCallback_succeed P v rssi s = Some s' \<Longrightarrow> names_inv K L s' = names_inv K L s"
    using notify_names [of P _ v rssi s _ K L]
    by (auto simp: ProvisionerCallback_succeed_def SyncSchedule_provisionEnd_def Let_def split: if_splits elim!: bind_SomeE)
  show "ProvisionerCallback_fail s = Some s' \<Longrightarrow> names_inv K L s' = names_inv K L s"
    by (auto simp: ProvisionerCallback_fail_def SyncSchedule_provisionEnd_def)
  have end_names: "names_inv K L s' = names_inv K L t" if "SSTask_provisionEnd P t = Some s'" for t
    using that syncSlotAfter_names(3) [of P _ s' K L] by (auto simp: SSTask_provisionEnd_def SyncAgentImp_initEnsembleProtocol_def Let_def)
  then show "SSTask_provisionEnd P s = Some s' \<Longrightarrow> names_inv K L s' = names_inv K L s" .
  show "SSTask_provisionStart P s = Some s' \<Longrightarrow> names_inv K L s' = names_inv K L s"
    using end_names [of "emit ProvisionerStart s"]
    by (auto simp: SSTask_provisionStart_def Provisioner_start_def split: if_splits)
qed

section \<open>Starting\<close>

text \<open>Before a unit is initialized it has no master; a merger is not active and its buffer is empty or
  heard nothing.\<close>

definition boot_names :: "system_id set \<Rightarrow> 'a agent_state_scheme \<Rightarrow> bool" where
  "boot_names K s \<longleftrightarrow>
     length (radioBuffer s) = FixedPayloadCount \<and> cliqueRecords s \<noteq> [] \<and> \<not> mergerActive s \<and> aired K s"

lemma boot_names_fields [simp]:
  fixes s :: "'a agent_state_scheme"
  shows "boot_names K (emit e s) \<longleftrightarrow> names_in K e \<and> boot_names K s"
    "boot_names K (TaskTimer_schedule t d s) = boot_names K s"
    "boot_names K (s\<lparr>timers := ts\<rparr>) = boot_names K s"
    "boot_names K (s\<lparr>provisioningCallbacks := cs\<rparr>) = boot_names K s"
    "boot_names K (s\<lparr>workTimeCallbackIsSet := b\<rparr>) = boot_names K s"
    "boot_names K (s\<lparr>workCycleCallbackIsSet := b\<rparr>) = boot_names K s"
    "boot_names K (SyncModeManager_resetToModeMaintain s) = boot_names K s"
  by (auto simp: boot_names_def TaskTimer_schedule_def SyncModeManager_resetToModeMaintain_def role_defs aired_def emit_def)

lemma subscriptions_boot_names:
  fixes s :: "'a agent_state_scheme"
  shows "NetTopologyProvisioner_subscribeToProvisionings s = Some s' \<Longrightarrow> boot_names K s' = boot_names K s"
    and "WorkProvisioner_subscribeToProvisionings s = Some s' \<Longrightarrow> boot_names K s' = boot_names K s"
proof -
  have step: "boot_names K t = boot_names K r" if "ProvisioningPublisher_subscribe p c r = Some t"
    for p c and r t :: "'a agent_state_scheme"
    using that by (auto simp: ProvisioningPublisher_subscribe_def Let_def split: if_splits)
  show "NetTopologyProvisioner_subscribeToProvisionings s = Some s' \<Longrightarrow> boot_names K s' = boot_names K s"
    "WorkProvisioner_subscribeToProvisionings s = Some s' \<Longrightarrow> boot_names K s' = boot_names K s"
    using step by (auto simp: NetTopologyProvisioner_subscribeToProvisionings_def
        WorkProvisioner_subscribeToProvisionings_def elim!: bind_SomeE)
qed

lemma init_names:
  fixes s :: "'a agent_state_scheme"
  assumes "SyncAgentImp_init P s = Some s'" "boot_names (K \<union> L) s" "ids_for P K L"
  shows "names_inv K L s'"
proof -
  define r where "r = SyncAgentImp_initEnsembleProtocol (SyncModeManager_resetToModeMaintain s)"
  obtain q t where q: "(if p_softdevicePresent P then do {
             s \<leftarrow> NetTopologyProvisioner_subscribeToProvisionings r;
             s \<leftarrow> WorkProvisioner_subscribeToProvisionings s;
             Some (emit ProvisionerInit s)
           } else Some r) = Some q"
    and t: "Clique_init P (Serializer_init (of_nat FixedPayloadCount) q) = Some t"
    and s': "s' = (FishPowerMgr_init (CliqueHistory_init P t))\<lparr>countMergeSyncHeard := 0\<rparr>"
    using assms(1) unfolding SyncAgentImp_init_def Let_def r_def [symmetric]
    by (elim bind_SomeE) (auto split: if_splits)
  have "boot_names (K \<union> L) r"
    using assms(2) by (simp add: r_def SyncAgentImp_initEnsembleProtocol_def)
  moreover note sub = subscriptions_boot_names [where K = "K \<union> L"]
  ultimately have "boot_names (K \<union> L) q"
    using q by (auto split: if_splits elim!: bind_SomeE dest!: sub)
  moreover have "t = Schedule_init P (AdaptiveTransmitSyncPolicy_reset (DropoutMonitor_reset
      (Clique_setSelfMastership P (Serializer_init (of_nat FixedPayloadCount) q))))" "masterID t = p_systemID P"
    using t by (auto simp: Clique_init_def Clique_isSelfMaster_def Let_def split: if_splits)
  ultimately have "boot_names (K \<union> L) t" "masterID t = p_systemID P"
    by (simp_all add: boot_names_def aired_def Schedule_init_def LongClock_nowTime_def Schedule_rollPeriodForward_def
        rollPeriodForwardDiscretely_def Let_def emit_def xmit_policy_defs DropoutMonitor_reset_def
        Clique_setSelfMastership_def Serializer_init_def)
  then show ?thesis
    using assms(3) by (cases "cliqueRecords t") (simp_all add: s' names_inv_def boot_names_def aired_def
        FishPowerMgr_init_def CliqueHistory_init_def emit_def ids_for_def)
qed

lemma checkPowerReserve_names:
  fixes s :: "'a agent_state_scheme"
  assumes "SSTask_checkPowerReserve P s = Some s'" "boot_names (K \<union> L) s" "ids_for P K L" "timers s = []" "boot_ok s"
  shows "boot_names (K \<union> L) s' \<and> moment_of s' = Pending CheckPowerReserve \<or>
    names_inv K L s' \<and> moment_of s' \<noteq> Pending CheckPowerReserve"
proof (cases "p_isPowerAbove P (io s) Medium")
  case False
  then show ?thesis
    using assms by (auto simp: SSTask_checkPowerReserve_def power_defs SyncSchedule_checkPowerReserve_def moment_of_def)
next
  case True
  define r where "r = emit AppPowerReserve (emit (MeasurePower Medium) s)"
  obtain q where q: "SyncAgentImp_init P r = Some q"
    and s': "s' = SyncSchedule_initialSyncPeriod P (Schedule_setEndTimeOfSyncPeriodToNow P
      (SyncModeManager_resetToModeMaintain (SyncPowerManager_enterBrownoutDetectMode q)))"
    using assms(1) True by (auto simp: SSTask_checkPowerReserve_def power_defs r_def SyncAgentImp_preludeToLoop_def
        Let_def split: if_splits elim!: bind_SomeE)
  have "names_inv K L q"
    using q by (rule init_names) (use assms(2,3) in \<open>simp_all add: r_def\<close>)
  then have "names_inv K L s'"
    by (simp add: s' SyncSchedule_initialSyncPeriod_def Schedule_setEndTimeOfSyncPeriodToNow_def LongClock_nowTime_def
        SyncPowerManager_enterBrownoutDetectMode_def)
      (simp add: SyncModeManager_resetToModeMaintain_def role_defs names_inv_def aired_def emit_def)
  moreover have "timers q = []"
    using init_started(1) [OF q] assms(4,5) by (simp add: r_def started_ok_def)
  then have "\<exists>d. timers s' = [(StartSyncPeriodMaintain, d)]"
    by (simp add: s' SyncSchedule_initialSyncPeriod_def SyncSchedule_maintainSyncPeriodFromMaintainSyncPeriod_def
        SleepDuration_nowTilSyncPoint_def Schedule_deltaNowToNextSyncPoint_def clampedTimeDifferenceFromNow_def
        Schedule_setEndTimeOfSyncPeriodToNow_def LongClock_nowTime_def SyncModeManager_resetToModeMaintain_def
        role_defs SyncPowerManager_enterBrownoutDetectMode_def)
  ultimately show ?thesis
    by (auto simp: moment_of_def)
qed

section \<open>Any task\<close>

lemma run_task_names:
  fixes s :: "'a agent_state_scheme"
  assumes "run_task P t s = Some s'" "t \<noteq> CheckPowerReserve"
  shows "keeps_names P s s'"
proof (cases t)
  case SendSync
  then obtain r where r: "keeps_names P s r" "s' = SyncSchedule_syncSlotEndFromSend P r"
    using assms(1) sendSteps_names [of P s] by (auto simp: SSTask_sendSync_def split: sync_slot_kind.splits elim!: bind_SomeE)
  then show ?thesis
    by (simp add: keeps_names_def SyncSchedule_syncSlotEndFromSend_def SyncSlotSchedule_deltaToThisSyncSlotEnd_def
        clampedTimeDifferenceFromNow_def)
next
  case EndSyncSlotListen
  then obtain r where "SyncSlot_endListen P s = Some r" "scheduleNonSyncTask P r = Some s'"
    using assms(1) by (auto simp: SSTask_endSyncSlotListen_def elim!: bind_SomeE)
  then show ?thesis
    using endListen_names [of P s r] scheduleNonSyncTask_names [of P r s'] by (simp add: keeps_names_def)
next
  case EndSyncSlotSend
  then show ?thesis
    using assms(1) scheduleNonSyncTask_names [of P s s'] by (auto simp: SSTask_endSyncSlotSend_def keeps_names_def split: if_splits)
next
  case FishSlotEnd
  then obtain r where r: "FishingManager_checkFishingDone P (FishSlot_endListen s) = Some r"
    "SyncSchedule_syncSlotAfterFishSlot P r = Some s'"
    using assms(1) by (auto simp: SSTask_fishSlotEnd_def Let_def split: if_splits elim!: bind_SomeE)
  then show ?thesis
    using checkFishingDone_names [OF r(1)] syncSlotAfter_names(1) [OF r(2)]
    by (simp add: keeps_names_def FishSlot_endListen_def Receiver_stop_def)
next
  case MergerStartAndEnd
  then have "SSTask_mergerStartAndEnd P s = Some s'"
    using assms(1) by simp
  then obtain r c q t where r: "SyncSender_sendMergeSync P s = Some r"
    "MergePolicy_checkCompletionOfMergerRole r = Some (c, q)"
    "(if c then SyncAgentImp_stopMerger q else Some q) = Some t" "SyncSchedule_syncSlotAfterMerging P t = Some s'"
    unfolding SSTask_mergerStartAndEnd_def by (elim bind_SomeE bind_case_prod_SomeE)
  have "names_inv K L t" if "names_inv K L r" for K L
    using r(3) completion_names [OF r(2) that] stopMerger_names [of q t K L] by (auto split: if_splits)
  then show ?thesis
    using sendMergeSync_names [OF r(1)] syncSlotAfter_names(2) [OF r(4)] by (simp add: keeps_names_def)
next
  case TheRadioPreludeTaskWSync
  then show ?thesis
    using assms(1) bookkeeping_names(1) [of P "SSTask_radioPrelude (SyncSchedule_startSyncSlotFromPreludeStart s)" s']
    by (simp add: theRadioPreludeTaskWSync_def SSTask_radioPrelude_def SyncSchedule_startSyncSlotFromPreludeStart_def
        keeps_names_def)
next
  case TheRadioPreludeTaskWFish
  then show ?thesis
    using assms(1) by (auto simp: theRadioPreludeTaskWFish_def SSTask_radioPrelude_def
        SyncSchedule_startFishSlotFromPreludeStart_def keeps_names_def)
next
  case FishSlotStart
  then show ?thesis
    using assms(1) by (auto simp: SSTask_fishSlotStart_def SyncSchedule_fishSlotEnd_def FishSlot_beginListen_def
        Receiver_startWithHandler_def keeps_names_def split: if_splits)
qed (use assms startSyncSlot_names [of P s s'] startSyncPeriodMaintain_names [of P s s'] provisioner_names(3,4) [of P s s']
  in \<open>simp_all add: SSTask_startSyncSlotWithoutScheduledPrelude_def keeps_names_def\<close>)

end
