(* ===== verification/Swarm.thy ===== *)
theory Swarm
  imports TaskNames
begin

text \<open>
  Several units that hear each other: a step of the network is a step of one unit, and a unit
  receives only packets that another unit has transmitted.  Packets may be lost, delayed, repeated and heard
  in any order.  Each unit has its own platform: its ID, clock, coin and power.
\<close>

section \<open>Steps\<close>

definition transmitted :: "u8 list \<Rightarrow> agent_state \<Rightarrow> bool" where
  "transmitted bytes s \<longleftrightarrow> TransmitStatic bytes \<in> set (io s)"

text \<open>What unit \<open>i\<close> of the network can hear.\<close>

fun audible :: "agent_state list \<Rightarrow> nat \<Rightarrow> stimulus \<Rightarrow> bool" where
  "audible S i (PacketArrives bytes) \<longleftrightarrow> (\<exists>j<length S. j \<noteq> i \<and> transmitted bytes (S ! j))"
| "audible S i _ \<longleftrightarrow> True"

definition respond_or_reset :: "platform \<Rightarrow> stimulus \<Rightarrow> agent_state \<Rightarrow> agent_state" where
  "respond_or_reset P e s = (case respond P e s of Some s' \<Rightarrow> s' | None \<Rightarrow> rebooted s)"

inductive swarm_step :: "platform list \<Rightarrow> agent_state list \<Rightarrow> agent_state list \<Rightarrow> bool" for Ps where
  unit_step: "i < length S \<Longrightarrow> enabled e (S ! i) \<Longrightarrow> audible S i e \<Longrightarrow>
    swarm_step Ps S (S[i := respond_or_reset (Ps ! i) e (S ! i)])"

inductive swarm_reachable :: "platform list \<Rightarrow> agent_state list \<Rightarrow> bool" for Ps where
  start: "swarm_reachable Ps (replicate (length Ps) started)"
| step: "swarm_reachable Ps S \<Longrightarrow> swarm_step Ps S S' \<Longrightarrow> swarm_reachable Ps S'"

inductive_cases swarm_stepE: "swarm_step Ps S S'"

text \<open>A run as a function of the units and their stimuli, for concrete runs.\<close>

fun run_swarm :: "platform list \<Rightarrow> (nat \<times> stimulus) list \<Rightarrow> agent_state list \<Rightarrow> agent_state list" where
  "run_swarm Ps [] S = S"
| "run_swarm Ps ((i, e) # es) S = run_swarm Ps es (S[i := respond_or_reset (Ps ! i) e (S ! i)])"

fun swarm_enabled :: "platform list \<Rightarrow> (nat \<times> stimulus) list \<Rightarrow> agent_state list \<Rightarrow> bool" where
  "swarm_enabled Ps [] S \<longleftrightarrow> True"
| "swarm_enabled Ps ((i, e) # es) S \<longleftrightarrow> i < length S \<and> enabled e (S ! i) \<and> audible S i e \<and>
     swarm_enabled Ps es (S[i := respond_or_reset (Ps ! i) e (S ! i)])"

lemma run_swarm_reachable:
  "swarm_reachable Ps S \<Longrightarrow> swarm_enabled Ps es S \<Longrightarrow> swarm_reachable Ps (run_swarm Ps es S)"
proof (induction es arbitrary: S)
  case (Cons x es)
  obtain i e where x: "x = (i, e)"
    by fastforce
  then show ?case
    using Cons.IH [OF swarm_reachable.step [OF Cons.prems(1) swarm_step.unit_step [of i S e Ps]]] Cons.prems(2)
    by simp
qed simp

section \<open>Each unit of the network runs as a unit in its environment\<close>

lemma respond_or_reset_step:
  assumes "enabled e s"
  shows "system_step P s (respond_or_reset P e s)"
  using assms by (auto simp: respond_or_reset_def intro: system_step.intros split: option.splits)

lemma swarm_length: "swarm_reachable Ps S \<Longrightarrow> length S = length Ps"
  by (induction rule: swarm_reachable.induct) (auto elim: swarm_stepE)

lemma swarm_units_reachable:
  "swarm_reachable Ps S \<Longrightarrow> i < length Ps \<Longrightarrow> reachable (Ps ! i) (S ! i)"
proof (induction rule: swarm_reachable.induct)
  case start
  then show ?case
    by (simp add: reachable.start)
next
  case (step S S')
  from step.hyps(2) show ?case
  proof (cases rule: swarm_step.cases)
    case (unit_step j e)
    then show ?thesis
      using step reachable.step [OF _ respond_or_reset_step [OF unit_step(3)], of "Ps ! j"]
      by (auto simp: nth_list_update)
  qed
qed

section \<open>Every step keeps the IDs\<close>

text \<open>A unit that has not yet initialized has no master.\<close>

definition unit_names :: "system_id set \<Rightarrow> system_id set \<Rightarrow> agent_state \<Rightarrow> bool" where
  "unit_names K L s \<longleftrightarrow>
     (if moment_of s = Pending CheckPowerReserve then boot_names (K \<union> L) s else names_inv K L s)"

lemma checkPowerReserve_after: "Pending CheckPowerReserve \<in> successors m \<Longrightarrow> m = Pending CheckPowerReserve"
  by (cases m rule: successors.cases) auto

lemma rebooted_names:
  assumes "aired K s"
  shows "boot_names K (rebooted s)"
  using assms by (simp add: rebooted_def SyncSchedule_checkPowerReserve_def TaskTimer_schedule_def boot_names_def
      powered_on_def aired_def emit_def FixedPayloadCount_def)

lemma unit_names_aired: "unit_names K L s \<Longrightarrow> aired (K \<union> L) s"
  by (auto simp: unit_names_def boot_names_def names_inv_def split: if_splits)

lemma respond_names:
  assumes "agent_inv P s" "enabled e s" "respond P e s = Some s'" "unit_names K L s" "ids_for P K L"
    and heard: "\<And>bytes. e = PacketArrives bytes \<Longrightarrow> packet_master bytes \<le> masterID s \<Longrightarrow> packet_master bytes \<in> K"
  shows "unit_names K L s'"
proof -
  have moment: "moment_of s' \<in> (if advances e then successors (moment_of s) else {moment_of s})"
    using agent_at_moment_of [OF respond_agent_at [OF assms(1-3)]] by blast
  then have later: "moment_of s' \<noteq> Pending CheckPowerReserve" if "moment_of s \<noteq> Pending CheckPowerReserve"
    using that checkPowerReserve_after by (auto split: if_splits)
  have running: ?thesis if "moment_of s \<noteq> Pending CheckPowerReserve" "names_inv K L s'"
    using that later by (simp add: unit_names_def)
  show ?thesis
  proof (cases e)
    case TimerExpires
    then obtain t d where t: "timers s = [(t, d)]" "task_ok P t s"
      using assms(1,2) by (auto simp: agent_inv_def agent_at_def)
    then have run: "run_task P t (s\<lparr>timers := []\<rparr>) = Some s'" "moment_of s = Pending t"
      using assms(3) TimerExpires by (simp_all add: moment_of_def)
    show ?thesis
    proof (cases "t = CheckPowerReserve")
      case True
      have "boot_ok (s\<lparr>timers := []\<rparr>)"
        using t(2) True by (simp add: boot_ok_def inv_parts)
      then show ?thesis
        using checkPowerReserve_names [of P "s\<lparr>timers := []\<rparr>" s' K L] run assms(4,5) True
        by (auto simp: unit_names_def)
    next
      case False
      then have "names_inv K L (s\<lparr>timers := []\<rparr>)"
        using assms(4) run(2) by (simp add: unit_names_def)
      then have "names_inv K L s'"
        using keeps_namesD [OF run_task_names [OF run(1) False] assms(5)] by simp
      with False show ?thesis
        using run(2) by (intro running) simp_all
    qed
  next
    case (PacketArrives bytes)
    then have "moment_of s \<noteq> Pending CheckPowerReserve"
      using assms(1,2) by (auto simp: agent_inv_def agent_at_def moment_of_def boot_ok_def)
    moreover define r where "r = emit PacketReceived (s\<lparr>radioBuffer := bytes\<rparr>)"
    have r: "radioBuffer r = bytes" "masterID r = masterID s" "Receiver_onMsgReceived P r = Some s'"
      using assms(3) PacketArrives by (simp_all add: r_def emit_def)
    have "names_inv K L r"
      using assms(2,4) PacketArrives calculation
      by (simp add: unit_names_def names_inv_def aired_def FixedPayloadCount_def emit_def r_def)
    from r(3) this assms(5) have "names_inv K L s'"
      by (rule onMsgReceived_names) (use heard PacketArrives r(1,2) in simp)
    ultimately show ?thesis
      by (rule running)
  next
    case (ProvisionerSucceeds v rssi)
    then have "moment_of s = Provisioning"
      using assms(2) by (simp add: moment_of_def)
    then show ?thesis
      using assms(3,4) ProvisionerSucceeds provisioner_names(1) [of P v rssi "emit ProvisionerCalledBack s" s' K L]
      by (intro running) (simp_all add: unit_names_def)
  next
    case ProvisionerFails
    then have "moment_of s = Provisioning"
      using assms(2) by (simp add: moment_of_def)
    then show ?thesis
      using assms(3,4) ProvisionerFails provisioner_names(2) [of "emit ProvisionerCalledBack s" s' K L]
      by (intro running) (simp_all add: unit_names_def)
  next
    case (AppConnectsWorkTime b)
    then show ?thesis
      using assms(3,4) by (auto simp: unit_names_def WorkControlProxy_setWorkTimeControlCallback_def moment_of_def)
  next
    case (AppConnectsWorkCycle b)
    then show ?thesis
      using assms(3,4) by (auto simp: unit_names_def WorkControlProxy_setWorkCycleControlCallback_def moment_of_def)
  qed
qed

lemma respond_or_reset_names:
  assumes "agent_inv P s" "enabled e s" "unit_names K L s" "ids_for P K L"
    and "\<And>bytes. e = PacketArrives bytes \<Longrightarrow> packet_master bytes \<le> masterID s \<Longrightarrow> packet_master bytes \<in> K"
  shows "unit_names K L (respond_or_reset P e s)"
proof (cases "respond P e s")
  case None
  then show ?thesis
    using rebooted_names [OF unit_names_aired [OF assms(3)]] rebooted_agent_at [of P s]
    by (auto simp: respond_or_reset_def unit_names_def agent_at_def moment_of_def)
next
  case (Some s')
  then show ?thesis
    using respond_names [OF assms(1,2) Some assms(3-5)] by (simp add: respond_or_reset_def)
qed

lemma started_names: "unit_names K L started"
proof -
  have "moment_of started = Pending CheckPowerReserve"
    by (simp add: started_def SyncSchedule_checkPowerReserve_def TaskTimer_schedule_def moment_of_def powered_on_def emit_def)
  moreover have "boot_names (K \<union> L) started"
    by (simp add: started_def SyncSchedule_checkPowerReserve_def)
      (simp add: boot_names_def powered_on_def aired_def FixedPayloadCount_def)
  ultimately show ?thesis
    by (simp add: unit_names_def)
qed

lemma running_core:
  assumes "agent_inv P s" "moment_of s \<noteq> Pending CheckPowerReserve"
  shows "core_inv P s"
proof -
  have "core_inv P s" if "task_ok P t s" "t \<noteq> CheckPowerReserve" for t
    using that by (cases t) (auto simp: unit_inv_core)
  then show ?thesis
    using assms by (auto simp: agent_inv_def agent_at_def provisioning_ok_def unit_inv_core moment_of_def)
qed

text \<open>With all IDs allowed, the invariant says that the packet buffer has its size.\<close>

lemma reachable_names: "reachable P s \<Longrightarrow> unit_names UNIV UNIV s"
proof (induction rule: reachable.induct)
  case start
  show ?case
    by (rule started_names)
next
  case (step s s')
  from step(2) obtain e where "enabled e s" "s' = respond_or_reset P e s"
    by (auto simp: respond_or_reset_def elim!: system_stepE)
  then show ?case
    using respond_or_reset_names [OF reachable_agent_inv [OF step(1)] _ step.IH, of e] by (simp add: ids_for_def)
qed

section \<open>The IDs in a network\<close>

text \<open>The set of the units' IDs is kept by every run: what a unit hears was transmitted by
  another unit, and every master that was transmitted is one of the units.\<close>

abbreviation unit_ids :: "platform list \<Rightarrow> system_id set" where
  "unit_ids Ps \<equiv> p_systemID ` set Ps"

definition short_ids :: "platform list \<Rightarrow> bool" where
  "short_ids Ps \<longleftrightarrow> (\<forall>P\<in>set Ps. unat (p_systemID P) < 2 ^ 48)"

lemma unit_ids_for:
  assumes "short_ids Ps" "P \<in> set Ps"
  shows "ids_for P (unit_ids Ps) {}"
  using assms by (auto simp: ids_for_def short_ids_def take_bit_48_id)

lemma swarm_names:
  "swarm_reachable Ps S \<Longrightarrow> short_ids Ps \<Longrightarrow> i < length Ps \<Longrightarrow> unit_names (unit_ids Ps) {} (S ! i)"
proof (induction arbitrary: i rule: swarm_reachable.induct)
  case start
  then show ?case
    by (simp add: started_names)
next
  case (step S S')
  from step.hyps(2) show ?case
  proof (cases rule: swarm_step.cases)
    case (unit_step j e)
    have len: "length S = length Ps"
      using step.hyps(1) by (rule swarm_length)
    have "packet_master bytes \<in> unit_ids Ps" if heard: "e = PacketArrives bytes" for bytes
    proof -
      obtain k where "k < length Ps" "TransmitStatic bytes \<in> set (io (S ! k))"
        using unit_step(4) heard len by (auto simp: transmitted_def)
      then show ?thesis
        using unit_names_aired [OF step.IH [OF step.prems(1), of k]] by (auto simp: aired_def list_all_iff)
    qed
    then have "unit_names (unit_ids Ps) {} (respond_or_reset (Ps ! j) e (S ! j))"
      using unit_step(2,3) step.IH step.prems(1) len reachable_agent_inv [OF swarm_units_reachable [OF step.hyps(1)]]
      by (intro respond_or_reset_names unit_ids_for) simp_all
    then show ?thesis
      using step.IH step.prems unit_step(1,2) len by (auto simp: nth_list_update)
  qed
qed

end
