(* ===== verification/SyncProperties.thy ===== *)
theory SyncProperties
  imports PowerOn
begin

text \<open>
  Properties of messages, of the schedule and of mastership: what one unit transmits and another
  understands, when two units' sync points coincide, which adjustments of the period succeed, and
  which master a unit ends up with.
\<close>

section \<open>Messages between units\<close>

text \<open>
  C1. A message that carries sync, from a master with a 48-bit ID and with a valid offset, is
  read by the receiving unit exactly as the sender serialized it.
\<close>

theorem sync_message_roundtrip:
  assumes "SyncMessage_doesCarrySync (msg_type msg)"
    and "deltaToNextSyncPoint msg \<le> NormalSyncPeriodDuration"
    and "unat (msg_masterID msg) < 2 ^ 48"
    and "length (radioBuffer sender) = FixedPayloadCount"
    and "Serializer_serializeSyncMessageIntoRadioBuffer msg sender = Some sender'"
    and "radioBuffer receiver = radioBuffer sender'"
  shows "Serializer_unserialize receiver = Some (Some msg)"
proof -
  have buf: "radioBuffer receiver = packet_of msg (radioBuffer sender)"
    using assms(5,6) by (auto simp: serialize_eq split: if_splits)
  have "msg_type msg \<noteq> Invalid"
    using assms(1) by auto
  then show ?thesis
    unfolding unserialize_packet [OF buf assms(4)]
    using assms(2) by (simp add: messageTypeFromRaw_carriesSync [OF assms(1)]
        take_bit_24_valid_offset take_bit_48_id [OF assms(3)] Let_def)
qed

lemma sync_message_roundtrip_witness:
  "Serializer_unserialize ((sample_unit 9 9)\<lparr>radioBuffer := packet_of
      \<lparr>msg_type = MasterSync, deltaToNextSyncPoint = 40000, msg_masterID = 7, work = 2\<rparr> (replicate 11 0)\<rparr>) =
   Some (Some \<lparr>msg_type = MasterSync, deltaToNextSyncPoint = 40000, msg_masterID = 7, work = 2\<rparr>)"
  by (rule sync_message_roundtrip [of _ "sample_unit 7 7" "(sample_unit 7 7)\<lparr>radioBuffer := packet_of
      \<lparr>msg_type = MasterSync, deltaToNextSyncPoint = 40000, msg_masterID = 7, work = 2\<rparr> (replicate 11 0)\<rparr>"])
    (simp_all add: serialize_eq sample_defs params)

text \<open>
  C2. The types are renumbered in transit: the table of bytes the receiver decodes lacks the two work
  control types, so a type after them is decoded as a later one.  This states what the receiver
  makes of each message whose offset is valid: of twelve types only the four that carry
  sync and \<open>Invalid\<close> arrive as themselves, work control arrives as two of the merge types, and the last three
  types as types of other messages or as nothing.
\<close>

theorem received_type_of_sent_type:
  assumes "length (radioBuffer sender) = FixedPayloadCount"
    and "deltaToNextSyncPoint msg \<le> NormalSyncPeriodDuration"
    and "Serializer_serializeSyncMessageIntoRadioBuffer msg sender = Some sender'"
    and "radioBuffer receiver = radioBuffer sender'"
  shows "map_option (map_option msg_type) (Serializer_unserialize receiver) = Some
    (case msg_type msg of
       MasterSync \<Rightarrow> Some MasterSync
     | WorkSync \<Rightarrow> Some WorkSync
     | ControlNetGranularity \<Rightarrow> Some ControlNetGranularity
     | ControlScatterClique \<Rightarrow> Some ControlScatterClique
     | ControlWorkTime \<Rightarrow> Some MergeOther
     | ControlWorkCycle \<Rightarrow> Some MergeMyMasterDepart
     | MergeOther \<Rightarrow> Some MergeMySlaveDepart
     | MergeMyMasterDepart \<Rightarrow> Some AbandonMastership
     | MergeMySlaveDepart \<Rightarrow> Some Info
     | AbandonMastership \<Rightarrow> None
     | Info \<Rightarrow> None
     | Invalid \<Rightarrow> None)"
proof -
  have buf: "radioBuffer receiver = packet_of msg (radioBuffer sender)"
    using assms(3,4) by (auto simp: serialize_eq split: if_splits)
  show ?thesis
    unfolding unserialize_packet [OF buf assms(1)] messageTypeFromRaw_value Let_def
    using assms(2) by (cases "msg_type msg") (simp_all add: take_bit_24_valid_offset)
qed

lemma received_type_of_sent_type_witness:
  "map_option (map_option msg_type) (Serializer_unserialize ((sample_unit 9 9)\<lparr>radioBuffer := packet_of
      \<lparr>msg_type = MergeOther, deltaToNextSyncPoint = 40000, msg_masterID = 7, work = 2\<rparr> (replicate 11 0)\<rparr>)) =
   Some (Some MergeMySlaveDepart)"
  using received_type_of_sent_type [of "sample_unit 7 7"
      "\<lparr>msg_type = MergeOther, deltaToNextSyncPoint = 40000, msg_masterID = 7, work = 2\<rparr>"
      "(sample_unit 7 7)\<lparr>radioBuffer := packet_of
      \<lparr>msg_type = MergeOther, deltaToNextSyncPoint = 40000, msg_masterID = 7, work = 2\<rparr> (replicate 11 0)\<rparr>"
      "(sample_unit 9 9)\<lparr>radioBuffer := packet_of
      \<lparr>msg_type = MergeOther, deltaToNextSyncPoint = 40000, msg_masterID = 7, work = 2\<rparr> (replicate 11 0)\<rparr>"]
  by (simp add: serialize_eq sample_defs params)

text \<open>
  C3. A master that merges its clique away transmits a merge message so that its slaves fish
  for it.  Because of the renumbering each unit that hears the message in its sync slot takes it for
  \<open>AbandonMastership\<close>: it makes itself master, and it does not start fishing.
\<close>

theorem departing_master_heard_as_abandon:
  assumes "kindOfMerger s = MergeMyMasterDepart"
    and "length (radioBuffer s) = FixedPayloadCount"
    and "SyncSender_sendMergeSync P s = Some s'"
    and "radioBuffer r = radioBuffer s'"
    and "handler r = SyncSlotHandler"
    and "Ensemble_isPacketCRCValid Q r"
  shows "Receiver_onMsgReceived Q r = Some (emit StartReceiving (Clique_assumeMastership Q r))"
proof -
  obtain msg s1 where m: "CliqueMerger_makeMergeMsg P s = Some (msg, s1)" "sendMessage msg s1 = Some s'"
    using assms(3) unfolding SyncSender_sendMergeSync_def by (elim bind_case_prod_SomeE)
  note shape = makeMergeMsg_shape [OF m(1)]
  have buf: "radioBuffer r = packet_of msg (radioBuffer s)"
    using m(2) assms(4) by (auto simp: sendMessage_eq shape(1) split: if_splits)
  have "Serializer_unserialize r = Some (Some \<lparr>msg_type = AbandonMastership,
      deltaToNextSyncPoint = deltaToNextSyncPoint msg, msg_masterID = take_bit 48 (msg_masterID msg), work = work msg\<rparr>)"
    unfolding unserialize_packet [OF buf assms(2)] messageTypeFromRaw_value Let_def
    using shape(2,3) assms(1) by (simp add: take_bit_24_valid_offset)
  then show ?thesis
    using assms(5,6)
    by (simp add: Receiver_onMsgReceived_def MessageDispatcher_dispatch_def
        handleValidMessageAndSetContinuation_def SyncSlotMessageHandler_handle_def
        SyncSlotMessageHandler_handleAbandonMastershipMessage_def)
qed

definition departing_master :: agent_state where
  "departing_master = (sample_unit 7 3)\<lparr>mergerActive := True, kindOfMerger := MergeMyMasterDepart,
     superiorMasterID := 3, inferiorMasterID := 7\<rparr>"

lemma departing_master_heard_as_abandon_witness:
  "\<exists>s'. SyncSender_sendMergeSync (sample_platform 7 1000 1000 True True True False) departing_master = Some s' \<and>
     Receiver_onMsgReceived (sample_platform 9 1000 1000 True True True False)
       ((sample_unit 9 7)\<lparr>radioBuffer := radioBuffer s', handler := SyncSlotHandler\<rparr>) =
     Some (emit StartReceiving (Clique_assumeMastership (sample_platform 9 1000 1000 True True True False)
       ((sample_unit 9 7)\<lparr>radioBuffer := radioBuffer s', handler := SyncSlotHandler\<rparr>)))"
proof -
  have "\<exists>s'. SyncSender_sendMergeSync (sample_platform 7 1000 1000 True True True False) departing_master = Some s'"
    by (simp add: SyncSender_sendMergeSync_def CliqueMerger_makeMergeMsg_def departing_master_def sample_defs
        Schedule_deltaNowToNextUnadjustedSyncPoint_def clampedTimeDifferenceFromNow_def sample_platform_def
        Schedule_timeOfUnadjustedNextSyncPoint_def exact_difference_def MessageFactory_initMergeSyncMessage_def
        DeltaSync_set_eq sendMessage_eq params emit_def)
  then obtain s' where s': "SyncSender_sendMergeSync (sample_platform 7 1000 1000 True True True False)
      departing_master = Some s'" by blast
  have "length (radioBuffer departing_master) = FixedPayloadCount" "kindOfMerger departing_master = MergeMyMasterDepart"
    by (simp_all add: departing_master_def sample_defs params)
  then show ?thesis
    using s' departing_master_heard_as_abandon [OF _ _ s', of "(sample_unit 9 7)\<lparr>radioBuffer := radioBuffer s', handler := SyncSlotHandler\<rparr>"
      "sample_platform 9 1000 1000 True True True False"]
    by (simp add: Ensemble_isPacketCRCValid_def sample_platform_def)
qed

section \<open>Adjusting to another unit's schedule\<close>

text \<open>
  C4. Joining the sender of a sync message, exactly: the new end of the period is the sender's next
  sync point, or one period later where that would cut the current period short; the update
  resets the unit (an assertion fails) where this is more than two periods after the start.
\<close>

theorem join_by_sync_message:
  assumes "schedule_inv s" "SyncMessage_doesCarrySync (msg_type msg)"
    and "far_from_wrap (Radio_timeOfArrival P s)" "startTimeOfSyncPeriod s \<le> Radio_timeOfArrival P s"
  shows "map_option (\<lambda>s'. (masterID s', isAdvancedStage s', startTimeOfSyncPeriod s', unat (endTimeOfSyncPeriod s')))
      (Clique_updateBySyncMessage P msg s) =
    (let e = message_end_time (Radio_timeOfArrival P s) (deltaToNextSyncPoint msg) (endTimeOfSyncPeriod s)
     in if e \<le> unat (startTimeOfSyncPeriod s) + 160000
        then Some (msg_masterID msg, True, startTimeOfSyncPeriod s, e) else None)"
proof (cases "message_end_time (Radio_timeOfArrival P s) (deltaToNextSyncPoint msg) (endTimeOfSyncPeriod s)
    \<le> unat (startTimeOfSyncPeriod s) + 160000")
  case True
  obtain s' where s': "Clique_updateBySyncMessage P msg s = Some s'" "masterID s' = msg_masterID msg"
    "unat (endTimeOfSyncPeriod s') =
      message_end_time (Radio_timeOfArrival P s) (deltaToNextSyncPoint msg) (endTimeOfSyncPeriod s)"
    using updateBySyncMessage_total [OF assms True] by blast
  moreover have "isAdvancedStage s' \<and> startTimeOfSyncPeriod s' = startTimeOfSyncPeriod s"
    using s'(1) by (rule updateBySyncMessage_SomeD) simp
  ultimately show ?thesis
    using True by (simp add: Let_def)
next
  case False
  then show ?thesis
    using updateBySyncMessage_None [OF assms] by (simp add: Let_def)
qed

lemma join_by_sync_message_witness:
  "map_option (\<lambda>s'. (masterID s', isAdvancedStage s', startTimeOfSyncPeriod s', unat (endTimeOfSyncPeriod s')))
      (Clique_updateBySyncMessage (sample_platform 9 1000 1000 True True True False)
        \<lparr>msg_type = MasterSync, deltaToNextSyncPoint = 40000, msg_masterID = 7, work = 2\<rparr> (sample_unit 9 9)) =
    Some (7, True, 0, 121000)"
  using join_by_sync_message [of "sample_unit 9 9" "\<lparr>msg_type = MasterSync, deltaToNextSyncPoint = 40000, msg_masterID = 7, work = 2\<rparr>"
      "sample_platform 9 1000 1000 True True True False"]
  by (simp add: sample_defs schedule_inv_def far_from_wrap_def Radio_timeOfArrival_def sample_platform_def
      message_end_time_def)

text \<open>
  C5. While the period still has its normal end, no sync message that arrives within the period and
  passed the receiver's check of its offset can reset the unit; the new end is less than two
  periods after the start and still at most one period after the sender's sync point.
\<close>

theorem unadjusted_unit_joins:
  assumes "schedule_inv s" "endTimeOfSyncPeriod s = unadjustedEndTimeOfSyncPeriod s"
    and "SyncMessage_doesCarrySync (msg_type msg)" "DeltaSync_isValidValue (deltaToNextSyncPoint msg)"
    and "far_from_wrap (Radio_timeOfArrival P s)" "startTimeOfSyncPeriod s \<le> Radio_timeOfArrival P s"
    and "Radio_timeOfArrival P s \<le> endTimeOfSyncPeriod s"
  shows "\<exists>s'. Clique_updateBySyncMessage P msg s = Some s' \<and> schedule_inv s' \<and>
    (unat (endTimeOfSyncPeriod s') = unat (Radio_timeOfArrival P s) + unat (deltaToNextSyncPoint msg) \<or>
     unat (endTimeOfSyncPeriod s') = unat (Radio_timeOfArrival P s) + unat (deltaToNextSyncPoint msg) + 80000)"
proof -
  have d: "unat (deltaToNextSyncPoint msg) \<le> 80000"
    using assms(4) by (simp add: DeltaSync_isValidValue_def params word_le_nat_alt)
  have "message_end_time (Radio_timeOfArrival P s) (deltaToNextSyncPoint msg) (endTimeOfSyncPeriod s)
      \<le> unat (startTimeOfSyncPeriod s) + 160000"
    using assms(1,2,7) d by (auto simp: message_end_time_def Let_def schedule_inv_def word_le_nat_alt)
  then obtain s' where s': "Clique_updateBySyncMessage P msg s = Some s'"
    "unat (endTimeOfSyncPeriod s') =
      message_end_time (Radio_timeOfArrival P s) (deltaToNextSyncPoint msg) (endTimeOfSyncPeriod s)"
    using updateBySyncMessage_total [OF assms(1,3,5,6)] by blast
  then show ?thesis
    using updateBySyncMessage_inv [OF assms(1) s'(1)] by (auto simp: message_end_time_def Let_def split: if_splits)
qed

lemma unadjusted_unit_joins_witness:
  "\<exists>s'. Clique_updateBySyncMessage (sample_platform 9 1000 1000 True True True False)
        \<lparr>msg_type = WorkSync, deltaToNextSyncPoint = 40000, msg_masterID = 7, work = 2\<rparr> (sample_unit 9 9) = Some s' \<and>
     schedule_inv s' \<and> (unat (endTimeOfSyncPeriod s') = 41000 \<or> unat (endTimeOfSyncPeriod s') = 121000)"
  using unadjusted_unit_joins [of "sample_unit 9 9" "\<lparr>msg_type = WorkSync, deltaToNextSyncPoint = 40000, msg_masterID = 7, work = 2\<rparr>"
      "sample_platform 9 1000 1000 True True True False"]
  by (simp add: sample_defs schedule_inv_def far_from_wrap_def Radio_timeOfArrival_def sample_platform_def
      DeltaSync_isValidValue_def params)

text \<open>
  C6. Once a period has been stretched this is no longer so: a valid sync message that announces a
  sync point after the normal end and before the stretched end resets the unit, because the code adds
  a whole period to the announced time.
\<close>

theorem stretched_unit_reset_by_sync_message:
  assumes "schedule_inv s" "SyncMessage_doesCarrySync (msg_type msg)"
    and "far_from_wrap (Radio_timeOfArrival P s)" "startTimeOfSyncPeriod s \<le> Radio_timeOfArrival P s"
    and "unat (unadjustedEndTimeOfSyncPeriod s) < unat (Radio_timeOfArrival P s) + unat (deltaToNextSyncPoint msg)"
    and "unat (Radio_timeOfArrival P s) + unat (deltaToNextSyncPoint msg) < unat (endTimeOfSyncPeriod s)"
  shows "Clique_updateBySyncMessage P msg s = None"
proof (rule updateBySyncMessage_None [OF assms(1-4)])
  show "\<not> message_end_time (Radio_timeOfArrival P s) (deltaToNextSyncPoint msg) (endTimeOfSyncPeriod s)
      \<le> unat (startTimeOfSyncPeriod s) + 160000"
    using assms(1,5,6) by (simp add: message_end_time_def Let_def schedule_inv_def)
qed

lemma stretched_unit_reset_by_sync_message_witness:
  "Clique_updateBySyncMessage (sample_platform 9 1000 40000 True True True False)
     \<lparr>msg_type = MasterSync, deltaToNextSyncPoint = 50000, msg_masterID = 7, work = 2\<rparr>
     ((sample_unit 9 9)\<lparr>endTimeOfSyncPeriod := 150000\<rparr>) = None"
  by (rule stretched_unit_reset_by_sync_message)
    (simp_all add: sample_defs schedule_inv_def far_from_wrap_def Radio_timeOfArrival_def sample_platform_def)

text \<open>
  The end of the period can move backward: a message that announces a sync point more than a
  period before the stretched end brings the end forward in time, though never before the normal end.
\<close>

lemma end_of_period_may_move_backward:
  assumes "schedule_inv s" "SyncMessage_doesCarrySync (msg_type msg)"
    and "far_from_wrap (Radio_timeOfArrival P s)" "startTimeOfSyncPeriod s \<le> Radio_timeOfArrival P s"
    and "unat (Radio_timeOfArrival P s) + unat (deltaToNextSyncPoint msg) + 80000 < unat (endTimeOfSyncPeriod s)"
  shows "\<exists>s'. Clique_updateBySyncMessage P msg s = Some s' \<and>
    endTimeOfSyncPeriod s' < endTimeOfSyncPeriod s \<and>
    unadjustedEndTimeOfSyncPeriod s \<le> endTimeOfSyncPeriod s'"
proof -
  have "message_end_time (Radio_timeOfArrival P s) (deltaToNextSyncPoint msg) (endTimeOfSyncPeriod s) =
      unat (Radio_timeOfArrival P s) + unat (deltaToNextSyncPoint msg) + 80000"
    using assms(5) by (simp add: message_end_time_def Let_def)
  then show ?thesis
    using updateBySyncMessage_total [OF assms(1-4)] assms(1,4,5)
    by (auto simp: schedule_inv_def word_less_nat_alt word_le_nat_alt)
qed

lemma end_of_period_may_move_backward_witness:
  "\<exists>s'. Clique_updateBySyncMessage (sample_platform 9 1000 10000 True True True False)
     \<lparr>msg_type = MasterSync, deltaToNextSyncPoint = 0, msg_masterID = 7, work = 2\<rparr>
     ((sample_unit 9 9)\<lparr>endTimeOfSyncPeriod := 150000\<rparr>) = Some s' \<and>
     endTimeOfSyncPeriod s' < 150000 \<and> 80000 \<le> endTimeOfSyncPeriod s'"
  using end_of_period_may_move_backward [of "(sample_unit 9 9)\<lparr>endTimeOfSyncPeriod := 150000\<rparr>"
      "\<lparr>msg_type = MasterSync, deltaToNextSyncPoint = 0, msg_masterID = 7, work = 2\<rparr>"
      "sample_platform 9 1000 10000 True True True False"]
  by (simp add: sample_defs schedule_inv_def far_from_wrap_def Radio_timeOfArrival_def sample_platform_def)

text \<open>
  C7. Two units in sync.  A sync message that arrives \<open>SendLatency\<close> ticks after the sender
  computed its offset gives the receiver the sender's next sync point, or the one after: their schedules
  then agree to the tick.
\<close>

theorem sync_message_aligns_schedules:
  assumes "documented_time P"
    and "MessageFactory_initSyncMessage P t w m = Some (msg, m')"
    and "unat (p_nowTime P (io m)) + unat SendLatency \<le> unat (endTimeOfSyncPeriod m)"
    and "unat (endTimeOfSyncPeriod m) \<le> unat (p_nowTime P (io m)) + 160000"
    and "unat (Radio_timeOfArrival Q s) = unat (p_nowTime P (io m)) + unat SendLatency"
    and "schedule_inv s" "far_from_wrap (Radio_timeOfArrival Q s)"
    and "startTimeOfSyncPeriod s \<le> Radio_timeOfArrival Q s"
    and "Clique_updateBySyncMessage Q msg s = Some s'"
  shows "unat (endTimeOfSyncPeriod s') = unat (endTimeOfSyncPeriod m) \<or>
    unat (endTimeOfSyncPeriod s') = unat (endTimeOfSyncPeriod m) + unat NormalSyncPeriodDuration"
proof -
  have latency: "unat SendLatency = 4"
    by (simp add: params)
  have "deltaToNextSyncPoint msg = fst (SyncOffset_calculate P m)"
    using assms(2) by (auto simp: initSyncMessage_eq split: if_splits)
  then have "unat (deltaToNextSyncPoint msg) = unat (endTimeOfSyncPeriod m) - unat (p_nowTime P (io m)) - 4"
    using SyncOffset_calculate_unat [OF assms(1), of m] assms(4) by simp
  then have delta: "unat (Radio_timeOfArrival Q s) + unat (deltaToNextSyncPoint msg) = unat (endTimeOfSyncPeriod m)"
    using assms(3,5) latency by simp
  have carries: "SyncMessage_doesCarrySync (msg_type msg)"
    using assms(9) by (rule updateBySyncMessage_SomeD)
  have "unat (endTimeOfSyncPeriod s') =
      message_end_time (Radio_timeOfArrival Q s) (deltaToNextSyncPoint msg) (endTimeOfSyncPeriod s)"
    using updateBySyncMessage_total [OF assms(6) carries assms(7,8)]
      updateBySyncMessage_None [OF assms(6) carries assms(7,8)] assms(9) by fastforce
  then show ?thesis
    by (simp add: message_end_time_def delta Let_def)
qed

lemma sync_message_aligns_schedules_witness:
  "\<exists>msg s'. MessageFactory_initSyncMessage (sample_platform 7 1000 1000 True True True False) MasterSync 0
       (sample_unit 7 7) = Some (msg, emit GetNowTime (sample_unit 7 7)) \<and>
     Clique_updateBySyncMessage (sample_platform 9 1004 1004 True True True False) msg (sample_unit 9 9) = Some s' \<and>
     (unat (endTimeOfSyncPeriod s') = 80000 \<or> unat (endTimeOfSyncPeriod s') = 160000)"
proof -
  let ?P = "sample_platform 7 1000 1000 True True True False"
  let ?Q = "sample_platform 9 1004 1004 True True True False"
  let ?msg = "\<lparr>msg_type = MasterSync, deltaToNextSyncPoint = 78996, msg_masterID = 7, work = 0\<rparr>"
  have m: "MessageFactory_initSyncMessage ?P MasterSync 0 (sample_unit 7 7) =
      Some (?msg, emit GetNowTime (sample_unit 7 7))"
    by (simp add: initSyncMessage_eq SyncOffset_calculate_def Schedule_deltaNowToNextSyncPoint_def
        clampedTimeDifferenceFromNow_def Schedule_timeOfNextSyncPoint_def sample_platform_def sample_defs
        exact_difference_def params)
  have inv: "schedule_inv (sample_unit 9 9)" "far_from_wrap (Radio_timeOfArrival ?Q (sample_unit 9 9))"
    "startTimeOfSyncPeriod (sample_unit 9 9) \<le> Radio_timeOfArrival ?Q (sample_unit 9 9)"
    by (simp_all add: schedule_inv_def far_from_wrap_def Radio_timeOfArrival_def sample_platform_def sample_defs)
  obtain s' where s': "Clique_updateBySyncMessage ?Q ?msg (sample_unit 9 9) = Some s'"
    using updateBySyncMessage_total [OF inv(1) _ inv(2,3), of ?msg]
    by (auto simp: message_end_time_def Radio_timeOfArrival_def sample_platform_def sample_defs)
  have "unat (endTimeOfSyncPeriod s') = unat (endTimeOfSyncPeriod (sample_unit 7 7)) \<or>
      unat (endTimeOfSyncPeriod s') = unat (endTimeOfSyncPeriod (sample_unit 7 7)) + unat NormalSyncPeriodDuration"
    by (rule sync_message_aligns_schedules [OF sample_platform_documented(1) m _ _ _ inv s'])
      (simp_all add: Radio_timeOfArrival_def sample_platform_def sample_defs params)
  then show ?thesis
    using m s' by (auto simp: sample_defs)
qed

section \<open>Rolling the period\<close>

text \<open>
  Wherever the period has been adjusted to, rolling it forward starts a period of normal length
  at the end of the old one, with nothing between them and the invariant of the schedule established.
\<close>

lemma roll_forward_contiguous:
  assumes "far_from_wrap (endTimeOfSyncPeriod s)"
  shows "startTimeOfSyncPeriod (Schedule_rollPeriodForward s) = endTimeOfSyncPeriod s \<and>
    unat (endTimeOfSyncPeriod (Schedule_rollPeriodForward s)) = unat (endTimeOfSyncPeriod s) + 80000 \<and>
    schedule_inv (Schedule_rollPeriodForward s)"
  using rollPeriodForward_inv [OF assms] unat_plus_period [OF assms] by (simp add: rollPeriodForward_sel)

lemma roll_forward_contiguous_witness:
  "startTimeOfSyncPeriod (Schedule_rollPeriodForward ((sample_unit 9 9)\<lparr>endTimeOfSyncPeriod := 90000\<rparr>)) = 90000 \<and>
   unat (endTimeOfSyncPeriod (Schedule_rollPeriodForward ((sample_unit 9 9)\<lparr>endTimeOfSyncPeriod := 90000\<rparr>))) = 170000 \<and>
   schedule_inv (Schedule_rollPeriodForward ((sample_unit 9 9)\<lparr>endTimeOfSyncPeriod := 90000\<rparr>))"
  using roll_forward_contiguous [of "(sample_unit 9 9)\<lparr>endTimeOfSyncPeriod := 90000\<rparr>"]
  by (simp add: far_from_wrap_def sample_defs)

section \<open>Mastership\<close>

text \<open>
  C9. The filter on sync messages: a message of the unit's clique or of a better one is kept and
  the unit then has the better of both masters; any other message changes nothing.  The invariant
  of the unit is kept.
\<close>

theorem filter_joins_better_clique:
  assumes "unit_inv P s" "SyncBehaviour_filterSyncMsg P msg s = Some (kept, s')"
  shows "unit_inv P s' \<and> masterID s' = min (masterID s) (msg_masterID msg) \<and>
    kept = (msg_masterID msg \<le> masterID s) \<and> (kept \<or> s' = s)"
proof -
  have "kept \<or> s' = s"
    using assms(2) by (auto simp: SyncBehaviour_filterSyncMsg_def split: if_splits elim!: bind_SomeE)
  then show ?thesis
    using filterSyncMsg_inv [OF assms] by blast
qed

lemma sample_unit_inv:
  "master \<le> self \<Longrightarrow> unit_inv (sample_platform self now toa c a p m) (sample_unit self master)"
  by (simp add: unit_inv_parts generator_ok_def sample_defs sample_platform_def params)

lemma filter_joins_better_clique_witness:
  "\<exists>s'. SyncBehaviour_filterSyncMsg (sample_platform 9 1000 1000 True True True False)
       \<lparr>msg_type = MasterSync, deltaToNextSyncPoint = 40000, msg_masterID = 7, work = 2\<rparr> (sample_unit 9 9) = Some (True, s') \<and>
     unit_inv (sample_platform 9 1000 1000 True True True False) s' \<and> masterID s' = 7"
proof -
  let ?Q = "sample_platform 9 1000 1000 True True True False"
  let ?msg = "\<lparr>msg_type = MasterSync, deltaToNextSyncPoint = 40000, msg_masterID = 7, work = 2\<rparr>"
  have inv: "unit_inv ?Q (sample_unit 9 9)"
    by (rule sample_unit_inv) simp
  obtain s1 where "Clique_updateBySyncMessage ?Q ?msg (sample_unit 9 9) = Some s1" "mergerRole s1 = NoFishing"
    using updateBySyncMessage_total [of "sample_unit 9 9" ?msg ?Q] updateBySyncMessage_role(1) [of ?Q ?msg "sample_unit 9 9"]
    by (auto simp: message_end_time_def Radio_timeOfArrival_def sample_platform_def sample_defs schedule_inv_def
        far_from_wrap_def)
  then obtain s' where s': "SyncBehaviour_filterSyncMsg ?Q ?msg (sample_unit 9 9) = Some (True, s')"
    by (simp add: SyncBehaviour_filterSyncMsg_def SyncBehaviour_handleSuperiorOrSameSyncMsg_def
        Clique_isMsgFromMyClique_def Clique_isOtherCliqueBetter_def role_defs sample_defs)
  then show ?thesis
    using filter_joins_better_clique [OF inv s'] by (auto simp: sample_defs)
qed

text \<open>A unit that receives sync messages one after the other.\<close>

fun hear_sync_messages ::
  "platform \<Rightarrow> sync_message list \<Rightarrow> 'a network_state_scheme \<Rightarrow> 'a network_state_scheme option" where
  "hear_sync_messages P [] s = Some s"
| "hear_sync_messages P (msg # msgs) s = do {
     (_, s) \<leftarrow> SyncBehaviour_filterSyncMsg P msg s;
     hear_sync_messages P msgs s
   }"

lemma hear_sync_messages_inv:
  assumes "unit_inv P s" "hear_sync_messages P msgs s = Some s'"
  shows "unit_inv P s' \<and> masterID s' = foldl min (masterID s) (map msg_masterID msgs)"
  using assms
proof (induction msgs arbitrary: s)
  case Nil
  then show ?case by simp
next
  case (Cons msg msgs)
  obtain kept s1 where s1: "SyncBehaviour_filterSyncMsg P msg s = Some (kept, s1)"
    "hear_sync_messages P msgs s1 = Some s'"
    using Cons.prems(2) by (auto elim!: bind_case_prod_SomeE)
  show ?case
    using Cons.IH [OF _ s1(2)] filterSyncMsg_inv [OF Cons.prems(1) s1(1)] by simp
qed

text \<open>The better of two masters, as the code compares them, and as the election states it.\<close>

lemma foldl_min_elects:
  fixes s :: "'a clique_state_scheme"
  shows "foldl min a xs = foldl (join_better (\<lambda>other mine. Clique_isOtherCliqueBetter other (s\<lparr>masterID := mine\<rparr>))) a xs"
  by (induction xs arbitrary: a) (simp_all add: clique_join_eq)

text \<open>
  C10. Leader election.  After any sequence of sync messages that does not reset the unit, its
  master is its own former one or one it heard, and none of these is better by the code's comparison.
\<close>

theorem heard_masters_elect_best:
  assumes "unit_inv P s" "hear_sync_messages P msgs s = Some s'"
  shows "unit_inv P s' \<and> masterID s' \<in> insert (masterID s) (set (map msg_masterID msgs)) \<and>
    (\<forall>m \<in> insert (masterID s) (set (map msg_masterID msgs)). \<not> Clique_isOtherCliqueBetter m s')"
proof -
  have inv: "unit_inv P s'" and m: "masterID s' = foldl min (masterID s) (map msg_masterID msgs)"
    using hear_sync_messages_inv [OF assms] by auto
  show ?thesis
    using inv clique_election.foldl_join_in [of s "masterID s" "map msg_masterID msgs"]
      clique_election.foldl_join_best [of _ "masterID s" "map msg_masterID msgs" s]
    unfolding foldl_min_elects [of "masterID s" _ s, symmetric] m [symmetric]
    by (auto simp: Clique_isOtherCliqueBetter_def)
qed

definition two_rivals :: "sync_message list" where
  "two_rivals =
    [\<lparr>msg_type = MasterSync, deltaToNextSyncPoint = 0, msg_masterID = 12, work = 2\<rparr>,
     \<lparr>msg_type = WorkSync, deltaToNextSyncPoint = 0, msg_masterID = 11, work = 2\<rparr>]"

lemma hear_two_rivals:
  "hear_sync_messages (sample_platform 9 1000 1000 True True True False) two_rivals (sample_unit 9 9) =
     Some (sample_unit 9 9)"
  by (simp add: two_rivals_def SyncBehaviour_filterSyncMsg_def Clique_isMsgFromMyClique_def
      Clique_isOtherCliqueBetter_def sample_defs)

lemma heard_masters_elect_best_witness:
  "masterID (sample_unit 9 9) \<in> {9, 12, 11} \<and> \<not> Clique_isOtherCliqueBetter 12 (sample_unit 9 9) \<and>
   \<not> Clique_isOtherCliqueBetter 11 (sample_unit 9 9)"
  using heard_masters_elect_best [OF sample_unit_inv hear_two_rivals]
  by (simp add: two_rivals_def sample_defs)

text \<open>
  C11. Agreement.  Two units that hear the same masters, in whatever order and however often, and
  that started from masters heard by the other, end up with the same master.
\<close>

theorem same_masters_heard_same_master:
  assumes "unit_inv P s" "unit_inv Q r"
    and "hear_sync_messages P msgs s = Some s'" "hear_sync_messages Q msgs' r = Some r'"
    and "insert (masterID s) (msg_masterID ` set msgs) = insert (masterID r) (msg_masterID ` set msgs')"
  shows "masterID s' = masterID r'"
proof -
  have "foldl min (masterID s) (map msg_masterID msgs) = foldl min (masterID r) (map msg_masterID msgs')"
    unfolding foldl_min_elects [of _ _ s]
    using assms(5) by (intro clique_election.foldl_join_set) simp
  then show ?thesis
    using hear_sync_messages_inv [OF assms(1,3)] hear_sync_messages_inv [OF assms(2,4)] by simp
qed

lemma same_masters_heard_same_master_witness:
  "hear_sync_messages (sample_platform 9 1000 1000 True True True False) two_rivals (sample_unit 9 9) =
     Some (sample_unit 9 9) \<and>
   hear_sync_messages (sample_platform 10 1000 1000 True True True False) (rev two_rivals) (sample_unit 10 9) =
     Some (sample_unit 10 9) \<and> masterID (sample_unit 9 9) = masterID (sample_unit 10 9)"
proof -
  have r: "hear_sync_messages (sample_platform 10 1000 1000 True True True False) (rev two_rivals) (sample_unit 10 9) =
      Some (sample_unit 10 9)"
    by (simp add: two_rivals_def SyncBehaviour_filterSyncMsg_def Clique_isMsgFromMyClique_def
        Clique_isOtherCliqueBetter_def sample_defs)
  show ?thesis
    using same_masters_heard_same_master [OF sample_unit_inv sample_unit_inv hear_two_rivals r] hear_two_rivals r
    by (simp add: sample_defs)
qed

text \<open>
  C12. Whatever packet the radio hands to the receiver, in either slot, the invariant of the unit is
  kept unless an assertion resets the unit.
\<close>

theorem receiver_keeps_unit_inv:
  assumes "unit_inv P s" "Receiver_onMsgReceived P s = Some s'"
  shows "unit_inv P s'"
  using assms by (rule onMsgReceived_inv)

lemma receiver_keeps_unit_inv_witness:
  "unit_inv (sample_platform 9 1000 1000 True True True False)
     (emit StartReceiving ((sample_unit 9 9)\<lparr>handler := SyncSlotHandler\<rparr>))"
proof (rule receiver_keeps_unit_inv [where s = "(sample_unit 9 9)\<lparr>handler := SyncSlotHandler\<rparr>"])
  show "unit_inv (sample_platform 9 1000 1000 True True True False) ((sample_unit 9 9)\<lparr>handler := SyncSlotHandler\<rparr>)"
    by (simp add: unit_inv_parts generator_ok_def sample_defs sample_platform_def params)
  show "Receiver_onMsgReceived (sample_platform 9 1000 1000 True True True False)
      ((sample_unit 9 9)\<lparr>handler := SyncSlotHandler\<rparr>) =
      Some (emit StartReceiving ((sample_unit 9 9)\<lparr>handler := SyncSlotHandler\<rparr>))"
    by (simp add: Receiver_onMsgReceived_def MessageDispatcher_dispatch_def Serializer_unserialize_def
        unserializeType_def SyncMessage_messageTypeFromRaw_def get_bytes_def params sample_defs
        Ensemble_isPacketCRCValid_def sample_platform_def emit_def)
qed

section \<open>Losing the master\<close>

text \<open>
  C13. After hearing sync, a unit takes its master for lost at the 81st consecutive sync slot without
  sync, not before, and the monitor then starts over.
\<close>

theorem dropout_at_81st_silent_slot:
  "\<exists>s'. repeat_op DropoutMonitor_isDropout 81 (DropoutMonitor_heardSync s) =
     Some (replicate 80 False @ [True], s')"
  using dropout.ends_past_limit [of "DropoutMonitor_heardSync s"]
  by (simp add: DropoutMonitor_heardSync_def DropoutMonitor_reset_def)

lemma endListen_dropout:
  assumes "dropout_inv s" "unat (countSyncSlotsWithoutSyncMsg s) = 80" "\<not> Clique_isSelfMaster P s"
    and "0 < currentCliqueIndex s"
  shows "SyncSlot_endListen P s =
    (let s1 = (Receiver_stop s)\<lparr>countSyncSlotsWithoutSyncMsg := 0, currentCliqueIndex := currentCliqueIndex s - 1\<rparr>
     in if CliqueHistory_isCurrentCliqueRecordSelf P s1
        then Clique_grabMastership P s1 else Clique_revertToFormerMaster P s1)"
proof -
  have "dropout_inv (Receiver_stop s)" "\<not> Clique_isSelfMaster P (Receiver_stop s)"
    "unat (countSyncSlotsWithoutSyncMsg (Receiver_stop s)) = 80"
    "currentCliqueIndex (Receiver_stop s) = currentCliqueIndex s"
    using assms(1-3) by (simp_all add: dropout_inv_def Receiver_stop_def emit_def Clique_isSelfMaster_def)
  then show ?thesis
    using assms(4) by (simp add: SyncSlot_endListen_def Clique_checkMasterDroppedOut_def isDropout_eq
        Clique_onMasterDropout_def Clique_revertByCliqueHistory_def Let_def
        CliqueHistory_setCurrentCliqueRecordToFormerClique_def)
qed

text \<open>
  C14. A slave whose first and only former clique was its own takes back its own mastership when
  its master has dropped out: its schedule is unchanged, its transmit policy starts over, and
  trolling starts over from both ends of the sleeping slots.
\<close>

theorem orphan_reverts_to_self:
  assumes "unit_inv P s" "unat (countSyncSlotsWithoutSyncMsg s) = 80"
    and "\<not> Clique_isSelfMaster P s" "currentCliqueIndex s = 1"
  shows "\<exists>s'. SyncSlot_endListen P s = Some s' \<and> Clique_isSelfMaster P s' \<and> unit_inv P s' \<and>
    \<not> isAdvancedStage s' \<and> generator_of s' = (2, 1601 - session_slots s, True, 2) \<and>
    startTimeOfSyncPeriod s' = startTimeOfSyncPeriod s \<and> endTimeOfSyncPeriod s' = endTimeOfSyncPeriod s"
proof -
  define s1 where "s1 = (Receiver_stop s)\<lparr>countSyncSlotsWithoutSyncMsg := 0, currentCliqueIndex := 0\<rparr>"
  have s1: "unit_inv P s1" "session_slots s1 = session_slots s"
    "startTimeOfSyncPeriod s1 = startTimeOfSyncPeriod s" "endTimeOfSyncPeriod s1 = endTimeOfSyncPeriod s"
    "CliqueHistory_isCurrentCliqueRecordSelf P s1"
    using assms(1) by (simp_all add: unit_inv_parts s1_def Receiver_stop_def emit_def
        CliqueHistory_isCurrentCliqueRecordSelf_def)
  have "SyncSlot_endListen P s = Clique_grabMastership P s1"
    using endListen_dropout [of s P] assms s1(5) by (simp add: s1_def unit_inv_def)
  moreover have "trolling_inv s1"
    using s1(1) by (simp add: unit_inv_def)
  ultimately show ?thesis
    using grabMastership_total [of s1 P] grabMastership_unit_inv [OF s1(1)] s1 by auto
qed

definition orphan :: "u32 \<Rightarrow> agent_state" where
  "orphan index = (sample_unit 9 7)\<lparr>currentCliqueIndex := index, countSyncSlotsWithoutSyncMsg := 80\<rparr>"

lemma orphan_reverts_to_self_witness:
  "\<exists>s'. SyncSlot_endListen (sample_platform 9 1000 1000 True True True False) (orphan 1) = Some s' \<and>
     Clique_isSelfMaster (sample_platform 9 1000 1000 True True True False) s' \<and> endTimeOfSyncPeriod s' = 80000"
  using orphan_reverts_to_self [of "sample_platform 9 1000 1000 True True True False" "orphan 1"]
  by (auto simp: orphan_def sample_defs Clique_isSelfMaster_def unit_inv_parts generator_ok_def
      sample_platform_def params)

text \<open>
  C15. A slave that has joined two or more cliques since it was its own master does not survive the
  dropout of its master: reverting to the former master sets the end of the period to the current
  time, which the schedule's assertion rejects, and the unit resets.
\<close>

theorem orphan_of_second_master_resets:
  assumes "unit_inv P s" "unat (countSyncSlotsWithoutSyncMsg s) = 80"
    and "\<not> Clique_isSelfMaster P s" "2 \<le> currentCliqueIndex s"
    and "rec_masterID (cliqueRecords s ! unat (currentCliqueIndex s - 1)) \<noteq> p_systemID P"
    and "unat (p_nowTime P (io (Receiver_stop s))) + 1 < unat (unadjustedEndTimeOfSyncPeriod s)"
  shows "SyncSlot_endListen P s = None"
proof -
  define s1 where "s1 = (Receiver_stop s)\<lparr>countSyncSlotsWithoutSyncMsg := 0, currentCliqueIndex := currentCliqueIndex s - 1\<rparr>"
  have s1: "\<not> CliqueHistory_isCurrentCliqueRecordSelf P s1" "io s1 = io (Receiver_stop s)"
    "unadjustedEndTimeOfSyncPeriod s1 = unadjustedEndTimeOfSyncPeriod s"
    using assms(5) by (simp_all add: s1_def CliqueHistory_isCurrentCliqueRecordSelf_def Receiver_stop_def emit_def)
  have "0 < currentCliqueIndex s"
    using assms(4) by (simp add: word_less_nat_alt word_le_nat_alt)
  then have "SyncSlot_endListen P s = Clique_revertToFormerMaster P s1"
    using endListen_dropout [of s P] assms(1-3) s1(1) by (simp add: s1_def unit_inv_def)
  moreover have "Clique_revertToFormerMaster P s1 = None"
    by (rule revertToFormerMaster_faults) (use assms(6) s1 in simp)
  ultimately show ?thesis
    by simp
qed

lemma orphan_of_second_master_resets_witness:
  "SyncSlot_endListen (sample_platform 9 1000 1000 True True True False) (orphan 2) = None"
  by (rule orphan_of_second_master_resets)
    (simp_all add: orphan_def sample_defs Clique_isSelfMaster_def unit_inv_parts generator_ok_def
      sample_platform_def params Receiver_stop_def emit_def)

end
