(* ===== verification/FishProperties.thy ===== *)
theory FishProperties
  imports SyncProperties
begin

text \<open>
  Properties of the sleeping part of the sync period: trolling and deep fishing, the fishing
  session's place in the period, and merging with the clique that was caught.
\<close>

section \<open>Trolling\<close>


lemma powered_on_trolling: "trolling_inv powered_on"
  by (simp add: trolling_inv_def generator_ok_def session_slots_def powered_on_def params)


text \<open>
  C17. Trolling leaves no hole: whatever the session length in use, and wherever the counters stand,
  every sleeping slot is inside the session of one of the next 6401 sync periods.  That includes the
  last slot of the period (\<open>k = 1600\<close>), as \<open>fishPolicy/fishingParameters.h\<close> intends; the comment at the
  top of \<open>scheduleParameters.h\<close>, by which the last virtual slot is not fished at all, is out of date.
\<close>

theorem trolling_covers_every_sleeping_slot:
  assumes "trolling_inv s" "2 \<le> k" "k \<le> 1600"
  shows "\<exists>n s'. 1 \<le> n \<and> n \<le> 6401 \<and>
    iterate_op SyncRecoveryTrollingPolicy_proceedToNextFishSlotOrdinal n s = Some s' \<and>
    unat (currentStartSlotOrdinal s') \<le> k \<and> k \<le> unat (currentEndSlotOrdinal s')"
proof -
  let ?op = "SyncRecoveryTrollingPolicy_proceedToNextFishSlotOrdinal"
  have ok: "generator_ok (session_slots s) (unat (upCounter s)) (unat (downCounter s))"
    using assms(1) by (simp add: trolling_inv_def)
  obtain n where n: "1 \<le> n" "n \<le> 6401"
    "session_covers (session_slots s) k ((troll_step (session_slots s) ^^ n) (generator_of s))"
    using troll_covers [OF ok assms(2,3)] unfolding generator_of_def by blast
  obtain m where m: "n = m + 1"
    using n(1) by (cases n) auto
  obtain s1 where s1: "iterate_op ?op m s = Some s1" "trolling_inv s1" "session_slots s1 = session_slots s"
    "generator_of s1 = (troll_step (session_slots s) ^^ m) (generator_of s)"
    using proceed_many [OF assms(1), of m] by blast
  obtain s2 where s2: "?op s1 = Some s2" "generator_of s2 = troll_step (session_slots s) (generator_of s1)"
    "unat (currentEndSlotOrdinal s2) = unat (currentStartSlotOrdinal s2) + session_slots s - 1"
    using proceed_refines [OF s1(2)] s1(3) by auto
  have "iterate_op ?op n s = Some s2"
    unfolding m iterate_op_add s1(1) using s2(1) by simp
  moreover have "session_covers (session_slots s) k (generator_of s2)"
    using n(3) s1(4) s2(2) by (simp add: m)
  ultimately show ?thesis
    using n(1,2) s2(3) by (auto simp: session_covers_def generator_of_def)
qed

lemma trolling_covers_every_sleeping_slot_witness:
  "\<exists>n s'. 1 \<le> n \<and> n \<le> 6401 \<and>
     iterate_op SyncRecoveryTrollingPolicy_proceedToNextFishSlotOrdinal n powered_on = Some s' \<and>
     unat (currentStartSlotOrdinal s') \<le> 800 \<and> 800 \<le> unat (currentEndSlotOrdinal s')"
  by (rule trolling_covers_every_sleeping_slot [OF powered_on_trolling]) simp_all

text \<open>
  The first session after trolling (re)starts is the one that starts a session length after the first
  sleeping slot: the first sleeping slots, which restarting selects, are passed over until the
  counter wraps round.
\<close>

lemma restarted_trolling_skips_first_session:
  assumes "trolling_inv s"
  shows "\<exists>s1 s2. FishingManager_restartTrollingMode s = Some s1 \<and>
    FishingManager_preFishing (s1\<lparr>fishingMode := Trolling\<rparr>) = Some s2 \<and>
    unat (currentStartSlotOrdinal s1) = 2 \<and> unat (currentStartSlotOrdinal s2) = 2 + session_slots s"
proof -
  have d: "1 \<le> session_slots s" "session_slots s \<le> 100"
    using assms by (auto simp: trolling_inv_def generator_ok_def)
  obtain s1 where s1: "SyncRecoveryTrollingPolicy_restart s = Some s1" "trolling_inv s1"
    "session_slots s1 = session_slots s" "generator_of s1 = (2, 1601 - session_slots s, True, 2)"
    using restart_total [of s] assms by (auto simp: trolling_inv_def generator_ok_def)
  define r where "r = s1\<lparr>fishingMode := Trolling\<rparr>"
  have r: "trolling_inv r" "session_slots r = session_slots s" "generator_of r = (2, 1601 - session_slots s, True, 2)"
    using s1 by (simp_all add: r_def trolling_inv_def session_slots_def generator_of_def)
  obtain s2 where "SyncRecoveryTrollingPolicy_proceedToNextFishSlotOrdinal r = Some s2"
    "generator_of s2 = troll_step (session_slots s) (2, 1601 - session_slots s, True, 2)"
    using proceed_refines [OF r(1)] r(2,3) by auto
  then show ?thesis
    using s1(1,4) d by (auto simp: FishingManager_restartTrollingMode_def FishingManager_preFishing_def
        SyncRecoveryTrollingPolicy_preFishing_def generator_of_def up_next_def r_def)
qed

lemma restarted_trolling_skips_first_session_witness:
  "\<exists>s1 s2. FishingManager_restartTrollingMode powered_on = Some s1 \<and>
     FishingManager_preFishing (s1\<lparr>fishingMode := Trolling\<rparr>) = Some s2 \<and>
     unat (currentStartSlotOrdinal s1) = 2 \<and> unat (currentStartSlotOrdinal s2) = 3"
  using restarted_trolling_skips_first_session [OF powered_on_trolling]
  by (simp add: session_slots_def powered_on_def)

section \<open>The fishing session in the period\<close>

text \<open>
  C18. In either mode of fishing, the session that is scheduled starts within the sync period, ends
  no earlier than it starts and no later than the period, and lasts at most the duration the
  policy asked for; calculating it does not change the period.
\<close>

theorem fish_session_within_period:
  assumes "session_valid s" "startTimeOfSyncPeriod s \<le> endTimeOfSyncPeriod s"
    and "s' = FishSchedule_setStartAndEndTimes s"
  shows "startTimeOfSyncPeriod s \<le> memoStartTimeOfFishSlot s' \<and>
    memoStartTimeOfFishSlot s' \<le> memoEndTimeOfFishSlot s' \<and>
    memoEndTimeOfFishSlot s' \<le> endTimeOfSyncPeriod s \<and>
    unat (memoEndTimeOfFishSlot s')
      \<le> unat (memoStartTimeOfFishSlot s') + unat (FishingManager_getFishSessionDurationTicks s)"
  using managed_sessions.clamped_session [OF assms(1,2)]
  unfolding assms(3) setStartAndEndTimes_memo by simp

lemma fish_session_within_period_witness:
  "memoStartTimeOfFishSlot (FishSchedule_setStartAndEndTimes (sample_unit 9 9)) \<le>
     memoEndTimeOfFishSlot (FishSchedule_setStartAndEndTimes (sample_unit 9 9)) \<and>
   memoEndTimeOfFishSlot (FishSchedule_setStartAndEndTimes (sample_unit 9 9)) \<le> 80000"
  using fish_session_within_period [of "sample_unit 9 9"]
  by (simp add: session_valid_def far_from_wrap_def trolling_inv_def generator_ok_def session_slots_def
      sample_defs params)

text \<open>
  C19. Deep fishing ends.  From the message that starts it, six sync periods of fishing leave it on, and
  the seventh ends it: the unit is trolling again, and it has become its own master exactly where the
  message was a master's departure.
\<close>

theorem deep_fishing_ends_after_seven:
  assumes "fishingMode s = Trolling" "cb \<noteq> NullCallback"
  shows "map_option fishingMode (iterate_op (fishing_period P) 6 (FishingManager_switchToDeepFishing d cb s)) =
      Some DeepFishing \<and>
    map_option (\<lambda>s'. (fishingMode s', masterID s'))
      (iterate_op (fishing_period P) 7 (FishingManager_switchToDeepFishing d cb s)) =
      Some (Trolling, if cb = EndWithRecoverMaster then p_systemID P else masterID s)"
proof -
  define r where "r = FishingManager_switchToDeepFishing d cb s"
  have r: "fishingMode r = DeepFishing" "fishPolicyDoneCallback r = cb" "countFishings r = 0" "masterID r = masterID s"
    using assms(1) by (simp_all add: r_def FishingManager_switchToDeepFishing_def DeepFishingPolicy_restart_def)
  have six: "iterate_op (fishing_period P) 6 r = Some (r\<lparr>countFishings := 6\<rparr>)"
    using fishing_period_counts [of r 6 P] r assms(2) by simp
  have "iterate_op (fishing_period P) (6 + 1) r = fishing_period P (r\<lparr>countFishings := 6\<rparr>)"
    unfolding iterate_op_add six by (cases "fishing_period P (r\<lparr>countFishings := 6\<rparr>)") simp_all
  then show ?thesis
    using six r assms(2) unfolding r_def [symmetric]
    by (cases cb) (simp_all add: fishing_period_deep FishingManager_switchToTrolling_def
        DeepFishing_endWithRecoverMaster_def Clique_assumeMastership_def Clique_setSelfMastership_def)
qed

lemma deep_fishing_ends_after_seven_witness:
  "map_option (\<lambda>s'. (fishingMode s', masterID s'))
     (iterate_op (fishing_period (sample_platform 9 1000 1000 True True True False)) 7
       (FishingManager_switchToDeepFishing 5000 EndWithRecoverMaster (sample_unit 9 7))) = Some (Trolling, 9)"
  using deep_fishing_ends_after_seven [of "sample_unit 9 7" EndWithRecoverMaster
      "sample_platform 9 1000 1000 True True True False" 5000]
  by (simp add: sample_defs sample_platform_def)

lemma deep_session_end_unat:
  assumes "unat (deltaSyncPointToSyncPointOfFishee s) \<le> 80000"
  shows "unat (DeepFishingPolicy_deltaSyncPointToEndDeepFishing s) =
    unat (deltaSyncPointToSyncPointOfFishee s) + 50"
  unfolding DeepFishingPolicy_deltaSyncPointToEndDeepFishing_def DeepFishingPolicy_getFishSessionDurationTicks_def
  using assms by (subst unat_add_u32) (simp_all add: params)

text \<open>
  C20. The test whether a deep fishing session is near the end of the period is inverted, so after a
  session in the last two slots the radio's clock is stopped; where less than a slot is left
  until the sync point, scheduling its restart fails an assertion and the unit resets.
\<close>

theorem deep_fishing_near_end_resets:
  assumes "documented_time P" "fishingMode s = DeepFishing"
    and "unat (deltaSyncPointToSyncPointOfFishee s) \<le> 80000"
    and "unat DurationTilTwoSlotsFromEndSyncPeriod
      \<le> unat (deltaSyncPointToSyncPointOfFishee s) + unat DeepFishSessionDurationTicks"
    and "unat (endTimeOfSyncPeriod s) < unat (p_nowTime P (io (RadioPrelude_undo s))) + unat VirtualSlotDuration"
  shows "SyncSchedule_syncSlotAfterFishSlot P s = None"
proof -
  have "\<not> FishingManager_isFishSlotEndSyncPeriod s"
    using assms(2-4) by (simp add: FishingManager_isFishSlotEndSyncPeriod_def
        DeepFishingPolicy_isFishSlotEndSyncPeriod_def deep_session_end_unat word_less_nat_alt params)
  then have undo: "RadioPrelude_tryUndoAfterFishing s = (True, RadioPrelude_undo s)"
    by (simp add: RadioPrelude_tryUndoAfterFishing_def RadioPrelude_shouldUndoAfterFishing_def)
  have now: "unat (p_clampedTimeDifferenceFromNow P (io (RadioPrelude_undo s)) (endTimeOfSyncPeriod s)) < 50"
    using clampedFromNow_unat [OF assms(1), of "endTimeOfSyncPeriod s" "io (RadioPrelude_undo s)"] assms(5)
    by (simp add: params)
  have same_end: "endTimeOfSyncPeriod (RadioPrelude_undo s) = endTimeOfSyncPeriod s"
    by (simp add: RadioPrelude_undo_def emit_def)
  have "documented_subtraction P"
    using assms(1) by (simp add: documented_time_def)
  note sub = deltaSubtraction_eq [OF this]
  have "SleepDuration_nowTilPreludeWSync P (RadioPrelude_undo s) = None"
    using now by (simp add: SleepDuration_nowTilPreludeWSync_def SleepDuration_nowTilSyncPoint_def
        Schedule_deltaNowToNextSyncPoint_def clampedTimeDifferenceFromNow_def Schedule_timeOfNextSyncPoint_def
        same_end sub SleepDuration_preludeTilNextTask_def params word_le_nat_alt)
  then show ?thesis
    by (simp add: SyncSchedule_syncSlotAfterFishSlot_def undo SyncSchedule_radioPreludeTaskWSync_def)
qed

lemma deep_fishing_near_end_resets_witness:
  "SyncSchedule_syncSlotAfterFishSlot (sample_platform 9 79990 79990 True True True False)
     ((sample_unit 9 9)\<lparr>fishingMode := DeepFishing, deltaSyncPointToSyncPointOfFishee := 79940,
       preludeIsStarted := True\<rparr>) = None"
  by (rule deep_fishing_near_end_resets [OF sample_platform_documented(1)])
    (simp_all add: sample_defs sample_platform_def params RadioPrelude_undo_def)

section \<open>Merging\<close>

text \<open>
  C22. A trolling fisher that catches a message of a clique that is not better becomes merger of the
  other clique: its own master and schedule stay, and it will tell the other clique of its own
  master.  The code does not exclude its own clique: then both masters of the merger are the same.
\<close>

theorem catch_of_worse_clique:
  assumes "unit_inv P s" "msg_type msg = MasterSync \<or> msg_type msg = WorkSync"
    and "mergerRole s = Fisher" "fishingMode s = Trolling" "masterID s \<le> msg_masterID msg"
  shows "\<exists>r s'. FishSlotMessageHandler_handle P msg s = Some (r, s') \<and> r \<noteq> KeepListening \<and>
    mergerRole s' = Merger \<and> kindOfMerger s' = MergeOther \<and>
    superiorMasterID s' = masterID s \<and> inferiorMasterID s' = msg_masterID msg \<and>
    masterID s' = masterID s \<and> startTimeOfSyncPeriod s' = startTimeOfSyncPeriod s \<and>
    endTimeOfSyncPeriod s' = endTimeOfSyncPeriod s \<and> unit_inv P s'"
proof -
  have carries: "SyncMessage_doesCarrySync (msg_type msg)"
    using assms(2) by auto
  note merge = toMergerFromFisher_other [OF carries assms(3,4,5), of P]
  have inv: "unit_inv P (fished_other P msg s)"
    using toMergerFromFisher_unit_inv [OF assms(1) merge] .
  have "\<exists>r. FishSlotMessageHandler_handle P msg s = Some (r, fished_other P msg s) \<and> r \<noteq> KeepListening"
    using assms(2,4) merge by (auto simp: FishSlotMessageHandler_handle_def doFishedSyncMsg_def
        FishSlotMessageHandler_handleMasterSyncMessage_def FishSlotMessageHandler_handleWorkSyncMessage_def
        FishingManager_mode_def)
  then show ?thesis
    using inv by (auto simp: fished_other_def)
qed

definition sample_fisher :: "system_id \<Rightarrow> system_id \<Rightarrow> agent_state" where
  "sample_fisher self master = (sample_unit self master)\<lparr>mergerRole := Fisher, syncMode := SyncAndFishMerge\<rparr>"

lemma sample_fisher_inv:
  "master \<le> self \<Longrightarrow> unit_inv (sample_platform self now toa c a p m) (sample_fisher self master)"
  by (simp add: unit_inv_parts generator_ok_def sample_fisher_def sample_defs sample_platform_def params)

lemma catch_of_worse_clique_witness:
  "\<exists>r s'. FishSlotMessageHandler_handle (sample_platform 9 1000 1000 True True True False)
       \<lparr>msg_type = MasterSync, deltaToNextSyncPoint = 100, msg_masterID = 9, work = 2\<rparr> (sample_fisher 9 9) = Some (r, s') \<and>
     kindOfMerger s' = MergeOther \<and> superiorMasterID s' = 9 \<and> inferiorMasterID s' = 9"
  using catch_of_worse_clique [OF sample_fisher_inv [of 9 9 1000 1000 True True True False],
      of "\<lparr>msg_type = MasterSync, deltaToNextSyncPoint = 100, msg_masterID = 9, work = 2\<rparr>"]
  by (auto simp: sample_fisher_def sample_defs)

text \<open>
  C23. A trolling fisher that catches a message of a better clique joins it and becomes merger of its
  old clique: its master is the caught one, and it will tell the old clique who departed, the
  master itself or one of its slaves.
\<close>

theorem catch_of_better_clique:
  assumes "unit_inv P s" "SyncMessage_doesCarrySync (msg_type msg)"
    and "mergerRole s = Fisher" "fishingMode s = Trolling" "msg_masterID msg < masterID s"
    and "doFishedSyncMsg P msg s = Some (r, s')"
  shows "unit_inv P s' \<and> r = StopListeningHeardMasterSync \<and> mergerRole s' = Merger \<and> mergerActive s' \<and>
    masterID s' = msg_masterID msg \<and> superiorMasterID s' = msg_masterID msg \<and>
    inferiorMasterID s' = masterID s \<and>
    kindOfMerger s' = (if Clique_isSelfMaster P s then MergeMyMasterDepart else MergeMySlaveDepart) \<and>
    startTimeOfSyncPeriod s' = startTimeOfSyncPeriod s"
proof -
  have own: "masterID s \<le> p_systemID P"
    using assms(1) by (simp add: unit_inv_def master_inv_def)
  obtain s1 where s1: "Clique_updateBySyncMessage P msg (merging_my P msg (s\<lparr>mergerRole := Merger\<rparr>)) = Some s1"
    "s' = s1\<lparr>mergerActive := True\<rparr>" "r = StopListeningHeardMasterSync"
    using assms(6,4) toMergerFromFisher_my [OF assms(2-5) own]
    by (auto simp: doFishedSyncMsg_def FishingManager_mode_def elim!: bind_SomeE)
  obtain rs i t where "s1 = (merging_my P msg (s\<lparr>mergerRole := Merger\<rparr>))\<lparr>masterID := msg_masterID msg,
      cliqueRecords := rs, currentCliqueIndex := i, isAdvancedStage := True, endTimeOfSyncPeriod := t\<rparr>"
    using s1(1) by (rule updateBySyncMessage_shape)
  then show ?thesis
    using s1(2,3) doFished_unit_inv [OF assms(1,6)] by (simp add: merging_my_def Clique_isSelfMaster_def)
qed

lemma catch_of_better_clique_witness:
  "\<exists>s'. doFishedSyncMsg (sample_platform 9 1000 1000 True True True False)
       \<lparr>msg_type = MasterSync, deltaToNextSyncPoint = 100, msg_masterID = 7, work = 2\<rparr> (sample_fisher 9 9) =
       Some (StopListeningHeardMasterSync, s') \<and>
     masterID s' = 7 \<and> inferiorMasterID s' = 9 \<and> kindOfMerger s' = MergeMyMasterDepart"
proof -
  let ?P = "sample_platform 9 1000 1000 True True True False"
  let ?msg = "\<lparr>msg_type = MasterSync, deltaToNextSyncPoint = 100, msg_masterID = 7, work = 2\<rparr>"
  let ?m = "merging_my ?P ?msg ((sample_fisher 9 9)\<lparr>mergerRole := Merger\<rparr>)"
  have "\<exists>s1. Clique_updateBySyncMessage ?P ?msg ?m = Some s1"
    using updateBySyncMessage_total [of ?m ?msg ?P]
    by (auto simp: message_end_time_def Radio_timeOfArrival_def sample_platform_def sample_fisher_def sample_defs
        schedule_inv_def far_from_wrap_def merging_my_def)
  then obtain s' where s': "doFishedSyncMsg ?P ?msg (sample_fisher 9 9) = Some (StopListeningHeardMasterSync, s')"
    using toMergerFromFisher_my [of ?msg "sample_fisher 9 9" ?P]
    by (auto simp: doFishedSyncMsg_def FishingManager_mode_def sample_fisher_def sample_defs sample_platform_def)
  show ?thesis
    using s' catch_of_better_clique [OF sample_fisher_inv _ _ _ _ s']
    by (auto simp: sample_fisher_def sample_defs sample_platform_def Clique_isSelfMaster_def)
qed

text \<open>
  C24. The merge slot.  A merger always finds its merge slot within the period: the assertion of the
  merge schedule holds, the task is due at the start of the slot or at once where that has
  passed, and the transmission is over before the normal end of the period.
\<close>

theorem merge_slot_within_period:
  assumes "unit_inv P s" "mergerRole s = Merger" "documented_time P"
    and "far_from_wrap (startTimeOfSyncPeriod s)"
    and "unat (startTimeOfSyncPeriod s) \<le> unat (p_nowTime P (io s))"
  shows "\<exists>d s'. MergeSchedule_deltaToThisMergeStart P s = Some (d, s') \<and>
    unat (p_nowTime P (io s)) + unat d =
      max (unat (p_nowTime P (io s))) (unat (startTimeOfSyncPeriod s) + unat (periodTimeToMergeSlotStart s)) \<and>
    unat (startTimeOfSyncPeriod s) + unat (periodTimeToMergeSlotStart s) + unat SendDuration
      < unat (unadjustedEndTimeOfSyncPeriod s)"
proof -
  have inv: "schedule_inv s" "merge_time_inv s"
    using assms(1,2) by (auto simp: unit_inv_def role_inv_def)
  obtain t where t: "MergeSchedule_timeOfThisMergeStart (periodTimeToMergeSlotStart s) s = Some t"
    "unat t = unat (startTimeOfSyncPeriod s) + unat (periodTimeToMergeSlotStart s)"
    using timeOfThisMergeStart_total [OF inv(1) assms(4) inv(2)] by blast
  have bound: "unat (periodTimeToMergeSlotStart s) \<le> 79945"
    using inv(2) by (simp add: merge_time_inv_def)
  then have "unat (p_clampedTimeDifferenceFromNow P (io s) t) = unat t - unat (p_nowTime P (io s))"
    using assms(5) t(2) by (intro clampedFromNow_unat [OF assms(3)]) simp
  moreover have "unat SendDuration = 6"
    by (simp add: params)
  ultimately show ?thesis
    using t bound inv(1) by (simp add: MergeSchedule_deltaToThisMergeStart_def clampedTimeDifferenceFromNow_def
        CliqueMerger_getPeriodTimeToMergeSlotStart_def PeriodTime_get_def schedule_inv_def max_def)
qed

definition sample_merger :: "system_id \<Rightarrow> system_id \<Rightarrow> delta_time \<Rightarrow> agent_state" where
  "sample_merger self master pt = (sample_unit self master)\<lparr>mergerRole := Merger, syncMode := SyncAndFishMerge,
     mergerActive := True, kindOfMerger := MergeOther, superiorMasterID := master, inferiorMasterID := 12,
     periodTimeToMergeSlotStart := pt\<rparr>"

lemma sample_merger_inv:
  "master \<le> self \<Longrightarrow> 101 \<le> unat pt \<Longrightarrow> unat pt \<le> 79945 \<Longrightarrow>
   unit_inv (sample_platform self now toa c a p m) (sample_merger self master pt)"
  by (simp add: unit_inv_parts generator_ok_def sample_merger_def sample_defs sample_platform_def params)

lemma merge_slot_within_period_witness:
  "\<exists>d s'. MergeSchedule_deltaToThisMergeStart (sample_platform 9 1000 1000 True True True False)
       (sample_merger 9 9 50000) = Some (d, s') \<and> 1000 + unat d = 50000"
proof -
  let ?P = "sample_platform 9 1000 1000 True True True False"
  let ?s = "sample_merger 9 9 50000"
  have "mergerRole ?s = Merger" "far_from_wrap (startTimeOfSyncPeriod ?s)"
    "unat (startTimeOfSyncPeriod ?s) \<le> unat (p_nowTime ?P (io ?s))"
    by (simp_all add: sample_merger_def sample_defs sample_platform_def far_from_wrap_def)
  from merge_slot_within_period [OF sample_merger_inv this(1) sample_platform_documented(1) this(2,3)]
  obtain d s' where d: "MergeSchedule_deltaToThisMergeStart ?P ?s = Some (d, s')"
    "unat (p_nowTime ?P (io ?s)) + unat d =
      max (unat (p_nowTime ?P (io ?s))) (unat (startTimeOfSyncPeriod ?s) + unat (periodTimeToMergeSlotStart ?s))"
    by auto
  then have "1000 + unat d = 50000"
    by (simp add: sample_merger_def sample_defs sample_platform_def)
  with d(1) show ?thesis
    by blast
qed

text \<open>
  A merger transmits seven merge messages and then is done, not before.
\<close>

lemma merger_done_after_seven:
  "\<exists>s'. repeat_op MergePolicy_checkCompletionOfMergerRole 7 (MergePolicy_restart s) =
     Some (replicate 6 False @ [True], s')"
  using merge_episode.ends_past_limit [of "MergePolicy_restart s"] by (simp add: MergePolicy_restart_def)

lemma mergerStart_shape:
  assumes "SSTask_mergerStartAndEnd P s = Some s'"
  obtains s2 where "timers s2 = timers s" "preludeIsStarted s2 = preludeIsStarted s"
    "periodTimeToMergeSlotStart s2 = periodTimeToMergeSlotStart s"
    "SyncSchedule_syncSlotAfterMerging P s2 = Some s'"
proof -
  obtain s1 c s2 where "SyncSender_sendMergeSync P s = Some s1"
    "MergePolicy_checkCompletionOfMergerRole s1 = Some (c, s2)"
    "(if c then SyncAgentImp_stopMerger s2 else Some s2) \<bind> SyncSchedule_syncSlotAfterMerging P = Some s'"
    using assms unfolding SSTask_mergerStartAndEnd_def by (auto elim!: bind_SomeE bind_case_prod_SomeE)
  moreover obtain msg r where "CliqueMerger_makeMergeMsg P s = Some (msg, r)" "sendMessage msg r = Some s1"
    using calculation(1) unfolding SyncSender_sendMergeSync_def by (elim bind_case_prod_SomeE)
  ultimately have "timers s2 = timers s \<and> preludeIsStarted s2 = preludeIsStarted s \<and>
      periodTimeToMergeSlotStart s2 = periodTimeToMergeSlotStart s"
    using makeMergeMsg_shape(1) [of P s msg r]
    by (auto simp: sendMessage_eq MergePolicy_checkCompletionOfMergerRole_def emit_def Let_def split: if_splits)
  then show thesis
    using \<open>(if c then SyncAgentImp_stopMerger s2 else Some s2) \<bind> SyncSchedule_syncSlotAfterMerging P = Some s'\<close>
      that [of s2] that [of "s2\<lparr>countSentMergeSyncs := 0, mergerRole := Fisher, mergerActive := False\<rparr>"]
    by (cases c) (simp_all add: role_defs MergePolicy_restart_def)
qed

text \<open>
  C25. A merger whose slot is near the end of the period resets the unit: the radio's clock is not
  running (nothing starts it before the merge slot), and the next task is the one that requires it
  to be still running.
\<close>

theorem merger_near_end_resets:
  assumes "documented_subtraction P" "merge_time_inv s" "\<not> RadioPrelude_isDone s"
    and "79994 < unat (periodTimeToMergeSlotStart s) + unat TwoSlotDuration"
    and "SSTask_mergerStartAndEnd P s = Some s'"
  shows "\<exists>d. timers s' = timers s @ [(StartSyncSlotWithoutScheduledPrelude, d)] \<and>
    run_task Q StartSyncSlotWithoutScheduledPrelude s' = None"
proof -
  obtain s2 where s2: "timers s2 = timers s" "preludeIsStarted s2 = preludeIsStarted s"
    "periodTimeToMergeSlotStart s2 = periodTimeToMergeSlotStart s"
    "SyncSchedule_syncSlotAfterMerging P s2 = Some s'"
    using assms(5) by (rule mergerStart_shape)
  have "merge_time_inv s2"
    using assms(2) s2(3) by (simp add: merge_time_inv_def)
  from deltaMergeSlotEnd_unat [OF assms(1) this] have "MergeSchedule_isMergerEndSyncPeriod P s2"
    using assms(4) s2(3) by (simp add: MergeSchedule_isMergerEndSyncPeriod_def word_less_nat_alt params)
  then have "s' = SyncSchedule_startSyncSlotWithoutScheduledPrelude P s2"
    using s2(4) by (simp add: SyncSchedule_syncSlotAfterMerging_def RadioPrelude_tryUndoAfterMerging_def
        RadioPrelude_shouldUndoAfterMerging_def)
  then show ?thesis
    using s2(1,2) assms(3)
    by (simp add: SyncSchedule_startSyncSlotWithoutScheduledPrelude_def SleepDuration_nowTilSyncPoint_def
        Schedule_deltaNowToNextSyncPoint_def clampedTimeDifferenceFromNow_def TaskTimer_schedule_def emit_def
        SSTask_startSyncSlotWithoutScheduledPrelude_def SSTask_startSyncSlotAfterPrelude_def RadioPrelude_isDone_def)
qed

lemma merger_near_end_resets_witness:
  "\<exists>s' d. SSTask_mergerStartAndEnd (sample_platform 9 79900 1000 True True True False) (sample_merger 9 9 79900) = Some s' \<and>
     timers s' = [(StartSyncSlotWithoutScheduledPrelude, d)] \<and>
     run_task (sample_platform 9 80000 1000 True True True False) StartSyncSlotWithoutScheduledPrelude s' = None"
proof -
  let ?P = "sample_platform 9 79900 1000 True True True False"
  let ?s = "sample_merger 9 9 79900"
  have pre: "merge_time_inv ?s" "\<not> RadioPrelude_isDone ?s" "timers ?s = []"
    "79994 < unat (periodTimeToMergeSlotStart ?s) + unat TwoSlotDuration"
    by (simp_all add: merge_time_inv_def sample_merger_def sample_defs params RadioPrelude_isDone_def)
  have "\<exists>s'. SSTask_mergerStartAndEnd ?P ?s = Some s'"
    by (simp add: SSTask_mergerStartAndEnd_def SyncSender_sendMergeSync_def CliqueMerger_makeMergeMsg_def
        sample_merger_def sample_defs Schedule_deltaNowToNextUnadjustedSyncPoint_def
        clampedTimeDifferenceFromNow_def sample_platform_def Schedule_timeOfUnadjustedNextSyncPoint_def
        exact_difference_def MessageFactory_initMergeSyncMessage_def DeltaSync_set_eq sendMessage_eq params emit_def
        checkCompletion_eq SyncSchedule_syncSlotAfterMerging_def RadioPrelude_tryUndoAfterMerging_def
        RadioPrelude_shouldUndoAfterMerging_def MergeSchedule_isMergerEndSyncPeriod_def
        CliqueMerger_deltaMergeSlotEndToSyncPoint_def PeriodTime_get_def)
  then obtain s' where s': "SSTask_mergerStartAndEnd ?P ?s = Some s'" by blast
  from merger_near_end_resets [OF sample_platform_documented(2) pre(1,2,4) s'] show ?thesis
    using s' pre(3) by auto
qed

end
