(* ===== verification/ControlProperties.thy ===== *)
theory ControlProperties
  imports FishProperties
begin

text \<open>
  Properties of the control of the clique as a network: the clique's granularity, the repeating of
  control messages, scattering, provisioning, and the modes that follow the available power.
\<close>

section \<open>Granularity\<close>

lemma heardSync_granularity [simp]: "cliqueGranularity (Clique_heardSync P s) = cliqueGranularity s"
  by (simp add: Clique_heardSync_def DropoutMonitor_heardSync_def DropoutMonitor_reset_def
      xmit_policy_defs emit_def Let_def)

lemma filterSyncMsg_granularity:
  assumes "SyncBehaviour_filterSyncMsg P msg s = Some (kept, s')"
  shows "cliqueGranularity s' = cliqueGranularity s"
proof -
  have same: "cliqueGranularity r' = cliqueGranularity r"
    if handled: "SyncBehaviour_handleSuperiorOrSameSyncMsg P msg r = Some r'" for r r' :: "'a network_state_scheme"
  proof -
    obtain r1 where r1: "Clique_updateBySyncMessage P msg r = Some r1"
      "(if MergerFisherRole_isMerger r1 then handleSuperiorOrSameSyncWhileMerging msg r1 else Some r1) = Some r'"
      using handled unfolding SyncBehaviour_handleSuperiorOrSameSyncMsg_def by (elim bind_SomeE)
    from r1(1) have "cliqueGranularity r1 = cliqueGranularity r"
      by (rule updateBySyncMessage_shape) simp
    then show ?thesis
      using r1(2) by (auto simp: handleSuperiorOrSameSyncWhileMerging_def role_defs MergePolicy_restart_def
          split: if_splits)
  qed
  show ?thesis
    using assms same by (auto simp: SyncBehaviour_filterSyncMsg_def split: if_splits elim!: bind_SomeE)
qed

text \<open>
  C26. The encoding of the granularity in messages is not the inverse of its decoding: a unit that
  hears a master's sync in its sync slot takes on granularity \<open>Large\<close> where the master has
  \<open>Small\<close>, and \<open>Small\<close> where the master has \<open>Large\<close>.
\<close>

theorem granularity_heard_swapped:
  assumes "SyncSender_sendMasterSync P m = Some m'" "length (radioBuffer m) = FixedPayloadCount"
    and "radioBuffer r = radioBuffer m'" "handler r = SyncSlotHandler" "Ensemble_isPacketCRCValid Q r"
    and "Receiver_onMsgReceived Q r = Some r'"
  shows "cliqueGranularity r' =
    (case cliqueGranularity m of Small \<Rightarrow> Large | MediumGranularity \<Rightarrow> MediumGranularity | Large \<Rightarrow> Small
     | InvalidGranularity \<Rightarrow> cliqueGranularity r)"
proof -
  define msg where "msg = \<lparr>msg_type = MasterSync, deltaToNextSyncPoint = fst (SyncOffset_calculate P m),
    msg_masterID = masterID m, work = Granularity_getRaw (cliqueGranularity m)\<rparr>"
  have valid: "fst (SyncOffset_calculate P m) \<le> NormalSyncPeriodDuration"
    using assms(1) by (auto simp: SyncSender_sendMasterSync_def initSyncMessage_eq split: if_splits)
  have buf: "radioBuffer r = packet_of msg (radioBuffer m)"
    using assms(1,3) valid by (auto simp: SyncSender_sendMasterSync_def initSyncMessage_eq sendMessage_eq msg_def
        getMasterSyncPayload_def Granularity_getCliqueGranularityRaw_def split: if_splits)
  define heard where "heard = msg\<lparr>msg_masterID := take_bit 48 (masterID m)\<rparr>"
  have "Serializer_unserialize r = Some (Some heard)"
    unfolding unserialize_packet [OF buf assms(2)] messageTypeFromRaw_value Let_def
    using valid by (simp add: msg_def heard_def take_bit_24_valid_offset)
  then have "(SyncSlotMessageHandler_handle Q heard r \<bind> (\<lambda>(res, s). if res \<noteq> KeepListening then
      require (\<not> Ensemble_isRadioInUse Q s) \<bind> (\<lambda>_. Some (res, s)) else Some (res, emit StartReceiving s)))
      \<bind> (\<lambda>(_, s). Some s) = Some r'"
    using assms(4,5,6) by (simp add: Receiver_onMsgReceived_def MessageDispatcher_dispatch_def
        handleValidMessageAndSetContinuation_def)
  then obtain res r1 where r1: "SyncSlotMessageHandler_handle Q heard r = Some (res, r1)"
    "cliqueGranularity r' = cliqueGranularity r1"
    by (auto simp: emit_def elim!: bind_case_prod_SomeE bind_SomeE split: if_splits)
  then have "cliqueGranularity r1 = cliqueGranularity (handleGranularityAspectOfMasterSync heard r)"
    using filterSyncMsg_granularity by (auto simp: SyncSlotMessageHandler_handle_def heard_def msg_def
        SyncSlotMessageHandler_handleMasterSyncMessage_def handleSyncAspectOfSyncCarryingMsg_def
        elim!: bind_case_prod_SomeE)
  also have "\<dots> = (case cliqueGranularity m of Small \<Rightarrow> Large | MediumGranularity \<Rightarrow> MediumGranularity
      | Large \<Rightarrow> Small | InvalidGranularity \<Rightarrow> cliqueGranularity r)"
    by (cases "cliqueGranularity m") (simp_all add: handleGranularityAspectOfMasterSync_def heard_def msg_def
        getFromRaw_getRaw Granularity_trySetGranularity_def Granularity_getCliqueGranularity_def emit_def
        Granularity_getFromRaw_def)
  finally show ?thesis
    using r1(2) by simp
qed

lemma granularity_heard_swapped_witness:
  "\<exists>m' r'. SyncSender_sendMasterSync (sample_platform 12 1000 1000 True True True False) (sample_unit 12 12) = Some m' \<and>
     Receiver_onMsgReceived (sample_platform 9 1000 1000 True True True False)
       ((sample_unit 9 9)\<lparr>radioBuffer := radioBuffer m', handler := SyncSlotHandler\<rparr>) = Some r' \<and>
     cliqueGranularity (sample_unit 12 12) = Large \<and> cliqueGranularity r' = Small"
proof -
  let ?P = "sample_platform 12 1000 1000 True True True False"
  let ?Q = "sample_platform 9 1000 1000 True True True False"
  let ?msg = "\<lparr>msg_type = MasterSync, deltaToNextSyncPoint = 78996, msg_masterID = 12, work = 2\<rparr>"
  let ?m' = "emit (TransmitStatic (packet_of ?msg (replicate 11 0)))
    ((emit GetNowTime (sample_unit 12 12))\<lparr>radioBuffer := packet_of ?msg (replicate 11 0)\<rparr>)"
  let ?r = "(sample_unit 9 9)\<lparr>radioBuffer := packet_of ?msg (replicate 11 0), handler := SyncSlotHandler\<rparr>"
  have m: "SyncSender_sendMasterSync ?P (sample_unit 12 12) = Some ?m'"
    by (simp add: SyncSender_sendMasterSync_def initSyncMessage_eq SyncOffset_calculate_def sendMessage_eq
        Schedule_deltaNowToNextSyncPoint_def clampedTimeDifferenceFromNow_def Schedule_timeOfNextSyncPoint_def
        sample_platform_def sample_defs exact_difference_def params getMasterSyncPayload_def
        Granularity_getCliqueGranularityRaw_def emit_def)
  have "Serializer_unserialize ?r = Some (Some ?msg)"
    by (subst unserialize_packet [of _ ?msg "replicate 11 0"])
      (simp_all add: sample_defs params SyncMessage_messageTypeFromRaw_def Let_def take_bit_24_valid_offset
        take_bit_48_id)
  then have "\<exists>r'. Receiver_onMsgReceived ?Q ?r = Some r'"
    by (simp add: Receiver_onMsgReceived_def MessageDispatcher_dispatch_def Ensemble_isPacketCRCValid_def
        handleValidMessageAndSetContinuation_def SyncSlotMessageHandler_handle_def
        SyncSlotMessageHandler_handleMasterSyncMessage_def handleSyncAspectOfSyncCarryingMsg_def
        SyncBehaviour_filterSyncMsg_def Clique_isMsgFromMyClique_def Clique_isOtherCliqueBetter_def
        handleGranularityAspectOfMasterSync_def Granularity_trySetGranularity_def emit_def
        Granularity_getFromRaw_def Granularity_getCliqueGranularity_def sample_defs sample_platform_def)
  then obtain r' where r': "Receiver_onMsgReceived ?Q ?r = Some r'" by blast
  from granularity_heard_swapped [OF m _ _ _ _ r'] have "cliqueGranularity r' = Small"
    by (simp add: emit_def sample_defs params Ensemble_isPacketCRCValid_def sample_platform_def)
  then show ?thesis
    using m r' by (auto simp: emit_def sample_defs)
qed

section \<open>Repeating control messages\<close>

text \<open>
  C27. A slave told to scatter its clique repeats the message: with a coin that says to send
  in every sync slot, the fifth transmission is the last.
\<close>

theorem upstream_repeated_five_times:
  assumes "\<not> repeaterIsActive s" "\<not> Clique_isSelfMaster P s" "\<forall>h. p_coinToss P h"
  shows "\<exists>s'. repeat_op (repeat_slot P) 5 (IntraCliqueManager_doUpstreamScatter s) =
    Some (replicate 4 False @ [True], s')"
proof -
  have "repeaterIsActive (IntraCliqueManager_doUpstreamScatter s) \<and>
      onDoneCallback (IntraCliqueManager_doUpstreamScatter s) = OnDoneRepeatingUpstream \<and>
      \<not> Clique_isSelfMaster P (IntraCliqueManager_doUpstreamScatter s) \<and> (\<forall>h. p_coinToss P h)"
    "unat (repeaterCounter (IntraCliqueManager_doUpstreamScatter s)) = 0"
    using assms by (simp_all add: IntraCliqueManager_doUpstreamScatter_def SendRepeater_start_def
        SendRepeater_isActive_def Clique_isSelfMaster_def)
  then show ?thesis
    using upstream_episode.ends_past_limit [where P = P and s = "IntraCliqueManager_doUpstreamScatter s"] by simp
qed

lemma upstream_repeated_five_times_witness:
  "\<exists>s'. repeat_op (repeat_slot (sample_platform 9 1000 1000 True True True False)) 5
     (IntraCliqueManager_doUpstreamScatter (sample_unit 9 7)) = Some (replicate 4 False @ [True], s')"
  by (rule upstream_repeated_five_times)
    (simp_all add: sample_defs sample_platform_def Clique_isSelfMaster_def)

text \<open>
  C28. A slave that is provisioned with work control (its time or its cycle) repeats a message that
  cannot be sent: making the message asserts that its type carries sync, and neither
  work control type does, so the first sync slot in which it should send resets the unit.
\<close>

theorem provisioned_work_control_resets_slave:
  assumes "\<not> Clique_isSelfMaster P s" "\<not> repeaterIsActive s"
    and "provisionWorkCycle P v s = Some s' \<or> provisionWorkTime P v s = Some s'"
  shows "repeaterIsActive s' \<and> SyncSender_sendControlSync Q s' = None"
proof -
  have "repeaterIsActive s' \<and> (repeaterMessageType s' = ControlWorkTime \<or> repeaterMessageType s' = ControlWorkCycle)"
    using assms by (auto simp: provisionWorkCycle_def provisionWorkTime_def SendRepeater_start_def
        SendRepeater_isActive_def IntraCliqueManager_doUpstreamWorkCycle_def
        IntraCliqueManager_doUpstreamWorkTime_def elim!: bind_SomeE)
  then show ?thesis
    using sendControlSync_work_control_faults by blast
qed

lemma provisioned_work_control_resets_slave_witness:
  "\<exists>s'. provisionWorkCycle (sample_platform 9 1000 1000 True True True False) 3 (sample_unit 9 7) = Some s' \<and>
     SyncSender_sendControlSync (sample_platform 9 2000 1000 True True True False) s' = None"
proof -
  obtain s' where s': "provisionWorkCycle (sample_platform 9 1000 1000 True True True False) 3 (sample_unit 9 7) = Some s'"
    by (simp add: provisionWorkCycle_def Clique_isSelfMaster_def sample_defs sample_platform_def)
  then show ?thesis
    using provisioned_work_control_resets_slave [OF _ _ disjI1 [OF s'],
        of "sample_platform 9 2000 1000 True True True False"]
    by (simp add: Clique_isSelfMaster_def sample_defs sample_platform_def)
qed

text \<open>
  A slave that is repeating a message upstream and hears that its master abandons mastership makes
  itself master but goes on repeating; at the end of the repeating the assertion that it is a
  slave fails and the unit resets.
\<close>

lemma abandoned_while_repeating_resets:
  assumes "repeaterIsActive s" "onDoneCallback s = OnDoneRepeatingUpstream"
    and "repeaterCounter s = CountRepeatsPerControlSync" "\<forall>h. p_coinToss P h"
    and "msg_type msg = AbandonMastership"
    and "SyncSlotMessageHandler_handle P msg s = Some (r, s')"
  shows "Clique_isSelfMaster P s' \<and> repeaterIsActive s' \<and> repeat_slot P s' = None"
proof -
  have s': "s' = Clique_assumeMastership P s"
    using assms(5,6) by (simp add: SyncSlotMessageHandler_handle_def
        SyncSlotMessageHandler_handleAbandonMastershipMessage_def)
  have "repeaterCounter s' = CountRepeatsPerControlSync" "repeaterIsActive s'"
    "onDoneCallback s' = OnDoneRepeatingUpstream"
    using assms(1-3) by (simp_all add: s' Clique_assumeMastership_def Clique_setSelfMastership_def)
  then have "repeat_slot P s' = None"
    using assms(4) by (simp add: repeat_slot_def SendRepeater_shouldSend_def SendRepeater_isActive_def
        Random_coinToss_def SendRepeater_checkDoneAndEnactControl_def onDoneRepeatingUpstream_def
        Clique_isSelfMaster_def s' Clique_assumeMastership_def Clique_setSelfMastership_def emit_def params)
  then show ?thesis
    using \<open>repeaterIsActive s'\<close> by (simp add: s')
qed

lemma abandoned_while_repeating_resets_witness:
  "\<exists>s'. SyncSlotMessageHandler_handle (sample_platform 9 1000 1000 True True True False)
       \<lparr>msg_type = AbandonMastership, deltaToNextSyncPoint = 0, msg_masterID = 7, work = 0\<rparr>
       ((IntraCliqueManager_doUpstreamScatter (sample_unit 9 7))\<lparr>repeaterCounter := 4\<rparr>) = Some (KeepListening, s') \<and>
     repeat_slot (sample_platform 9 1000 1000 True True True False) s' = None"
proof -
  let ?P = "sample_platform 9 1000 1000 True True True False"
  let ?msg = "\<lparr>msg_type = AbandonMastership, deltaToNextSyncPoint = 0, msg_masterID = 7, work = 0\<rparr>"
  let ?s = "(IntraCliqueManager_doUpstreamScatter (sample_unit 9 7))\<lparr>repeaterCounter := 4\<rparr>"
  have h: "SyncSlotMessageHandler_handle ?P ?msg ?s = Some (KeepListening, Clique_assumeMastership ?P ?s)"
    by (simp add: SyncSlotMessageHandler_handle_def SyncSlotMessageHandler_handleAbandonMastershipMessage_def)
  from abandoned_while_repeating_resets [OF _ _ _ _ _ h] h show ?thesis
    by (simp add: IntraCliqueManager_doUpstreamScatter_def SendRepeater_start_def SendRepeater_isActive_def
        sample_defs sample_platform_def params)
qed

section \<open>Scattering\<close>

lemma grabMastership_slotKind:
  fixes s :: "'a agent_state_scheme"
  assumes "Clique_grabMastership P s = Some s'"
  shows "slotKind s' = slotKind s"
proof -
  have "SyncRecoveryTrollingPolicy_restart
      (Clique_resetTransmitSyncPolicy (Clique_setSelfMastership P s)) = Some s'"
    using assms by (simp add: Clique_grabMastership_def FishingManager_restartTrollingMode_def)
  from restart_frame [OF this] show ?thesis
    by (auto simp: Clique_resetTransmitSyncPolicy_def Clique_setSelfMastership_def xmit_policy_defs emit_def)
qed

lemma sendControlSync_too_late [faults]:
  assumes "documented_time P"
    and "unat (endTimeOfSyncPeriod s) \<le> unat (p_nowTime P (io s)) + 0xFFFFFFFF"
    and "unat (p_nowTime P (io s)) + 80004 < unat (endTimeOfSyncPeriod s)"
  shows "SyncSender_sendControlSync P s = None"
proof -
  have "\<not> fst (SyncOffset_calculate P s) \<le> NormalSyncPeriodDuration"
    using SyncOffset_calculate_unat [OF assms(1,2)] assms(3) by (simp add: word_le_nat_alt)
  then show ?thesis
    by (simp add: SyncSender_sendControlSync_def initSyncMessage_eq)
qed

text \<open>
  C29. A master that has repeated its scatter message enacts it at the start of the sync slot of the last
  transmission, before that is sent.  Where the random time added to the period exceeds what has passed
  of the period (but for the latency), the offset of that last message exceeds a sync period, and sending it
  resets the unit.
\<close>

theorem scatter_before_last_send_resets:
  fixes s :: "'a agent_state_scheme"
  assumes "documented_time P" "documented_random P" "unit_inv P s"
    and "far_from_wrap (startTimeOfSyncPeriod s)" "Clique_isSelfMaster P s"
    and "repeaterIsActive s" "onDoneCallback s = OnDoneScatter" "CountRepeatsPerControlSync < repeaterCounter s"
    and "slotKind s = KindSendControlSync"
    and "\<forall>h. p_nowTime P h = now" "startTimeOfSyncPeriod s \<le> now"
    and "\<forall>h. p_randomUnsignedInt P h 0 NormalSyncPeriodDuration = x"
    and "unat now + unat SendLatency < unat (startTimeOfSyncPeriod s) + unat x"
  shows "\<exists>s'. IntraCliqueManager_checkDoneAndEnactControl P s = Some s' \<and>
    unat (endTimeOfSyncPeriod s') = unat (startTimeOfSyncPeriod s) + 80000 + unat x \<and> SSTask_sendSync P s' = None"
proof -
  define r where "r = s\<lparr>repeaterIsActive := False, repeaterCounter := 0\<rparr>"
  have r: "unit_inv P r" "Clique_isSelfMaster P r" "startTimeOfSyncPeriod r = startTimeOfSyncPeriod s" "slotKind r = slotKind s"
    using assms(3,5) by (simp_all add: r_def unit_inv_parts Clique_isSelfMaster_def)
  then obtain s1 where s1: "Clique_grabMastership P r = Some s1" "startTimeOfSyncPeriod s1 = startTimeOfSyncPeriod s"
    using grabMastership_total [of r P] by (auto simp: unit_inv_def)
  have "schedule_inv s1"
    using grabMastership_unit_inv [OF r(1) s1(1)] by (simp add: unit_inv_def)
  then obtain t where t: "Schedule_adjustWithRandomAddedTime P s1 =
      Some (emit (RandomUnsignedInt 0 NormalSyncPeriodDuration) s1\<lparr>endTimeOfSyncPeriod := t\<rparr>)"
    "unat t = unat (startTimeOfSyncPeriod s) + 80000 + unat x" "unat x \<le> 80000"
    using adjustWithRandomAddedTime_total [OF assms(2), of s1] assms(4,12) s1(2) by metis
  define s' where "s' = emit (RandomUnsignedInt 0 NormalSyncPeriodDuration) s1\<lparr>endTimeOfSyncPeriod := t\<rparr>"
  have enacted: "IntraCliqueManager_checkDoneAndEnactControl P s = Some s'"
    using assms(6-8) r(2) s1(1) t(1) by (simp add: IntraCliqueManager_checkDoneAndEnactControl_def s'_def r_def
        SendRepeater_checkDoneAndEnactControl_def onDoneScatter_def Scatter_scatter_def Clique_scatterSync_def)
  have "unat SendLatency = 4"
    by (simp add: params)
  then have "SyncSender_sendControlSync P s' = None"
    using t(2,3) assms(10,11,13)
    by (intro sendControlSync_too_late [OF assms(1)]) (simp_all add: s'_def word_le_nat_alt)
  moreover have "slotKind s' = KindSendControlSync"
    using grabMastership_slotKind [OF s1(1)] r(4) assms(9) by (simp add: s'_def emit_def)
  ultimately have "SSTask_sendSync P s' = None"
    by (simp add: SSTask_sendSync_def SyncSlotStep_sendControlSync_def)
  then show ?thesis
    using enacted t(2) by (auto simp: s'_def)
qed

lemma scatter_before_last_send_resets_witness:
  "\<exists>s'. IntraCliqueManager_checkDoneAndEnactControl (sample_platform 9 30 30 True True True False)
       ((sample_unit 9 9)\<lparr>repeaterIsActive := True, repeaterMessageType := ControlScatterClique,
          onDoneCallback := OnDoneScatter, repeaterCounter := 5, slotKind := KindSendControlSync\<rparr>) = Some s' \<and>
     unat (endTimeOfSyncPeriod s') = 160000 \<and>
     SSTask_sendSync (sample_platform 9 30 30 True True True False) s' = None"
proof -
  let ?s = "(sample_unit 9 9)\<lparr>repeaterIsActive := True, repeaterMessageType := ControlScatterClique,
    onDoneCallback := OnDoneScatter, repeaterCounter := 5, slotKind := KindSendControlSync\<rparr>"
  have "unit_inv (sample_platform 9 30 30 True True True False) ?s"
    by (simp add: unit_inv_parts generator_ok_def sample_defs sample_platform_def params)
  from scatter_before_last_send_resets [OF sample_platform_documented(1,3) this, of 30 NormalSyncPeriodDuration]
  show ?thesis
    by (simp add: sample_defs sample_platform_def params far_from_wrap_def Clique_isSelfMaster_def)
qed

section \<open>Provisioning\<close>

text \<open>
  A provisioning whose property index is out of range resets the unit, unless the index is
  the one past the last: the value comes over the air from the provisioning device.
\<close>

lemma provisioning_out_of_range_resets:
  assumes "unat (pv_index v) > 4"
  shows "ProvisionerCallback_succeed P v rssi s = None"
proof -
  have up: "unat (ucast (pv_index v) :: u32) = unat (pv_index v)"
    using unat_u8_bound [of "pv_index v"] by (simp add: unsigned_ucast_eq take_bit_nat_eq_self)
  have neq: "(ucast (pv_index v) :: u32) \<noteq> n" if "unat n \<le> 4" for n
    using up assms that by auto
  have "ProvisioningPublisher_ppiFromRawPPI (ucast (pv_index v)) = UnnamedProperty (ucast (pv_index v))"
    using neq [of 0] neq [of 1] neq [of 2] neq [of 3] neq [of 4] by (simp add: ProvisioningPublisher_ppiFromRawPPI_def)
  then show ?thesis
    by (simp add: ProvisionerCallback_succeed_def ProvisioningPublisher_notify_def shouldFilter_def)
qed

lemma provisioning_out_of_range_resets_witness:
  "ProvisionerCallback_succeed (sample_platform 9 30 30 True True True False)
     \<lparr>pv_index = 200, pv_value = 0, pv_offset = 0\<rparr> 0 (sample_unit 9 9) = None"
  by (rule provisioning_out_of_range_resets) simp

text \<open>
  The time that has passed since the user provisioned, converted to sync periods: the product
  does not wrap, and the result is never more than four.
\<close>

lemma elapsed_sync_periods:
  "unat (calculateElapsedSyncPeriods b) = 10 * unat b * 32768 div 255 div 80000 \<and>
   unat (calculateElapsedSyncPeriods b) \<le> 4"
proof -
  have "unat b \<le> 255"
    using unat_u8_bound [of b] by simp
  then have "10 * unat b * 32768 div 255 div 80000 \<le> 10 * 255 * 32768 div 255 div 80000"
    by (intro div_le_mono mult_le_mono) simp_all
  also have "\<dots> = (4 :: nat)"
    by simp
  finally show ?thesis
    by (simp add: calculateElapsedSyncPeriods_unat)
qed

section \<open>Modes\<close>

text \<open>
  C30. Every check of power takes a step of the diagram of modes, and keeps the role in step with the mode: a
  unit has a role in the sleeping part of the period exactly in the two modes with power to fish, and a
  merger always has an active merger with a time in the period.
\<close>

theorem power_check_steps_mode:
  assumes "role_inv s"
  shows "mode_step (syncMode s) (syncMode (SyncModeManager_checkPowerAndTryModeTransitions P s)) \<and>
    role_inv (SyncModeManager_checkPowerAndTryModeTransitions P s) \<and>
    (\<not> p_softdevicePresent P \<and> syncMode s \<noteq> SyncAndProvision \<longrightarrow>
       syncMode (SyncModeManager_checkPowerAndTryModeTransitions P s) \<noteq> SyncAndProvision)"
  using mode_transition_step [of s P] mode_transition_role_inv [OF assms, of P]
    mode_transition_no_provision [of P s] by blast

lemma power_check_steps_mode_witness:
  "mode_step SyncAndFishMerge (syncMode (SyncModeManager_checkPowerAndTryModeTransitions
      (sample_platform 9 30 30 True True False False) (sample_fisher 9 9))) \<and>
   role_inv (SyncModeManager_checkPowerAndTryModeTransitions
      (sample_platform 9 30 30 True True False False) (sample_fisher 9 9))"
  using power_check_steps_mode [of "sample_fisher 9 9" "sample_platform 9 30 30 True True False False"]
  by (simp add: role_inv_def sample_fisher_def sample_defs)

text \<open>
  With the softdevice present, every sixth check made with power to fish is for provisioning, not
  an earlier one.
\<close>

lemma provisioning_every_sixth_check:
  assumes "p_softdevicePresent P" "provisionCounter s = 0"
  shows "\<exists>s'. repeat_op (\<lambda>s. Some (ProvisionManager_shouldProvision P s)) 6 s =
    Some (replicate 5 False @ [True], s')"
  using provision_episode.ends_past_limit [where P = P and s = s] assms by simp

lemma provisioning_every_sixth_check_witness:
  "\<exists>s'. repeat_op (\<lambda>s. Some (ProvisionManager_shouldProvision
      ((sample_platform 9 30 30 True True True False)\<lparr>p_softdevicePresent := True\<rparr>) s)) 6 powered_on =
    Some (replicate 5 False @ [True], s')"
  by (rule provisioning_every_sixth_check) (simp_all add: powered_on_def)

end
