(* ===== verification/SystemProperties.thy ===== *)
theory SystemProperties
  imports System ControlProperties
begin

text \<open>
  Properties of a unit in its environment, over every run from power on: claims C31 and C32.
\<close>

section \<open>A platform with an ideal timer\<close>

text \<open>The clock of these examples reads the sum of the delays of the tasks scheduled so far: every
  task runs exactly when it is due.\<close>

fun ideal_clock :: "io_event list \<Rightarrow> long_time" where
  "ideal_clock [] = 0"
| "ideal_clock (ScheduleTask t d # es) = ideal_clock es + ucast d"
| "ideal_clock (e # es) = ideal_clock es"

definition ideal_platform :: "bool \<Rightarrow> bool \<Rightarrow> platform" where
  "ideal_platform softdevice coin = (sample_platform 9 0 0 coin True True False)\<lparr>
     p_softdevicePresent := softdevice,
     p_nowTime := ideal_clock,
     p_timeOfArrival := ideal_clock,
     p_clampedTimeDifferenceFromNow := (\<lambda>h t. exact_difference t (ideal_clock h)),
     p_clampedTimeDifferenceToNow := (\<lambda>h t. exact_difference (ideal_clock h) t)\<rparr>"

lemmas start_defs =
  started_def SyncSchedule_checkPowerReserve_def TaskTimer_schedule_def powered_on_def SSTask_checkPowerReserve_def
  power_defs ideal_platform_def sample_platform_def SyncAgentImp_init_def emit_def Let_def
  SyncModeManager_resetToModeMaintain_def role_defs SyncAgentImp_initEnsembleProtocol_def Serializer_init_def
  Clique_init_def Clique_setSelfMastership_def DropoutMonitor_reset_def xmit_policy_defs Schedule_init_def
  LongClock_nowTime_def Schedule_rollPeriodForward_def rollPeriodForwardDiscretely_def Clique_isSelfMaster_def
  CliqueHistory_init_def FishPowerMgr_init_def Ensemble_isRadioInUse_def Ensemble_isConfigured_def
  SyncAgentImp_preludeToLoop_def SyncPowerManager_enterBrownoutDetectMode_def
  Schedule_setEndTimeOfSyncPeriodToNow_def SyncSchedule_initialSyncPeriod_def
  SyncSchedule_maintainSyncPeriodFromMaintainSyncPeriod_def SleepDuration_nowTilSyncPoint_def
  Schedule_deltaNowToNextSyncPoint_def clampedTimeDifferenceFromNow_def params SleepDuration_powerCheckInterval_def
  Schedule_timeOfNextSyncPoint_def exact_difference_def

lemmas first_period_defs =
  SSTask_startSyncPeriodMaintain_def RadioPrelude_isDone_def SyncSlot_bookkeepingAtPreludeToSyncSlot_def
  SyncAgentImp_callbackAppPreSync_def SyncModeManager_checkPowerAndTryModeTransitions_def FishPowerMgr_manage_def
  Vcc_measureAtLeast2_7_def SlottedFishSession_incrementFishSessionDuration_def SyncRecoveryTrollingPolicy_restart_def
  SyncSlot_bookkeepingAtStartSyncSlot_def SyncAgentImp_preludeToSyncPeriod_def WorkIn_resetState_def
  SyncModeManager_mode_def SyncSchedule_radioPreludeTaskWSync_def SleepDuration_nowTilPreludeWSync_def
  SleepDuration_preludeTilNextTask_def setSessionForStartSlot_def SlottedFishSession_durationInSlots_def
  SyncRecoveryTrollingPolicy_getInitialDownCounter_def SyncRecoveryTrollingPolicy_getInitialUpCounter_def isInRange_def

text \<open>A unit with power is in its first sync period after two tasks.\<close>

abbreviation first_run :: agent_state where
  "first_run \<equiv> run_system (ideal_platform False True) [TimerExpires, TimerExpires] started"

lemma first_run_moment:
  "all_enabled (ideal_platform False True) [TimerExpires, TimerExpires] started"
  "moment_of first_run = Pending TheRadioPreludeTaskWSync"
proof -
  have "all_enabled (ideal_platform False True) [TimerExpires, TimerExpires] started \<and>
      moment_of first_run = Pending TheRadioPreludeTaskWSync"
    by (simp add: start_defs)
      (simp add: start_defs first_period_defs moment_of_def far_from_wrap_def)
  then show "all_enabled (ideal_platform False True) [TimerExpires, TimerExpires] started"
    "moment_of first_run = Pending TheRadioPreludeTaskWSync"
    by simp_all
qed

lemma first_run_reachable: "reachable (ideal_platform False True) first_run"
  by (rule run_system_reachable [OF reachable.start first_run_moment(1)])

section \<open>The pending task\<close>

text \<open>
  C31. In every state that a unit reaches from power on, by any sequence of timer expirations,
  packets, callbacks of the provisioner and of the app, and resets, exactly one task is scheduled,
  or none while the provisioner runs in its mode; and the state is one the pending task relies on:
  the invariant of the unit for every task but the first two, the radio's clock running for every
  task that asserts it except the sync slot without a scheduled prelude, the mode the task is for.
\<close>

theorem pending_task_finds_its_state:
  assumes "reachable P s"
  shows "(\<exists>t d. timers s = [(t, d)] \<and> task_ok P t s) \<or>
    (timers s = [] \<and> unit_inv P s \<and> RadioPrelude_isDone s \<and> syncMode s = SyncAndProvision \<and>
     p_softdevicePresent P)"
  using reachable_agent_inv [OF assms]
  by (auto simp: agent_inv_def agent_at_def provisioning_ok_def RadioPrelude_isDone_def unit_inv_def provision_inv_def)

lemma pending_task_finds_its_state_witness:
  "\<exists>d. timers first_run = [(TheRadioPreludeTaskWSync, d)] \<and> unit_inv (ideal_platform False True) first_run"
  using pending_task_finds_its_state [OF first_run_reachable] first_run_moment(2)
  by (auto simp: moment_of_def ideal_platform_def simp del: run_system.simps split: list.splits)

section \<open>The order of the tasks\<close>

text \<open>
  C32. Whatever a unit does in a reachable state, it follows the diagram of the tasks.  A task that runs,
  and a callback of the provisioner, leaves pending one of the successors of what was pending; so only
  the check of the power reserve and the task \<open>StartSyncPeriodMaintain\<close> ever schedule themselves.
  A packet or a call of the app leaves pending exactly what was pending.  Where the unit resets
  instead, it checks its power reserve next.
\<close>

theorem tasks_follow_diagram:
  assumes "reachable P s" "enabled e s"
  shows "case respond P e s of
      Some s' \<Rightarrow> (if advances e then moment_of s' \<in> successors (moment_of s) else moment_of s' = moment_of s)
    | None \<Rightarrow> moment_of (rebooted s) = Pending CheckPowerReserve"
proof (cases "respond P e s")
  case None
  then show ?thesis
    using agent_at_moment_of [OF rebooted_agent_at [of P s]] by simp
next
  case (Some s')
  from agent_at_moment_of [OF respond_agent_at [OF reachable_agent_inv [OF assms(1)] assms(2) this]] show ?thesis
    by (simp add: Some split: if_splits)
qed

lemma tasks_follow_diagram_witness:
  "\<exists>r s'. respond (ideal_platform False True) (AppConnectsWorkTime True) first_run = Some r \<and>
     moment_of r = Pending TheRadioPreludeTaskWSync \<and>
     respond (ideal_platform False True) TimerExpires started = Some s' \<and>
     moment_of s' \<in> {Pending CheckPowerReserve, Pending StartSyncPeriodMaintain}"
proof -
  have app: "respond (ideal_platform False True) (AppConnectsWorkTime True) first_run =
      Some (WorkControlProxy_setWorkTimeControlCallback True first_run)"
    by simp
  have timer: "\<exists>s'. respond (ideal_platform False True) TimerExpires started = Some s'"
    by (simp add: start_defs)
  have on: "enabled TimerExpires started" "moment_of started = Pending CheckPowerReserve"
    using first_run_moment(1) agent_at_moment_of [OF started_agent_at] by auto
  show ?thesis
    using tasks_follow_diagram [OF first_run_reachable, of "AppConnectsWorkTime True"] app
      tasks_follow_diagram [OF reachable.start on(1), of "ideal_platform False True"] timer on(2)
      first_run_moment(2)
    by (auto simp del: respond.simps run_system.simps)
qed

section \<open>Tasks that never fault\<close>

text \<open>
  The start of the radio's clock before a sync slot or a fish slot and the start of a fish slot
  never reset the unit, in any reachable state, whatever the clock, the coin and the measurements of
  power answer.
\<close>

lemma prelude_and_fish_start_never_fault:
  assumes "reachable P s"
    and "moment_of s \<in> {Pending TheRadioPreludeTaskWSync, Pending TheRadioPreludeTaskWFish, Pending FishSlotStart}"
  shows "\<exists>s'. respond P TimerExpires s = Some s' \<and> moment_of s' \<in> successors (moment_of s)"
proof -
  obtain t d where t: "timers s = [(t, d)]" "task_ok P t s" "moment_of s = Pending t"
    using reachable_agent_inv [OF assms(1)] assms(2)
    by (auto simp: agent_inv_def agent_at_def moment_of_def)
  define r where "r = s\<lparr>timers := []\<rparr>"
  have r: "respond P TimerExpires s = run_task P t r" "timers r = []" "task_ok P t r"
    using t by (simp_all add: r_def)
  have "\<exists>s'. run_task P t r = Some s' \<and> agent_at (successors (Pending t)) P s'"
  proof (cases "t = TheRadioPreludeTaskWSync")
    case True
    then show ?thesis
      using theRadioPreludeTaskWSync_total [of P r] preludeWSync_ok [of P r _ "successors (Pending t)"] r by auto
  next
    case False
    then have "\<exists>s'. run_task P t r = Some s'"
      using assms(2) t(3) r(3) by (auto simp: theRadioPreludeTaskWFish_def SSTask_fishSlotStart_def RadioPrelude_isDone_def)
    moreover have "unit_inv P r"
      using assms(2) t(3) r(3) by auto
    ultimately show ?thesis
      using False assms(2) t(3) r(2) preludeWFish_ok [of r _ P "successors (Pending t)"]
        fishSlotStart_ok [of r _ P "successors (Pending t)"] by auto
  qed
  then show ?thesis
    using agent_at_moment_of r(1) t(3) by metis
qed

lemma prelude_and_fish_start_never_fault_witness:
  "\<exists>s'. respond (ideal_platform False True) TimerExpires first_run = Some s' \<and>
     moment_of s' = Pending StartSyncSlotAfterPrelude"
  using prelude_and_fish_start_never_fault [OF first_run_reachable] unfolding first_run_moment(2) by auto

end
