(* ===== verification/Runs.thy ===== *)
theory Runs
  imports Swarm SystemProperties
begin

text \<open>
  Concrete runs of two units in a network: the unit with ID 7 runs from power on to its first sync
  slot, where its coin says to transmit sync; the unit with ID 9 runs to its first sync slot,
  listens, and hears the other.  They instantiate the properties of networks.
\<close>

section \<open>Runs of one unit\<close>

text \<open>The result of a run in which every stimulus is enabled and nothing faults.\<close>

fun run_ok :: "platform \<Rightarrow> stimulus list \<Rightarrow> agent_state \<Rightarrow> agent_state option" where
  "run_ok P [] s = Some s"
| "run_ok P (e # es) s = (if enabled e s then Option.bind (respond P e s) (run_ok P es) else None)"

lemma run_ok_run:
  assumes "run_ok P es s = Some s'"
  shows "all_enabled P es s" "run_system P es s = s'"
proof -
  have "all_enabled P es s \<and> run_system P es s = s'"
    using assms by (induction es arbitrary: s) (auto split: if_splits elim!: bind_SomeE)
  then show "all_enabled P es s" "run_system P es s = s'"
    by simp_all
qed

lemma run_ok_reachable: "run_ok P es started = Some s \<Longrightarrow> reachable P s"
  using run_system_reachable [OF reachable.start] run_ok_run by blast

lemmas slot_defs =
  theRadioPreludeTaskWSync_def SyncSchedule_startSyncSlotFromPreludeStart_def SSTask_radioPrelude_def
  RadioPrelude_doIt_def SSTask_startSyncSlotAfterPrelude_def SyncSlot_dispatchSyncSlotKind_def
  SyncSlotProperty_decideKind_def SyncBehaviour_shouldTransmitSync_def Clique_shouldTransmitSync_def
  IntraCliqueManager_shouldSendControlSync_def IntraCliqueManager_isActive_def SendRepeater_isActive_def
  WorkOut_isNeedSendWork_def Mailbox_isMail_def Random_coinToss_def Alarm_tickWithAlarm_def
  SyncSchedule_syncSlotEndFromListen_def SyncSlot_beginListen_def Receiver_startWithHandler_def
  SyncSlotSchedule_deltaToThisSyncSlotEnd_def SyncSlotSchedule_timeOfThisSyncSlotEnd_def
  SyncSchedule_syncSendTask_def SyncSlotSchedule_deltaToThisSyncSlotMiddleSubslot_def
  SyncSlotSchedule_timeOfThisSyncSlotMiddleSubslot_def

lemmas send_defs =
  SSTask_sendSync_def SyncSlotStep_sendSync_def SyncSender_sendMasterSync_def initSyncMessage_eq
  SyncOffset_calculate_def sendMessage_eq packet_of_def put_bytes_def getMasterSyncPayload_def
  Granularity_getCliqueGranularityRaw_def SyncSchedule_syncSlotEndFromSend_def

lemmas hear_defs =
  Receiver_onMsgReceived_def MessageDispatcher_dispatch_def Ensemble_isPacketCRCValid_def
  Serializer_unserialize_def unserializeType_def SyncMessage_messageTypeFromRaw_def
  unserializeOTAFieldsIntoMessageFields_def unserializeMasterID_def unserializeOffsetInto_def
  unserializeOffset_def unserializeWork_def get_bytes_def DeltaSync_set_eq
  handleValidMessageAndSetContinuation_def SyncSlotMessageHandler_handle_def
  SyncSlotMessageHandler_handleMasterSyncMessage_def handleSyncAspectOfSyncCarryingMsg_def
  SyncBehaviour_filterSyncMsg_def SyncBehaviour_handleSuperiorOrSameSyncMsg_def Clique_updateBySyncMessage_def
  Clique_isMsgFromMyClique_def Clique_isOtherCliqueBetter_def Clique_updateMastership_def CliqueHistory_add_def
  RecordCount_def AdaptiveTransmitSyncPolicy_advanceStage_def Schedule_adjustBySyncMsg_def
  Schedule_adjustedSyncPeriodEndTimeFromMsg_def Schedule_adjust_def Schedule_adjustedEventTimeFromMsg_def
  Radio_timeOfArrival_def Clique_heardSync_def DropoutMonitor_heardSync_def
  handleGranularityAspectOfMasterSync_def Granularity_getFromRaw_def Granularity_getCliqueGranularity_def
  Granularity_trySetGranularity_def Clique_isSelfMaster_def

lemma replicate_eleven: "replicate 11 x = [x, x, x, x, x, x, x, x, x, x, x]"
  by (simp add: numeral_eq_Suc)

section \<open>The sender and the listener\<close>

abbreviation sender_platform :: platform where
  "sender_platform \<equiv> (ideal_platform False True)\<lparr>p_systemID := 7\<rparr>"

abbreviation listener_platform :: platform where
  "listener_platform \<equiv> ideal_platform False False"

abbreviation ticks4 :: "stimulus list" where
  "ticks4 \<equiv> [TimerExpires, TimerExpires, TimerExpires, TimerExpires]"

abbreviation ticks5 :: "stimulus list" where
  "ticks5 \<equiv> [TimerExpires, TimerExpires, TimerExpires, TimerExpires, TimerExpires]"

text \<open>The packet: master sync, from the master 7, 79975 ticks before its next sync point.\<close>

abbreviation sync_packet :: "u8 list" where
  "sync_packet \<equiv> [1, 7, 0, 0, 0, 0, 0, 103, 56, 1, 2]"

lemma sync_bytes: "le_bytes 6 (7 :: system_id) @ le_bytes 3 (79975 :: delta_time) = [7, 0, 0, 0, 0, 0, 103, 56, 1]"
  by code_simp

lemma sender_run:
  "\<exists>s. run_ok sender_platform ticks5 started = Some s \<and> transmitted sync_packet s \<and>
     moment_of s = Pending EndSyncSlotSend"
  by (simp add: start_defs far_from_wrap_def)
    (simp add: start_defs first_period_defs far_from_wrap_def,
     simp add: start_defs first_period_defs slot_defs far_from_wrap_def,
     simp add: start_defs first_period_defs slot_defs send_defs far_from_wrap_def replicate_eleven moment_of_def
       transmitted_def sync_bytes)

lemma listener_run:
  "\<exists>s. run_ok listener_platform ticks4 started = Some s \<and> enabled (PacketArrives sync_packet) s \<and>
     masterID s = 9 \<and> moment_of s = Pending EndSyncSlotListen \<and>
     (\<exists>s'. respond listener_platform (PacketArrives sync_packet) s = Some s' \<and> masterID s' = 7 \<and>
        endTimeOfSyncPeriod s' = 320025)"
  by (simp add: start_defs far_from_wrap_def)
    (simp add: start_defs first_period_defs far_from_wrap_def,
     simp add: start_defs first_period_defs slot_defs far_from_wrap_def moment_of_def,
     simp add: start_defs first_period_defs slot_defs hear_defs far_from_wrap_def moment_of_def)

section \<open>The two in a network\<close>

lemma run_swarm_append:
  "run_swarm Ps (xs @ ys) S = run_swarm Ps ys (run_swarm Ps xs S)"
  "swarm_enabled Ps (xs @ ys) S \<longleftrightarrow> swarm_enabled Ps xs S \<and> swarm_enabled Ps ys (run_swarm Ps xs S)"
  by (induction Ps xs S rule: run_swarm.induct) simp_all

lemma run_one_unit:
  assumes "i < length S" "\<forall>e\<in>set es. \<forall>bytes. e \<noteq> PacketArrives bytes"
  shows "run_swarm Ps (map (Pair i) es) S = S[i := run_system (Ps ! i) es (S ! i)]"
    "swarm_enabled Ps (map (Pair i) es) S = all_enabled (Ps ! i) es (S ! i)"
proof -
  have audible: "audible T i e" if "\<forall>bytes. e \<noteq> PacketArrives bytes" for T e
    using that by (cases e) auto
  show "run_swarm Ps (map (Pair i) es) S = S[i := run_system (Ps ! i) es (S ! i)]"
    using assms(1) by (induction es arbitrary: S) (simp_all add: respond_or_reset_def)
  show "swarm_enabled Ps (map (Pair i) es) S = all_enabled (Ps ! i) es (S ! i)"
    using assms by (induction es arbitrary: S) (simp_all add: respond_or_reset_def audible)
qed

lemma swarm_run_unit:
  assumes "swarm_reachable Ps S" "i < length Ps" "run_ok (Ps ! i) es (S ! i) = Some s"
    and "\<forall>e\<in>set es. \<forall>bytes. e \<noteq> PacketArrives bytes"
  shows "swarm_reachable Ps (S[i := s])"
proof -
  have i: "i < length S"
    using assms(1,2) by (simp add: swarm_length)
  have "swarm_enabled Ps (map (Pair i) es) S" "run_swarm Ps (map (Pair i) es) S = S[i := s]"
    using run_one_unit [OF i assms(4)] run_ok_run [OF assms(3)] by simp_all
  then show ?thesis
    using run_swarm_reachable [OF assms(1)] by metis
qed

abbreviation two_platforms :: "platform list" where
  "two_platforms \<equiv> [sender_platform, listener_platform]"

text \<open>The network in which the second unit has joined the clique of the first.\<close>

lemma two_units:
  obtains s t t' where "swarm_reachable two_platforms [s, t]" "swarm_reachable two_platforms [s, t']"
    "enabled (PacketArrives sync_packet) t" "respond listener_platform (PacketArrives sync_packet) t = Some t'"
    "masterID t = 9" "masterID t' = 7" "transmitted sync_packet s"
    "moment_of s = Pending EndSyncSlotSend" "moment_of t = Pending EndSyncSlotListen" "moment_of t' = Pending EndSyncSlotListen"
proof -
  obtain s where s: "run_ok sender_platform ticks5 started = Some s" "transmitted sync_packet s"
    "moment_of s = Pending EndSyncSlotSend"
    using sender_run by blast
  obtain t t' where t: "run_ok listener_platform ticks4 started = Some t" "enabled (PacketArrives sync_packet) t"
    "masterID t = 9" "moment_of t = Pending EndSyncSlotListen"
    "respond listener_platform (PacketArrives sync_packet) t = Some t'" "masterID t' = 7"
    using listener_run by blast
  have "swarm_reachable two_platforms [started, started]"
    using swarm_reachable.start [of two_platforms] by simp
  from swarm_run_unit [OF this, of 0 ticks5 s] s(1) have "swarm_reachable two_platforms [s, started]"
    by simp
  from swarm_run_unit [OF this, of 1 ticks4 t] t(1) have st: "swarm_reachable two_platforms [s, t]"
    by simp
  have "swarm_step two_platforms [s, t] ([s, t][1 := respond_or_reset (two_platforms ! 1) (PacketArrives sync_packet) ([s, t] ! 1)])"
    using t(2) s(2) by (intro swarm_step.unit_step) (auto intro: exI [of _ 0])
  then have "swarm_reachable two_platforms [s, t']"
    using swarm_reachable.step [OF st] t(5) by (simp add: respond_or_reset_def)
  moreover have "moment_of t' = Pending EndSyncSlotListen"
    using agent_at_moment_of [OF respond_agent_at [OF reachable_agent_inv [OF run_ok_reachable [OF t(1)]] t(2,5)]] t(4) by simp
  ultimately show thesis
    using that st s t by blast
qed

end
