(* ===== verification/SwarmProperties.thy ===== *)
theory SwarmProperties
  imports Runs
begin

text \<open>
  Properties of units that hear each other, over every run of the network, and of the mastership of
  one unit over every run: claims C34 to C36.
\<close>

lemma two_units_ids: "short_ids two_platforms" "unit_ids two_platforms = {7, 9}"
  by (simp_all add: short_ids_def ideal_platform_def sample_platform_def)

section \<open>Every master is a unit\<close>

text \<open>
  C34. In a network of units with 48-bit IDs no unit ever follows, announces or transmits a
  master that does not exist: in every reachable state the master of each unit that has started, and
  the superior master of each active merger, is the ID of a unit of the network, and so is the master
  ID in every packet that was ever transmitted.
\<close>

theorem masters_are_units:
  assumes "swarm_reachable Ps S" "short_ids Ps" "i < length Ps"
    and "moment_of (S ! i) \<noteq> Pending CheckPowerReserve"
  shows "masterID (S ! i) \<in> unit_ids Ps \<and> (mergerActive (S ! i) \<longrightarrow> superiorMasterID (S ! i) \<in> unit_ids Ps) \<and>
    (\<forall>bytes. transmitted bytes (S ! i) \<longrightarrow> packet_master bytes \<in> unit_ids Ps)"
  using swarm_names [OF assms(1-3)] assms(4)
  by (auto simp: unit_names_def names_inv_def aired_def transmitted_def list_all_iff)

lemma masters_are_units_witness:
  "\<exists>S. swarm_reachable two_platforms S \<and> transmitted sync_packet (S ! 0) \<and> masterID (S ! 1) = 7 \<and>
     packet_master sync_packet \<in> {7, 9} \<and> masterID (S ! 1) \<in> {7, 9}"
proof -
  obtain s t' where s: "swarm_reachable two_platforms [s, t']" "masterID t' = 7" "transmitted sync_packet s"
    "moment_of s = Pending EndSyncSlotSend" "moment_of t' = Pending EndSyncSlotListen"
    by (rule two_units)
  then show ?thesis
    using masters_are_units [OF s(1) two_units_ids(1), of 0] masters_are_units [OF s(1) two_units_ids(1), of 1]
    unfolding two_units_ids(2) by (intro exI [of _ "[s, t']"]) simp
qed

section \<open>The unit with the least ID\<close>

text \<open>
  C35. The unit with the least ID of the network is its own master in every reachable state in which it
  has started, whatever it hears: the election never takes the mastership from the best master.
\<close>

theorem least_unit_is_its_own_master:
  assumes "swarm_reachable Ps S" "short_ids Ps" "i < length Ps"
    and "moment_of (S ! i) \<noteq> Pending CheckPowerReserve"
    and "\<forall>P\<in>set Ps. p_systemID (Ps ! i) \<le> p_systemID P"
  shows "Clique_isSelfMaster (Ps ! i) (S ! i)"
proof -
  have "core_inv (Ps ! i) (S ! i)"
    using reachable_agent_inv [OF swarm_units_reachable [OF assms(1,3)]] assms(4) by (rule running_core)
  then have "masterID (S ! i) \<le> p_systemID (Ps ! i)"
    by (simp add: core_inv_def master_inv_def)
  moreover have "masterID (S ! i) \<in> unit_ids Ps"
    using swarm_names [OF assms(1-3)] assms(4) by (simp add: unit_names_def names_inv_def)
  ultimately show ?thesis
    using assms(5) by (auto simp: Clique_isSelfMaster_def)
qed

lemma least_unit_is_its_own_master_witness:
  "\<exists>S. swarm_reachable two_platforms S \<and> masterID (S ! 1) = 7 \<and> Clique_isSelfMaster sender_platform (S ! 0)"
proof -
  obtain s t' where s: "swarm_reachable two_platforms [s, t']" "masterID t' = 7"
    "moment_of s = Pending EndSyncSlotSend"
    by (rule two_units)
  then show ?thesis
    using least_unit_is_its_own_master [OF s(1) two_units_ids(1), of 0]
    by (intro exI [of _ "[s, t']"]) (simp add: ideal_platform_def sample_platform_def)
qed

section \<open>Changing the master\<close>

text \<open>
  C36. Whatever a unit does or hears, in any environment, it leaves its master only for a better
  one or to become its own master: after every step from a reachable state its master has the same or a smaller ID,
  or is the unit itself, unless the unit resets.
\<close>

theorem master_changes_for_better:
  assumes "reachable P s" "enabled e s" "respond P e s = Some s'"
    and "moment_of s \<noteq> Pending CheckPowerReserve"
  shows "masterID s' \<le> masterID s \<or> Clique_isSelfMaster P s'"
proof -
  let ?K = "insert (p_systemID P) {k. k \<le> masterID s}"
  have "core_inv P s"
    using reachable_agent_inv [OF assms(1)] assms(4) by (rule running_core)
  then have "unit_names ?K UNIV s"
    using reachable_names [OF assms(1)] assms(4)
    by (simp add: unit_names_def names_inv_def core_inv_def history_inv_def aired_def)
  then have "unit_names ?K UNIV s'"
    by (rule respond_names [OF reachable_agent_inv [OF assms(1)] assms(2,3)]) (simp_all add: ids_for_def)
  moreover have "moment_of s' \<noteq> Pending CheckPowerReserve"
    using agent_at_moment_of [OF respond_agent_at [OF reachable_agent_inv [OF assms(1)] assms(2,3)]]
      checkPowerReserve_after assms(4) by (auto split: if_splits)
  ultimately show ?thesis
    by (auto simp: unit_names_def names_inv_def Clique_isSelfMaster_def)
qed

lemma master_changes_for_better_witness:
  "\<exists>s s'. respond listener_platform (PacketArrives sync_packet) s = Some s' \<and> masterID s = 9 \<and> masterID s' = 7 \<and>
     (masterID s' \<le> masterID s \<or> Clique_isSelfMaster listener_platform s')"
proof -
  obtain s t t' where s: "swarm_reachable two_platforms [s, t]" "enabled (PacketArrives sync_packet) t"
    "respond listener_platform (PacketArrives sync_packet) t = Some t'" "masterID t = 9" "masterID t' = 7"
    "moment_of t = Pending EndSyncSlotListen"
    by (rule two_units)
  have "reachable listener_platform t"
    using swarm_units_reachable [OF s(1), of 1] by simp
  from master_changes_for_better [OF this s(2,3)] s(3-6) show ?thesis
    by (intro exI [of _ t] exI [of _ t']) simp
qed

end
