(* ===== verification/SyncPoints.thy ===== *)
theory SyncPoints
  imports System
begin

text \<open>
  Only the tasks that start a sync period, and the initialisation, move the start of the period:
  every other task of a unit, whatever the platform answers, leaves it where it is.
\<close>

section \<open>Scheduling\<close>

named_theorems keeps_start "operations that leave the start of the period"

lemma schedule_start [keeps_start]:
  fixes s :: "'a agent_state_scheme"
  shows "startTimeOfSyncPeriod (TaskTimer_schedule T d s) = startTimeOfSyncPeriod s"
    "startTimeOfSyncPeriod (emit e s) = startTimeOfSyncPeriod s"
    "startTimeOfSyncPeriod (RadioPrelude_undo s) = startTimeOfSyncPeriod s"
    "startTimeOfSyncPeriod (RadioPrelude_doIt s) = startTimeOfSyncPeriod s"
  by (simp_all add: TaskTimer_schedule_def RadioPrelude_undo_def RadioPrelude_doIt_def emit_def)

lemma difference_start [keeps_start]:
  fixes s :: "'a agent_state_scheme"
  shows "startTimeOfSyncPeriod (snd (clampedTimeDifferenceFromNow P x s)) = startTimeOfSyncPeriod s"
  by (simp add: clampedTimeDifferenceFromNow_def keeps_start)

lemma radioPreludeTaskWSync_start:
  fixes s :: "'a agent_state_scheme"
  assumes "SyncSchedule_radioPreludeTaskWSync P s = Some s'"
  shows "startTimeOfSyncPeriod s' = startTimeOfSyncPeriod s"
  using assms by (auto simp: SyncSchedule_radioPreludeTaskWSync_def SleepDuration_nowTilPreludeWSync_def
      SleepDuration_nowTilSyncPoint_def Schedule_deltaNowToNextSyncPoint_def keeps_start
      split_beta split: option.splits elim!: bind_SomeE)

lemma withoutPrelude_start [keeps_start]:
  fixes s :: "'a agent_state_scheme"
  shows "startTimeOfSyncPeriod (SyncSchedule_startSyncSlotWithoutScheduledPrelude P s) = startTimeOfSyncPeriod s"
  by (simp add: SyncSchedule_startSyncSlotWithoutScheduledPrelude_def SleepDuration_nowTilSyncPoint_def
      Schedule_deltaNowToNextSyncPoint_def split_beta keeps_start)

lemma omitNonsyncSlot_start:
  fixes s :: "'a agent_state_scheme"
  shows "SyncSchedule_omitNonsyncSlot P s = Some s' \<Longrightarrow> startTimeOfSyncPeriod s' = startTimeOfSyncPeriod s"
    and "SyncSchedule_syncSlotAfterSyncSlot P s = Some s' \<Longrightarrow> startTimeOfSyncPeriod s' = startTimeOfSyncPeriod s"
  using radioPreludeTaskWSync_start [of P _ s']
  by (auto simp: SyncSchedule_omitNonsyncSlot_def SyncSchedule_syncSlotAfterSyncSlot_def keeps_start split: if_splits)

lemma syncSlotAfter_start:
  fixes s :: "'a agent_state_scheme"
  shows "SyncSchedule_syncSlotAfterFishSlot P s = Some s' \<Longrightarrow> startTimeOfSyncPeriod s' = startTimeOfSyncPeriod s"
    and "SyncSchedule_syncSlotAfterMerging P s = Some s' \<Longrightarrow> startTimeOfSyncPeriod s' = startTimeOfSyncPeriod s"
    and "SyncSchedule_syncSlotAfterProvisioning P s = Some s' \<Longrightarrow> startTimeOfSyncPeriod s' = startTimeOfSyncPeriod s"
  using radioPreludeTaskWSync_start [of P "RadioPrelude_undo s" s']
  by (auto simp: SyncSchedule_syncSlotAfterFishSlot_def SyncSchedule_syncSlotAfterMerging_def
      SyncSchedule_syncSlotAfterProvisioning_def RadioPrelude_tryUndoAfterFishing_def
      RadioPrelude_tryUndoAfterMerging_def Let_def keeps_start split: if_splits)

lemma merger_start:
  fixes s :: "'a agent_state_scheme"
  assumes "SyncSchedule_merger P s = Some s'"
  shows "startTimeOfSyncPeriod s' = startTimeOfSyncPeriod s"
  using assms by (auto simp: SyncSchedule_merger_def MergeSchedule_deltaToThisMergeStart_def keeps_start
      split_beta elim!: bind_SomeE)

lemma fishing_start:
  fixes s :: "'a agent_state_scheme"
  assumes "SyncSchedule_fishing P s = Some s'"
  shows "startTimeOfSyncPeriod s' = startTimeOfSyncPeriod s"
  using assms by (auto simp: SyncSchedule_fishing_def SyncSchedule_fishSlotStart_def
      SyncSchedule_radioPreludeTaskWFish_def SleepDuration_nowTilFishStart_def SleepDuration_nowTilPreludeWFish_def
      FishSchedule_deltaToFishSessionStart_def Let_def keeps_start
      split_beta split: if_splits elim!: bind_SomeE)

section \<open>Tasks\<close>

lemma tryFishOrMerge_start:
  fixes s :: "'a agent_state_scheme"
  assumes "SSTask_tryFishOrMerge P s = Some s'"
  shows "startTimeOfSyncPeriod s' = startTimeOfSyncPeriod s"
proof -
  have times: "startTimeOfSyncPeriod (FishSchedule_setStartAndEndTimes r) = startTimeOfSyncPeriod r"
    for r :: "'a agent_state_scheme"
    using steadyD(7) [OF setStartAndEndTimes_steady] .
  show ?thesis
    using assms omitNonsyncSlot_start(1) [of P _ s'] fishing_start [of P _ s'] merger_start [of P _ s']
    by (auto simp: SSTask_tryFishOrMerge_def power_defs MergePolicy_shouldScheduleMerge_def Random_coinToss_def Let_def keeps_start times
        split: role.splits if_splits)
qed

lemma scheduleNonSyncTask_start:
  fixes s :: "'a agent_state_scheme"
  assumes "scheduleNonSyncTask P s = Some s'"
  shows "startTimeOfSyncPeriod s' = startTimeOfSyncPeriod s"
proof -
  obtain r b q where r: "FishingManager_preFishing s = Some r" "RadioPrelude_tryUndoAfterSyncing r = Some (b, q)"
    and next_slot: "(case SyncModeManager_mode q of
        SyncOnly \<Rightarrow> SyncSchedule_syncSlotAfterSyncSlot P q
      | SyncAndFishMerge \<Rightarrow> SSTask_tryFishOrMerge P q
      | SyncAndProvision \<Rightarrow> Some (if p_softdevicePresent P then SyncSchedule_provisionStart q else q)
      | Maintain \<Rightarrow> None) = Some s'"
    using assms unfolding scheduleNonSyncTask_def by (elim bind_SomeE bind_case_prod_SomeE)
  have "startTimeOfSyncPeriod r = startTimeOfSyncPeriod s"
    by (rule steadyD(7) [OF preFishing_steady [OF r(1)]])
  moreover have "startTimeOfSyncPeriod q = startTimeOfSyncPeriod r"
    using r(2) by (auto simp: RadioPrelude_tryUndoAfterSyncing_def keeps_start elim!: bind_SomeE)
  moreover have "startTimeOfSyncPeriod s' = startTimeOfSyncPeriod q"
    using next_slot omitNonsyncSlot_start(2) [of P q s'] tryFishOrMerge_start [of P q s']
    by (cases "SyncModeManager_mode q") (auto simp: SyncSchedule_provisionStart_def keeps_start)
  ultimately show ?thesis
    by simp
qed

lemma bookkeepingAtPrelude_start:
  fixes s :: "'a agent_state_scheme"
  assumes "SyncSlot_bookkeepingAtPreludeToSyncSlot P s = Some s'"
  shows "startTimeOfSyncPeriod s' = startTimeOfSyncPeriod s"
proof -
  define u where "u = SyncModeManager_checkPowerAndTryModeTransitions P (SyncAgentImp_callbackAppPreSync s)"
  have "startTimeOfSyncPeriod u = startTimeOfSyncPeriod s"
    by (subst mode_transition_shape [OF u_def]) (simp add: SyncAgentImp_callbackAppPreSync_def emit_def)
  moreover have "FishPowerMgr_manage P u = Some s'"
    using assms by (simp add: SyncSlot_bookkeepingAtPreludeToSyncSlot_def u_def)
  from manage_shape [OF this] have "startTimeOfSyncPeriod s' = startTimeOfSyncPeriod u"
    by (rule ssubst) simp
  ultimately show ?thesis
    by simp
qed

text \<open>The tasks that move the start of the period.\<close>

abbreviation period_starts :: "task set" where
  "period_starts \<equiv> {StartSyncPeriodMaintain, StartSyncSlotAfterPrelude, StartSyncSlotWithoutScheduledPrelude}"

lemma run_task_start:
  fixes s :: "'a agent_state_scheme"
  assumes "run_task P T s = Some s'" "task_ok P T s" "T \<noteq> CheckPowerReserve" "T \<notin> period_starts"
  shows "startTimeOfSyncPeriod s' = startTimeOfSyncPeriod s"
proof (cases T)
  case TheRadioPreludeTaskWSync
  then show ?thesis
    using assms(1) bookkeepingAtPrelude_start [of P _ s']
    by (auto simp: theRadioPreludeTaskWSync_def SSTask_radioPrelude_def SyncSchedule_startSyncSlotFromPreludeStart_def keeps_start)
next
  case TheRadioPreludeTaskWFish
  then show ?thesis
    using assms(1) by (auto simp: theRadioPreludeTaskWFish_def SSTask_radioPrelude_def
        SyncSchedule_startFishSlotFromPreludeStart_def keeps_start)
next
  case SendSync
  then show ?thesis
    using assms(1) sendSteps_steady [of P s, THEN steadyD(7)]
    by (auto simp: SSTask_sendSync_def SyncSchedule_syncSlotEndFromSend_def SyncSlotSchedule_deltaToThisSyncSlotEnd_def
        split_beta keeps_start split: sync_slot_kind.splits elim!: bind_SomeE)
next
  case EndSyncSlotListen
  then show ?thesis
    using assms(1) scheduleNonSyncTask_start [of P _ s'] steadyD(7) [OF endListen_steady [of P s]]
    by (auto simp: SSTask_endSyncSlotListen_def elim!: bind_SomeE)
next
  case EndSyncSlotSend
  then show ?thesis
    using assms(1) scheduleNonSyncTask_start [of P s s'] by (auto simp: SSTask_endSyncSlotSend_def split: if_splits)
next
  case FishSlotStart
  then show ?thesis
    using assms(1) by (auto simp: SSTask_fishSlotStart_def SyncSchedule_fishSlotEnd_def FishSlot_beginListen_def
        Receiver_startWithHandler_def keeps_start split: if_splits)
next
  case FishSlotEnd
  then show ?thesis
    using assms(1) syncSlotAfter_start(1) [of P _ s'] steadyD(7) [OF checkFishingDone_steady [of P "FishSlot_endListen s"]]
    by (auto simp: SSTask_fishSlotEnd_def FishSlot_endListen_def Receiver_stop_def Let_def keeps_start
        split: if_splits elim!: bind_SomeE)
next
  case MergerStartAndEnd
  then have "SSTask_mergerStartAndEnd P s = Some s'"
    using assms(1) by simp
  then obtain r c q t where r: "SyncSender_sendMergeSync P s = Some r"
    "MergePolicy_checkCompletionOfMergerRole r = Some (c, q)"
    "(if c then SyncAgentImp_stopMerger q else Some q) = Some t"
    "SyncSchedule_syncSlotAfterMerging P t = Some s'"
    unfolding SSTask_mergerStartAndEnd_def by (elim bind_SomeE bind_case_prod_SomeE)
  note sent = steadyD(2,6,7) [OF sendMergeSync_steady [OF r(1)]]
  have "mergerRole r \<noteq> NoFishing"
    using sent assms(2) MergerStartAndEnd by (simp add: unit_inv_def role_inv_def)
  then show ?thesis
    using steadyD(7) [OF completion_steady [OF r(2,3)]] syncSlotAfter_start(2) [OF r(4)] sent(3) by simp
next
  case ProvisionStart
  then show ?thesis
    using assms(1) syncSlotAfter_start(3) [of P _ s']
    by (auto simp: SSTask_provisionStart_def SSTask_provisionEnd_def SyncAgentImp_initEnsembleProtocol_def
        Provisioner_start_def Let_def keeps_start split: if_splits elim!: bind_SomeE)
next
  case ProvisionEnd
  then show ?thesis
    using assms(1) syncSlotAfter_start(3) [of P _ s']
    by (auto simp: SSTask_provisionEnd_def SyncAgentImp_initEnsembleProtocol_def Let_def keeps_start)
qed (use assms(3,4) in simp_all)

end
