(* ===== verification/Timing.thy ===== *)
theory Timing
  imports SyncPoints
begin

text \<open>
  A unit alone, in real time: no packet arrives, and every task starts at most \<open>l\<close> ticks after it is
  due.  The clock reads the same throughout a task; how long the task takes counts with the lateness
  of the next.  The invariant says, for each pending task, when it is due in the sync period; with at
  most 16 ticks of lateness (half a millisecond) every task finds the time its successor needs.
\<close>

section \<open>The platform at a time\<close>

definition at_time :: "nat \<Rightarrow> platform \<Rightarrow> platform" where
  "at_time t P = P\<lparr>
     p_nowTime := (\<lambda>_. of_nat t),
     p_clampedTimeDifferenceFromNow := (\<lambda>_ x. p_clampedTimeDifference P x (of_nat t)),
     p_clampedTimeDifferenceToNow := (\<lambda>_ x. p_clampedTimeDifference P (of_nat t) x)\<rparr>"

lemma at_time_sel [simp]:
  "p_systemID (at_time t P) = p_systemID P" "p_softdevicePresent (at_time t P) = p_softdevicePresent P"
  "p_nowTime (at_time t P) h = of_nat t" "p_isRadioInUse (at_time t P) = p_isRadioInUse P"
  "p_isRadioConfigured (at_time t P) = p_isRadioConfigured P"
  "p_isPowerAbove (at_time t P) = p_isPowerAbove P"
  "p_deltaSubtraction (at_time t P) = p_deltaSubtraction P"
  "p_clampedSubtraction (at_time t P) = p_clampedSubtraction P"
  "p_clampedTimeDifferenceFromNow (at_time t P) h x = p_clampedTimeDifference P x (of_nat t)"
  by (simp_all add: at_time_def)

lemma at_time_inv [simp]:
  "core_inv (at_time t P) s = core_inv P s" "unit_inv (at_time t P) s = unit_inv P s"
  "Clique_isSelfMaster (at_time t P) s = Clique_isSelfMaster P s"
  by (simp_all add: unit_inv_def core_inv_def inv_parts Clique_isSelfMaster_def)

lemma at_time_task_ok [simp]: "task_ok (at_time t P) T s = task_ok P T s"
  by (cases T) simp_all

text \<open>How long from now to a time: a clamped difference.\<close>

definition wait_until :: "platform \<Rightarrow> nat \<Rightarrow> long_time \<Rightarrow> delta_time" where
  "wait_until P t x = p_clampedTimeDifference P x (of_nat t)"

lemma wait_until_unat:
  assumes "documented_difference P" "t < 2 ^ 62" "unat x \<le> t + 0xFFFFFFFF"
  shows "unat (wait_until P t x) = unat x - t"
proof -
  have "unat (of_nat t :: long_time) = t"
    using assms(2) by (simp add: unsigned_of_nat take_bit_nat_eq_self)
  then show ?thesis
    using assms unfolding documented_difference_def wait_until_def by metis
qed

lemma fromNow_at_time:
  "clampedTimeDifferenceFromNow (at_time t P) x s = (wait_until P t x, emit GetNowTime s)"
  by (simp add: clampedTimeDifferenceFromNow_def wait_until_def)

text \<open>
  The radio is in use only while a receive that was started has not been stopped
  (\<open>messageHandler/messageDispatcher.cpp\<close>: \<open>KeepListening\<close> implies that the radio was restarted), and
  it is configured once its use case is set (\<open>syncAgentImp/syncAgentImp.cpp\<close>: it means configure
  radio protocol).
\<close>

fun listening :: "io_event list \<Rightarrow> bool" where
  "listening [] = False"
| "listening (e # h) =
     (case e of ReceiveStatic \<Rightarrow> True | StartReceiving \<Rightarrow> True | StopReceive \<Rightarrow> False | ResetByFault \<Rightarrow> False
      | _ \<Rightarrow> listening h)"

fun configured :: "io_event list \<Rightarrow> bool" where
  "configured [] = False"
| "configured (e # h) = (case e of SetRadioUseCase \<Rightarrow> True | ResetByFault \<Rightarrow> False | _ \<Rightarrow> configured h)"

definition documented_radio :: "platform \<Rightarrow> bool" where
  "documented_radio P \<longleftrightarrow>
     (\<forall>h. p_isRadioInUse P h \<longrightarrow> listening h) \<and> (\<forall>h. configured h \<longrightarrow> p_isRadioConfigured P h)"

section \<open>A unit alone\<close>

text \<open>What holds of a unit that has heard no message and has not been provisioned.\<close>

definition alone :: "platform \<Rightarrow> 'a agent_state_scheme \<Rightarrow> bool" where
  "alone P s \<longleftrightarrow>
     masterID s = p_systemID P \<and> mergerRole s \<noteq> Merger \<and> fishingMode s = Trolling \<and>
     \<not> repeaterIsActive s \<and> radioBufferPtrIsSet s"

lemma alone_fields [simp]:
  fixes s :: "'a agent_state_scheme"
  shows "alone P (emit e s) = alone P s" "alone P (s\<lparr>timers := ts\<rparr>) = alone P s"
    "alone P (TaskTimer_schedule T d s) = alone P s" "alone P (s\<lparr>preludeIsStarted := b\<rparr>) = alone P s"
    "alone P (s\<lparr>heardWork := b\<rparr>) = alone P s" "alone P (s\<lparr>slotKind := k\<rparr>) = alone P s"
    "alone P (s\<lparr>handler := h\<rparr>) = alone P s" "alone P (s\<lparr>radioBuffer := bs\<rparr>) = alone P s"
    "alone P (s\<lparr>io := es\<rparr>) = alone P s" "alone P (Schedule_rollPeriodForward s) = alone P s"
    "alone P (RadioPrelude_undo s) = alone P s" "alone P (RadioPrelude_doIt s) = alone P s"
  by (simp_all add: alone_def emit_def TaskTimer_schedule_def Schedule_rollPeriodForward_def
      rollPeriodForwardDiscretely_def RadioPrelude_undo_def RadioPrelude_doIt_def Let_def)

text \<open>The period of a unit alone has its normal length.\<close>

definition plain_period :: "'a agent_state_scheme \<Rightarrow> bool" where
  "plain_period s \<longleftrightarrow>
     unat (endTimeOfSyncPeriod s) = unat (startTimeOfSyncPeriod s) + 80000"

section \<open>When each task is due\<close>

text \<open>
  The time \<open>x\<close> at which the pending task is due, relative to the period, if every task starts at
  most \<open>l\<close> ticks late.
\<close>

definition session_ok :: "'a agent_state_scheme \<Rightarrow> bool" where
  "session_ok s \<longleftrightarrow>
     2 \<le> unat (currentStartSlotOrdinal s) \<and>
     unat (currentEndSlotOrdinal s) + 1 = unat (currentStartSlotOrdinal s) + session_slots s \<and>
     unat (currentEndSlotOrdinal s) \<le> 1600 \<and>
     unat (memoStartTimeOfFishSlot s) = unat (startTimeOfSyncPeriod s) + (unat (currentStartSlotOrdinal s) - 1) * 50"

fun due :: "nat \<Rightarrow> task \<Rightarrow> nat \<Rightarrow> 'a agent_state_scheme \<Rightarrow> bool" where
  "due l CheckPowerReserve x s \<longleftrightarrow> True"
| "due l StartSyncPeriodMaintain x s \<longleftrightarrow> x = unat (endTimeOfSyncPeriod s)"
| "due l TheRadioPreludeTaskWSync x s \<longleftrightarrow> plain_period s \<and> x + 50 = unat (endTimeOfSyncPeriod s)"
| "due l StartSyncSlotAfterPrelude x s \<longleftrightarrow>
     plain_period s \<and> unat (endTimeOfSyncPeriod s) \<le> x \<and> x \<le> unat (endTimeOfSyncPeriod s) + l"
| "due l StartSyncSlotWithoutScheduledPrelude x s \<longleftrightarrow>
     plain_period s \<and> preludeIsStarted s \<and> unat (endTimeOfSyncPeriod s) \<le> x \<and> x \<le> unat (endTimeOfSyncPeriod s) + 3 * l"
| "due l SendSync x s \<longleftrightarrow>
     plain_period s \<and> slotKind s \<noteq> KindSendControlSync \<and>
     unat (startTimeOfSyncPeriod s) \<le> x \<and> x \<le> unat (startTimeOfSyncPeriod s) + 64"
| "due l EndSyncSlotListen x s \<longleftrightarrow>
     plain_period s \<and> unat (startTimeOfSyncPeriod s) + 50 \<le> x \<and> x \<le> unat (startTimeOfSyncPeriod s) + 80"
| "due l EndSyncSlotSend x s \<longleftrightarrow>
     plain_period s \<and> unat (startTimeOfSyncPeriod s) + 50 \<le> x \<and> x \<le> unat (startTimeOfSyncPeriod s) + 80"
| "due l TheRadioPreludeTaskWFish x s \<longleftrightarrow>
     plain_period s \<and> session_ok s \<and> 4 \<le> unat (currentStartSlotOrdinal s) \<and>
     x + 50 = unat (memoStartTimeOfFishSlot s)"
| "due l FishSlotStart x s \<longleftrightarrow>
     plain_period s \<and> session_ok s \<and> unat (startTimeOfSyncPeriod s) \<le> x \<and>
     x \<le> unat (memoStartTimeOfFishSlot s) + (if unat (currentStartSlotOrdinal s) \<le> 3 then 50 else l)"
| "due l FishSlotEnd x s \<longleftrightarrow>
     plain_period s \<and> session_ok s \<and> unat (startTimeOfSyncPeriod s) \<le> x \<and>
     x \<le> unat (memoStartTimeOfFishSlot s) + 50 * session_slots s +
       (if unat (currentStartSlotOrdinal s) \<le> 3 then 66 else 2 * l)"
| "due l MergerStartAndEnd x s \<longleftrightarrow> False"
| "due l ProvisionStart x s \<longleftrightarrow> False"
| "due l ProvisionEnd x s \<longleftrightarrow> False"

definition lone_at :: "platform \<Rightarrow> nat \<Rightarrow> task \<Rightarrow> nat \<Rightarrow> 'a agent_state_scheme \<Rightarrow> bool" where
  "lone_at P l T x s \<longleftrightarrow>
     (if T = CheckPowerReserve then fishingMode s = Trolling \<and> \<not> repeaterIsActive s else alone P s) \<and>
     (listening (io s) \<longrightarrow> T = EndSyncSlotListen \<or> T = FishSlotEnd) \<and> due l T x s"

text \<open>What a task is to establish: the next task is pending and due in time.\<close>

definition next_due :: "platform \<Rightarrow> nat \<Rightarrow> nat \<Rightarrow> 'a agent_state_scheme \<Rightarrow> bool" where
  "next_due P l t s \<longleftrightarrow> (\<exists>T d. timers s = [(T, d)] \<and> lone_at P l T (t + unat d) s)"

lemma next_dueI:
  assumes "timers s = []" "lone_at P l T (t + unat d) (TaskTimer_schedule T d s)"
  shows "next_due P l t (TaskTimer_schedule T d s)"
  using assms by (auto simp: next_due_def)

section \<open>The next task is due in time\<close>

lemma alone_lone_at:
  assumes "alone P s" "\<not> listening (io s)" "T \<noteq> CheckPowerReserve" "due l T x s"
  shows "lone_at P l T x s"
  using assms by (simp add: lone_at_def)

lemma due_fields [simp]:
  fixes s :: "'a agent_state_scheme"
  shows "plain_period (TaskTimer_schedule T d s) = plain_period s" "plain_period (emit e s) = plain_period s"
    "session_ok (TaskTimer_schedule T d s) = session_ok s" "session_ok (emit e s) = session_ok s"
    "plain_period (RadioPrelude_undo s) = plain_period s" "session_ok (RadioPrelude_undo s) = session_ok s"
    "due l T' x (TaskTimer_schedule T d s) = due l T' x s" "due l T' x (emit e s) = due l T' x s"
    "listening (io (TaskTimer_schedule T d s)) = listening (io s)"
    "listening (io (RadioPrelude_undo s)) = listening (io s)"
    "startTimeOfSyncPeriod (RadioPrelude_undo s) = startTimeOfSyncPeriod s"
    "endTimeOfSyncPeriod (RadioPrelude_undo s) = endTimeOfSyncPeriod s"
proof -
  have p: "plain_period (TaskTimer_schedule T d s) = plain_period s" "plain_period (emit e s) = plain_period s"
    "session_ok (TaskTimer_schedule T d s) = session_ok s" "session_ok (emit e s) = session_ok s"
    for T d e and s :: "'a agent_state_scheme"
    by (simp_all add: plain_period_def session_ok_def session_slots_def TaskTimer_schedule_def emit_def)
  then show "plain_period (TaskTimer_schedule T d s) = plain_period s" "plain_period (emit e s) = plain_period s"
    "session_ok (TaskTimer_schedule T d s) = session_ok s" "session_ok (emit e s) = session_ok s"
    by simp_all
  show "due l T' x (TaskTimer_schedule T d s) = due l T' x s" "due l T' x (emit e s) = due l T' x s"
    by (cases T'; simp add: p; simp add: session_slots_def TaskTimer_schedule_def emit_def)+
  show "listening (io (TaskTimer_schedule T d s)) = listening (io s)"
    by (simp add: TaskTimer_schedule_def emit_def)
qed (simp_all add: RadioPrelude_undo_def emit_def plain_period_def session_ok_def session_slots_def)

lemma radioPreludeTaskWSync_due:
  fixes s :: "'a agent_state_scheme"
  assumes "documented_difference P" "documented_subtraction P" "t < 2 ^ 62"
    and "timers s = []" "alone P s" "\<not> listening (io s)" "plain_period s"
    and "t + 50 \<le> unat (endTimeOfSyncPeriod s)" "unat (endTimeOfSyncPeriod s) \<le> t + 80000"
  shows "\<exists>s'. SyncSchedule_radioPreludeTaskWSync (at_time t P) s = Some s' \<and> next_due P l t s'"
proof -
  define d where "d = wait_until P t (endTimeOfSyncPeriod s)"
  have d: "unat d = unat (endTimeOfSyncPeriod s) - t"
    unfolding d_def using assms by (intro wait_until_unat) simp_all
  have le: "50 \<le> d"
    using assms(8) d by (simp add: word_le_nat_alt)
  then have d50: "unat (d - 50) = unat (endTimeOfSyncPeriod s) - t - 50"
    by (simp add: unat_sub_le d)
  have "SyncSchedule_radioPreludeTaskWSync (at_time t P) s =
      Some (TaskTimer_schedule TheRadioPreludeTaskWSync (d - 50) (emit GetNowTime s))"
    using assms(2) le by (simp add: SyncSchedule_radioPreludeTaskWSync_def SleepDuration_nowTilPreludeWSync_def
        SleepDuration_nowTilSyncPoint_def Schedule_deltaNowToNextSyncPoint_def fromNow_at_time d_def
        Schedule_timeOfNextSyncPoint_def SleepDuration_preludeTilNextTask_def params documented_subtraction_def)
  moreover have "next_due P l t (TaskTimer_schedule TheRadioPreludeTaskWSync (d - 50) (emit GetNowTime s))"
    using assms d50 by (intro next_dueI alone_lone_at) simp_all
  ultimately show ?thesis
    by blast
qed

lemma withoutPrelude_due:
  fixes s :: "'a agent_state_scheme"
  assumes "documented_difference P" "t < 2 ^ 62"
    and "timers s = []" "alone P s" "\<not> listening (io s)" "plain_period s" "preludeIsStarted s"
    and "t \<le> unat (endTimeOfSyncPeriod s) + 3 * l" "unat (endTimeOfSyncPeriod s) \<le> t + 80000"
  shows "next_due P l t (SyncSchedule_startSyncSlotWithoutScheduledPrelude (at_time t P) s)"
proof -
  have d: "unat (wait_until P t (endTimeOfSyncPeriod s)) = unat (endTimeOfSyncPeriod s) - t"
    using assms by (intro wait_until_unat) simp_all
  show ?thesis
    unfolding SyncSchedule_startSyncSlotWithoutScheduledPrelude_def SleepDuration_nowTilSyncPoint_def
      Schedule_deltaNowToNextSyncPoint_def fromNow_at_time Schedule_timeOfNextSyncPoint_def
    using assms d by (simp, intro next_dueI alone_lone_at) auto
qed

lemma maintain_due:
  fixes s :: "'a agent_state_scheme"
  assumes "documented_difference P" "t < 2 ^ 62"
    and "timers s = []" "alone P s" "\<not> listening (io s)"
    and "t \<le> unat (endTimeOfSyncPeriod s)" "unat (endTimeOfSyncPeriod s) \<le> t + 80000"
  shows "next_due P l t (SyncSchedule_maintainSyncPeriod (at_time t P) s)"
    "next_due P l t (SyncSchedule_initialSyncPeriod (at_time t P) s)"
proof -
  have d: "unat (wait_until P t (endTimeOfSyncPeriod s)) = unat (endTimeOfSyncPeriod s) - t"
    using assms by (intro wait_until_unat) simp_all
  show "next_due P l t (SyncSchedule_maintainSyncPeriod (at_time t P) s)"
    unfolding SyncSchedule_maintainSyncPeriod_def SyncSchedule_maintainSyncPeriodFromMaintainSyncPeriod_def
      SleepDuration_nowTilSyncPoint_def Schedule_deltaNowToNextSyncPoint_def fromNow_at_time Schedule_timeOfNextSyncPoint_def
    using assms d by (simp, intro next_dueI alone_lone_at) auto
  then show "next_due P l t (SyncSchedule_initialSyncPeriod (at_time t P) s)"
    by (simp add: SyncSchedule_initialSyncPeriod_def SyncSchedule_maintainSyncPeriod_def)
qed

text \<open>An undone prelude keeps the next task due.\<close>

lemma undo_next_due:
  assumes "next_due P l t s" "\<And>d. timers s \<noteq> [(StartSyncSlotWithoutScheduledPrelude, d)]"
  shows "next_due P l t (RadioPrelude_undo s)"
proof -
  have "due l T x (RadioPrelude_undo s) = due l T x s" if "T \<noteq> StartSyncSlotWithoutScheduledPrelude" for T x
    using that by (cases T; simp; simp add: RadioPrelude_undo_def emit_def session_slots_def)
  moreover obtain T d where T: "timers s = [(T, d)]" "lone_at P l T (t + unat d) s"
    using assms(1) by (auto simp: next_due_def)
  moreover have "T \<noteq> StartSyncSlotWithoutScheduledPrelude"
    using T(1) assms(2) by auto
  moreover have "fishingMode (RadioPrelude_undo s) = fishingMode s" "repeaterIsActive (RadioPrelude_undo s) = repeaterIsActive s"
    by (simp_all add: RadioPrelude_undo_def emit_def)
  ultimately show ?thesis
    by (simp add: next_due_def lone_at_def)
qed

section \<open>The sync slot\<close>

text \<open>A unit alone sends no control message: it asks the coin or the alarm, and the mailbox.\<close>

lemma decideKind_alone:
  fixes s :: "'a agent_state_scheme"
  assumes "SyncSlotProperty_decideKind P s = (k, s')" "\<not> repeaterIsActive s"
  shows "k \<noteq> KindSendControlSync" "\<exists>es. s' = s\<lparr>io := es\<rparr> \<and> listening es = listening (io s)"
  using assms
  by (auto simp: SyncSlotProperty_decideKind_def SyncBehaviour_shouldTransmitSync_def Clique_shouldTransmitSync_def
      xmit_policy_defs Alarm_tickWithAlarm_def Random_coinToss_def WorkOut_isNeedSendWork_def Mailbox_isMail_def
      IntraCliqueManager_shouldSendControlSync_def IntraCliqueManager_isActive_def SendRepeater_isActive_def
      emit_def Let_def split: if_splits)

lemma io_fields [simp]:
  fixes s :: "'a agent_state_scheme"
  shows "plain_period (s\<lparr>io := es\<rparr>) = plain_period s" "plain_period (s\<lparr>slotKind := k\<rparr>) = plain_period s"
    "plain_period (s\<lparr>handler := h\<rparr>) = plain_period s" "plain_period (s\<lparr>radioBuffer := bs\<rparr>) = plain_period s"
    "session_ok (s\<lparr>handler := h\<rparr>) = session_ok s"
  by (simp_all add: plain_period_def session_ok_def session_slots_def)

lemma unat_slot_times:
  assumes "unat (startTimeOfSyncPeriod s) < 2 ^ 63"
  shows "unat (SyncSlotSchedule_timeOfThisSyncSlotMiddleSubslot s) = unat (startTimeOfSyncPeriod s) + 21"
    "unat (SyncSlotSchedule_timeOfThisSyncSlotEnd s) = unat (startTimeOfSyncPeriod s) + 50"
  using assms unat_time_plus [of "startTimeOfSyncPeriod s" DeltaSyncSlotStartToSyncSlotXmit]
    unat_time_plus [of "startTimeOfSyncPeriod s" VirtualSlotDuration]
  by (simp_all add: SyncSlotSchedule_timeOfThisSyncSlotMiddleSubslot_def
      SyncSlotSchedule_timeOfThisSyncSlotEnd_def params)

lemma syncSend_due:
  fixes s :: "'a agent_state_scheme"
  assumes "documented_difference P" "t < 2 ^ 62"
    and "timers s = []" "alone P s" "\<not> listening (io s)" "plain_period s" "slotKind s \<noteq> KindSendControlSync"
    and "unat (startTimeOfSyncPeriod s) \<le> t" "t \<le> unat (startTimeOfSyncPeriod s) + 64"
  shows "next_due P l t (SyncSchedule_syncSendTask (at_time t P) s)"
proof -
  have mid: "unat (SyncSlotSchedule_timeOfThisSyncSlotMiddleSubslot s) = unat (startTimeOfSyncPeriod s) + 21"
    using assms by (intro unat_slot_times) simp
  have d: "unat (wait_until P t (SyncSlotSchedule_timeOfThisSyncSlotMiddleSubslot s)) =
      unat (startTimeOfSyncPeriod s) + 21 - t"
    using assms mid by (subst wait_until_unat) simp_all
  show ?thesis
    unfolding SyncSchedule_syncSendTask_def SyncSlotSchedule_deltaToThisSyncSlotMiddleSubslot_def fromNow_at_time
    using assms d by (simp, intro next_dueI alone_lone_at) auto
qed

lemma slotEnd_due:
  fixes s :: "'a agent_state_scheme"
  assumes "documented_difference P" "t < 2 ^ 62"
    and "timers s = []" "alone P s" "plain_period s"
    and "unat (startTimeOfSyncPeriod s) \<le> t" "t \<le> unat (startTimeOfSyncPeriod s) + 80"
  shows "next_due P l t (SyncSchedule_syncSlotEndFromListen (at_time t P) s)"
    "\<not> listening (io s) \<Longrightarrow> next_due P l t (SyncSchedule_syncSlotEndFromSend (at_time t P) s)"
proof -
  have mid: "unat (SyncSlotSchedule_timeOfThisSyncSlotEnd s) = unat (startTimeOfSyncPeriod s) + 50"
    using assms by (intro unat_slot_times) simp
  have d: "unat (wait_until P t (SyncSlotSchedule_timeOfThisSyncSlotEnd s)) = unat (startTimeOfSyncPeriod s) + 50 - t"
    using assms mid by (subst wait_until_unat) simp_all
  show "next_due P l t (SyncSchedule_syncSlotEndFromListen (at_time t P) s)"
    "\<not> listening (io s) \<Longrightarrow> next_due P l t (SyncSchedule_syncSlotEndFromSend (at_time t P) s)"
    unfolding SyncSchedule_syncSlotEndFromListen_def SyncSchedule_syncSlotEndFromSend_def
      SyncSlotSchedule_deltaToThisSyncSlotEnd_def fromNow_at_time
    using assms d by (simp_all, intro next_dueI, auto simp: lone_at_def intro!: next_dueI)
qed

lemma dispatchSyncSlotKind_due:
  fixes s :: "'a agent_state_scheme"
  assumes "documented_difference P" "t < 2 ^ 62"
    and "timers s = []" "alone P s" "\<not> listening (io s)" "plain_period s"
    and "unat (startTimeOfSyncPeriod s) \<le> t" "t \<le> unat (startTimeOfSyncPeriod s) + 64"
  shows "\<exists>s'. SyncSlot_dispatchSyncSlotKind (at_time t P) s = Some s' \<and> next_due P l t s' \<and>
    startTimeOfSyncPeriod s' = startTimeOfSyncPeriod s \<and> endTimeOfSyncPeriod s' = endTimeOfSyncPeriod s"
proof -
  obtain k r where k: "SyncSlotProperty_decideKind (at_time t P) s = (k, r)"
    by fastforce
  have "\<not> repeaterIsActive s"
    using assms(4) by (simp add: alone_def)
  from decideKind_alone [OF k this] obtain es where
    r: "k \<noteq> KindSendControlSync" "r = s\<lparr>io := es\<rparr>" "listening es = listening (io s)"
    by blast
  define q where "q = r\<lparr>slotKind := k\<rparr>"
  have q: "timers q = []" "alone P q" "\<not> listening (io q)" "plain_period q"
    "startTimeOfSyncPeriod q = startTimeOfSyncPeriod s" "endTimeOfSyncPeriod q = endTimeOfSyncPeriod s" "slotKind q = k"
    using assms r by (simp_all add: q_def)
  have b: "timers (SyncSlot_beginListen q) = []" "alone P (SyncSlot_beginListen q)" "plain_period (SyncSlot_beginListen q)"
    "startTimeOfSyncPeriod (SyncSlot_beginListen q) = startTimeOfSyncPeriod s"
    "endTimeOfSyncPeriod (SyncSlot_beginListen q) = endTimeOfSyncPeriod s"
    using q by (simp_all add: SyncSlot_beginListen_def Receiver_startWithHandler_def) (simp_all add: emit_def)
  have "next_due P l t (SyncSchedule_syncSendTask (at_time t P) q)"
    using assms q r(1) by (intro syncSend_due) simp_all
  moreover have "next_due P l t (SyncSchedule_syncSlotEndFromListen (at_time t P) (SyncSlot_beginListen q))"
    using assms b by (intro slotEnd_due(1)) simp_all
  moreover have "startTimeOfSyncPeriod (SyncSchedule_syncSendTask (at_time t P) q) = startTimeOfSyncPeriod s"
    "startTimeOfSyncPeriod (SyncSchedule_syncSlotEndFromListen (at_time t P) (SyncSlot_beginListen q)) = startTimeOfSyncPeriod s"
    "endTimeOfSyncPeriod (SyncSchedule_syncSendTask (at_time t P) q) = endTimeOfSyncPeriod s"
    "endTimeOfSyncPeriod (SyncSchedule_syncSlotEndFromListen (at_time t P) (SyncSlot_beginListen q)) = endTimeOfSyncPeriod s"
    using q(5,6) b(4,5) by (simp_all add: SyncSchedule_syncSendTask_def SyncSchedule_syncSlotEndFromListen_def
        SyncSlotSchedule_deltaToThisSyncSlotMiddleSubslot_def SyncSlotSchedule_deltaToThisSyncSlotEnd_def fromNow_at_time)
      (simp_all add: TaskTimer_schedule_def emit_def)
  ultimately show ?thesis
    using r(1) by (cases k) (simp_all add: SyncSlot_dispatchSyncSlotKind_def k q_def)
qed

lemma bookkeepingAtStart_alone:
  fixes s :: "'a agent_state_scheme"
  assumes "documented_radio P" "\<not> listening (io s)" "alone P s" "timers s = []"
    and "far_from_wrap (endTimeOfSyncPeriod s)"
  obtains r where "SyncSlot_bookkeepingAtStartSyncSlot (at_time t P) s = Some r" "alone P r" "timers r = []"
    "\<not> listening (io r)" "plain_period r" "startTimeOfSyncPeriod r = endTimeOfSyncPeriod s" "syncMode r = syncMode s"
    "preludeIsStarted r = preludeIsStarted s"
proof -
  define q where "q = Schedule_rollPeriodForward s"
  have q: "io q = io s" "timers q = timers s" "alone P q" "syncMode q = syncMode s" "preludeIsStarted q = preludeIsStarted s"
    "startTimeOfSyncPeriod q = endTimeOfSyncPeriod s"
    "endTimeOfSyncPeriod q = endTimeOfSyncPeriod s + ucast NormalSyncPeriodDuration"
    using assms(3) by (simp_all add: q_def rollPeriodForward_sel)
      (simp_all add: Schedule_rollPeriodForward_def rollPeriodForwardDiscretely_def Let_def)
  have "\<not> p_isRadioInUse P (io q)"
    using assms(1,2) by (auto simp: documented_radio_def q(1))
  then have "SyncSlot_bookkeepingAtStartSyncSlot (at_time t P) s = Some (q\<lparr>heardWork := False\<rparr>)"
    by (simp add: SyncSlot_bookkeepingAtStartSyncSlot_def SyncAgentImp_preludeToSyncPeriod_def q_def [symmetric]
        Ensemble_isRadioInUse_def WorkIn_resetState_def Let_def)
  then show thesis
    by (rule that) (use q assms unat_plus_period [OF assms(5)] in \<open>simp_all add: plain_period_def\<close>)
qed

lemma mode_transition_alone:
  fixes s :: "'a agent_state_scheme"
  assumes "mergerRole s \<noteq> Merger"
  shows "mergerRole (SyncModeManager_checkPowerAndTryModeTransitions P s) \<noteq> Merger"
    "listening (io (SyncModeManager_checkPowerAndTryModeTransitions P s)) = listening (io s)"
  using assms by (cases "syncMode s"; simp add: mode_transition_defs Let_def)+

lemma manage_listening:
  fixes s :: "'a agent_state_scheme"
  assumes "FishPowerMgr_manage P s = Some t"
  shows "listening (io t) = listening (io s)"
  using assms
  by (auto simp: FishPowerMgr_manage_def Vcc_measureAtLeast2_7_def SlottedFishSession_incrementFishSessionDuration_def
      SlottedFishSession_setDurationToMinDuration_def emit_def Let_def dest!: restart_frame
      split: if_splits elim!: bind_SomeE)

lemma bookkeepingAtPrelude_alone:
  fixes s :: "'a agent_state_scheme"
  assumes "core_inv P s" "alone P s"
  obtains s' where "SyncSlot_bookkeepingAtPreludeToSyncSlot (at_time t P) s = Some s'" "alone P s'" "core_inv P s'"
    "listening (io s') = listening (io s)" "timers s' = timers s" "preludeIsStarted s' = preludeIsStarted s"
    "startTimeOfSyncPeriod s' = startTimeOfSyncPeriod s" "endTimeOfSyncPeriod s' = endTimeOfSyncPeriod s"
proof -
  let ?P = "at_time t P"
  define r where "r = SyncAgentImp_callbackAppPreSync s"
  define u where "u = SyncModeManager_checkPowerAndTryModeTransitions ?P r"
  have r: "core_inv ?P r" "alone P r" "listening (io r) = listening (io s)" "timers r = timers s"
    "preludeIsStarted r = preludeIsStarted s" "startTimeOfSyncPeriod r = startTimeOfSyncPeriod s"
    "endTimeOfSyncPeriod r = endTimeOfSyncPeriod s"
    using assms by (simp_all add: r_def SyncAgentImp_callbackAppPreSync_def) (simp_all add: emit_def)
  have "core_inv ?P u"
    unfolding u_def by (rule mode_transition_core [OF r(1)])
  then have "trolling_inv u"
    by (simp add: core_inv_def)
  from FishPowerMgr_manage_inv [OF this, of ?P] obtain s' where s': "FishPowerMgr_manage ?P u = Some s'"
    by blast
  have role: "mergerRole u \<noteq> Merger" "listening (io u) = listening (io s)"
    using mode_transition_alone [of r ?P] r(2,3) by (simp_all add: u_def alone_def)
  have u: "alone P u"
    using r(2) role(1) by (subst mode_transition_shape [OF u_def]) (simp add: alone_def)
  have b: "SyncSlot_bookkeepingAtPreludeToSyncSlot ?P s = Some s'"
    using s' by (simp add: SyncSlot_bookkeepingAtPreludeToSyncSlot_def u_def r_def)
  have "alone P s'"
    using u by (subst manage_shape [OF s']) (simp add: alone_def)
  moreover have "startTimeOfSyncPeriod s' = startTimeOfSyncPeriod s"
    by (subst manage_shape [OF s'], simp, subst mode_transition_shape [OF u_def], simp add: r(6))
  moreover have "listening (io s') = listening (io s)"
    using manage_listening [OF s'] role(2) by simp
  ultimately show thesis
    using b bookkeepingAtPrelude [OF b] assms by (intro that [of s']) simp_all
qed

lemma maintain_start:
  fixes s :: "'a agent_state_scheme"
  shows "startTimeOfSyncPeriod (SyncSchedule_maintainSyncPeriod P s) = startTimeOfSyncPeriod s"
    "endTimeOfSyncPeriod (SyncSchedule_maintainSyncPeriod P s) = endTimeOfSyncPeriod s"
  by (simp_all add: SyncSchedule_maintainSyncPeriod_def SyncSchedule_maintainSyncPeriodFromMaintainSyncPeriod_def
      SleepDuration_nowTilSyncPoint_def Schedule_deltaNowToNextSyncPoint_def clampedTimeDifferenceFromNow_def
      TaskTimer_schedule_def emit_def)

lemma radioPreludeTaskWSync_period:
  fixes s :: "'a agent_state_scheme"
  assumes "SyncSchedule_radioPreludeTaskWSync P s = Some s'"
  shows "startTimeOfSyncPeriod s' = startTimeOfSyncPeriod s \<and> endTimeOfSyncPeriod s' = endTimeOfSyncPeriod s"
  using assms by (auto simp: SyncSchedule_radioPreludeTaskWSync_def SleepDuration_nowTilPreludeWSync_def
      SleepDuration_nowTilSyncPoint_def Schedule_deltaNowToNextSyncPoint_def clampedTimeDifferenceFromNow_def
      TaskTimer_schedule_def emit_def split: option.splits elim!: bind_SomeE)

lemma startSyncSlot_due:
  fixes s :: "'a agent_state_scheme"
  assumes "documented_difference P" "documented_radio P" "t < 2 ^ 62"
    and "timers s = []" "alone P s" "\<not> listening (io s)" "preludeIsStarted s"
    and "unat (endTimeOfSyncPeriod s) \<le> t" "t \<le> unat (endTimeOfSyncPeriod s) + 64"
  shows "\<exists>s'. SSTask_startSyncSlotAfterPrelude (at_time t P) s = Some s' \<and> next_due P l t s' \<and>
    startTimeOfSyncPeriod s' = endTimeOfSyncPeriod s \<and> plain_period s'"
proof -
  have "far_from_wrap (endTimeOfSyncPeriod s)"
    using assms by (simp add: far_from_wrap_def)
  from bookkeepingAtStart_alone [OF assms(2,6,5,4) this, of t] obtain r where
    r: "SyncSlot_bookkeepingAtStartSyncSlot (at_time t P) s = Some r" "alone P r" "timers r = []"
    "\<not> listening (io r)" "plain_period r" "startTimeOfSyncPeriod r = endTimeOfSyncPeriod s" "syncMode r = syncMode s"
    "preludeIsStarted r = preludeIsStarted s"
    by blast
  have "\<exists>s'. SyncSlot_dispatchSyncSlotKind (at_time t P) r = Some s' \<and> next_due P l t s' \<and>
      startTimeOfSyncPeriod s' = startTimeOfSyncPeriod r \<and> endTimeOfSyncPeriod s' = endTimeOfSyncPeriod r"
    using assms r by (intro dispatchSyncSlotKind_due) simp_all
  moreover have "next_due P l t (RadioPrelude_undo (SyncSchedule_maintainSyncPeriod (at_time t P) r))"
    using assms r by (intro undo_next_due maintain_due(1)) (simp_all add: plain_period_def
        SyncSchedule_maintainSyncPeriod_def SyncSchedule_maintainSyncPeriodFromMaintainSyncPeriod_def split_beta)
  moreover have "startTimeOfSyncPeriod (RadioPrelude_undo (SyncSchedule_maintainSyncPeriod (at_time t P) r)) =
      startTimeOfSyncPeriod r"
    "endTimeOfSyncPeriod (RadioPrelude_undo (SyncSchedule_maintainSyncPeriod (at_time t P) r)) = endTimeOfSyncPeriod r"
    by (simp_all add: maintain_start)
  ultimately show ?thesis
    using assms(7) r(1,5,6) by (cases "syncMode r")
      (auto simp: plain_period_def SSTask_startSyncSlotAfterPrelude_def RadioPrelude_isDone_def SyncModeManager_mode_def)
qed

lemma startSyncPeriodMaintain_due:
  fixes s :: "'a agent_state_scheme"
  assumes "documented_difference P" "documented_subtraction P" "documented_radio P" "t < 2 ^ 62"
    and "timers s = []" "alone P s" "\<not> listening (io s)" "\<not> preludeIsStarted s" "core_inv P s"
    and "unat (endTimeOfSyncPeriod s) \<le> t" "t \<le> unat (endTimeOfSyncPeriod s) + 64"
  shows "\<exists>s'. SSTask_startSyncPeriodMaintain (at_time t P) s = Some s' \<and> next_due P l t s' \<and>
    startTimeOfSyncPeriod s' = endTimeOfSyncPeriod s \<and> plain_period s'"
proof -
  obtain q where q: "SyncSlot_bookkeepingAtPreludeToSyncSlot (at_time t P) s = Some q" "alone P q"
    "listening (io q) = listening (io s)" "timers q = timers s" "preludeIsStarted q = preludeIsStarted s"
    "endTimeOfSyncPeriod q = endTimeOfSyncPeriod s"
    using bookkeepingAtPrelude_alone [OF assms(9,6), of t] by metis
  have "far_from_wrap (endTimeOfSyncPeriod q)"
    using assms q by (simp add: far_from_wrap_def)
  from bookkeepingAtStart_alone [OF assms(3) _ q(2) _ this, of t] obtain r where
    r: "SyncSlot_bookkeepingAtStartSyncSlot (at_time t P) q = Some r" "alone P r" "timers r = []"
    "\<not> listening (io r)" "plain_period r" "startTimeOfSyncPeriod r = endTimeOfSyncPeriod s"
    using q assms by auto
  have "\<exists>s'. SyncSchedule_radioPreludeTaskWSync (at_time t P) r = Some s' \<and> next_due P l t s'"
    using assms r by (intro radioPreludeTaskWSync_due) (simp_all add: plain_period_def)
  then have "\<exists>s'. SyncSchedule_radioPreludeTaskWSync (at_time t P) r = Some s' \<and> next_due P l t s' \<and>
      startTimeOfSyncPeriod s' = startTimeOfSyncPeriod r \<and> endTimeOfSyncPeriod s' = endTimeOfSyncPeriod r"
    using radioPreludeTaskWSync_period by blast
  moreover have "next_due P l t (SyncSchedule_maintainSyncPeriod (at_time t P) r)"
    using assms r by (intro maintain_due(1)) (simp_all add: plain_period_def)
  ultimately show ?thesis
    using assms(8) q(1) r(1,5,6) maintain_start [of "at_time t P" r] by (cases "syncMode r")
      (auto simp: plain_period_def SSTask_startSyncPeriodMaintain_def RadioPrelude_isDone_def SyncModeManager_mode_def)
qed

lemma preludeWSync_due:
  fixes s :: "'a agent_state_scheme"
  assumes "timers s = []" "alone P s" "\<not> listening (io s)" "core_inv P s" "plain_period s"
    and "unat (endTimeOfSyncPeriod s) \<le> t + 50" "t + 50 \<le> unat (endTimeOfSyncPeriod s) + l"
  shows "\<exists>s'. theRadioPreludeTaskWSync (at_time t P) s = Some s' \<and> next_due P l t s'"
proof -
  define r where "r = SSTask_radioPrelude (SyncSchedule_startSyncSlotFromPreludeStart s)"
  have r: "core_inv P r" "alone P r" "listening (io r) = listening (io s)"
    "timers r = [(StartSyncSlotAfterPrelude, SleepDuration_preludeTilNextTask)]"
    "endTimeOfSyncPeriod r = endTimeOfSyncPeriod s" "startTimeOfSyncPeriod r = startTimeOfSyncPeriod s"
    using assms by (simp_all add: r_def SSTask_radioPrelude_def SyncSchedule_startSyncSlotFromPreludeStart_def
        RadioPrelude_doIt_def) (simp_all add: emit_def TaskTimer_schedule_def)
  obtain q where q: "SyncSlot_bookkeepingAtPreludeToSyncSlot (at_time t P) r = Some q" "alone P q"
    "listening (io q) = listening (io r)" "timers q = timers r"
    "endTimeOfSyncPeriod q = endTimeOfSyncPeriod r" "startTimeOfSyncPeriod q = startTimeOfSyncPeriod r"
    using bookkeepingAtPrelude_alone [OF r(1,2), of t] by metis
  have "unat SleepDuration_preludeTilNextTask = 50"
    by (simp add: SleepDuration_preludeTilNextTask_def params)
  then have "next_due P l t q"
    using q r assms by (simp add: next_due_def lone_at_def plain_period_def)
  then show ?thesis
    using q(1) by (simp add: theRadioPreludeTaskWSync_def r_def)
qed

lemma offset_fits:
  fixes s :: "'a agent_state_scheme"
  assumes "documented_difference P" "documented_subtraction P" "t < 2 ^ 62"
    and "plain_period s" "unat (startTimeOfSyncPeriod s) \<le> t"
  shows "fst (SyncOffset_calculate (at_time t P) s) \<le> NormalSyncPeriodDuration"
proof -
  have d: "unat (wait_until P t (endTimeOfSyncPeriod s)) = unat (endTimeOfSyncPeriod s) - t"
    using assms by (intro wait_until_unat) (simp_all add: plain_period_def)
  have "unat (p_clampedSubtraction P (wait_until P t (endTimeOfSyncPeriod s)) SendLatency) \<le> 80000"
    using d assms(4,5) by (simp add: clampedSubtraction_unat [OF assms(2)] plain_period_def)
  then show ?thesis
    by (simp add: SyncOffset_calculate_def Schedule_deltaNowToNextSyncPoint_def Schedule_timeOfNextSyncPoint_def
        fromNow_at_time word_le_nat_alt params)
qed

lemma initSync_send_alone:
  fixes s :: "'a agent_state_scheme"
  assumes "documented_difference P" "documented_subtraction P" "t < 2 ^ 62" "SyncMessage_doesCarrySync T"
    and "plain_period s" "unat (startTimeOfSyncPeriod s) \<le> t" "radioBufferPtrIsSet s"
  obtains bs where "Option.bind (MessageFactory_initSyncMessage (at_time t P) T w s) (\<lambda>(msg, s). sendMessage msg s) =
    Some (s\<lparr>io := TransmitStatic bs # GetNowTime # io s, radioBuffer := bs\<rparr>)"
proof -
  have "fst (SyncOffset_calculate (at_time t P) s) \<le> NormalSyncPeriodDuration"
    using assms by (intro offset_fits) simp_all
  then show thesis
    using assms(4,7) by (intro that [of "packet_of \<lparr>msg_type = T,
        deltaToNextSyncPoint = fst (SyncOffset_calculate (at_time t P) s), msg_masterID = masterID s, work = w\<rparr>
        (radioBuffer s)"]) (simp add: initSyncMessage_eq sendMessage_eq emit_def)
qed

lemma sendSync_due:
  fixes s :: "'a agent_state_scheme"
  assumes "documented_difference P" "documented_subtraction P" "t < 2 ^ 62"
    and "timers s = []" "alone P s" "\<not> listening (io s)" "plain_period s"
    and "slotKind s \<noteq> KindSendControlSync" "slotKind s \<noteq> KindListen"
    and "unat (startTimeOfSyncPeriod s) \<le> t" "t \<le> unat (startTimeOfSyncPeriod s) + 80"
  shows "\<exists>s'. SSTask_sendSync (at_time t P) s = Some s' \<and> next_due P l t s'"
proof -
  have ptr: "radioBufferPtrIsSet s" "radioBufferPtrIsSet (emit FetchMail s)"
    using assms(5) by (simp_all add: alone_def emit_def)
  have fetch: "plain_period (emit FetchMail s)" "unat (startTimeOfSyncPeriod (emit FetchMail s)) \<le> t"
    using assms(7,10) by (simp_all add: plain_period_def emit_def)
  have carry: "SyncMessage_doesCarrySync WorkSync" "SyncMessage_doesCarrySync MasterSync"
    by simp_all
  have "\<exists>es bs. (case slotKind s of
             KindSendWorkSync \<Rightarrow> SyncSlotStep_sendWorkSync (at_time t P) s
           | KindSendSync \<Rightarrow> SyncSlotStep_sendSync (at_time t P) s
           | KindSendControlSync \<Rightarrow> SyncSlotStep_sendControlSync (at_time t P) s
           | KindListen \<Rightarrow> None) = Some (s\<lparr>io := es, radioBuffer := bs\<rparr>) \<and> listening es = listening (io s)"
  proof (cases "slotKind s")
    case KindSendWorkSync
    obtain bs where "Option.bind (MessageFactory_initSyncMessage (at_time t P) WorkSync
        (p_fetchMail (at_time t P) (io s)) (emit FetchMail s)) (\<lambda>(msg, s). sendMessage msg s) =
      Some ((emit FetchMail s)\<lparr>io := TransmitStatic bs # GetNowTime # io (emit FetchMail s), radioBuffer := bs\<rparr>)"
      by (rule initSync_send_alone [OF assms(1-3) carry(1) fetch ptr(2)])
    then have "SyncSlotStep_sendWorkSync (at_time t P) s = Some (s\<lparr>io := TransmitStatic bs # GetNowTime # FetchMail # io s, radioBuffer := bs\<rparr>)"
      by (simp add: SyncSlotStep_sendWorkSync_def WorkOut_fetch_def Mailbox_fetch_def
          SyncSender_sendWorkSync_def emit_def)
    then show ?thesis
      using KindSendWorkSync by (intro exI [of _ "TransmitStatic bs # GetNowTime # FetchMail # io s"] exI [of _ bs]) simp
  next
    case KindSendSync
    obtain bs where "Option.bind (MessageFactory_initSyncMessage (at_time t P) MasterSync (getMasterSyncPayload s) s)
        (\<lambda>(msg, s). sendMessage msg s) = Some (s\<lparr>io := TransmitStatic bs # GetNowTime # io s, radioBuffer := bs\<rparr>)"
      by (rule initSync_send_alone [OF assms(1-3) carry(2) assms(7,10) ptr(1)])
    then have "SyncSlotStep_sendSync (at_time t P) s = Some (s\<lparr>io := TransmitStatic bs # GetNowTime # io s, radioBuffer := bs\<rparr>)"
      by (simp add: SyncSlotStep_sendSync_def SyncSender_sendMasterSync_def)
    then show ?thesis
      using KindSendSync by (intro exI [of _ "TransmitStatic bs # GetNowTime # io s"] exI [of _ bs]) simp
  qed (use assms(8,9) in simp_all)
  then obtain es bs where r: "(case slotKind s of
             KindSendWorkSync \<Rightarrow> SyncSlotStep_sendWorkSync (at_time t P) s
           | KindSendSync \<Rightarrow> SyncSlotStep_sendSync (at_time t P) s
           | KindSendControlSync \<Rightarrow> SyncSlotStep_sendControlSync (at_time t P) s
           | KindListen \<Rightarrow> None) = Some (s\<lparr>io := es, radioBuffer := bs\<rparr>)" "listening es = listening (io s)"
    by blast
  have "next_due P l t (SyncSchedule_syncSlotEndFromSend (at_time t P) (s\<lparr>io := es, radioBuffer := bs\<rparr>))"
    using assms r(2) by (intro slotEnd_due(2)) simp_all
  then show ?thesis
    by (simp add: SSTask_sendSync_def r(1))
qed

section \<open>Fishing\<close>

lemma omitNonsyncSlot_due:
  fixes s :: "'a agent_state_scheme"
  assumes "documented_difference P" "documented_subtraction P" "t < 2 ^ 62"
    and "timers s = []" "alone P s" "\<not> listening (io s)" "plain_period s"
    and "t + 50 \<le> unat (endTimeOfSyncPeriod s)" "unat (endTimeOfSyncPeriod s) \<le> t + 80000"
  shows "\<exists>s'. SyncSchedule_omitNonsyncSlot (at_time t P) s = Some s' \<and> next_due P l t s'"
    "\<not> preludeIsStarted s \<Longrightarrow> \<exists>s'. SyncSchedule_syncSlotAfterSyncSlot (at_time t P) s = Some s' \<and> next_due P l t s'"
  using radioPreludeTaskWSync_due [of P t "RadioPrelude_undo s" l] radioPreludeTaskWSync_due [of P t s l] assms
  by (simp_all add: SyncSchedule_omitNonsyncSlot_def SyncSchedule_syncSlotAfterSyncSlot_def RadioPrelude_isDone_def)

lemma trolling_times:
  fixes s :: "'a agent_state_scheme"
  assumes "fishingMode s = Trolling"
  shows "FishSchedule_setStartAndEndTimes s = s\<lparr>
      memoStartTimeOfFishSlot := memoStartTimeOfFishSlot (FishSchedule_setStartAndEndTimes s),
      memoEndTimeOfFishSlot := memoEndTimeOfFishSlot (FishSchedule_setStartAndEndTimes s)\<rparr>"
  using assms by (simp add: FishSchedule_setStartAndEndTimes_def FishSchedule_memoTimeOfFishSessionEnd_def
      FishSchedule_memoTimeOfFishSessionStart_def FishingManager_getStartTimeToFish_def Let_def)

text \<open>The session that \<open>preFishing\<close> chose, with its times.\<close>

definition session_chosen :: "'a agent_state_scheme \<Rightarrow> bool" where
  "session_chosen s \<longleftrightarrow>
     2 \<le> unat (currentStartSlotOrdinal s) \<and>
     unat (currentEndSlotOrdinal s) + 1 = unat (currentStartSlotOrdinal s) + session_slots s \<and>
     unat (currentEndSlotOrdinal s) \<le> 1600 \<and> trolling_inv s"

lemma trolling_times_ok:
  fixes s :: "'a agent_state_scheme"
  assumes "fishingMode s = Trolling" "session_chosen s" "plain_period s" "unat (startTimeOfSyncPeriod s) < 2 ^ 63"
  shows "session_ok (FishSchedule_setStartAndEndTimes s)"
proof -
  have "session_valid s"
    using assms by (simp add: session_valid_def session_chosen_def far_from_wrap_def)
  from trolling_start_unat [OF this]
  have start: "unat (fst (FishingManager_getStartTimeToFish s)) =
      unat (startTimeOfSyncPeriod s) + (unat (currentStartSlotOrdinal s) - 1) * 50"
    using assms(1) by (simp add: FishingManager_getStartTimeToFish_def)
  have "1 \<le> session_slots s"
    using assms(2) by (simp add: session_chosen_def trolling_inv_def generator_ok_def)
  then have "unat (currentStartSlotOrdinal s) \<le> 1600"
    using assms(2) by (simp add: session_chosen_def)
  then have "fst (FishingManager_getStartTimeToFish s) \<le> endTimeOfSyncPeriod s"
    using assms(3) by (simp add: word_le_nat_alt start plain_period_def)
  then have memo: "memoStartTimeOfFishSlot (FishSchedule_setStartAndEndTimes s) = fst (FishingManager_getStartTimeToFish s)"
    by (simp add: setStartAndEndTimes_memo)
  have fields: "currentStartSlotOrdinal (FishSchedule_setStartAndEndTimes s) = currentStartSlotOrdinal s"
    "currentEndSlotOrdinal (FishSchedule_setStartAndEndTimes s) = currentEndSlotOrdinal s"
    "session_slots (FishSchedule_setStartAndEndTimes s) = session_slots s"
    "startTimeOfSyncPeriod (FishSchedule_setStartAndEndTimes s) = startTimeOfSyncPeriod s"
    by (subst trolling_times [OF assms(1)], simp add: session_slots_def)+
  show ?thesis
    using assms(2) by (simp add: session_ok_def fields memo start session_chosen_def)
qed

lemma fishing_due:
  fixes s :: "'a agent_state_scheme"
  assumes "documented_difference P" "documented_subtraction P" "t < 2 ^ 62"
    and "timers s = []" "alone P s" "\<not> listening (io s)" "plain_period s" "session_ok s"
    and "preludeIsStarted s \<longleftrightarrow> unat (currentStartSlotOrdinal s) \<le> 3"
    and "unat (startTimeOfSyncPeriod s) \<le> t" "t \<le> unat (startTimeOfSyncPeriod s) + 96"
  shows "\<exists>s'. SyncSchedule_fishing (at_time t P) s = Some s' \<and> next_due P l t s'"
proof -
  let ?m = "memoStartTimeOfFishSlot s"
  define d where "d = wait_until P t ?m"
  have m: "unat ?m = unat (startTimeOfSyncPeriod s) + (unat (currentStartSlotOrdinal s) - 1) * 50"
    "2 \<le> unat (currentStartSlotOrdinal s)" "unat (currentStartSlotOrdinal s) \<le> 1601"
    using assms(8) by (auto simp: session_ok_def)
  have d: "unat d = unat ?m - t"
    unfolding d_def using assms m by (intro wait_until_unat) simp_all
  show ?thesis
  proof (cases "preludeIsStarted s")
    case True
    then have "unat ?m \<le> unat (startTimeOfSyncPeriod s) + 100" "unat (startTimeOfSyncPeriod s) + 50 \<le> unat ?m"
      "unat (currentStartSlotOrdinal s) \<le> 3"
      using m assms(9) by simp_all
    moreover have "t + unat d \<le> unat ?m + 50" "unat (startTimeOfSyncPeriod s) \<le> t + unat d"
      using calculation assms(10,11) d by linarith+
    ultimately have "next_due P l t (TaskTimer_schedule FishSlotStart d (emit GetNowTime s))"
      using assms by (intro next_dueI alone_lone_at) simp_all
    then show ?thesis
      using True by (simp add: SyncSchedule_fishing_def SyncSchedule_fishSlotStart_def RadioPrelude_isDone_def
          SleepDuration_nowTilFishStart_def FishSchedule_deltaToFishSessionStart_def fromNow_at_time d_def)
  next
    case False
    then have k: "4 \<le> unat (currentStartSlotOrdinal s)" "unat (startTimeOfSyncPeriod s) + 150 \<le> unat ?m"
      using m assms(9) by simp_all
    then have le: "50 \<le> d"
      using d assms by (simp add: word_le_nat_alt)
    then have d50: "unat (d - 50) = unat ?m - t - 50"
      by (simp add: unat_sub_le d)
    have "next_due P l t (TaskTimer_schedule TheRadioPreludeTaskWFish (d - 50) (emit GetNowTime s))"
      using assms d50 k by (intro next_dueI alone_lone_at) simp_all
    then show ?thesis
      using False assms(2) le by (simp add: SyncSchedule_fishing_def RadioPrelude_isDone_def
          SyncSchedule_radioPreludeTaskWFish_def SleepDuration_nowTilPreludeWFish_def
          SleepDuration_nowTilFishStart_def FishSchedule_deltaToFishSessionStart_def fromNow_at_time d_def
          SleepDuration_preludeTilNextTask_def params documented_subtraction_def)
  qed
qed

lemma preFishing_alone:
  fixes s :: "'a agent_state_scheme"
  assumes "alone P s" "trolling_inv s"
  obtains r where "FishingManager_preFishing s = Some r" "session_chosen r" "alone P r" "io r = io s"
    "startTimeOfSyncPeriod r = startTimeOfSyncPeriod s" "endTimeOfSyncPeriod r = endTimeOfSyncPeriod s"
proof -
  obtain r where r: "SyncRecoveryTrollingPolicy_proceedToNextFishSlotOrdinal s = Some r" "trolling_inv r"
    "session_slots r = session_slots s"
    "unat (currentEndSlotOrdinal r) = unat (currentStartSlotOrdinal r) + session_slots s - 1"
    using proceed_refines [OF assms(2)] by blast
  have "FishingManager_preFishing s = Some r"
    using r(1) assms(1) by (simp add: FishingManager_preFishing_def SyncRecoveryTrollingPolicy_preFishing_def alone_def)
  moreover have "session_chosen r"
    using r(2-4) by (auto simp: session_chosen_def trolling_inv_def)
  moreover have "alone P r" "io r = io s" "startTimeOfSyncPeriod r = startTimeOfSyncPeriod s"
    "endTimeOfSyncPeriod r = endTimeOfSyncPeriod s"
    using assms(1) by (subst proceed_frame [OF r(1)]; simp add: alone_def)+
  ultimately show thesis
    by (rule that)
qed

text \<open>The prelude stays for a session that starts in the first two sleeping slots.\<close>

lemma undoAfterSyncing_alone:
  fixes s :: "'a agent_state_scheme"
  assumes "preludeIsStarted s" "syncMode s \<noteq> Maintain" "syncMode s \<noteq> SyncAndProvision" "role_inv s" "alone P s"
  shows "\<exists>b. RadioPrelude_tryUndoAfterSyncing s =
    Some (b, if b then RadioPrelude_undo s else s) \<and>
      (syncMode s = SyncOnly \<longrightarrow> b) \<and>
      (syncMode s = SyncAndFishMerge \<longrightarrow>
        b \<longleftrightarrow> \<not> (currentStartSlotOrdinal s = 2 \<or> currentStartSlotOrdinal s = 3))"
  using assms
  by (cases "syncMode s"; cases "mergerRole s")
    (simp_all add: RadioPrelude_tryUndoAfterSyncing_def RadioPrelude_shouldUndoAfterSyncing_def RadioPrelude_isDone_def
      SyncModeManager_mode_def role_inv_def alone_def FishingManager_isFishSlotStartSyncPeriod_def
      SyncRecoveryTrollingPolicy_isFishSessionNearStartSyncPeriod_def isCoverFirstSleepingSlot_def
      isAbutFirstSleepingSlot_def params ex_bool_eq)

lemma small_slot:
  assumes "2 \<le> unat (k :: slot_count)"
  shows "k = 2 \<or> k = 3 \<longleftrightarrow> unat k \<le> 3"
  using assms by (auto simp: word_unat_eq_iff)

lemma scheduleNonSync_due:
  fixes s :: "'a agent_state_scheme"
  assumes P: "documented_difference P" "documented_subtraction P" "t < 2 ^ 62" "\<not> p_softdevicePresent P"
    and s: "timers s = []" "alone P s" "\<not> listening (io s)" "plain_period s" "unit_inv P s" "preludeIsStarted s"
      "syncMode s \<noteq> Maintain"
    and t: "unat (startTimeOfSyncPeriod s) \<le> t" "t \<le> unat (startTimeOfSyncPeriod s) + 96"
  shows "\<exists>s'. scheduleNonSyncTask (at_time t P) s = Some s' \<and> next_due P l t s'"
proof -
  let ?P = "at_time t P"
  have "trolling_inv s"
    using s(5) by (simp add: unit_inv_def)
  from preFishing_alone [OF s(2) this] obtain r where r: "FishingManager_preFishing s = Some r" "session_chosen r"
    "alone P r" "io r = io s" "startTimeOfSyncPeriod r = startTimeOfSyncPeriod s" "endTimeOfSyncPeriod r = endTimeOfSyncPeriod s"
    by blast
  note steady = steadyD [OF preFishing_steady [OF r(1)]]
  have inv: "unit_inv P r" "syncMode r = syncMode s" "preludeIsStarted r" "timers r = []"
    using steady s by simp_all
  then have mode: "syncMode r \<noteq> Maintain" "syncMode r \<noteq> SyncAndProvision" "role_inv r"
    using s(7) P(4) by (simp_all add: unit_inv_def provision_inv_def)
  obtain b where b: "RadioPrelude_tryUndoAfterSyncing r = Some (b, if b then RadioPrelude_undo r else r)"
    "syncMode r = SyncOnly \<longrightarrow> b"
    "syncMode r = SyncAndFishMerge \<longrightarrow> b \<longleftrightarrow> \<not> (currentStartSlotOrdinal r = 2 \<or> currentStartSlotOrdinal r = 3)"
    using undoAfterSyncing_alone [OF inv(3) mode r(3)] by blast
  define q where "q = (if b then RadioPrelude_undo r else r)"
  have plain: "plain_period r"
    using s(4) r(5,6) by (simp add: plain_period_def)
  have q: "timers q = []" "alone P q" "\<not> listening (io q)" "plain_period q" "syncMode q = syncMode r"
    "preludeIsStarted q \<longleftrightarrow> \<not> b" "session_chosen q" "startTimeOfSyncPeriod q = startTimeOfSyncPeriod s"
    "endTimeOfSyncPeriod q = endTimeOfSyncPeriod s" "mergerRole q = mergerRole r" "currentStartSlotOrdinal q = currentStartSlotOrdinal r"
    using r s(3) inv plain by (simp_all add: q_def)
      (simp_all add: RadioPrelude_undo_def emit_def session_chosen_def session_slots_def trolling_inv_def)
  have period: "unat (endTimeOfSyncPeriod s) = unat (startTimeOfSyncPeriod s) + 80000"
    using s(4) by (simp add: plain_period_def)
  show ?thesis
  proof (cases "syncMode r = SyncOnly")
    case True
    then have "\<exists>s'. SyncSchedule_syncSlotAfterSyncSlot ?P q = Some s' \<and> next_due P l t s'"
      using P q t period b(2) by (intro omitNonsyncSlot_due(2)) simp_all
    then show ?thesis
      using True r(1) b(1) q(5) by (simp add: scheduleNonSyncTask_def q_def SyncModeManager_mode_def)
  next
    case False
    with mode(1,2) have fish: "syncMode r = SyncAndFishMerge"
      by (cases "syncMode r") simp_all
    then have role: "mergerRole q = Fisher"
      using mode(3) r(3) q(10) by (cases "mergerRole r") (simp_all add: role_inv_def alone_def)
    define u where "u = emit (MeasurePower Medium) q"
    have u: "timers u = []" "alone P u" "\<not> listening (io u)" "plain_period u" "preludeIsStarted u \<longleftrightarrow> \<not> b"
      "session_chosen u" "startTimeOfSyncPeriod u = startTimeOfSyncPeriod s" "endTimeOfSyncPeriod u = endTimeOfSyncPeriod s"
      "currentStartSlotOrdinal u = currentStartSlotOrdinal r"
      using q by (simp_all add: u_def) (simp_all add: emit_def session_chosen_def session_slots_def trolling_inv_def)
    define w where "w = FishSchedule_setStartAndEndTimes u"
    have trolling: "fishingMode u = Trolling"
      using u(2) by (simp add: alone_def)
    have "2 \<le> unat (currentStartSlotOrdinal r)"
      using r(2) by (simp add: session_chosen_def)
    then have near: "\<not> b \<longleftrightarrow> unat (currentStartSlotOrdinal r) \<le> 3"
      using b(3) fish small_slot by blast
    have "unat (startTimeOfSyncPeriod u) < 2 ^ 63"
      using u(7) t P(3) by simp
    from trolling_times_ok [OF trolling u(6,4) this] have ok: "session_ok w"
      by (simp add: w_def)
    have w: "timers w = []" "alone P w" "io w = io u" "plain_period w" "preludeIsStarted w = preludeIsStarted u"
      "startTimeOfSyncPeriod w = startTimeOfSyncPeriod s" "currentStartSlotOrdinal w = currentStartSlotOrdinal r"
      unfolding w_def using u by (subst trolling_times [OF trolling]; simp add: alone_def plain_period_def)+
    have "\<exists>s'. SyncSchedule_fishing ?P w = Some s' \<and> next_due P l t s'"
      using P w u ok near t by (intro fishing_due) simp_all
    moreover have "\<exists>s'. SyncSchedule_omitNonsyncSlot ?P u = Some s' \<and> next_due P l t s'"
      using P u t period by (intro omitNonsyncSlot_due(1)) simp_all
    ultimately have "\<exists>s'. SSTask_tryFishOrMerge ?P q = Some s' \<and> next_due P l t s'"
      using role by (simp add: SSTask_tryFishOrMerge_def power_defs u_def [symmetric] w_def)
    then show ?thesis
      using fish r(1) b(1) q(5) by (simp add: scheduleNonSyncTask_def q_def SyncModeManager_mode_def)
  qed
qed

lemma endSyncSlot_due:
  fixes s :: "'a agent_state_scheme"
  assumes P: "documented_difference P" "documented_subtraction P" "t < 2 ^ 62" "\<not> p_softdevicePresent P"
    and s: "timers s = []" "alone P s" "plain_period s" "unit_inv P s" "preludeIsStarted s" "syncMode s \<noteq> Maintain"
    and t: "unat (startTimeOfSyncPeriod s) \<le> t" "t \<le> unat (startTimeOfSyncPeriod s) + 96"
  shows "\<exists>s'. SSTask_endSyncSlotListen (at_time t P) s = Some s' \<and> next_due P l t s'"
    "\<not> listening (io s) \<Longrightarrow> \<exists>s'. SSTask_endSyncSlotSend (at_time t P) s = Some s' \<and> next_due P l t s'"
proof -
  define r where "r = Receiver_stop s"
  have r: "timers r = []" "alone P r" "\<not> listening (io r)" "plain_period r" "unit_inv P r" "preludeIsStarted r"
    "syncMode r \<noteq> Maintain" "startTimeOfSyncPeriod r = startTimeOfSyncPeriod s" "Clique_isSelfMaster P r"
    using s by (simp_all add: r_def Receiver_stop_def) (simp_all add: emit_def alone_def Clique_isSelfMaster_def)
  have "\<exists>s'. scheduleNonSyncTask (at_time t P) r = Some s' \<and> next_due P l t s'"
    using P r t by (intro scheduleNonSync_due) simp_all
  then show "\<exists>s'. SSTask_endSyncSlotListen (at_time t P) s = Some s' \<and> next_due P l t s'"
    using r(9) by (simp add: SSTask_endSyncSlotListen_def SyncSlot_endListen_def r_def)
  show "\<exists>s'. SSTask_endSyncSlotSend (at_time t P) s = Some s' \<and> next_due P l t s'" if "\<not> listening (io s)"
    using scheduleNonSync_due [OF P s(1,2) that s(3-6) t] s(5)
    by (simp add: SSTask_endSyncSlotSend_def RadioPrelude_isDone_def)
qed

lemma preludeWFish_due:
  fixes s :: "'a agent_state_scheme"
  assumes "timers s = []" "alone P s" "\<not> listening (io s)" "due l TheRadioPreludeTaskWFish x s" "x \<le> t" "t \<le> x + l"
  shows "\<exists>s'. theRadioPreludeTaskWFish s = Some s' \<and> next_due P l t s'"
proof -
  have "unat SleepDuration_preludeTilNextTask = 50"
    by (simp add: SleepDuration_preludeTilNextTask_def params)
  moreover have "unat (startTimeOfSyncPeriod s) \<le> unat (memoStartTimeOfFishSlot s)"
    using assms(4) by (simp add: session_ok_def)
  moreover have "session_ok (RadioPrelude_doIt r) = session_ok r" "plain_period (RadioPrelude_doIt r) = plain_period r"
    "listening (io (RadioPrelude_doIt r)) = listening (io r)"
    "startTimeOfSyncPeriod (RadioPrelude_doIt r) = startTimeOfSyncPeriod r"
    "memoStartTimeOfFishSlot (RadioPrelude_doIt r) = memoStartTimeOfFishSlot r"
    "currentStartSlotOrdinal (RadioPrelude_doIt r) = currentStartSlotOrdinal r" for r :: "'a agent_state_scheme"
    by (simp_all add: RadioPrelude_doIt_def emit_def session_ok_def session_slots_def plain_period_def)
  ultimately show ?thesis
    using assms by (simp add: theRadioPreludeTaskWFish_def SyncSchedule_startFishSlotFromPreludeStart_def
        SSTask_radioPrelude_def next_due_def lone_at_def) (simp add: TaskTimer_schedule_def emit_def)
qed

lemma session_length:
  assumes "trolling_inv s"
  shows "session_slots s \<le> 100" "unat (dynamicFishSessionDurationInTicks s) = 50 * session_slots s"
  using assms by (simp_all add: trolling_inv_def generator_ok_def)

lemma fishSlotStart_due:
  fixes s :: "'a agent_state_scheme"
  assumes "timers s = []" "alone P s" "preludeIsStarted s" "trolling_inv s"
    and "due l FishSlotStart x s" "x \<le> t" "t \<le> x + l" "l \<le> 16"
  shows "\<exists>s'. SSTask_fishSlotStart s = Some s' \<and> next_due P l t s'"
proof -
  have d: "unat (FishingManager_getFishSessionDurationTicks s) = 50 * session_slots s"
    using assms(2) session_length [OF assms(4)] by (simp add: FishingManager_getFishSessionDurationTicks_def alone_def
        SyncRecoveryTrollingPolicy_getFishSessionDurationTicks_def SlottedFishSession_durationInTicks_def)
  define q where "q = s\<lparr>handler := FishSlotHandler\<rparr>"
  have q: "plain_period q = plain_period s" "session_ok q = session_ok s" "alone P q = alone P s"
    "startTimeOfSyncPeriod q = startTimeOfSyncPeriod s" "memoStartTimeOfFishSlot q = memoStartTimeOfFishSlot s"
    "currentStartSlotOrdinal q = currentStartSlotOrdinal s" "session_slots q = session_slots s"
    by (simp_all add: q_def session_slots_def)
  have "SSTask_fishSlotStart s = Some (emit ReceiveStatic
      ((SyncSchedule_fishSlotEnd s)\<lparr>handler := FishSlotHandler\<rparr>))"
    using assms(3) by (simp add: SSTask_fishSlotStart_def RadioPrelude_isDone_def FishSlot_beginListen_def
        Receiver_startWithHandler_def)
  moreover have "(SyncSchedule_fishSlotEnd s)\<lparr>handler := FishSlotHandler\<rparr> =
      TaskTimer_schedule FishSlotEnd (FishingManager_getFishSessionDurationTicks s) q"
    by (simp add: SyncSchedule_fishSlotEnd_def q_def TaskTimer_schedule_def emit_def)
  moreover have "due l FishSlotEnd (t + 50 * session_slots s) q"
    using assms(5-8) by (auto simp: q split: if_splits)
  ultimately show ?thesis
    using assms(1,2) d q(3) by (auto simp: next_due_def lone_at_def q_def)
qed

lemma fishSlotEnd_due:
  fixes s :: "'a agent_state_scheme"
  assumes P: "documented_difference P" "documented_subtraction P" "t < 2 ^ 62"
    and s: "timers s = []" "alone P s" "preludeIsStarted s" "trolling_inv s"
    and t: "due l FishSlotEnd x s" "x \<le> t" "t \<le> x + l" "l \<le> 16"
  shows "\<exists>s'. SSTask_fishSlotEnd (at_time t P) s = Some s' \<and> next_due P l t s'"
proof -
  define r where "r = FishSlot_endListen s"
  have r: "timers r = []" "alone P r" "\<not> listening (io r)" "plain_period r" "preludeIsStarted r"
    "startTimeOfSyncPeriod r = startTimeOfSyncPeriod s" "endTimeOfSyncPeriod r = endTimeOfSyncPeriod s"
    "currentEndSlotOrdinal r = currentEndSlotOrdinal s"
    using s t(1) by (simp_all add: r_def FishSlot_endListen_def Receiver_stop_def) (simp_all add: emit_def)
  have mode: "fishingMode r = Trolling"
    using r(2) by (simp add: alone_def)
  have near: "FishingManager_isFishSlotEndSyncPeriod r \<longleftrightarrow> 1599 \<le> unat (currentEndSlotOrdinal s)"
    using mode r(8) by (auto simp: FishingManager_isFishSlotEndSyncPeriod_def
        SyncRecoveryTrollingPolicy_isFishSessionNearEndSyncPeriod_def isCoverLastSleepingSlot_def
        isAbutLastSleepingSlot_def SyncRecoveryTrollingPolicy_currentSessionEndSlotOrdinal_def params
        word_le_nat_alt word_unat_eq_iff)
  let ?S = "unat (startTimeOfSyncPeriod s)" and ?k = "unat (currentStartSlotOrdinal s)" and ?n = "session_slots s"
  have k: "2 \<le> ?k" "unat (currentEndSlotOrdinal s) + 1 = ?k + ?n" "unat (currentEndSlotOrdinal s) \<le> 1600"
    "unat (memoStartTimeOfFishSlot s) = ?S + (?k - 1) * 50" "unat (endTimeOfSyncPeriod s) = ?S + 80000" "?S \<le> t" "?n \<le> 100"
    and late: "t \<le> ?S + (?k - 1) * 50 + 50 * ?n + (if ?k \<le> 3 then 66 + l else 3 * l)"
    using t session_length(1) [OF s(4)] by (auto simp: session_ok_def plain_period_def split: if_splits)
  have sum: "(?k - 1) * 50 + 50 * ?n = 50 * unat (currentEndSlotOrdinal s)"
    using k(1,2) by (simp add: algebra_simps)
  show ?thesis
  proof (cases "1599 \<le> unat (currentEndSlotOrdinal s)")
    case True
    then have "\<not> ?k \<le> 3"
      using k(2,7) by linarith
    then have "t \<le> unat (endTimeOfSyncPeriod s) + 3 * l"
      using late sum k(3,5) by simp
    then have "next_due P l t (SyncSchedule_startSyncSlotWithoutScheduledPrelude (at_time t P) r)"
      using P r k by (intro withoutPrelude_due) simp_all
    then show ?thesis
      using True near r(5) mode by (simp add: SSTask_fishSlotEnd_def r_def [symmetric] RadioPrelude_isDone_def
          FishingManager_checkFishingDone_def SyncSchedule_syncSlotAfterFishSlot_def
          RadioPrelude_tryUndoAfterFishing_def RadioPrelude_shouldUndoAfterFishing_def)
  next
    case False
    then have "t + 50 \<le> unat (endTimeOfSyncPeriod s)"
      using late sum k t(4) by (auto split: if_splits)
    then have "\<exists>s'. SyncSchedule_radioPreludeTaskWSync (at_time t P) (RadioPrelude_undo r) = Some s' \<and> next_due P l t s'"
      using P r k by (intro radioPreludeTaskWSync_due) simp_all
    then show ?thesis
      using False near r(5) mode by (simp add: SSTask_fishSlotEnd_def r_def [symmetric] RadioPrelude_isDone_def
          FishingManager_checkFishingDone_def SyncSchedule_syncSlotAfterFishSlot_def
          RadioPrelude_tryUndoAfterFishing_def RadioPrelude_shouldUndoAfterFishing_def)
  qed
qed

section \<open>Starting\<close>

lemma init_alone:
  fixes s :: "'a agent_state_scheme"
  assumes "documented_radio P" "\<not> p_softdevicePresent P" "\<not> listening (io s)" "fishingMode s = Trolling"
    "\<not> repeaterIsActive s" "timers s = []"
  obtains q where "SyncAgentImp_init (at_time t P) s = Some q" "alone P q" "\<not> listening (io q)" "timers q = []"
proof -
  define r where "r = SyncAgentImp_initEnsembleProtocol (SyncModeManager_resetToModeMaintain s)"
  define u where "u = Clique_setSelfMastership (at_time t P) (Serializer_init (of_nat FixedPayloadCount) r)"
  define v where "v = Schedule_init (at_time t P) (AdaptiveTransmitSyncPolicy_reset (DropoutMonitor_reset u))"
  define q where "q = (FishPowerMgr_init (CliqueHistory_init (at_time t P) v))\<lparr>countMergeSyncHeard := 0\<rparr>"
  have r: "\<not> listening (io r)" "configured (io r)" "timers r = []" "fishingMode r = Trolling" "\<not> repeaterIsActive r"
    "mergerRole r \<noteq> Merger"
    using assms by (simp_all add: r_def SyncAgentImp_initEnsembleProtocol_def SyncModeManager_resetToModeMaintain_def
        role_defs emit_def)
  have u: "\<not> listening (io u)" "configured (io u)" "timers u = []" "alone P u"
    using r by (simp_all add: u_def Serializer_init_def Clique_setSelfMastership_def alone_def)
  have v: "\<not> listening (io v)" "configured (io v)" "timers v = []" "alone P v"
    using u by (simp_all add: v_def DropoutMonitor_reset_def xmit_policy_defs Schedule_init_def LongClock_nowTime_def)
      (simp_all add: emit_def alone_def)
  have q: "\<not> listening (io q)" "configured (io q)" "timers q = []" "alone P q"
    using v by (simp_all add: q_def CliqueHistory_init_def FishPowerMgr_init_def)
      (simp_all add: emit_def alone_def)
  have self: "Clique_isSelfMaster P v" "Clique_isSelfMaster P q"
    using v(4) q(4) by (simp_all add: alone_def Clique_isSelfMaster_def)
  have "Clique_init (at_time t P) (Serializer_init (of_nat FixedPayloadCount) r) = Some v"
    using self(1) by (simp add: Clique_init_def u_def v_def)
  then have "SyncAgentImp_init (at_time t P) s = Some q"
    using assms(1,2) q self(2) by (simp add: SyncAgentImp_init_def r_def [symmetric] q_def [symmetric]
        Ensemble_isRadioInUse_def Ensemble_isConfigured_def documented_radio_def) metis
  then show thesis
    using q by (intro that) simp_all
qed

lemma checkPowerReserve_due:
  fixes s :: "'a agent_state_scheme"
  assumes "documented_difference P" "documented_radio P" "\<not> p_softdevicePresent P" "t < 2 ^ 62"
    and "timers s = []" "\<not> listening (io s)" "fishingMode s = Trolling" "\<not> repeaterIsActive s"
  shows "\<exists>s'. SSTask_checkPowerReserve (at_time t P) s = Some s' \<and> next_due P l t s'"
proof (cases "p_isPowerAbove (at_time t P) (io s) Medium")
  case False
  then show ?thesis
    using assms(5-8) by (simp add: SSTask_checkPowerReserve_def power_defs SyncSchedule_checkPowerReserve_def next_due_def
        lone_at_def) (simp add: TaskTimer_schedule_def emit_def)
next
  case True
  define r where "r = emit AppPowerReserve (emit (MeasurePower Medium) s)"
  have r: "timers r = []" "\<not> listening (io r)" "fishingMode r = Trolling" "\<not> repeaterIsActive r"
    using assms(5-8) by (simp_all add: r_def emit_def)
  obtain q where q: "SyncAgentImp_init (at_time t P) r = Some q" "alone P q" "\<not> listening (io q)" "timers q = []"
    using init_alone [OF assms(2,3) r(2-4,1), of t] by blast
  define u where "u = SyncModeManager_resetToModeMaintain (SyncPowerManager_enterBrownoutDetectMode q)"
  define v where "v = Schedule_setEndTimeOfSyncPeriodToNow (at_time t P) u"
  have u: "alone P u" "\<not> listening (io u)" "timers u = []"
    using q by (simp_all add: u_def SyncPowerManager_enterBrownoutDetectMode_def SyncModeManager_resetToModeMaintain_def
        role_defs alone_def emit_def)
  have v: "alone P v" "\<not> listening (io v)" "timers v = []" "endTimeOfSyncPeriod v = of_nat t"
    using u by (simp_all add: v_def Schedule_setEndTimeOfSyncPeriodToNow_def LongClock_nowTime_def)
      (simp_all add: emit_def alone_def)
  have "unat (of_nat t :: long_time) = t"
    using assms(4) by (simp add: unsigned_of_nat take_bit_nat_eq_self)
  then have "next_due P l t (SyncSchedule_initialSyncPeriod (at_time t P) v)"
    using assms v by (intro maintain_due(2)) simp_all
  moreover have "Clique_isSelfMaster P q" "\<not> p_isRadioInUse P (io q)"
    using q(2,3) assms(2) by (auto simp: alone_def Clique_isSelfMaster_def documented_radio_def)
  ultimately show ?thesis
    using True q(1) by (simp add: SSTask_checkPowerReserve_def power_defs r_def [symmetric] SyncAgentImp_preludeToLoop_def
        Ensemble_isRadioInUse_def u_def v_def)
qed

section \<open>Any task\<close>

lemma run_task_due:
  fixes s :: agent_state
  assumes P: "documented_difference P" "documented_subtraction P" "documented_radio P" "\<not> p_softdevicePresent P"
    and t: "x \<le> t" "t \<le> x + l" "l \<le> 16" "t < 2 ^ 62"
    and s: "timers s = []" "task_ok P T s" "lone_at P l T x s"
  shows "\<exists>s'. run_task (at_time t P) T s = Some s' \<and> next_due P l t s'"
proof (cases T)
  case CheckPowerReserve
  then show ?thesis
    using P t s by (simp add: lone_at_def) (intro checkPowerReserve_due; simp)
next
  case StartSyncPeriodMaintain
  then show ?thesis
    using P t s startSyncPeriodMaintain_due [of P t s l] by (auto simp: lone_at_def)
next
  case TheRadioPreludeTaskWSync
  then show ?thesis
    using P t s by (simp add: lone_at_def unit_inv_core) (intro preludeWSync_due; simp)
next
  case TheRadioPreludeTaskWFish
  then show ?thesis
    using P t s preludeWFish_due [of s P l x t] by (simp add: lone_at_def)
next
  case StartSyncSlotAfterPrelude
  then show ?thesis
    using P t s startSyncSlot_due [of P t s l] by (auto simp: lone_at_def)
next
  case StartSyncSlotWithoutScheduledPrelude
  then show ?thesis
    using P t s startSyncSlot_due [of P t s l]
    by (auto simp: lone_at_def SSTask_startSyncSlotWithoutScheduledPrelude_def)
next
  case SendSync
  then show ?thesis
    using P t s by (simp add: lone_at_def) (intro sendSync_due; simp)
next
  case EndSyncSlotListen
  then show ?thesis
    using P t s by (simp add: lone_at_def) (intro endSyncSlot_due(1); simp)
next
  case EndSyncSlotSend
  then show ?thesis
    using P t s by (simp add: lone_at_def) (intro endSyncSlot_due(2); simp)
next
  case FishSlotStart
  then show ?thesis
    using P t s fishSlotStart_due [of s P l x t] by (simp add: lone_at_def unit_inv_def)
next
  case FishSlotEnd
  then show ?thesis
    using P t s fishSlotEnd_due [of P t s l x] by (simp add: lone_at_def unit_inv_def)
qed (use s(3) in \<open>simp_all add: lone_at_def\<close>)

lemma period_start_due:
  fixes s :: agent_state
  assumes P: "documented_difference P" "documented_subtraction P" "documented_radio P" "\<not> p_softdevicePresent P"
    and t: "x \<le> t" "t \<le> x + l" "l \<le> 16" "t < 2 ^ 62"
    and s: "timers s = []" "task_ok P T s" "lone_at P l T x s" "T \<in> period_starts"
  shows "\<exists>s'. run_task (at_time t P) T s = Some s' \<and> next_due P l t s' \<and>
    startTimeOfSyncPeriod s' = endTimeOfSyncPeriod s \<and> plain_period s'"
    "unat (endTimeOfSyncPeriod s) \<le> t" "t \<le> unat (endTimeOfSyncPeriod s) + 4 * l"
proof -
  show "\<exists>s'. run_task (at_time t P) T s = Some s' \<and> next_due P l t s' \<and>
    startTimeOfSyncPeriod s' = endTimeOfSyncPeriod s \<and> plain_period s'"
  proof (cases "T = StartSyncPeriodMaintain")
    case True
    then show ?thesis
      using P t s by (simp add: lone_at_def) (intro startSyncPeriodMaintain_due; simp)
  next
    case False
    then have "run_task (at_time t P) T s = SSTask_startSyncSlotAfterPrelude (at_time t P) s" "preludeIsStarted s"
      using s by (auto simp: SSTask_startSyncSlotWithoutScheduledPrelude_def lone_at_def)
    moreover have "\<exists>s'. SSTask_startSyncSlotAfterPrelude (at_time t P) s = Some s' \<and> next_due P l t s' \<and>
        startTimeOfSyncPeriod s' = endTimeOfSyncPeriod s \<and> plain_period s'"
      using P t s calculation(2) False by (intro startSyncSlot_due) (auto simp: lone_at_def)
    ultimately show ?thesis
      by simp
  qed
  show "unat (endTimeOfSyncPeriod s) \<le> t" "t \<le> unat (endTimeOfSyncPeriod s) + 4 * l"
    using t s(3,4) by (auto simp: lone_at_def)
qed

section \<open>Runs of a unit alone\<close>

text \<open>
  A unit that is powered on at any time; its timer starts each task at most \<open>l\<close> ticks late; where
  the task faults the unit resets.
\<close>

inductive timed_reachable :: "platform \<Rightarrow> nat \<Rightarrow> nat \<Rightarrow> agent_state \<Rightarrow> bool" for P l where
  power_on: "timed_reachable P l t started"
| task: "timed_reachable P l t s \<Longrightarrow> timers s = [(T, d)] \<Longrightarrow>
    t + unat d \<le> t' \<Longrightarrow> t' \<le> t + unat d + l \<Longrightarrow> t' < 2 ^ 62 \<Longrightarrow>
    timed_reachable P l t'
      (case respond (at_time t' P) TimerExpires s of Some s' \<Rightarrow> s' | None \<Rightarrow> rebooted s)"

definition lone_inv :: "platform \<Rightarrow> nat \<Rightarrow> nat \<Rightarrow> agent_state \<Rightarrow> bool" where
  "lone_inv P l t s \<longleftrightarrow> (\<exists>T d. timers s = [(T, d)] \<and> task_ok P T s \<and> lone_at P l T (t + unat d) s)"

definition documented_platform :: "platform \<Rightarrow> bool" where
  "documented_platform P \<longleftrightarrow>
     documented_difference P \<and> documented_subtraction P \<and> documented_radio P \<and> \<not> p_softdevicePresent P"

lemma due_far_from_wrap:
  assumes "lone_at P l T x s" "task_ok P T s" "x < 2 ^ 62" "T \<noteq> CheckPowerReserve"
  shows "far_from_wrap (endTimeOfSyncPeriod s)"
proof -
  have "session_slots s \<le> 100" if "T \<in> {FishSlotStart, FishSlotEnd}"
    using that assms(2) by (intro session_length(1)) (auto simp: unit_inv_def)
  then have "unat (endTimeOfSyncPeriod s) < 2 ^ 63"
    using assms by (cases T) (auto simp: lone_at_def plain_period_def session_ok_def)
  then show ?thesis
    by (simp add: far_from_wrap_def)
qed

lemma lone_at_timers [simp]: "lone_at P l T x (s\<lparr>timers := ts\<rparr>) = lone_at P l T x s"
  by (cases T) (simp_all add: lone_at_def plain_period_def session_ok_def session_slots_def)

lemma at_time_agent_at [simp]: "agent_at M (at_time t P) s = agent_at M P s"
  by (simp add: agent_at_def provisioning_ok_def)

lemma started_lone: "lone_inv P l t started"
proof -
  have "timers started = [(CheckPowerReserve, SleepDuration_powerCheckInterval)]"
    by (simp add: started_def SyncSchedule_checkPowerReserve_def TaskTimer_schedule_def powered_on_def)
  moreover have "task_ok P CheckPowerReserve started"
    using started_agent_at [of P] by (auto simp: agent_at_def)
  moreover have "lone_at P l CheckPowerReserve x started" for x
    by (simp add: lone_at_def started_def SyncSchedule_checkPowerReserve_def TaskTimer_schedule_def powered_on_def emit_def)
  ultimately show ?thesis
    by (simp add: lone_inv_def)
qed

text \<open>How many tasks the diagram allows before one that starts a sync period.\<close>

fun tasks_to_sync_point :: "task \<Rightarrow> nat" where
  "tasks_to_sync_point CheckPowerReserve = 1"
| "tasks_to_sync_point StartSyncPeriodMaintain = 0"
| "tasks_to_sync_point TheRadioPreludeTaskWSync = 1"
| "tasks_to_sync_point StartSyncSlotAfterPrelude = 0"
| "tasks_to_sync_point StartSyncSlotWithoutScheduledPrelude = 0"
| "tasks_to_sync_point SendSync = 6"
| "tasks_to_sync_point EndSyncSlotListen = 5"
| "tasks_to_sync_point EndSyncSlotSend = 5"
| "tasks_to_sync_point TheRadioPreludeTaskWFish = 4"
| "tasks_to_sync_point FishSlotStart = 3"
| "tasks_to_sync_point FishSlotEnd = 2"
| "tasks_to_sync_point MergerStartAndEnd = 2"
| "tasks_to_sync_point ProvisionStart = 3"
| "tasks_to_sync_point ProvisionEnd = 2"

lemma successors_nearer:
  assumes "Pending T' \<in> successors (Pending T)" "T \<noteq> CheckPowerReserve" "T \<notin> period_starts"
  shows "tasks_to_sync_point T' < tasks_to_sync_point T" "T' \<noteq> CheckPowerReserve" "T' \<noteq> StartSyncPeriodMaintain"
  using assms by (cases T; auto)+

lemma lone_plain:
  assumes "lone_at P l T x s" "T \<noteq> CheckPowerReserve" "T \<noteq> StartSyncPeriodMaintain"
  shows "plain_period s"
  using assms by (cases T) (auto simp: lone_at_def)

text \<open>Every task on time leads to the next task on time.\<close>

lemma on_time_step:
  fixes s :: agent_state
  assumes "documented_platform P" "l \<le> 16" "lone_inv P l t s"
    and "timers s = [(T, d)]" "t + unat d \<le> t'" "t' \<le> t + unat d + l" "t' < 2 ^ 62"
  obtains s' T' d' where "respond (at_time t' P) TimerExpires s = Some s'" "lone_inv P l t' s'"
    "timers s' = [(T', d')]" "Pending T' \<in> successors (Pending T)"
    "T \<noteq> CheckPowerReserve \<longrightarrow> plain_period s' \<and>
      startTimeOfSyncPeriod s' = (if T \<in> period_starts then endTimeOfSyncPeriod s else startTimeOfSyncPeriod s)"
    "T \<in> period_starts \<longrightarrow>
      unat (endTimeOfSyncPeriod s) \<le> t' \<and> t' \<le> unat (endTimeOfSyncPeriod s) + 4 * l"
proof -
  let ?r = "s\<lparr>timers := []\<rparr>"
  have P: "documented_difference P" "documented_subtraction P" "documented_radio P" "\<not> p_softdevicePresent P"
    using assms(1) by (simp_all add: documented_platform_def)
  have s: "task_ok P T s" "lone_at P l T (t + unat d) s"
    using assms(3,4) by (auto simp: lone_inv_def)
  then have r: "timers ?r = []" "task_ok P T ?r" "lone_at P l T (t + unat d) ?r"
    by (simp_all del: task_ok.simps)
  have "\<exists>s'. run_task (at_time t' P) T ?r = Some s' \<and> next_due P l t' s' \<and>
      (T \<in> period_starts \<longrightarrow> startTimeOfSyncPeriod s' = endTimeOfSyncPeriod ?r \<and> plain_period s')"
    using run_task_due [OF P assms(5-6,2,7) r] period_start_due(1) [OF P assms(5-6,2,7) r] by blast
  then obtain s' where s': "run_task (at_time t' P) T ?r = Some s'" "next_due P l t' s'"
    "T \<in> period_starts \<Longrightarrow> startTimeOfSyncPeriod s' = endTimeOfSyncPeriod s \<and> plain_period s'"
    by auto
  have "agent_at (successors (Pending T)) P s'"
  proof (cases "T = CheckPowerReserve")
    case True
    then show ?thesis
      using checkPowerReserve_ok [of "at_time t' P" ?r s' "successors (Pending T)"] s'(1) r(1,2)
      by (simp add: boot_ok_def inv_parts)
  next
    case False
    then have "far_from_wrap (endTimeOfSyncPeriod ?r)"
      using due_far_from_wrap [OF r(3,2)] assms(5,7) by simp
    then show ?thesis
      using run_task_ok [OF s'(1)] r by simp
  qed
  then obtain T' d' where n: "timers s' = [(T', d')]" "Pending T' \<in> successors (Pending T)" "task_ok P T' s'"
    "lone_at P l T' (t' + unat d') s'"
    using s'(2) by (auto simp: agent_at_def next_due_def)
  have "plain_period s' \<and> startTimeOfSyncPeriod s' = startTimeOfSyncPeriod s"
    if "T \<noteq> CheckPowerReserve" "T \<notin> period_starts"
  proof -
    have "startTimeOfSyncPeriod s' = startTimeOfSyncPeriod ?r"
      by (rule run_task_start [OF s'(1) _ that]) (use r(2) in \<open>simp del: task_ok.simps\<close>)
    then show ?thesis
      using lone_plain [OF n(4)] successors_nearer [OF n(2) that] by simp
  qed
  with s'(3) have period: "T \<noteq> CheckPowerReserve \<longrightarrow> plain_period s' \<and>
      startTimeOfSyncPeriod s' = (if T \<in> period_starts then endTimeOfSyncPeriod s else startTimeOfSyncPeriod s)"
    by (cases "T \<in> period_starts") simp_all
  have late: "T \<in> period_starts \<longrightarrow>
      unat (endTimeOfSyncPeriod s) \<le> t' \<and> t' \<le> unat (endTimeOfSyncPeriod s) + 4 * l"
    using period_start_due(2,3) [OF P assms(5-6,2,7) r] by simp
  have "respond (at_time t' P) TimerExpires s = Some s'" "lone_inv P l t' s'"
    using s'(1) assms(4) n by (simp_all add: lone_inv_def del: task_ok.simps)
  from this n(1,2) period late show thesis
    by (rule that)
qed

lemma timed_reachable_lone:
  assumes "timed_reachable P l t s" "documented_platform P" "l \<le> 16"
  shows "lone_inv P l t s"
  using assms
proof (induction rule: timed_reachable.induct)
  case (power_on t)
  show ?case
    by (rule started_lone)
next
  case (task t s T d t')
  obtain s' where "respond (at_time t' P) TimerExpires s = Some s'" "lone_inv P l t' s'"
    by (rule on_time_step [OF task.prems task.IH [OF task.prems] task.hyps(2-5)])
  then show ?case
    by simp
qed

end
