(* ===== verification/DeepSessions.thy ===== *)
theory DeepSessions
  imports Timing
begin

text \<open>
  A deep fishing session that starts in the last slot of the sync period, in real time: its times, the
  tasks that lead to it, and that its end comes too late for the prelude of the next sync slot.
\<close>

section \<open>Times\<close>

lemma late_restart_fails:
  fixes s :: "'a agent_state_scheme"
  assumes "documented_difference P" "documented_subtraction P" "t < 2 ^ 62" "unat (endTimeOfSyncPeriod s) < t + 50"
  shows "SyncSchedule_radioPreludeTaskWSync (at_time t P) s = None"
proof -
  have "unat (wait_until P t (endTimeOfSyncPeriod s)) = unat (endTimeOfSyncPeriod s) - t"
    using assms by (intro wait_until_unat) simp_all
  then have "\<not> 50 \<le> wait_until P t (endTimeOfSyncPeriod s)"
    using assms(4) by (simp add: word_le_nat_alt)
  then show ?thesis
    using deltaSubtraction_eq [OF assms(2)]
    by (simp add: SyncSchedule_radioPreludeTaskWSync_def SleepDuration_nowTilPreludeWSync_def
        SleepDuration_nowTilSyncPoint_def Schedule_deltaNowToNextSyncPoint_def fromNow_at_time
        Schedule_timeOfNextSyncPoint_def SleepDuration_preludeTilNextTask_def params)
qed

text \<open>The times of a deep fishing session that starts in the last slot of the period.\<close>

lemma deep_times:
  fixes s :: "'a agent_state_scheme"
  assumes "fishingMode s = DeepFishing" "plain_period s" "unat (startTimeOfSyncPeriod s) < 2 ^ 62"
    and "79950 < unat (deltaSyncPointToSyncPointOfFishee s)" "unat (deltaSyncPointToSyncPointOfFishee s) \<le> 80000"
  shows "unat (memoStartTimeOfFishSlot (FishSchedule_setStartAndEndTimes s)) =
      unat (startTimeOfSyncPeriod s) + unat (deltaSyncPointToSyncPointOfFishee s)"
    "memoEndTimeOfFishSlot (FishSchedule_setStartAndEndTimes s) = endTimeOfSyncPeriod s"
    "countFishings (FishSchedule_setStartAndEndTimes s) = countFishings s + 1"
    "FishSchedule_setStartAndEndTimes s = s\<lparr>countFishings := countFishings s + 1,
      memoStartTimeOfFishSlot := memoStartTimeOfFishSlot (FishSchedule_setStartAndEndTimes s),
      memoEndTimeOfFishSlot := memoEndTimeOfFishSlot (FishSchedule_setStartAndEndTimes s)\<rparr>"
proof -
  let ?start = "startTimeOfSyncPeriod s + ucast (deltaSyncPointToSyncPointOfFishee s)"
  have start: "unat ?start = unat (startTimeOfSyncPeriod s) + unat (deltaSyncPointToSyncPointOfFishee s)"
    using assms(3,5) by (subst unat_add_u64) (simp_all add: unsigned_ucast_eq take_bit_nat_eq_self)
  have get: "FishingManager_getStartTimeToFish s = (?start, s\<lparr>countFishings := countFishings s + 1\<rparr>)"
    using assms(1) by (simp add: FishingManager_getStartTimeToFish_def DeepFishingPolicy_getStartTimeToFish_def)
  have le: "?start \<le> endTimeOfSyncPeriod s"
    using start assms(2,5) by (simp add: word_le_nat_alt plain_period_def)
  have d: "FishingManager_getFishSessionDurationTicks s = 50"
    using assms(1) by (simp add: FishingManager_getFishSessionDurationTicks_def
        DeepFishingPolicy_getFishSessionDurationTicks_def params)
  show "unat (memoStartTimeOfFishSlot (FishSchedule_setStartAndEndTimes s)) =
      unat (startTimeOfSyncPeriod s) + unat (deltaSyncPointToSyncPointOfFishee s)"
    using le start by (simp add: setStartAndEndTimes_memo get min_def)
  have "unat (?start + 50) = unat ?start + 50"
    using start assms(3,5) by (subst unat_add_u64) simp_all
  then have "endTimeOfSyncPeriod s \<le> ?start + 50"
    using start assms(2,4) by (simp add: word_le_nat_alt plain_period_def)
  then show "memoEndTimeOfFishSlot (FishSchedule_setStartAndEndTimes s) = endTimeOfSyncPeriod s"
    using le by (simp add: setStartAndEndTimes_memo get d min_def)
  show shape: "FishSchedule_setStartAndEndTimes s = s\<lparr>countFishings := countFishings s + 1,
      memoStartTimeOfFishSlot := memoStartTimeOfFishSlot (FishSchedule_setStartAndEndTimes s),
      memoEndTimeOfFishSlot := memoEndTimeOfFishSlot (FishSchedule_setStartAndEndTimes s)\<rparr>"
    by (simp add: FishSchedule_setStartAndEndTimes_def FishSchedule_memoTimeOfFishSessionEnd_def
        FishSchedule_memoTimeOfFishSessionStart_def get Let_def)
  show "countFishings (FishSchedule_setStartAndEndTimes s) = countFishings s + 1"
    by (subst shape) simp
qed

section \<open>The end of the session\<close>

lemma deep_end_fails:
  fixes s :: "'a agent_state_scheme"
  assumes "documented_difference P" "documented_subtraction P" "t < 2 ^ 62" "unat (endTimeOfSyncPeriod s) < t + 50"
    and "fishingMode s = DeepFishing" "countFishings s \<le> 6" "preludeIsStarted s"
    and "79950 < unat (deltaSyncPointToSyncPointOfFishee s)" "unat (deltaSyncPointToSyncPointOfFishee s) \<le> 80000"
  shows "SSTask_fishSlotEnd (at_time t P) s = None"
proof -
  define r where "r = FishSlot_endListen s"
  have r: "fishingMode r = DeepFishing" "countFishings r = countFishings s" "preludeIsStarted r"
    "endTimeOfSyncPeriod r = endTimeOfSyncPeriod s"
    "deltaSyncPointToSyncPointOfFishee r = deltaSyncPointToSyncPointOfFishee s"
    using assms(5,7) by (simp_all add: r_def FishSlot_endListen_def Receiver_stop_def) (simp_all add: emit_def)
  have "unat (DeepFishingPolicy_deltaSyncPointToEndDeepFishing r) = unat (deltaSyncPointToSyncPointOfFishee s) + 50"
    unfolding DeepFishingPolicy_deltaSyncPointToEndDeepFishing_def DeepFishingPolicy_getFishSessionDurationTicks_def
    using assms(9) r(5) by (subst unat_add_u32) (simp_all add: params)
  then have "\<not> FishingManager_isFishSlotEndSyncPeriod r"
    using assms(8) r(1) by (simp add: FishingManager_isFishSlotEndSyncPeriod_def
        DeepFishingPolicy_isFishSlotEndSyncPeriod_def word_less_nat_alt params)
  moreover have "\<not> countFishings r > CountFishingsPerDeepFishing"
    using assms(6) r(2) by (simp add: params)
  moreover have "SyncSchedule_radioPreludeTaskWSync (at_time t P) (RadioPrelude_undo r) = None"
    using assms(1-4) r(4) by (intro late_restart_fails) simp_all
  ultimately show ?thesis
    using r(1,3) by (simp add: SSTask_fishSlotEnd_def r_def [symmetric] FishingManager_checkFishingDone_def
        DeepFishingPolicy_checkDone_def SyncSchedule_syncSlotAfterFishSlot_def RadioPrelude_tryUndoAfterFishing_def
        RadioPrelude_shouldUndoAfterFishing_def RadioPrelude_isDone_def)
qed

section \<open>From the choice of the session to its start\<close>

text \<open>What stays the same from the choice of the session to its end.\<close>

definition deep_session :: "agent_state \<Rightarrow> agent_state \<Rightarrow> bool" where
  "deep_session s u \<longleftrightarrow>
     fishingMode u = DeepFishing \<and> countFishings u = countFishings s + 1 \<and>
     endTimeOfSyncPeriod u = endTimeOfSyncPeriod s \<and> memoEndTimeOfFishSlot u = endTimeOfSyncPeriod s \<and>
     deltaSyncPointToSyncPointOfFishee u = deltaSyncPointToSyncPointOfFishee s"

lemma deep_session_scheduled:
  fixes s :: agent_state
  assumes "documented_difference P" "documented_subtraction P" "mergerRole s = Fisher" "p_isPowerAbove P (io s) Medium"
    and "fishingMode s = DeepFishing" "timers s = []" "\<not> preludeIsStarted s" "plain_period s"
    and "79950 < unat (deltaSyncPointToSyncPointOfFishee s)" "unat (deltaSyncPointToSyncPointOfFishee s) \<le> 80000"
    and "unat (startTimeOfSyncPeriod s) \<le> t" "t \<le> unat (startTimeOfSyncPeriod s) + 79900" "t < 2 ^ 61"
  obtains r d where "SSTask_tryFishOrMerge (at_time t P) s = Some r" "timers r = [(TheRadioPreludeTaskWFish, d)]"
    "t + unat d + 50 = unat (startTimeOfSyncPeriod s) + unat (deltaSyncPointToSyncPointOfFishee s)"
    "deep_session s r"
proof -
  let ?session = "unat (startTimeOfSyncPeriod s) + unat (deltaSyncPointToSyncPointOfFishee s)"
  define v where "v = emit (MeasurePower Medium) s"
  define w where "w = FishSchedule_setStartAndEndTimes v"
  have v: "fishingMode v = DeepFishing" "plain_period v" "unat (startTimeOfSyncPeriod v) < 2 ^ 62"
    "79950 < unat (deltaSyncPointToSyncPointOfFishee v)" "unat (deltaSyncPointToSyncPointOfFishee v) \<le> 80000"
    using assms(5,8-13) by (simp_all add: v_def) (simp_all add: emit_def)
  note times = deep_times [OF v]
  have w: "unat (memoStartTimeOfFishSlot w) = ?session" "timers w = []" "\<not> preludeIsStarted w" "deep_session s w"
    using times(1,2) assms(5-7) unfolding w_def deep_session_def
    by (simp_all add: v_def) (simp_all add: emit_def, (subst times(4) [unfolded v_def emit_def], simp)+)
  define d where "d = wait_until P t (memoStartTimeOfFishSlot w)"
  have d: "unat d = ?session - t"
    unfolding d_def using assms(1,10-13) w(1) by (subst wait_until_unat) simp_all
  then have le: "50 \<le> d"
    using assms(9,12) by (simp add: word_le_nat_alt)
  define r where "r = TaskTimer_schedule TheRadioPreludeTaskWFish (d - 50) (emit GetNowTime w)"
  have "SSTask_tryFishOrMerge (at_time t P) s = Some r"
    using assms(2-4) w(3) le by (simp add: SSTask_tryFishOrMerge_def power_defs v_def [symmetric] w_def [symmetric]
        SyncSchedule_fishing_def RadioPrelude_isDone_def SyncSchedule_radioPreludeTaskWFish_def
        SleepDuration_nowTilPreludeWFish_def SleepDuration_nowTilFishStart_def FishSchedule_deltaToFishSessionStart_def
        fromNow_at_time d_def [symmetric] SleepDuration_preludeTilNextTask_def params documented_subtraction_def r_def)
  moreover have "timers r = [(TheRadioPreludeTaskWFish, d - 50)]" "deep_session s r"
    using w(2,4) by (simp_all add: r_def deep_session_def TaskTimer_schedule_def emit_def)
  moreover have "unat (d - 50) = ?session - t - 50"
    using le by (simp add: unat_sub_le d)
  then have "t + unat (d - 50) + 50 = ?session"
    using assms(9,12) by simp
  ultimately show thesis
    by (intro that [of r "d - 50"])
qed

text \<open>The prelude and the start of the session do not read the clock.\<close>

lemma deep_session_started:
  assumes "timers r = [(TheRadioPreludeTaskWFish, d)]" "deep_session s r"
  obtains q u where "\<And>t'. respond (at_time t' P) TimerExpires r = Some q" "timers q = [(FishSlotStart, 50)]"
    "\<And>t'. respond (at_time t' P) TimerExpires q = Some u" "timers u = [(FishSlotEnd, 50)]"
    "preludeIsStarted u" "deep_session s u"
proof -
  define q where "q = SSTask_radioPrelude (SyncSchedule_startFishSlotFromPreludeStart (r\<lparr>timers := []\<rparr>))"
  define u where "u = FishSlot_beginListen (SyncSchedule_fishSlotEnd (q\<lparr>timers := []\<rparr>))"
  have q: "timers q = [(FishSlotStart, 50)]" "preludeIsStarted q" "deep_session s q"
    using assms(2) by (simp_all add: q_def deep_session_def SSTask_radioPrelude_def
        SyncSchedule_startFishSlotFromPreludeStart_def RadioPrelude_doIt_def TaskTimer_schedule_def emit_def
        SleepDuration_preludeTilNextTask_def params)
  have u: "timers u = [(FishSlotEnd, 50)]" "preludeIsStarted u" "deep_session s u"
    using q by (simp_all add: u_def deep_session_def FishSlot_beginListen_def Receiver_startWithHandler_def
        SyncSchedule_fishSlotEnd_def TaskTimer_schedule_def emit_def FishingManager_getFishSessionDurationTicks_def
        DeepFishingPolicy_getFishSessionDurationTicks_def params)
  have "respond (at_time t' P) TimerExpires r = Some q" "respond (at_time t' P) TimerExpires q = Some u" for t'
    using assms(1) q(1,2) by (simp_all add: theRadioPreludeTaskWFish_def q_def [symmetric] SSTask_fishSlotStart_def
        RadioPrelude_isDone_def u_def)
  from this(1) q(1) this(2) u show thesis
    by (rule that)
qed

end
