(* ===== verification/TimingProperties.thy ===== *)
theory TimingProperties
  imports DeepSessions SystemProperties
begin

text \<open>
  Properties of a unit alone in real time, over every run from power on, and of a deep fishing session
  that starts late in the period: claims C8, C21 and C33.
\<close>

section \<open>A platform without the softdevice\<close>

text \<open>The radio of this platform is what the history of its calls makes it.\<close>

definition quiet_platform :: platform where
  "quiet_platform = (sample_platform 9 0 0 True True True False)\<lparr>
     p_softdevicePresent := False, p_isRadioInUse := listening, p_isRadioConfigured := configured\<rparr>"

lemma quiet_platform_documented: "documented_platform quiet_platform"
  by (simp add: documented_platform_def quiet_platform_def documented_radio_def documented_difference_def
      documented_subtraction_def sample_platform_def exact_difference_unat)

text \<open>The unit checks its power 160000 ticks after power on; here the timer is 3 ticks late.\<close>

lemma quiet_start: "timers started = [(CheckPowerReserve, 160000)]"
  by (simp add: started_def SyncSchedule_checkPowerReserve_def TaskTimer_schedule_def powered_on_def
      SleepDuration_powerCheckInterval_def params)

definition quiet_init :: agent_state where
  "quiet_init = the (respond (at_time 160003 quiet_platform) TimerExpires started)"

lemma quiet_init:
  "respond (at_time 160003 quiet_platform) TimerExpires started = Some quiet_init"
  "timers quiet_init = [(StartSyncPeriodMaintain, 0)]" "endTimeOfSyncPeriod quiet_init = 160003"
proof -
  have "\<exists>s. respond (at_time 160003 quiet_platform) TimerExpires started = Some s \<and>
      timers s = [(StartSyncPeriodMaintain, 0)] \<and> endTimeOfSyncPeriod s = 160003"
    by (simp add: start_defs quiet_platform_def at_time_def)
  then show "respond (at_time 160003 quiet_platform) TimerExpires started = Some quiet_init"
    "timers quiet_init = [(StartSyncPeriodMaintain, 0)]" "endTimeOfSyncPeriod quiet_init = 160003"
    by (auto simp: quiet_init_def)
qed

lemma quiet_init_reachable: "timed_reachable quiet_platform 16 160003 quiet_init"
  using timed_reachable.task [OF timed_reachable.power_on quiet_start, of 0 160003 16 quiet_platform] quiet_init(1)
  by simp

section \<open>A unit alone never resets\<close>

text \<open>
  C33. A unit without the softdevice that hears no packet, and whose tasks start at most 16 ticks after
  they are due, never resets, whatever the coin and its measurements of power answer: every task of
  every run from power on succeeds and leaves exactly one task pending.  And it goes on: that task is
  nearer to the next sync point, unless the task starts a period itself or checks the power reserve.
\<close>

theorem lone_unit_never_resets:
  assumes "timed_reachable P l t s" "documented_platform P" "l \<le> 16"
    and "timers s = [(T, d)]" "t + unat d \<le> t'" "t' \<le> t + unat d + l" "t' < 2 ^ 62"
  shows "\<exists>s' T' d'. respond (at_time t' P) TimerExpires s = Some s' \<and> timers s' = [(T', d')] \<and>
    (T \<in> period_starts \<or> T = CheckPowerReserve \<or> tasks_to_sync_point T' < tasks_to_sync_point T)"
proof -
  obtain s' T' d' where s': "respond (at_time t' P) TimerExpires s = Some s'" "timers s' = [(T', d')]"
    "Pending T' \<in> successors (Pending T)"
    by (rule on_time_step [OF assms(2,3) timed_reachable_lone [OF assms(1-3)] assms(4-7)])
  then show ?thesis
    using successors_nearer(1) [OF s'(3)] by blast
qed

lemma lone_unit_never_resets_witness:
  "\<exists>s' T' d'. respond (at_time 160010 quiet_platform) TimerExpires quiet_init = Some s' \<and> timers s' = [(T', d')]"
  using lone_unit_never_resets [OF quiet_init_reachable quiet_platform_documented _ quiet_init(2), of 160010] by auto

section \<open>A unit alone keeps its time\<close>

text \<open>
  C8. Such a unit keeps its time.  Once it has started, the task at the sync point starts the new
  period where the old one ended, no other task moves the start of the period, and every period is
  80000 ticks long after every task: the sync points are equidistant, with no drift.  The task at the
  sync point starts at or after it, and at most four times the lateness of a task behind it.
\<close>

theorem lone_unit_keeps_time:
  assumes "timed_reachable P l t s" "documented_platform P" "l \<le> 16"
    and "timers s = [(T, d)]" "t + unat d \<le> t'" "t' \<le> t + unat d + l" "t' < 2 ^ 62" "T \<noteq> CheckPowerReserve"
  shows "\<exists>s'. respond (at_time t' P) TimerExpires s = Some s' \<and>
    unat (endTimeOfSyncPeriod s') = unat (startTimeOfSyncPeriod s') + 80000 \<and>
    (if T \<in> period_starts
     then startTimeOfSyncPeriod s' = endTimeOfSyncPeriod s \<and>
       unat (endTimeOfSyncPeriod s) \<le> t' \<and> t' \<le> unat (endTimeOfSyncPeriod s) + 4 * l
     else startTimeOfSyncPeriod s' = startTimeOfSyncPeriod s)"
proof -
  obtain s' where s': "respond (at_time t' P) TimerExpires s = Some s'"
    "T \<noteq> CheckPowerReserve \<longrightarrow> plain_period s' \<and>
      startTimeOfSyncPeriod s' = (if T \<in> period_starts then endTimeOfSyncPeriod s else startTimeOfSyncPeriod s)"
    "T \<in> period_starts \<longrightarrow>
      unat (endTimeOfSyncPeriod s) \<le> t' \<and> t' \<le> unat (endTimeOfSyncPeriod s) + 4 * l"
    by (rule on_time_step [OF assms(2,3) timed_reachable_lone [OF assms(1-3)] assms(4-7)])
  then show ?thesis
    using assms(8) by (auto simp: plain_period_def)
qed

lemma lone_unit_keeps_time_witness:
  "\<exists>s'. respond (at_time 160010 quiet_platform) TimerExpires quiet_init = Some s' \<and>
     startTimeOfSyncPeriod s' = 160003 \<and> endTimeOfSyncPeriod s' = 240003"
  using lone_unit_keeps_time [OF quiet_init_reachable quiet_platform_documented _ quiet_init(2), of 160010]
  by (auto simp: quiet_init(3) word_unat_eq_iff)

section \<open>A deep fishing session at the end of the period\<close>

text \<open>
  C21. A unit that fishes deep, has power to fish and is to start its session in the last slot of the
  period, counted by the sync point of the clique it fishes for, fishes past its own sync point and
  resets, if it catches nothing and deep fishing does not end with this session.  From the choice of
  the session on: the prelude is scheduled, then the start of the session, then, however late these
  run, an end a full slot after the start.  The end that was memoized is the sync point, but the
  task runs after it, and finds no time to start the radio's clock again.
\<close>

theorem late_deep_session_resets:
  fixes s :: agent_state
  assumes "documented_difference P" "documented_subtraction P" "mergerRole s = Fisher" "p_isPowerAbove P (io s) Medium"
    and "fishingMode s = DeepFishing" "timers s = []" "\<not> preludeIsStarted s" "plain_period s"
    and "79950 < unat (deltaSyncPointToSyncPointOfFishee s)" "unat (deltaSyncPointToSyncPointOfFishee s) \<le> 80000"
    and "unat (startTimeOfSyncPeriod s) \<le> t" "t \<le> unat (startTimeOfSyncPeriod s) + 79900" "t < 2 ^ 61"
    and "countFishings s < 6"
  shows "\<exists>r q u d1 d2 d3.
    SSTask_tryFishOrMerge (at_time t P) s = Some r \<and> timers r = [(TheRadioPreludeTaskWFish, d1)] \<and>
    (\<forall>t'. respond (at_time t' P) TimerExpires r = Some q) \<and> timers q = [(FishSlotStart, d2)] \<and>
    (\<forall>t'. respond (at_time t' P) TimerExpires q = Some u) \<and> timers u = [(FishSlotEnd, d3)] \<and>
    memoEndTimeOfFishSlot u = endTimeOfSyncPeriod u \<and>
    unat (endTimeOfSyncPeriod u) < t + unat d1 + unat d2 + unat d3 \<and>
    (\<forall>t'. t + unat d1 + unat d2 + unat d3 \<le> t' \<and> t' < 2 ^ 62 \<longrightarrow>
      respond (at_time t' P) TimerExpires u = None)"
proof -
  obtain r d1 where r: "SSTask_tryFishOrMerge (at_time t P) s = Some r" "timers r = [(TheRadioPreludeTaskWFish, d1)]"
    "t + unat d1 + 50 = unat (startTimeOfSyncPeriod s) + unat (deltaSyncPointToSyncPointOfFishee s)"
    "deep_session s r"
    using deep_session_scheduled [OF assms(1-13)] .
  obtain q u where q: "\<And>t'. respond (at_time t' P) TimerExpires r = Some q" "timers q = [(FishSlotStart, 50)]"
    and u: "\<And>t'. respond (at_time t' P) TimerExpires q = Some u" "timers u = [(FishSlotEnd, 50)]"
      "preludeIsStarted u" "deep_session s u"
    using deep_session_started [OF r(2,4), of P] by blast
  have late: "unat (endTimeOfSyncPeriod u) < t + unat d1 + 50 + 50"
    using assms(8,9) r(3) u(4) by (simp add: deep_session_def plain_period_def)
  have "countFishings s + 1 \<le> 6"
    using assms(14) inc_le by blast
  then have resets: "respond (at_time t' P) TimerExpires u = None" if "t + unat d1 + 50 + 50 \<le> t'" "t' < 2 ^ 62" for t'
    using deep_end_fails [of P t' "u\<lparr>timers := []\<rparr>"] assms(1,2,9,10) that late u(2-4)
    by (simp add: deep_session_def)
  show ?thesis
    by (intro exI conjI allI impI, rule r(1), rule r(2), rule q(1), rule q(2), rule u(1), rule u(2))
      (use u(4) late resets in \<open>simp_all add: deep_session_def del: respond.simps\<close>)
qed

lemma late_deep_session_resets_witness:
  "\<exists>r q u d1 d2 d3.
     SSTask_tryFishOrMerge (at_time 50 quiet_platform) ((sample_unit 9 9)\<lparr>fishingMode := DeepFishing,
       mergerRole := Fisher, deltaSyncPointToSyncPointOfFishee := 79990\<rparr>) = Some r \<and>
     timers r = [(TheRadioPreludeTaskWFish, d1)] \<and>
     respond (at_time 79945 quiet_platform) TimerExpires r = Some q \<and> timers q = [(FishSlotStart, d2)] \<and>
     respond (at_time 79999 quiet_platform) TimerExpires q = Some u \<and> timers u = [(FishSlotEnd, d3)] \<and>
     unat (endTimeOfSyncPeriod u) < 50 + unat d1 + unat d2 + unat d3"
  using late_deep_session_resets [of quiet_platform "(sample_unit 9 9)\<lparr>fishingMode := DeepFishing,
      mergerRole := Fisher, deltaSyncPointToSyncPointOfFishee := 79990\<rparr>" 50]
    quiet_platform_documented
  by (auto simp: documented_platform_def quiet_platform_def sample_platform_def sample_defs plain_period_def)

end
