(* ===== verification/Sleepers.thy ===== *)
theory Sleepers
  imports PowerOn
begin

text \<open>
  The sleepers of the earlier design, in which one thread sleeps through the slots
  (\<open>src/sleepers/cruft\<close>), with what they log to flash (\<open>src/logging/flashIndex.h\<close>,
  \<open>flashLogger.cpp\<close>) and the marker of the phase (\<open>src/syncAgentImp/state/phase.h\<close>).
  A loop that sleeps until its timer expires is a \<open>do_while\<close>: the platform decides why each
  sleep ends, so that the loop returns is a theorem about the platforms whose timer expires.
\<close>

section \<open>Flash and phase\<close>

datatype app_flags_index =
    PhaseBOIndex
  | PhasesDoneIndex
  | UnexpectedWake
  | UnexpectedMsg
  | UnexpectedWakeWhileListen
  | ExcessPowerEventFlagIndex
  | NoPowerToFishIndex
  | NoPowerToStartSyncSlot
  | NoPowerToHalfSyncSlot
  | PauseSync
  | OverSlept
  | IntendedSleepDuration
  | OversleptDuration

fun app_flags_index_value :: "app_flags_index \<Rightarrow> u32" where
  "app_flags_index_value PhaseBOIndex = 3"
| "app_flags_index_value PhasesDoneIndex = 4"
| "app_flags_index_value UnexpectedWake = 5"
| "app_flags_index_value UnexpectedMsg = 6"
| "app_flags_index_value UnexpectedWakeWhileListen = 7"
| "app_flags_index_value ExcessPowerEventFlagIndex = 8"
| "app_flags_index_value NoPowerToFishIndex = 9"
| "app_flags_index_value NoPowerToStartSyncSlot = 10"
| "app_flags_index_value NoPowerToHalfSyncSlot = 11"
| "app_flags_index_value PauseSync = 12"
| "app_flags_index_value OverSlept = 13"
| "app_flags_index_value IntendedSleepDuration = 14"
| "app_flags_index_value OversleptDuration = 15"

datatype phase_enum =
    SleepAfterBoot
  | FirstSyncPower
  | Preamble
  | SyncPointCallback
  | SleepEntireSyncPeriod
  | AbandonMastershipPhase
  | SyncChooseKind
  | SyncSkipSlot
  | SyncListenFirstHalf
  | SyncXmit
  | SyncXmitWorkSync
  | SyncListenSecondHalf
  | SyncSlaveListen
  | SleepTilFish
  | Fish
  | NoPowerToFish
  | SleepTilMerge
  | Merge
  | SleepRemainder
  | StartSlotSequence

fun phase_enum_value :: "phase_enum \<Rightarrow> u32" where
  "phase_enum_value SleepAfterBoot = 0"
| "phase_enum_value FirstSyncPower = 1"
| "phase_enum_value Preamble = 2"
| "phase_enum_value SyncPointCallback = 3"
| "phase_enum_value SleepEntireSyncPeriod = 4"
| "phase_enum_value AbandonMastershipPhase = 5"
| "phase_enum_value SyncChooseKind = 6"
| "phase_enum_value SyncSkipSlot = 7"
| "phase_enum_value SyncListenFirstHalf = 8"
| "phase_enum_value SyncXmit = 9"
| "phase_enum_value SyncXmitWorkSync = 10"
| "phase_enum_value SyncListenSecondHalf = 11"
| "phase_enum_value SyncSlaveListen = 12"
| "phase_enum_value SleepTilFish = 13"
| "phase_enum_value Fish = 14"
| "phase_enum_value NoPowerToFish = 15"
| "phase_enum_value SleepTilMerge = 16"
| "phase_enum_value Merge = 17"
| "phase_enum_value SleepRemainder = 18"
| "phase_enum_value StartSlotSequence = 19"

text \<open>The state of the sleepers, beside that of the agent.\<close>

record sleeper_state = agent_state +
  currentPhase :: phase_enum
  sleepStartTime :: long_time
  intendedSleepDuration :: delta_time
  countSleeps :: u32
  priorReasonForWake :: reason_for_wake

definition Phase_set :: "phase_enum \<Rightarrow> 'a sleeper_state_scheme \<Rightarrow> 'a sleeper_state_scheme" where
  "Phase_set p s =
     emit (FlashWriteBit (app_flags_index_value PhasesDoneIndex) (phase_enum_value p)) (s\<lparr>currentPhase := p\<rparr>)"

definition Phase_get :: "'a sleeper_state_scheme \<Rightarrow> phase_enum" where
  "Phase_get s = currentPhase s"

definition SyncAgentImp_getPhase :: "'a sleeper_state_scheme \<Rightarrow> u32" where
  "SyncAgentImp_getPhase s = phase_enum_value (Phase_get s)"

definition FlashLogger_logNoPowerToFish :: "'a platform_state_scheme \<Rightarrow> 'a platform_state_scheme" where
  "FlashLogger_logNoPowerToFish s = emit (FlashWriteZero (app_flags_index_value NoPowerToFishIndex)) s"

definition FlashLogger_logNoPowerToStartSyncSlot :: "'a platform_state_scheme \<Rightarrow> 'a platform_state_scheme" where
  "FlashLogger_logNoPowerToStartSyncSlot s =
     emit (FlashWriteZero (app_flags_index_value NoPowerToStartSyncSlot)) s"

definition FlashLogger_logNoPowerForHalfSyncSlot :: "'a platform_state_scheme \<Rightarrow> 'a platform_state_scheme" where
  "FlashLogger_logNoPowerForHalfSyncSlot s =
     emit (FlashWriteZero (app_flags_index_value NoPowerToHalfSyncSlot)) s"

definition FlashLogger_logOverslept :: "'a platform_state_scheme \<Rightarrow> 'a platform_state_scheme" where
  "FlashLogger_logOverslept s = emit (FlashWriteZero (app_flags_index_value OverSlept)) s"

definition FlashLogger_logUnexpectedWakeReason :: "'a platform_state_scheme \<Rightarrow> 'a platform_state_scheme" where
  "FlashLogger_logUnexpectedWakeReason s = emit (FlashWriteZero (app_flags_index_value UnexpectedWake)) s"

definition FlashLogger_logUnexpectedMsg :: "'a platform_state_scheme \<Rightarrow> 'a platform_state_scheme" where
  "FlashLogger_logUnexpectedMsg s = emit (FlashWriteZero (app_flags_index_value UnexpectedMsg)) s"

definition FlashLogger_logWakeWithoutIRQSettingReason ::
  "'a platform_state_scheme \<Rightarrow> 'a platform_state_scheme" where
  "FlashLogger_logWakeWithoutIRQSettingReason s =
     emit (FlashWriteZero (app_flags_index_value UnexpectedWakeWhileListen)) s"

section \<open>Oversleep monitor\<close>

text \<open>A \<open>TimeoutFunc\<close> computes the remaining time to sleep, from the schedule and the clock.\<close>

definition OverSleepMonitor_timeElapsedSinceLastStartSleep ::
  "platform \<Rightarrow> 'a sleeper_state_scheme \<Rightarrow> u32 \<times> 'a sleeper_state_scheme" where
  "OverSleepMonitor_timeElapsedSinceLastStartSleep P s =
     (let (t, s) = ClockDuration_elapsed P (sleepStartTime s) s in (ucast t, s))"

definition OverSleepMonitor_markStartSleep ::
  "platform \<Rightarrow> ('a sleeper_state_scheme \<Rightarrow> (delta_time \<times> 'a sleeper_state_scheme) option) \<Rightarrow>
     'a sleeper_state_scheme \<Rightarrow> 'a sleeper_state_scheme option" where
  "OverSleepMonitor_markStartSleep P timeoutFunc s = do {
     let (now, s) = LongClock_nowTime P s;
     let s = s\<lparr>sleepStartTime := now\<rparr>;
     (timeout, s) \<leftarrow> timeoutFunc s;
     let s = s\<lparr>intendedSleepDuration := timeout\<rparr>;
     require (intendedSleepDuration s < MaxSaneTimeout);
     Some s
   }"

definition OverSleepMonitor_checkOverslept ::
  "platform \<Rightarrow> 'a sleeper_state_scheme \<Rightarrow> bool \<times> 'a sleeper_state_scheme" where
  "OverSleepMonitor_checkOverslept P s =
     (let (actual, s) = OverSleepMonitor_timeElapsedSinceLastStartSleep P s
      in if actual > intendedSleepDuration s + OversleepMargin then
           (let s = emit (FlashWriteInt (app_flags_index_value PhaseBOIndex) (SyncAgentImp_getPhase s)) s;
                s = emit (FlashWriteInt (app_flags_index_value IntendedSleepDuration) (intendedSleepDuration s)) s;
                s = emit (FlashWriteInt (app_flags_index_value OversleptDuration) actual) s
            in (True, FlashLogger_logOverslept s))
         else (False, s))"

text \<open>Two 16-bit halves of a 32-bit word, the first the less significant (the processor is little endian).\<close>

definition OverSleepMonitor_getPhaseAndReason :: "'a sleeper_state_scheme \<Rightarrow> u32" where
  "OverSleepMonitor_getPhaseAndReason s =
     (let half = (ucast (SyncAgentImp_getPhase s) :: 16 word)
      in ucast half + 2 ^ 16 * ucast half)"

section \<open>Sync sleeper\<close>

text \<open>
  The assertions on power of radioSoC are queries: with the radio's clock and power supply off
  (\<open>assertUltraLowPower\<close>), or the radio on (\<open>assertRadioPower\<close>).
\<close>

definition sleepWithOnlyTimerPowerUntilTimeout ::
  "platform \<Rightarrow> delta_time \<Rightarrow> 'a sleeper_state_scheme \<Rightarrow> 'a sleeper_state_scheme option" where
  "sleepWithOnlyTimerPowerUntilTimeout P timeout s = do {
     require (p_isUltraLowPower P (io s));
     require (p_noResetsOccurred P (io s));
     Some (Sleeper_sleepUntilEventWithTimeout P timeout s)
   }"

definition sleepWithRadioAndTimerPowerUntilTimeout ::
  "platform \<Rightarrow> delta_time \<Rightarrow> 'a sleeper_state_scheme \<Rightarrow> 'a sleeper_state_scheme option" where
  "sleepWithRadioAndTimerPowerUntilTimeout P timeout s = do {
     require (p_isRadioPower P (io s));
     Some (Sleeper_sleepUntilEventWithTimeout P timeout s)
   }"

definition determineHandlingResult ::
  "platform \<Rightarrow> message_handler \<Rightarrow> 'a sleeper_state_scheme \<Rightarrow>
     (handling_result \<times> 'a sleeper_state_scheme) option" where
  "determineHandlingResult P msgHandler s =
     (case Sleeper_getReasonForWake P s of
        MsgReceived \<Rightarrow> MessageDispatcher_dispatch P msgHandler s
      | SleepTimerExpired \<Rightarrow> Some (TimedOut, emit StopReceive s)
      | CounterOverflowOrOtherTimerExpired \<Rightarrow> Some (KeepListening, s)
      | Cleared \<Rightarrow> Some (KeepListening, s)
      | UnknownReason \<Rightarrow> Some (KeepListening, s)
      | BrownoutWarning \<Rightarrow> Some (KeepListening, s)
      | HFClockStarted \<Rightarrow> Some (KeepListening, s)
      | LFClockStarted \<Rightarrow> Some (KeepListening, s))"

definition calculateTimeout ::
  "platform \<Rightarrow> ('a sleeper_state_scheme \<Rightarrow> (delta_time \<times> 'a sleeper_state_scheme) option) \<Rightarrow>
     'a sleeper_state_scheme \<Rightarrow> (delta_time \<times> 'a sleeper_state_scheme) option" where
  "calculateTimeout P timeoutFunc s = do {
     (t, s) \<leftarrow> timeoutFunc s;
     Some (p_clampedSubtraction P t CodesSleepOverhead, s)
   }"

definition noteSleep :: "platform \<Rightarrow> 'a sleeper_state_scheme \<Rightarrow> 'a sleeper_state_scheme" where
  "noteSleep P s = s\<lparr>countSleeps := countSleeps s + 1, priorReasonForWake := Sleeper_getReasonForWake P s\<rparr>"

text \<open>One iteration of each of the two loops, with the answer whether to go on.\<close>

definition sleepOnce ::
  "platform \<Rightarrow> ('a sleeper_state_scheme \<Rightarrow> (delta_time \<times> 'a sleeper_state_scheme) option) \<Rightarrow>
     'a sleeper_state_scheme \<Rightarrow> (bool \<times> 'a sleeper_state_scheme) option" where
  "sleepOnce P timeoutFunc s = do {
     let s = noteSleep P s;
     (timeout, s) \<leftarrow> calculateTimeout P timeoutFunc s;
     s \<leftarrow> sleepWithOnlyTimerPowerUntilTimeout P timeout s;
     Some (\<not> Sleeper_isWakeForTimerExpired P s, s)
   }"

definition SyncSleeper_sleepUntilTimeout ::
  "platform \<Rightarrow> ('a sleeper_state_scheme \<Rightarrow> (delta_time \<times> 'a sleeper_state_scheme) option) \<Rightarrow>
     'a sleeper_state_scheme \<Rightarrow> 'a sleeper_state_scheme option" where
  "SyncSleeper_sleepUntilTimeout P timeoutFunc s = do {
     s \<leftarrow> OverSleepMonitor_markStartSleep P timeoutFunc s;
     let s = s\<lparr>countSleeps := 0\<rparr>;
     s \<leftarrow> do_while (sleepOnce P timeoutFunc) s;
     let (_, s) = OverSleepMonitor_checkOverslept P s;
     Some s
   }"

definition listenOnce ::
  "platform \<Rightarrow> message_handler \<Rightarrow>
     ('a sleeper_state_scheme \<Rightarrow> (delta_time \<times> 'a sleeper_state_scheme) option) \<Rightarrow>
     handling_result \<times> 'a sleeper_state_scheme \<Rightarrow>
     (bool \<times> handling_result \<times> 'a sleeper_state_scheme) option" where
  "listenOnce P msgHandler timeoutFunc = (\<lambda>(_, s). do {
     let s = noteSleep P s;
     (timeout, s) \<leftarrow> calculateTimeout P timeoutFunc s;
     s \<leftarrow> sleepWithRadioAndTimerPowerUntilTimeout P timeout s;
     let s = emit CancelTimeout s;
     (handlingResult, s) \<leftarrow> determineHandlingResult P msgHandler s;
     let (overslept, s) = OverSleepMonitor_checkOverslept P s;
     (if overslept then Some (False, handlingResult, emit StopReceive s)
      else Some (handlingResult = KeepListening, handlingResult, s))
   })"

definition SyncSleeper_sleepUntilMsgAcceptedOrTimeout ::
  "platform \<Rightarrow> message_handler \<Rightarrow>
     ('a sleeper_state_scheme \<Rightarrow> (delta_time \<times> 'a sleeper_state_scheme) option) \<Rightarrow>
     'a sleeper_state_scheme \<Rightarrow> (handling_result \<times> 'a sleeper_state_scheme) option" where
  "SyncSleeper_sleepUntilMsgAcceptedOrTimeout P msgHandler timeoutFunc s = do {
     s \<leftarrow> OverSleepMonitor_markStartSleep P timeoutFunc s;
     let s = s\<lparr>countSleeps := 0\<rparr>;
     (handlingResult, s) \<leftarrow> do_while (listenOnce P msgHandler timeoutFunc) (KeepListening, s);
     let (_, s) = OverSleepMonitor_checkOverslept P s;
     require (\<not> Ensemble_isRadioInUse P s);
     Some (handlingResult, s)
   }"

definition SyncSleeper_getCountSleeps :: "'a sleeper_state_scheme \<Rightarrow> u32" where
  "SyncSleeper_getCountSleeps s = countSleeps s"

section \<open>Sleeping for power, and by the schedule\<close>

definition waitForPowerOnce ::
  "platform \<Rightarrow> 'a platform_state_scheme \<Rightarrow> (bool \<times> 'a platform_state_scheme) option" where
  "waitForPowerOnce P s = do {
     let s = emit (SleepFor TimeoutWaitingForSyncPowerSleeper) s;
     require (Sleeper_getReasonForWake P s = SleepTimerExpired);
     let (powered, s) = SyncPowerManager_isPowerForStartLoop P s;
     Some (\<not> powered, s)
   }"

definition SyncPowerSleeper_sleepUntilSyncPower ::
  "platform \<Rightarrow> 'a platform_state_scheme \<Rightarrow> 'a platform_state_scheme option" where
  "SyncPowerSleeper_sleepUntilSyncPower P s = do_while (waitForPowerOnce P) s"

definition ScheduleSleeper_sleepUntilSyncSlotMiddle ::
  "platform \<Rightarrow> 'a sleeper_state_scheme \<Rightarrow> 'a sleeper_state_scheme option" where
  "ScheduleSleeper_sleepUntilSyncSlotMiddle P s =
     SyncSleeper_sleepUntilTimeout P (\<lambda>s. Some (SyncSlotSchedule_deltaToThisSyncSlotMiddleSubslot P s)) s"

definition ScheduleSleeper_sleepEntireSyncPeriod ::
  "platform \<Rightarrow> 'a sleeper_state_scheme \<Rightarrow> 'a sleeper_state_scheme option" where
  "ScheduleSleeper_sleepEntireSyncPeriod P s =
     SyncSleeper_sleepUntilTimeout P (\<lambda>s. Some (Schedule_deltaNowToNextSyncPoint P s))
       (Phase_set SleepEntireSyncPeriod s)"

definition ScheduleSleeper_sleepSyncSlotRemainder ::
  "platform \<Rightarrow> 'a sleeper_state_scheme \<Rightarrow> 'a sleeper_state_scheme option" where
  "ScheduleSleeper_sleepSyncSlotRemainder P s =
     SyncSleeper_sleepUntilTimeout P (\<lambda>s. Some (SyncSlotSchedule_deltaToThisSyncSlotEnd P s)) s"

definition ScheduleSleeper_sleepRemainderOfSyncPeriod ::
  "platform \<Rightarrow> 'a sleeper_state_scheme \<Rightarrow> 'a sleeper_state_scheme option" where
  "ScheduleSleeper_sleepRemainderOfSyncPeriod P s =
     SyncSleeper_sleepUntilTimeout P (\<lambda>s. Some (Schedule_deltaNowToNextSyncPoint P s)) s"

definition ScheduleSleeper_sleepUntilProvisionSlot :: "'a sleeper_state_scheme \<Rightarrow> 'a sleeper_state_scheme" where
  "ScheduleSleeper_sleepUntilProvisionSlot s = s"

end
