(* ===== verification/SleepingSlots.thy ===== *)
theory SleepingSlots
  imports Sleepers
begin

text \<open>
  The slots and sync periods of the earlier design (\<open>src/sleepingSlots\<close>), the remote logger
  (\<open>src/logging/remoteLogger.cpp\<close>), the loop over sync periods
  (\<open>src/syncAgentImp/syncAgentLoop.cpp\<close>) and the facade (\<open>src/syncAgent/syncAgent.cpp\<close>).
  The handlers of messages, the schedule, the policies and the sender are those of the design with
  tasks.  The unqualified names \<open>sendSync\<close>, \<open>sendWorkSync\<close>, \<open>sendControlSync\<close> of
  \<open>syncSlotKinds.cpp\<close> are those of \<open>SyncSlotStep\<close>, their one definition in the repository.
\<close>

section \<open>The sync slot\<close>

definition SyncWorkSlot_doListenHalfSyncWorkSlot ::
  "platform \<Rightarrow> ('a sleeper_state_scheme \<Rightarrow> (delta_time \<times> 'a sleeper_state_scheme) option) \<Rightarrow>
     'a sleeper_state_scheme \<Rightarrow> (handling_result \<times> 'a sleeper_state_scheme) option" where
  "SyncWorkSlot_doListenHalfSyncWorkSlot P timeoutFunc s =
     (let (powered, s) = SyncPowerManager_isPowerForSyncSlot P s;
          s = (if powered then emit StartReceiving s else FlashLogger_logNoPowerForHalfSyncSlot s)
      in SyncSleeper_sleepUntilMsgAcceptedOrTimeout P SyncSlotHandler timeoutFunc s)"

fun SyncWorkSlot_didFirstHalfHearSync :: "handling_result \<Rightarrow> bool" where
  "SyncWorkSlot_didFirstHalfHearSync StopListeningHeardMasterSync = True"
| "SyncWorkSlot_didFirstHalfHearSync StopListeningHeardMergeSync = True"
| "SyncWorkSlot_didFirstHalfHearSync StopListeningHeardWorkSync = True"
| "SyncWorkSlot_didFirstHalfHearSync TimedOut = False"
| "SyncWorkSlot_didFirstHalfHearSync KeepListening = False"

text \<open>The two halves of the slot.\<close>

definition listenFirstHalf ::
  "platform \<Rightarrow> 'a sleeper_state_scheme \<Rightarrow> (handling_result \<times> 'a sleeper_state_scheme) option" where
  "listenFirstHalf P s =
     SyncWorkSlot_doListenHalfSyncWorkSlot P
       (\<lambda>s. Some (SyncSlotSchedule_deltaToThisSyncSlotMiddleSubslot P s)) s"

definition listenSecondHalf ::
  "platform \<Rightarrow> 'a sleeper_state_scheme \<Rightarrow> (handling_result \<times> 'a sleeper_state_scheme) option" where
  "listenSecondHalf P s =
     SyncWorkSlot_doListenHalfSyncWorkSlot P (\<lambda>s. Some (SyncSlotSchedule_deltaToThisSyncSlotEnd P s)) s"

definition SyncWorkSlot_doSendingControlSyncWorkSlot ::
  "platform \<Rightarrow> 'a sleeper_state_scheme \<Rightarrow> 'a sleeper_state_scheme option" where
  "SyncWorkSlot_doSendingControlSyncWorkSlot P s = do {
     (_, s) \<leftarrow> listenFirstHalf P s;
     s \<leftarrow> SyncSlotStep_sendControlSync P s;
     (_, s) \<leftarrow> listenSecondHalf P s;
     Some s
   }"

definition SyncWorkSlot_doSendingWorkSyncWorkSlot ::
  "platform \<Rightarrow> 'a sleeper_state_scheme \<Rightarrow> 'a sleeper_state_scheme option" where
  "SyncWorkSlot_doSendingWorkSyncWorkSlot P s = do {
     let s = Phase_set SyncListenFirstHalf s;
     (_, s) \<leftarrow> listenFirstHalf P s;
     require (\<not> Ensemble_isRadioInUse P s);
     s \<leftarrow> SyncSlotStep_sendWorkSync P s;
     let s = Phase_set SyncListenSecondHalf s;
     (_, s) \<leftarrow> listenSecondHalf P s;
     Some s
   }"

definition SyncWorkSlot_doSlaveSyncWorkSlot ::
  "platform \<Rightarrow> 'a sleeper_state_scheme \<Rightarrow> 'a sleeper_state_scheme option" where
  "SyncWorkSlot_doSlaveSyncWorkSlot P s = do {
     let s = emit StartReceiving s;
     let s = Phase_set SyncSlaveListen s;
     (_, s) \<leftarrow> SyncSleeper_sleepUntilMsgAcceptedOrTimeout P SyncSlotHandler
                 (\<lambda>s. Some (SyncSlotSchedule_deltaToThisSyncSlotEnd P s)) s;
     Some s
   }"

definition SyncWorkSlot_doMasterSyncWorkSlot ::
  "platform \<Rightarrow> 'a sleeper_state_scheme \<Rightarrow> 'a sleeper_state_scheme option" where
  "SyncWorkSlot_doMasterSyncWorkSlot P s = do {
     let s = Phase_set SyncListenFirstHalf s;
     (handlingResult, s) \<leftarrow> listenFirstHalf P s;
     require (\<not> Ensemble_isRadioInUse P s);
     s \<leftarrow> (if \<not> SyncWorkSlot_didFirstHalfHearSync handlingResult then SyncSlotStep_sendSync P s else Some s);
     let s = Phase_set SyncListenSecondHalf s;
     (_, s) \<leftarrow> listenSecondHalf P s;
     Some s
   }"

definition SyncWorkSlot_dispatchSyncSlotKind ::
  "platform \<Rightarrow> 'a sleeper_state_scheme \<Rightarrow> 'a sleeper_state_scheme option" where
  "SyncWorkSlot_dispatchSyncSlotKind P s =
     (let (kind, s) = SyncSlotProperty_decideKind P s
      in case kind of
           KindSendControlSync \<Rightarrow> do {
             s \<leftarrow> SyncWorkSlot_doSendingControlSyncWorkSlot P s;
             IntraCliqueManager_checkDoneAndEnactControl P s
           }
         | KindSendWorkSync \<Rightarrow> SyncWorkSlot_doSendingWorkSyncWorkSlot P s
         | KindSendSync \<Rightarrow> SyncWorkSlot_doMasterSyncWorkSlot P s
         | KindListen \<Rightarrow> SyncWorkSlot_doSlaveSyncWorkSlot P s)"

definition SyncWorkSlot_endListen ::
  "platform \<Rightarrow> 'a sleeper_state_scheme \<Rightarrow> 'a sleeper_state_scheme option" where
  "SyncWorkSlot_endListen P s = do {
     let s = emit StopReceive s;
     s \<leftarrow> (if \<not> Clique_isSelfMaster P s then Clique_checkMasterDroppedOut P s else Some s);
     Some (emit EnsembleShutdown s)
   }"

definition SyncWorkSlot_perform ::
  "platform \<Rightarrow> 'a sleeper_state_scheme \<Rightarrow> 'a sleeper_state_scheme option" where
  "SyncWorkSlot_perform P s = do {
     s \<leftarrow> SyncWorkSlot_dispatchSyncSlotKind P s;
     s \<leftarrow> SyncWorkSlot_endListen P s;
     require (Ensemble_isLowPower P s);
     Some s
   }"

definition SyncWorkSlot_tryPerform ::
  "platform \<Rightarrow> 'a sleeper_state_scheme \<Rightarrow> 'a sleeper_state_scheme option" where
  "SyncWorkSlot_tryPerform P s =
     (let s = emit EnsembleStartup s;
          (powered, s) = SyncPowerManager_isPowerForSyncSlot P s
      in if powered then SyncWorkSlot_perform P (Phase_set SyncChooseKind s)
         else ScheduleSleeper_sleepSyncSlotRemainder P
                (FlashLogger_logNoPowerToStartSyncSlot (Phase_set SyncSkipSlot s)))"

section \<open>The fish slot and the merge slot\<close>

definition sleepUntilFishSlotStart ::
  "platform \<Rightarrow> 'a sleeper_state_scheme \<Rightarrow> 'a sleeper_state_scheme option" where
  "sleepUntilFishSlotStart P s =
     SyncSleeper_sleepUntilTimeout P (\<lambda>s. Some (FishSchedule_deltaToFishSessionStart P s)) s"

definition FishSlot_perform :: "platform \<Rightarrow> 'a sleeper_state_scheme \<Rightarrow> 'a sleeper_state_scheme option" where
  "FishSlot_perform P s = do {
     let s = emit EnsembleStartup s;
     let s = emit StartReceiving s;
     (_, s) \<leftarrow> SyncSleeper_sleepUntilMsgAcceptedOrTimeout P FishSlotHandler
                 (\<lambda>s. Some (FishSchedule_deltaToFishSessionEnd P s)) s;
     require (\<not> Ensemble_isRadioInUse P s);
     let s = emit EnsembleShutdown s;
     FishingManager_checkFishingDone P s
   }"

definition FishSlot_tryPerform :: "platform \<Rightarrow> 'a sleeper_state_scheme \<Rightarrow> 'a sleeper_state_scheme option" where
  "FishSlot_tryPerform P s = do {
     let s = FishSchedule_setStartAndEndTimes s;
     let s = Phase_set SleepTilFish s;
     s \<leftarrow> sleepUntilFishSlotStart P s;
     let (powered, s) = SyncPowerManager_isPowerForFishSlot P s;
     (if powered then FishSlot_perform P (Phase_set Fish s) else Some (Phase_set NoPowerToFish s))
   }"

definition MergeSlot_perform :: "platform \<Rightarrow> 'a sleeper_state_scheme \<Rightarrow> 'a sleeper_state_scheme option" where
  "MergeSlot_perform P s = do {
     require (Ensemble_isLowPower P s);
     require (MergerFisherRole_isMerger s);
     let s = Phase_set SleepTilMerge s;
     s \<leftarrow> SyncSleeper_sleepUntilTimeout P (MergeSchedule_deltaToThisMergeStart P) s;
     let s = emit EnsembleStartup s;
     let s = Phase_set Merge s;
     s \<leftarrow> SyncSender_sendMergeSync P s;
     let s = emit EnsembleShutdown s;
     (complete, s) \<leftarrow> MergePolicy_checkCompletionOfMergerRole s;
     (if complete then SyncAgentImp_stopMerger s else Some s)
   }"

definition MergeSlot_tryPerform :: "platform \<Rightarrow> 'a sleeper_state_scheme \<Rightarrow> 'a sleeper_state_scheme option" where
  "MergeSlot_tryPerform P s = MergeSlot_perform P s"

section \<open>Sync periods\<close>

definition CombinedSyncPeriod_tryFishOrMerge ::
  "platform \<Rightarrow> 'a sleeper_state_scheme \<Rightarrow> 'a sleeper_state_scheme option" where
  "CombinedSyncPeriod_tryFishOrMerge P s =
     (case mergerRole s of
        Merger \<Rightarrow>
          (let (should, s) = MergePolicy_shouldScheduleMerge P s
           in if should then MergeSlot_tryPerform P s else Some s)
      | Fisher \<Rightarrow> FishSlot_tryPerform P s
      | NoFishing \<Rightarrow> Some s)"

definition CombinedSyncPeriod_doSlotSequence ::
  "platform \<Rightarrow> 'a sleeper_state_scheme \<Rightarrow> 'a sleeper_state_scheme option" where
  "CombinedSyncPeriod_doSlotSequence P s = do {
     let s = Phase_set StartSlotSequence s;
     s \<leftarrow> SyncWorkSlot_tryPerform P s;
     require (Ensemble_isLowPower P s);
     s \<leftarrow> CombinedSyncPeriod_tryFishOrMerge P s;
     require (Ensemble_isLowPower P s);
     ScheduleSleeper_sleepRemainderOfSyncPeriod P (Phase_set SleepRemainder s)
   }"

text \<open>The provisioner calls one of the two callbacks before its session ends.\<close>

definition provisioningSuccededCallback ::
  "platform \<Rightarrow> provisioned_value \<Rightarrow> 8 word \<Rightarrow> 'a sleeper_state_scheme \<Rightarrow> 'a sleeper_state_scheme option" where
  "provisioningSuccededCallback P provision rssi s =
     (let index = ProvisioningPublisher_ppiFromRawPPI (ucast (pv_index provision))
      in if index \<noteq> InvalidProperty then ProvisioningPublisher_notify P index provision rssi s else Some s)"

definition provisioningFailedCallback :: "'a sleeper_state_scheme \<Rightarrow> 'a sleeper_state_scheme" where
  "provisioningFailedCallback s = s"

definition tryProvision :: "platform \<Rightarrow> 'a sleeper_state_scheme \<Rightarrow> 'a sleeper_state_scheme option" where
  "tryProvision P s = do {
     let s = ScheduleSleeper_sleepUntilProvisionSlot s;
     let s = emit ProvisionerInit s;
     let s = emit ProvisionWithSleep s;
     s \<leftarrow> (case p_provisionSession P (io s) of
             Some (provision, rssi) \<Rightarrow> provisioningSuccededCallback P provision rssi s
           | None \<Rightarrow> Some (provisioningFailedCallback s));
     Some (SyncAgentImp_initEnsembleProtocol s)
   }"

definition ProvisioningSyncPeriod_doSlotSequence ::
  "platform \<Rightarrow> 'a sleeper_state_scheme \<Rightarrow> 'a sleeper_state_scheme option" where
  "ProvisioningSyncPeriod_doSlotSequence P s = do {
     let s = Phase_set StartSlotSequence s;
     s \<leftarrow> SyncWorkSlot_tryPerform P s;
     require (Ensemble_isLowPower P s);
     s \<leftarrow> tryProvision P s;
     require (Ensemble_isLowPower P s);
     ScheduleSleeper_sleepRemainderOfSyncPeriod P (Phase_set SleepRemainder s)
   }"

definition ModalSyncPeriod_perform :: "platform \<Rightarrow> 'a sleeper_state_scheme \<Rightarrow> 'a sleeper_state_scheme option" where
  "ModalSyncPeriod_perform P s =
     (let s = SyncModeManager_checkPowerAndTryModeTransitions P s
      in case SyncModeManager_mode s of
           Maintain \<Rightarrow> ScheduleSleeper_sleepEntireSyncPeriod P s
         | SyncOnly \<Rightarrow> CombinedSyncPeriod_doSlotSequence P s
         | SyncAndFishMerge \<Rightarrow> CombinedSyncPeriod_doSlotSequence P s
         | SyncAndProvision \<Rightarrow>
             (if p_bleProvisioned P then ProvisioningSyncPeriod_doSlotSequence P s else None))"

section \<open>Remote logging\<close>

definition InfoSlot_perform :: "platform \<Rightarrow> u8 \<Rightarrow> 'a sleeper_state_scheme \<Rightarrow> 'a sleeper_state_scheme option" where
  "InfoSlot_perform P item s = do {
     s \<leftarrow> ScheduleSleeper_sleepUntilSyncSlotMiddle P s;
     let s = emit EnsembleStartup s;
     s \<leftarrow> SyncSender_sendInfo item s;
     Some (emit EnsembleShutdown s)
   }"

text \<open>The functions have bodies of their own where \<open>REMOTE_LOGGING\<close> is not defined.\<close>

definition RemoteLogger_sendInfo :: "platform \<Rightarrow> u8 \<Rightarrow> 'a sleeper_state_scheme \<Rightarrow> 'a sleeper_state_scheme option" where
  "RemoteLogger_sendInfo P item s = InfoSlot_perform P item s"

definition RemoteLogger_isEnabled :: "platform \<Rightarrow> bool" where
  "RemoteLogger_isEnabled P = p_remoteLogging P"

definition RemoteLogger_log :: "platform \<Rightarrow> u8 \<Rightarrow> 'a platform_state_scheme \<Rightarrow> 'a platform_state_scheme" where
  "RemoteLogger_log P item s = (if p_remoteLogging P then emit (PutInfoMail item) s else s)"

definition RemoteLogger_trySendingLog ::
  "platform \<Rightarrow> 'a sleeper_state_scheme \<Rightarrow> (bool \<times> 'a sleeper_state_scheme) option" where
  "RemoteLogger_trySendingLog P s =
     (if p_remoteLogging P then
        (let isMail = p_isInfoMail P (io s);
             s = emit QueryInfoMail s
         in if isMail then
              (let item = p_fetchInfoMail P (io s);
                   s = emit FetchInfoMail s
               in map_option (\<lambda>s. (True, s)) (RemoteLogger_sendInfo P item s))
            else Some (False, s))
      else Some (False, s))"

datatype remote_logged_event =
    StartSync | StopSync | StartFish | StopFish | MasterDropOut | BrownOut | HardOrAssertionFault
  | FishDurationInc | FishDurationDec | FishDurationMin

fun remote_logged_event_value :: "remote_logged_event \<Rightarrow> u8" where
  "remote_logged_event_value StartSync = 0"
| "remote_logged_event_value StopSync = 1"
| "remote_logged_event_value StartFish = 2"
| "remote_logged_event_value StopFish = 3"
| "remote_logged_event_value MasterDropOut = 4"
| "remote_logged_event_value BrownOut = 5"
| "remote_logged_event_value HardOrAssertionFault = 6"
| "remote_logged_event_value FishDurationInc = 7"
| "remote_logged_event_value FishDurationDec = 8"
| "remote_logged_event_value FishDurationMin = 9"

definition RemoteLogger_sendAnyFaults ::
  "platform \<Rightarrow> 'a sleeper_state_scheme \<Rightarrow> 'a sleeper_state_scheme option" where
  "RemoteLogger_sendAnyFaults P s =
     (if p_remoteLogging P \<and> p_wasFault P
      then RemoteLogger_sendInfo P (remote_logged_event_value HardOrAssertionFault) s else Some s)"

section \<open>The loop\<close>

text \<open>The prelude to the loop, with the call of the remote logger.\<close>

definition preludeToLoopWithFaults ::
  "platform \<Rightarrow> 'a sleeper_state_scheme \<Rightarrow> 'a sleeper_state_scheme option" where
  "preludeToLoopWithFaults P s = do {
     require (Clique_isSelfMaster P s);
     require (\<not> Ensemble_isRadioInUse P s);
     let s = SyncPowerManager_enterBrownoutDetectMode s;
     s \<leftarrow> RemoteLogger_sendAnyFaults P s;
     let s = SyncModeManager_resetToModeMaintain s;
     Some (Schedule_setEndTimeOfSyncPeriodToNow P s)
   }"

text \<open>One iteration of the endless loop, and its first \<open>n\<close> iterations.\<close>

definition loopIteration :: "platform \<Rightarrow> 'a sleeper_state_scheme \<Rightarrow> 'a sleeper_state_scheme option" where
  "loopIteration P s = do {
     s \<leftarrow> SyncAgentImp_preludeToSyncPeriod P s;
     (sent, s) \<leftarrow> (if RemoteLogger_isEnabled P then RemoteLogger_trySendingLog P s else Some (False, s));
     (if sent then ScheduleSleeper_sleepEntireSyncPeriod P s else ModalSyncPeriod_perform P s)
   }"

definition SyncAgentImp_loop :: "platform \<Rightarrow> nat \<Rightarrow> 'a sleeper_state_scheme \<Rightarrow> 'a sleeper_state_scheme option" where
  "SyncAgentImp_loop P n s = do {
     s \<leftarrow> preludeToLoopWithFaults P s;
     iterate_op (loopIteration P) n s
   }"

section \<open>The facade\<close>

definition SyncAgentImp_initSleepers :: "'a platform_state_scheme \<Rightarrow> 'a platform_state_scheme" where
  "SyncAgentImp_initSleepers s = emit (SetSaneTimeout TimeoutWaitingForSyncPowerSleeper) s"

definition SyncAgent_initSleepers :: "'a platform_state_scheme \<Rightarrow> 'a platform_state_scheme" where
  "SyncAgent_initSleepers s = SyncAgentImp_initSleepers s"

definition SyncAgentImp_sleepUntilSyncPower ::
  "platform \<Rightarrow> 'a platform_state_scheme \<Rightarrow> 'a platform_state_scheme option" where
  "SyncAgentImp_sleepUntilSyncPower P s = SyncPowerSleeper_sleepUntilSyncPower P s"

definition SyncAgent_initEnsembleProtocol :: "'a platform_state_scheme \<Rightarrow> 'a platform_state_scheme" where
  "SyncAgent_initEnsembleProtocol s = SyncAgentImp_initEnsembleProtocol s"

definition SyncAgent_sleepUntilSyncPower ::
  "platform \<Rightarrow> 'a platform_state_scheme \<Rightarrow> 'a platform_state_scheme option" where
  "SyncAgent_sleepUntilSyncPower P s = SyncAgentImp_sleepUntilSyncPower P s"

definition SyncAgent_loop :: "platform \<Rightarrow> nat \<Rightarrow> 'a sleeper_state_scheme \<Rightarrow> 'a sleeper_state_scheme option" where
  "SyncAgent_loop P n s = SyncAgentImp_loop P n s"

definition SyncAgentImp_isSelfMaster :: "platform \<Rightarrow> 'a clique_state_scheme \<Rightarrow> bool" where
  "SyncAgentImp_isSelfMaster P s = Clique_isSelfMaster P s"

definition SyncAgent_isSelfMaster :: "platform \<Rightarrow> 'a clique_state_scheme \<Rightarrow> bool" where
  "SyncAgent_isSelfMaster P s = SyncAgentImp_isSelfMaster P s"

definition SyncAgent_isSelfSlave :: "platform \<Rightarrow> 'a clique_state_scheme \<Rightarrow> bool" where
  "SyncAgent_isSelfSlave P s \<longleftrightarrow> \<not> SyncAgent_isSelfMaster P s"

end
