(* ===== verification/Sleeping.thy ===== *)
theory Sleeping
  imports SleepingSlots Running
begin

text \<open>
  Facts on the earlier design: what a sleep leaves alone (the locale \<open>kept_asleep\<close>), when a sleep
  returns, what a listening sleep answers, and that whole sync periods keep the invariant of the
  unit.
\<close>

section \<open>What sleeping keeps\<close>

text \<open>
  What a caller relies on of a sleep: a property of the unit that does not depend on the history of
  calls, the packet buffer and the records of the sleepers is kept by sleeping, if the function
  that computes the timeout keeps it, and by listening, if the handler of messages keeps it too.
\<close>

locale kept_asleep =
  fixes P :: platform and inv :: "'a sleeper_state_scheme \<Rightarrow> bool"
  assumes inv_emit [simp]: "inv (emit e s) = inv s"
    and inv_buffer [simp]: "inv (s\<lparr>radioBuffer := b\<rparr>) = inv s"
    and inv_phase [simp]: "inv (s\<lparr>currentPhase := p\<rparr>) = inv s"
    and inv_start [simp]: "inv (s\<lparr>sleepStartTime := t\<rparr>) = inv s"
    and inv_intended [simp]: "inv (s\<lparr>intendedSleepDuration := d\<rparr>) = inv s"
    and inv_count [simp]: "inv (s\<lparr>countSleeps := n\<rparr>) = inv s"
    and inv_reason [simp]: "inv (s\<lparr>priorReasonForWake := r\<rparr>) = inv s"
begin

lemma Phase_set_inv [simp]: "inv (Phase_set p s) = inv s"
  by (simp add: Phase_set_def)

lemma FlashLogger_inv [simp]:
  "inv (FlashLogger_logNoPowerToStartSyncSlot s) = inv s"
  "inv (FlashLogger_logNoPowerForHalfSyncSlot s) = inv s"
  "inv (FlashLogger_logOverslept s) = inv s"
  by (simp_all add: FlashLogger_logNoPowerToStartSyncSlot_def FlashLogger_logNoPowerForHalfSyncSlot_def
      FlashLogger_logOverslept_def)

lemma checkOverslept_inv [simp]: "inv (snd (OverSleepMonitor_checkOverslept P s)) = inv s"
  by (simp add: OverSleepMonitor_checkOverslept_def OverSleepMonitor_timeElapsedSinceLastStartSleep_def
      ClockDuration_elapsed_def Let_def)

lemma sleep_inv [simp]: "inv (Sleeper_sleepUntilEventWithTimeout P t s) = inv s"
  by (simp add: Sleeper_sleepUntilEventWithTimeout_def Let_def)

lemma noteSleep_inv [simp]: "inv (noteSleep P s) = inv s"
proof -
  have "noteSleep P s = (s\<lparr>countSleeps := countSleeps s + 1\<rparr>)\<lparr>priorReasonForWake := Sleeper_getReasonForWake P s\<rparr>"
    by (simp add: noteSleep_def)
  then show ?thesis
    by simp
qed

lemma markStartSleep_inv:
  assumes keep: "\<And>s t s'. inv s \<Longrightarrow> f s = Some (t, s') \<Longrightarrow> inv s'"
    and "inv s" "OverSleepMonitor_markStartSleep P f s = Some s'"
  shows "inv s'"
proof -
  obtain t r where "f ((emit GetNowTime s)\<lparr>sleepStartTime := p_nowTime P (io s)\<rparr>) = Some (t, r)"
    "s' = r\<lparr>intendedSleepDuration := t\<rparr>"
    using assms(3) by (auto simp: OverSleepMonitor_markStartSleep_def LongClock_nowTime_def
        elim!: bind_case_prod_SomeE split: if_splits)
  then show ?thesis
    using keep [of "(emit GetNowTime s)\<lparr>sleepStartTime := p_nowTime P (io s)\<rparr>" t r] \<open>inv s\<close> by simp
qed

lemma calculateTimeout_inv:
  assumes keep: "\<And>s t s'. inv s \<Longrightarrow> f s = Some (t, s') \<Longrightarrow> inv s'"
    and "inv s" "calculateTimeout P f s = Some (t, s')"
  shows "inv s'"
proof -
  obtain t where "f s = Some (t, s')"
    using assms(3) unfolding calculateTimeout_def by (auto elim!: bind_case_prod_SomeE)
  then show ?thesis
    using keep [OF \<open>inv s\<close>] by blast
qed

lemma sleepOnce_inv:
  assumes keep: "\<And>s t s'. inv s \<Longrightarrow> f s = Some (t, s') \<Longrightarrow> inv s'"
    and "inv s" "sleepOnce P f s = Some (b, s')"
  shows "inv s'"
proof -
  obtain t r where r: "calculateTimeout P f (noteSleep P s) = Some (t, r)"
    "s' = Sleeper_sleepUntilEventWithTimeout P t r"
    using assms(3) by (auto simp: sleepOnce_def sleepWithOnlyTimerPowerUntilTimeout_def
        elim!: bind_case_prod_SomeE split: if_splits)
  have "inv (noteSleep P s)"
    using \<open>inv s\<close> by simp
  with keep have "inv r"
    using r(1) by (rule calculateTimeout_inv)
  then show ?thesis
    by (simp add: r(2))
qed

lemma sleepUntilTimeout_inv:
  assumes keep: "\<And>s t s'. inv s \<Longrightarrow> f s = Some (t, s') \<Longrightarrow> inv s'"
    and "inv s" "SyncSleeper_sleepUntilTimeout P f s = Some s'"
  shows "inv s'"
proof -
  obtain s1 s2 where s1: "OverSleepMonitor_markStartSleep P f s = Some s1"
    "do_while (sleepOnce P f) (s1\<lparr>countSleeps := 0\<rparr>) = Some s2"
    "s' = snd (OverSleepMonitor_checkOverslept P s2)"
    using assms(3) by (auto simp: SyncSleeper_sleepUntilTimeout_def split_def elim!: bind_SomeE)
  have "inv s1"
    using keep assms(2) s1(1) by (rule markStartSleep_inv)
  then have "inv (s1\<lparr>countSleeps := 0\<rparr>)"
    by simp
  from s1(2) this sleepOnce_inv [OF keep] have "inv s2"
    by (rule do_while_inv(1))
  then show ?thesis
    by (simp add: s1(3))
qed

end

text \<open>With a handler of messages that keeps the property.\<close>

locale kept_listening = kept_asleep +
  fixes h :: message_handler
  assumes handler_inv: "inv s \<Longrightarrow> call_handler P h msg s = Some (r, s') \<Longrightarrow> inv s'"
begin

lemma listening_dispatch_inv:
  assumes "inv s" "MessageDispatcher_dispatch P h s = Some (r, s')"
  shows "inv s'"
  using assms(2) handler_inv [OF assms(1)] assms(1)
  by (auto simp: MessageDispatcher_dispatch_def handleValidMessageAndSetContinuation_def
      elim!: bind_SomeE bind_case_prod_SomeE split: if_splits option.splits)

lemma determineHandlingResult_inv:
  assumes "inv s" "determineHandlingResult P h s = Some (r, s')"
  shows "inv s'"
  using assms listening_dispatch_inv [OF assms(1)]
  by (auto simp: determineHandlingResult_def split: reason_for_wake.splits)

lemma listenOnce_inv:
  assumes keep: "\<And>s t s'. inv s \<Longrightarrow> f s = Some (t, s') \<Longrightarrow> inv s'"
    and "inv (snd x)" "listenOnce P h f x = Some (b, y)"
  shows "inv (snd y)"
proof -
  obtain t r q where r: "calculateTimeout P f (noteSleep P (snd x)) = Some (t, r)"
    "determineHandlingResult P h (emit CancelTimeout (Sleeper_sleepUntilEventWithTimeout P t r)) = Some q"
    "snd y = snd (OverSleepMonitor_checkOverslept P (snd q)) \<or>
     snd y = emit StopReceive (snd (OverSleepMonitor_checkOverslept P (snd q)))"
    using assms(3) by (auto simp: listenOnce_def sleepWithRadioAndTimerPowerUntilTimeout_def split_def Let_def
        elim!: bind_SomeE split: if_splits)
  have "inv (noteSleep P (snd x))"
    using assms(2) by simp
  with keep have "inv r"
    using r(1) by (rule calculateTimeout_inv)
  then have "inv (snd q)"
    using determineHandlingResult_inv [of "emit CancelTimeout (Sleeper_sleepUntilEventWithTimeout P t r)"
        "fst q" "snd q"] r(2) by simp
  then show ?thesis
    using r(3) by auto
qed

lemma sleepUntilMsgAcceptedOrTimeout_inv:
  assumes keep: "\<And>s t s'. inv s \<Longrightarrow> f s = Some (t, s') \<Longrightarrow> inv s'"
    and "inv s" "SyncSleeper_sleepUntilMsgAcceptedOrTimeout P h f s = Some (r, s')"
  shows "inv s'"
proof -
  obtain s1 x where s1: "OverSleepMonitor_markStartSleep P f s = Some s1"
    "do_while (listenOnce P h f) (KeepListening, s1\<lparr>countSleeps := 0\<rparr>) = Some x"
    "s' = snd (OverSleepMonitor_checkOverslept P (snd x))"
    using assms(3) by (auto simp: SyncSleeper_sleepUntilMsgAcceptedOrTimeout_def split_def Let_def
        elim!: bind_SomeE split: if_splits)
  have "inv s1"
    using keep assms(2) s1(1) by (rule markStartSleep_inv)
  then have start: "inv (snd (KeepListening, s1\<lparr>countSleeps := 0\<rparr>))"
    by simp
  have "inv (snd x)"
    by (rule do_while_inv(1) [OF s1(2), of "\<lambda>x. inv (snd x)", OF start])
      (rule listenOnce_inv [OF keep])
  then show ?thesis
    by (simp add: s1(3))
qed

end

section \<open>The phase and the invariant of the unit\<close>

lemma sleeper_fields_steady [simp]:
  fixes s r :: "'a sleeper_state_scheme"
  shows "steady P s (r\<lparr>radioBuffer := b\<rparr>) = steady P s r"
    "steady P s (r\<lparr>currentPhase := p\<rparr>) = steady P s r"
    "steady P s (r\<lparr>sleepStartTime := t\<rparr>) = steady P s r"
    "steady P s (r\<lparr>intendedSleepDuration := d\<rparr>) = steady P s r"
    "steady P s (r\<lparr>countSleeps := n\<rparr>) = steady P s r"
    "steady P s (r\<lparr>priorReasonForWake := w\<rparr>) = steady P s r"
  by (simp_all add: steady_def same_phase_def unit_inv_parts)

lemma call_handler_steady:
  fixes s :: "'a agent_state_scheme"
  assumes "call_handler P h msg s = Some (r, s')"
  shows "steady P s s'"
  using assms sync_slot_handle_phase fish_slot_handle_phase call_handler_inv [of P s h msg r s']
  by (cases h) (auto simp: steady_def)

interpretation asleep: kept_asleep P "steady P s" for P s
  by unfold_locales simp_all

interpretation listening: kept_listening P "steady P s" h for P s h
  by unfold_locales (blast intro: steady_trans call_handler_steady)

text \<open>The functions that compute a timeout read the clock.\<close>

lemma timeout_steady [simp]:
  fixes s r :: "'a sleeper_state_scheme"
  shows "steady P s (snd (SyncSlotSchedule_deltaToThisSyncSlotMiddleSubslot P r)) = steady P s r"
    "steady P s (snd (SyncSlotSchedule_deltaToThisSyncSlotEnd P r)) = steady P s r"
    "steady P s (snd (Schedule_deltaNowToNextSyncPoint P r)) = steady P s r"
    "steady P s (snd (FishSchedule_deltaToFishSessionStart P r)) = steady P s r"
    "steady P s (snd (FishSchedule_deltaToFishSessionEnd P r)) = steady P s r"
  by (simp_all add: SyncSlotSchedule_deltaToThisSyncSlotMiddleSubslot_def Schedule_deltaNowToNextSyncPoint_def
      SyncSlotSchedule_deltaToThisSyncSlotEnd_def clampedTimeDifferenceFromNow_def
      FishSchedule_deltaToFishSessionStart_def FishSchedule_deltaToFishSessionEnd_def)

lemma total_keeps:
  assumes "\<And>r. R (snd (f r)) = R r" "R r" "Some (f r) = Some (t, r')"
  shows "R r'"
  using assms(1) [of r] assms(2,3) by simp

lemma sleep_steady:
  fixes s :: "'a sleeper_state_scheme"
  assumes "SyncSleeper_sleepUntilTimeout P (\<lambda>s. Some (f s)) s = Some s'"
    and f: "\<And>r. steady P s (snd (f r)) = steady P s r"
  shows "steady P s s'"
  by (rule asleep.sleepUntilTimeout_inv [OF total_keeps [of "steady P s", OF f] steady_refl assms(1)])

lemma listen_steady:
  fixes s :: "'a sleeper_state_scheme"
  assumes "SyncSleeper_sleepUntilMsgAcceptedOrTimeout P h (\<lambda>s. Some (f s)) s = Some (r, s')"
    and f: "\<And>r. steady P s (snd (f r)) = steady P s r"
  shows "steady P s s'"
  by (rule listening.sleepUntilMsgAcceptedOrTimeout_inv [OF total_keeps [of "steady P s", OF f] steady_refl assms(1)])

section \<open>Slots\<close>

lemma logger_steady [simp]:
  fixes s r :: "'a sleeper_state_scheme"
  shows "steady P s (Phase_set p r) = steady P s r" "steady P (Phase_set p s) r = steady P s r"
    "steady P s (FlashLogger_logNoPowerToStartSyncSlot r) = steady P s r"
    "steady P (FlashLogger_logNoPowerToStartSyncSlot s) r = steady P s r"
    "steady P s (FlashLogger_logNoPowerForHalfSyncSlot r) = steady P s r"
    "steady P (FlashLogger_logNoPowerForHalfSyncSlot s) r = steady P s r"
  by (simp_all add: FlashLogger_logNoPowerToStartSyncSlot_def FlashLogger_logNoPowerForHalfSyncSlot_def
      Phase_set_def) (simp add: steady_def same_phase_def unit_inv_parts emit_def)

lemma schedule_sleeper_steady:
  fixes s :: "'a sleeper_state_scheme"
  shows "ScheduleSleeper_sleepUntilSyncSlotMiddle P s = Some s' \<Longrightarrow> steady P s s'"
    and "ScheduleSleeper_sleepEntireSyncPeriod P s = Some s' \<Longrightarrow> steady P s s'"
    and "ScheduleSleeper_sleepSyncSlotRemainder P s = Some s' \<Longrightarrow> steady P s s'"
    and "ScheduleSleeper_sleepRemainderOfSyncPeriod P s = Some s' \<Longrightarrow> steady P s s'"
    and "sleepUntilFishSlotStart P s = Some s' \<Longrightarrow> steady P s s'"
  using sleep_steady [of P _ "Phase_set SleepEntireSyncPeriod s" s', simplified]
  unfolding ScheduleSleeper_sleepUntilSyncSlotMiddle_def ScheduleSleeper_sleepEntireSyncPeriod_def
    ScheduleSleeper_sleepSyncSlotRemainder_def ScheduleSleeper_sleepRemainderOfSyncPeriod_def
    sleepUntilFishSlotStart_def
  by (auto intro: sleep_steady)

lemma half_steady:
  fixes s :: "'a sleeper_state_scheme"
  shows "listenFirstHalf P s = Some (r, s') \<Longrightarrow> steady P s s'"
    and "listenSecondHalf P s = Some (r, s') \<Longrightarrow> steady P s s'"
proof -
  have half: "steady P s s'" if slot: "SyncWorkSlot_doListenHalfSyncWorkSlot P (\<lambda>s. Some (f s)) s = Some (r, s')"
    and f: "\<And>(s :: 'a sleeper_state_scheme) r. steady P s (snd (f r)) = steady P s r" for f
  proof -
    obtain t where "SyncSleeper_sleepUntilMsgAcceptedOrTimeout P SyncSlotHandler (\<lambda>s. Some (f s)) t = Some (r, s')"
      "t = emit StartReceiving (emit (MeasurePower UltraLow) s) \<or>
       t = FlashLogger_logNoPowerForHalfSyncSlot (emit (MeasurePower UltraLow) s)"
      using slot by (auto simp: SyncWorkSlot_doListenHalfSyncWorkSlot_def power_defs split: if_splits)
    then show ?thesis
      using listen_steady [of P SyncSlotHandler f t r s', OF _ f] by auto
  qed
  show "listenFirstHalf P s = Some (r, s') \<Longrightarrow> steady P s s'"
    "listenSecondHalf P s = Some (r, s') \<Longrightarrow> steady P s s'"
    by (simp_all add: listenFirstHalf_def listenSecondHalf_def half)
qed

lemma slot_kinds_steady:
  fixes s :: "'a sleeper_state_scheme"
  shows "SyncWorkSlot_doSendingControlSyncWorkSlot P s = Some s' \<Longrightarrow> steady P s s'"
    and "SyncWorkSlot_doSendingWorkSyncWorkSlot P s = Some s' \<Longrightarrow> steady P s s'"
    and "SyncWorkSlot_doMasterSyncWorkSlot P s = Some s' \<Longrightarrow> steady P s s'"
    and "SyncWorkSlot_doSlaveSyncWorkSlot P s = Some s' \<Longrightarrow> steady P s s'"
proof -
  note steps = half_steady half_steady [of P "Phase_set p q" for p q, simplified] sendSteps_steady
  show "SyncWorkSlot_doSendingControlSyncWorkSlot P s = Some s' \<Longrightarrow> steady P s s'"
    unfolding SyncWorkSlot_doSendingControlSyncWorkSlot_def
    by (auto elim!: bind_SomeE bind_case_prod_SomeE dest!: steps) (blast intro: steady_trans)
  show "SyncWorkSlot_doSendingWorkSyncWorkSlot P s = Some s' \<Longrightarrow> steady P s s'"
    unfolding SyncWorkSlot_doSendingWorkSyncWorkSlot_def
    by (auto simp: Let_def split: if_splits elim!: bind_SomeE bind_case_prod_SomeE dest!: steps)
      (blast intro: steady_trans)+
  show "SyncWorkSlot_doMasterSyncWorkSlot P s = Some s' \<Longrightarrow> steady P s s'"
    unfolding SyncWorkSlot_doMasterSyncWorkSlot_def
    by (auto simp: Let_def split: if_splits elim!: bind_SomeE bind_case_prod_SomeE dest!: steps)
      (blast intro: steady_trans)+
  show "SyncWorkSlot_doSlaveSyncWorkSlot P s = Some s' \<Longrightarrow> steady P s s'"
    unfolding SyncWorkSlot_doSlaveSyncWorkSlot_def
    by (auto simp: Let_def elim!: bind_case_prod_SomeE dest!: listen_steady [OF _ timeout_steady(2)])
qed

lemma syncWorkSlot_endListen_steady:
  fixes s :: "'a sleeper_state_scheme"
  assumes "SyncWorkSlot_endListen P s = Some s'"
  shows "steady P s s'"
proof -
  obtain r where "SyncSlot_endListen P s = Some r" "s' = emit EnsembleShutdown r"
    using assms by (auto simp: SyncWorkSlot_endListen_def SyncSlot_endListen_def Receiver_stop_def Let_def
        split: if_splits elim!: bind_SomeE)
  then show ?thesis
    using endListen_steady by simp
qed

lemma syncWorkSlot_steady:
  fixes s :: "'a sleeper_state_scheme"
  shows "SyncWorkSlot_dispatchSyncSlotKind P s = Some s' \<Longrightarrow> steady P s s'"
    and "SyncWorkSlot_perform P s = Some s' \<Longrightarrow> steady P s s'"
    and "SyncWorkSlot_tryPerform P s = Some s' \<Longrightarrow> steady P s s'"
proof -
  have kind: "steady P q s'" if dispatch: "SyncWorkSlot_dispatchSyncSlotKind P q = Some s'"
    for q s' :: "'a sleeper_state_scheme"
  proof -
    obtain k r where k: "SyncSlotProperty_decideKind P q = (k, r)"
      by fastforce
    have "steady P r s'"
      using dispatch slot_kinds_steady steady_trans [OF slot_kinds_steady(1) checkDone_steady]
      by (cases k) (auto simp: SyncWorkSlot_dispatchSyncSlotKind_def k elim!: bind_SomeE)
    with decideKind_steady [OF k] show ?thesis
      by (rule steady_trans)
  qed
  then show "SyncWorkSlot_dispatchSyncSlotKind P s = Some s' \<Longrightarrow> steady P s s'" .
  have slot: "steady P q s'" if "SyncWorkSlot_perform P q = Some s'" for q s' :: "'a sleeper_state_scheme"
    using that steady_trans [OF kind syncWorkSlot_endListen_steady]
    by (auto simp: SyncWorkSlot_perform_def elim!: bind_SomeE split: if_splits)
  then show "SyncWorkSlot_perform P s = Some s' \<Longrightarrow> steady P s s'" .
  show "SyncWorkSlot_tryPerform P s = Some s' \<Longrightarrow> steady P s s'"
    by (auto simp: SyncWorkSlot_tryPerform_def power_defs Let_def dest!: slot schedule_sleeper_steady(3)
        split: if_splits)
qed

lemma fishSlot_steady:
  fixes s :: "'a sleeper_state_scheme"
  assumes "FishSlot_tryPerform P s = Some s'"
  shows "steady P s s'"
proof -
  define r where "r = Phase_set SleepTilFish (FishSchedule_setStartAndEndTimes s)"
  have r: "steady P s r"
    by (simp add: r_def setStartAndEndTimes_steady)
  have slot: "steady P q s'" if slot: "FishSlot_perform P q = Some s'" for q
  proof -
    obtain h t where t: "SyncSleeper_sleepUntilMsgAcceptedOrTimeout P FishSlotHandler
        (\<lambda>s. Some (FishSchedule_deltaToFishSessionEnd P s)) (emit StartReceiving (emit EnsembleStartup q)) = Some (h, t)"
      "FishingManager_checkFishingDone P (emit EnsembleShutdown t) = Some s'"
      using slot by (auto simp: FishSlot_perform_def Let_def split: if_splits elim!: bind_case_prod_SomeE)
    have "steady P q t"
      using listen_steady [OF t(1)] by simp
    with checkFishingDone_steady [OF t(2)] show ?thesis
      by (auto intro: steady_trans)
  qed
  obtain t where "sleepUntilFishSlotStart P r = Some t"
    "steady P (emit (MeasurePower Medium) t) s' \<or> FishSlot_perform P (Phase_set Fish (emit (MeasurePower Medium) t)) = Some s'"
    using assms by (auto simp: FishSlot_tryPerform_def r_def power_defs Let_def elim!: bind_SomeE split: if_splits)
  then show ?thesis
    using slot [of "Phase_set Fish (emit (MeasurePower Medium) t)"] schedule_sleeper_steady(5) [of P r t] r
    by (auto intro: steady_trans)
qed

interpretation merging: kept_asleep P "\<lambda>s. mergerRole s = Merger" for P
  by unfold_locales (simp_all add: emit_def)

lemma mergeStart_keeps:
  fixes s :: "'a sleeper_state_scheme"
  assumes "MergeSchedule_deltaToThisMergeStart P s = Some (d, s')"
  shows "s' = emit GetNowTime s"
  using assms by (auto simp: MergeSchedule_deltaToThisMergeStart_def clampedTimeDifferenceFromNow_def
      elim!: bind_SomeE)

lemma sendMergeSync_role:
  fixes s :: "'a agent_state_scheme"
  assumes "SyncSender_sendMergeSync P s = Some s'"
  shows "mergerRole s' = mergerRole s"
proof -
  obtain msg where "sendMessage msg (emit GetNowTime s) = Some s'"
    using assms makeMergeMsg_shape(1) [of P s] by (auto simp: SyncSender_sendMergeSync_def elim!: bind_case_prod_SomeE)
  then show ?thesis
    by (auto simp: sendMessage_eq emit_def split: if_splits)
qed

text \<open>The merger sleeps to the time of its merge slot, a time within the period of the unit.\<close>

lemma mergeSlot_steady:
  fixes s :: "'a sleeper_state_scheme"
  assumes "MergeSlot_tryPerform P s = Some s'"
  shows "steady P s s'"
proof -
  define r where "r = Phase_set SleepTilMerge s"
  obtain t q c u where t: "mergerRole s = Merger"
    "SyncSleeper_sleepUntilTimeout P (MergeSchedule_deltaToThisMergeStart P) r = Some t"
    "SyncSender_sendMergeSync P (Phase_set Merge (emit EnsembleStartup t)) = Some q"
    "MergePolicy_checkCompletionOfMergerRole (emit EnsembleShutdown q) = Some (c, u)"
    "(if c then SyncAgentImp_stopMerger u else Some u) = Some s'"
    using assms by (auto simp: MergeSlot_tryPerform_def MergeSlot_perform_def MergerFisherRole_isMerger_def
        Let_def r_def split: if_splits elim!: bind_SomeE bind_case_prod_SomeE)
  have "steady P s t"
    by (rule asleep.sleepUntilTimeout_inv [OF _ _ t(2)]) (auto simp: r_def dest: mergeStart_keeps)
  moreover have "mergerRole t = Merger"
    by (rule merging.sleepUntilTimeout_inv [OF _ _ t(2)])
      (auto simp: r_def t(1) Phase_set_def emit_def dest: mergeStart_keeps)
  moreover have "steady P t q"
    using sendMergeSync_steady [OF t(3)] by simp
  ultimately have "steady P q s'"
    using completion_steady [OF t(4,5), of P] sendMergeSync_role [OF t(3)] \<open>mergerRole t = Merger\<close>
    by (simp add: Phase_set_def) (simp add: emit_def)
  with \<open>steady P s t\<close> \<open>steady P t q\<close> show ?thesis
    by (blast intro: steady_trans)
qed

section \<open>Sync periods\<close>

lemma tryFishOrMerge_steady:
  fixes s :: "'a sleeper_state_scheme"
  assumes "CombinedSyncPeriod_tryFishOrMerge P s = Some s'"
  shows "steady P s s'"
  using assms fishSlot_steady [of P s s'] mergeSlot_steady [of P "emit CoinToss s" s']
  by (auto simp: CombinedSyncPeriod_tryFishOrMerge_def MergePolicy_shouldScheduleMerge_def Random_coinToss_def
      split: role.splits if_splits)

lemma slotSequence_steady:
  fixes s :: "'a sleeper_state_scheme"
  shows "CombinedSyncPeriod_doSlotSequence P s = Some s' \<Longrightarrow> steady P s s'"
    and "ProvisioningSyncPeriod_doSlotSequence P s = Some s' \<Longrightarrow> steady P s s'"
proof -
  have start: "steady P s r" if "SyncWorkSlot_tryPerform P (Phase_set StartSlotSequence s) = Some r" for r
    using syncWorkSlot_steady(3) [OF that] by simp
  have rest: "steady P r s'" if "ScheduleSleeper_sleepRemainderOfSyncPeriod P (Phase_set SleepRemainder r) = Some s'"
    for r s' :: "'a sleeper_state_scheme"
    using schedule_sleeper_steady(4) [OF that] by simp
  have provision: "steady P r s'" if "tryProvision P r = Some s'" for r s' :: "'a sleeper_state_scheme"
    using that notify_steady [of P _ _ _ "emit ProvisionWithSleep (emit ProvisionerInit r)"]
    by (auto simp: tryProvision_def ScheduleSleeper_sleepUntilProvisionSlot_def provisioningFailedCallback_def
        provisioningSuccededCallback_def SyncAgentImp_initEnsembleProtocol_def Let_def
        split: option.splits if_splits elim!: bind_SomeE)
  show "CombinedSyncPeriod_doSlotSequence P s = Some s' \<Longrightarrow> steady P s s'"
    unfolding CombinedSyncPeriod_doSlotSequence_def
    by (auto simp: Let_def elim!: bind_SomeE split: if_splits dest!: start rest tryFishOrMerge_steady)
      (blast intro: steady_trans)
  show "ProvisioningSyncPeriod_doSlotSequence P s = Some s' \<Longrightarrow> steady P s s'"
    unfolding ProvisioningSyncPeriod_doSlotSequence_def
    by (auto simp: Let_def elim!: bind_SomeE split: if_splits dest!: start rest provision)
      (blast intro: steady_trans)
qed

lemma mode_transition_fields:
  fixes P and s :: "'a agent_state_scheme"
  defines "u \<equiv> SyncModeManager_checkPowerAndTryModeTransitions P s"
  shows "startTimeOfSyncPeriod u = startTimeOfSyncPeriod s" "endTimeOfSyncPeriod u = endTimeOfSyncPeriod s"
    "unadjustedEndTimeOfSyncPeriod u = unadjustedEndTimeOfSyncPeriod s"
  by (subst mode_transition_shape [OF u_def [THEN meta_eq_to_obj_eq]]; simp)+

lemma modalSyncPeriod_inv:
  fixes s :: "'a sleeper_state_scheme"
  assumes "ModalSyncPeriod_perform P s = Some s'" "unit_inv P s"
  shows "unit_inv P s'" "startTimeOfSyncPeriod s' = startTimeOfSyncPeriod s"
proof -
  define u where "u = SyncModeManager_checkPowerAndTryModeTransitions P s"
  have u: "unit_inv P u" "startTimeOfSyncPeriod u = startTimeOfSyncPeriod s"
    using assms(2) mode_transition_core [of P s]
    by (simp_all add: unit_inv_core u_def schedule_inv_def mode_transition_fields)
  have "steady P u s'"
    using assms(1) schedule_sleeper_steady(2) [of P u s'] slotSequence_steady [of P u s']
    by (auto simp: ModalSyncPeriod_perform_def u_def [symmetric] SyncModeManager_mode_def
        split: sync_mode.splits if_splits)
  then show "unit_inv P s'" "startTimeOfSyncPeriod s' = startTimeOfSyncPeriod s"
    using u steadyD(6,7) by (metis, metis)
qed

section \<open>The loop\<close>

interpretation core_asleep: kept_asleep P "core_inv P" for P
  by unfold_locales (simp, simp_all add: core_inv_def inv_parts)

lemma sleep_core:
  fixes s :: "'a sleeper_state_scheme"
  assumes "SyncSleeper_sleepUntilTimeout P (\<lambda>s. Some (f s)) s = Some s'" "core_inv P s"
    and f: "\<And>r. core_inv P (snd (f r)) = core_inv P r"
  shows "core_inv P s'"
  by (rule core_asleep.sleepUntilTimeout_inv [OF total_keeps [of "core_inv P", OF f] assms(2,1)])

lemma infoSlot_core:
  fixes s :: "'a sleeper_state_scheme"
  assumes "InfoSlot_perform P item s = Some s'"
  shows "core_inv P s \<Longrightarrow> core_inv P s'" "steady P s s'"
proof -
  obtain t r where t: "ScheduleSleeper_sleepUntilSyncSlotMiddle P s = Some t"
    "SyncSender_sendInfo item (emit EnsembleStartup t) = Some r" "s' = emit EnsembleShutdown r"
    using assms by (auto simp: InfoSlot_perform_def Let_def elim!: bind_SomeE)
  obtain msg where send: "sendMessage msg (emit EnsembleStartup t) = Some r"
    using t(2) by (auto simp: SyncSender_sendInfo_def elim!: bind_SomeE)
  show "steady P s s'"
    using schedule_sleeper_steady(1) [OF t(1)] sendMessage_steady [OF send, of P] t(3)
    by (auto intro: steady_trans)
  have read: "core_inv P (snd (SyncSlotSchedule_deltaToThisSyncSlotMiddleSubslot P q)) = core_inv P q"
    for q :: "'a sleeper_state_scheme"
    by (simp add: SyncSlotSchedule_deltaToThisSyncSlotMiddleSubslot_def clampedTimeDifferenceFromNow_def)
  show "core_inv P s'" if "core_inv P s"
  proof -
    have "core_inv P t"
      using sleep_core [OF t(1) [unfolded ScheduleSleeper_sleepUntilSyncSlotMiddle_def] that read] .
    moreover obtain e b where "r = emit e ((emit EnsembleStartup t)\<lparr>radioBuffer := b\<rparr>)"
      using send by (auto simp: sendMessage_eq split: if_splits)
    ultimately show ?thesis
      by (simp add: t(3) core_asleep.inv_buffer)
  qed
qed

lemma loopIteration_inv:
  fixes s :: "'a sleeper_state_scheme"
  assumes "loopIteration P s = Some s'" "core_inv P s" "far_from_wrap (endTimeOfSyncPeriod s)"
  shows "unit_inv P s'" "startTimeOfSyncPeriod s' = endTimeOfSyncPeriod s"
proof -
  obtain r b q where r: "SyncAgentImp_preludeToSyncPeriod P s = Some r"
    "(if RemoteLogger_isEnabled P then RemoteLogger_trySendingLog P r else Some (False, r)) = Some (b, q)"
    "(if b then ScheduleSleeper_sleepEntireSyncPeriod P q else ModalSyncPeriod_perform P q) = Some s'"
    using assms(1) unfolding loopIteration_def by (elim bind_SomeE bind_case_prod_SomeE)
  have "unit_inv P r"
    using bookkeepingAtStart(5,6) [OF _ assms(3), of P r] r(1) assms(2)
    by (simp add: SyncSlot_bookkeepingAtStartSyncSlot_def unit_inv_core)
  moreover have "startTimeOfSyncPeriod r = endTimeOfSyncPeriod s"
    using r(1) by (auto simp: SyncAgentImp_preludeToSyncPeriod_def WorkIn_resetState_def rollPeriodForward_sel Let_def
        split: if_splits)
  moreover have "steady P r q"
    using r(2) infoSlot_core(2) [of P _ "emit FetchInfoMail (emit QueryInfoMail r)"]
    by (auto simp: RemoteLogger_trySendingLog_def RemoteLogger_sendInfo_def Let_def split: if_splits)
  ultimately have q: "unit_inv P q" "startTimeOfSyncPeriod q = endTimeOfSyncPeriod s"
    using steadyD(6,7) by metis+
  show "unit_inv P s'" "startTimeOfSyncPeriod s' = endTimeOfSyncPeriod s"
    using r(3) q modalSyncPeriod_inv [of P q s'] steadyD(6,7) [OF schedule_sleeper_steady(2) [of P q s']]
    by (auto split: if_splits)
qed

text \<open>The clock does not come near to wrapping within the periods counted.\<close>

lemma loop_inv:
  fixes s :: "'a sleeper_state_scheme"
  assumes "iterate_op (loopIteration P) n s = Some s'" "core_inv P s"
    and "unat (endTimeOfSyncPeriod s) + 160000 * n < 2 ^ 63"
  shows "core_inv P s' \<and> (0 < n \<longrightarrow> unit_inv P s') \<and>
    unat (endTimeOfSyncPeriod s') \<le> unat (endTimeOfSyncPeriod s) + 160000 * n"
  using assms
proof (induction n arbitrary: s)
  case 0
  then show ?case by simp
next
  case (Suc n)
  obtain r where r: "loopIteration P s = Some r" "iterate_op (loopIteration P) n r = Some s'"
    using Suc.prems(1) by (auto elim!: bind_SomeE)
  have inv: "unit_inv P r" "startTimeOfSyncPeriod r = endTimeOfSyncPeriod s"
    using loopIteration_inv [OF r(1) Suc.prems(2)] Suc.prems(3) by (simp_all add: far_from_wrap_def)
  then have e: "unat (endTimeOfSyncPeriod r) \<le> unat (endTimeOfSyncPeriod s) + 160000"
    by (simp add: unit_inv_def schedule_inv_def)
  have "core_inv P s' \<and> (0 < n \<longrightarrow> unit_inv P s') \<and>
    unat (endTimeOfSyncPeriod s') \<le> unat (endTimeOfSyncPeriod r) + 160000 * n"
    using inv e Suc.prems(3) by (intro Suc.IH [OF r(2)]) (simp_all add: unit_inv_core)
  then show ?case
    using e inv(1) r(2) by (cases n) auto
qed

end
