(* ===== verification/SleepingProperties.thy ===== *)
theory SleepingProperties
  imports Sleeping
begin

text \<open>
  Properties of the earlier design: a sleep to the sync point returns if the timer expires, whole
  sync periods keep the invariant of the unit, and a unit
  without power for its sync slot resets.  Claims C37 and C38.
\<close>

section \<open>When a sleep returns\<close>

text \<open>How many sleeps a history of calls has.\<close>

definition sleeps :: "io_event list \<Rightarrow> nat" where
  "sleeps h = length (filter (\<lambda>e. case e of SleepUntilEvent _ \<Rightarrow> True | _ \<Rightarrow> False) h)"

lemma sleeps_simps [simp]:
  "sleeps (SleepUntilEvent t # h) = Suc (sleeps h)"
  "sleeps (GetNowTime # h) = sleeps h"
  by (simp_all add: sleeps_def)

lemma io_noteSleep [simp]: "io (noteSleep P s) = io s"
  by (simp add: noteSleep_def)

lemma io_sleep [simp]: "io (Sleeper_sleepUntilEventWithTimeout P t s) = SleepUntilEvent t # io s"
  by (simp add: Sleeper_sleepUntilEventWithTimeout_def Let_def)

text \<open>The unit without the history, the packet buffer, the phase and the records of the sleepers.\<close>

definition unit_part :: "sleeper_state \<Rightarrow> sleeper_state" where
  "unit_part s = s\<lparr>io := [], radioBuffer := [], currentPhase := SleepAfterBoot, sleepStartTime := 0,
     intendedSleepDuration := 0, countSleeps := 0, priorReasonForWake := Cleared\<rparr>"

interpretation idle: kept_asleep P "\<lambda>r. unit_part r = unit_part s" for P s
  by unfold_locales (simp_all add: unit_part_def emit_def)

text \<open>With a timer that expires at the latest with the \<open>N\<close>-th sleep.\<close>

lemma sleep_loop_returns:
  assumes "documented_low_power P" "\<And>h. p_noResetsOccurred P h"
    and "\<And>h. N \<le> sleeps h \<Longrightarrow> p_reasonForWake P h = SleepTimerExpired"
    and "\<And>r. snd (f r) = emit GetNowTime r" "\<not> ensemble_on (io s)"
  shows "\<exists>s'. do_while (sleepOnce P (\<lambda>s. Some (f s))) s = Some s' \<and>
    sleeps (io s) < sleeps (io s') \<and> sleeps (io s') \<le> max N (Suc (sleeps (io s)))"
  using assms(5)
proof (induction "N - sleeps (io s)" arbitrary: s rule: less_induct)
  case less
  define t where "t = p_clampedSubtraction P (fst (f (noteSleep P s))) CodesSleepOverhead"
  define r where "r = Sleeper_sleepUntilEventWithTimeout P t (emit GetNowTime (noteSleep P s))"
  have io: "io r = SleepUntilEvent t # GetNowTime # io s"
    by (simp add: r_def)
  have body: "sleepOnce P (\<lambda>s. Some (f s)) s = Some (\<not> Sleeper_isWakeForTimerExpired P r, r)"
    using assms(1,2) less.prems assms(4) [of "noteSleep P s"]
    by (cases "f (noteSleep P s)")
      (simp add: sleepOnce_def calculateTimeout_def sleepWithOnlyTimerPowerUntilTimeout_def
        documented_low_power_def r_def t_def)
  show ?case
  proof (cases "Sleeper_isWakeForTimerExpired P r")
    case True
    then have "do_while (sleepOnce P (\<lambda>s. Some (f s))) s = Some r"
      by (simp add: do_while.simps [of _ s] body)
    then show ?thesis
      by (simp add: io)
  next
    case False
    then have small: "sleeps (io r) < N"
      using assms(3) [of "io r"] by (auto simp: Sleeper_isWakeForTimerExpired_def Sleeper_getReasonForWake_def
          not_less [symmetric])
    then have "\<exists>s'. do_while (sleepOnce P (\<lambda>s. Some (f s))) r = Some s' \<and>
        sleeps (io r) < sleeps (io s') \<and> sleeps (io s') \<le> max N (Suc (sleeps (io r)))"
      using less.prems by (intro less.hyps) (simp_all add: io)
    then show ?thesis
      using small False by (auto simp: do_while.simps [of _ s] body io)
  qed
qed

lemma period_timeout_sane:
  assumes "documented_time P" "schedule_inv s" "startTimeOfSyncPeriod s \<le> p_nowTime P h"
  shows "p_clampedTimeDifferenceFromNow P h (endTimeOfSyncPeriod s) < MaxSaneTimeout"
proof -
  have "unat (endTimeOfSyncPeriod s) \<le> unat (p_nowTime P h) + 160000"
    using assms(2,3) by (simp add: schedule_inv_def word_le_nat_alt)
  then show ?thesis
    using clampedFromNow_unat [OF assms(1), of "endTimeOfSyncPeriod s" h]
    by (simp add: params word_less_nat_alt)
qed

text \<open>
  C37. A unit that sleeps to its sync point returns from the sleep, and has changed nothing but the
  history, the packet buffer and the records of the sleepers: with the ensemble off, the
  clock not before the start of the period, and a platform whose timer expires at the latest
  with the \<open>N\<close>-th sleep (whatever other events wake it before), it has slept at least once and
  not more than \<open>N\<close> times in all (or once, if \<open>N\<close> sleeps were over before).
\<close>

theorem sleep_to_sync_point_returns:
  fixes s :: sleeper_state
  assumes "documented_time P" "documented_low_power P" "\<And>h. p_noResetsOccurred P h"
    and "\<And>h. N \<le> sleeps h \<Longrightarrow> p_reasonForWake P h = SleepTimerExpired"
    and "schedule_inv s" "\<And>h. startTimeOfSyncPeriod s \<le> p_nowTime P h" "\<not> ensemble_on (io s)"
  shows "\<exists>s'. ScheduleSleeper_sleepRemainderOfSyncPeriod P s = Some s' \<and> unit_part s' = unit_part s \<and>
    sleeps (io s) < sleeps (io s') \<and> sleeps (io s') \<le> max N (Suc (sleeps (io s)))"
proof -
  let ?f = "Schedule_deltaNowToNextSyncPoint P :: sleeper_state \<Rightarrow> _"
  have f: "snd (?f r) = emit GetNowTime r" for r
    by (simp add: Schedule_deltaNowToNextSyncPoint_def clampedTimeDifferenceFromNow_def)
  define m where "m = (emit GetNowTime (emit GetNowTime s))\<lparr>sleepStartTime := p_nowTime P (io s),
    intendedSleepDuration := p_clampedTimeDifferenceFromNow P (GetNowTime # io s) (endTimeOfSyncPeriod s)\<rparr>"
  have mark: "OverSleepMonitor_markStartSleep P (\<lambda>s. Some (?f s)) s = Some m"
    using period_timeout_sane [OF assms(1,5,6), of "GetNowTime # io s"]
    by (simp add: OverSleepMonitor_markStartSleep_def LongClock_nowTime_def m_def
        Schedule_deltaNowToNextSyncPoint_def clampedTimeDifferenceFromNow_def Schedule_timeOfNextSyncPoint_def emit_def)
  have io: "io (m\<lparr>countSleeps := 0\<rparr>) = GetNowTime # GetNowTime # io s"
    by (simp add: m_def emit_def)
  obtain t where t: "do_while (sleepOnce P (\<lambda>s. Some (?f s))) (m\<lparr>countSleeps := 0\<rparr>) = Some t"
    "sleeps (io s) < sleeps (io t)" "sleeps (io t) \<le> max N (Suc (sleeps (io s)))"
    using sleep_loop_returns [where s = "m\<lparr>countSleeps := 0\<rparr>" and f = ?f, OF assms(2,3,4) f] assms(7) by (auto simp: io)
  define s' where "s' = snd (OverSleepMonitor_checkOverslept P t)"
  have sleeps: "sleeps (io s') = sleeps (io t)"
    by (simp add: s'_def OverSleepMonitor_checkOverslept_def OverSleepMonitor_timeElapsedSinceLastStartSleep_def
        ClockDuration_elapsed_def FlashLogger_logOverslept_def Let_def) (simp add: sleeps_def)
  have ret: "ScheduleSleeper_sleepRemainderOfSyncPeriod P s = Some s'"
    by (simp add: ScheduleSleeper_sleepRemainderOfSyncPeriod_def SyncSleeper_sleepUntilTimeout_def mark t(1)
        s'_def split_beta)
  have "unit_part s' = unit_part s"
    by (rule idle.sleepUntilTimeout_inv [OF _ _ ret [unfolded ScheduleSleeper_sleepRemainderOfSyncPeriod_def]])
      (auto simp: f [symmetric] unit_part_def Schedule_deltaNowToNextSyncPoint_def clampedTimeDifferenceFromNow_def
        emit_def)
  then show ?thesis
    using ret t(2,3) sleeps by auto
qed

text \<open>A unit as the sleepers of the earlier design find it.\<close>

definition sleeping_unit :: "system_id \<Rightarrow> system_id \<Rightarrow> sleeper_state" where
  "sleeping_unit self master = agent_state.extend (sample_unit self master)
     (sleeper_state.fields SleepAfterBoot 0 0 0 Cleared)"

lemmas sleeping_unit_defs = sleeping_unit_def agent_state.extend_def sleeper_state.fields_def sample_defs

text \<open>A platform that wakes twice for no reason before the timer expires.\<close>

lemma sleep_to_sync_point_returns_witness:
  "\<exists>s'. ScheduleSleeper_sleepRemainderOfSyncPeriod
      ((sample_platform 7 1000 0 True True True True)
         \<lparr>p_reasonForWake := \<lambda>h. if 3 \<le> sleeps h then SleepTimerExpired else Cleared\<rparr>)
      (sleeping_unit 7 7) = Some s' \<and> unit_part s' = unit_part (sleeping_unit 7 7) \<and>
    sleeps (io (sleeping_unit 7 7)) < sleeps (io s') \<and> sleeps (io s') \<le> max 3 (Suc (sleeps (io (sleeping_unit 7 7))))"
proof (rule sleep_to_sync_point_returns)
  let ?P = "(sample_platform 7 1000 0 True True True True)
    \<lparr>p_reasonForWake := \<lambda>h. if 3 \<le> sleeps h then SleepTimerExpired else Cleared\<rparr>"
  show "documented_time ?P" "documented_low_power ?P"
    using sample_platform_documented [of 7 1000 0 True True True True]
    by (simp_all add: documented_time_def documented_subtraction_def documented_difference_def
        documented_clock_duration_def documented_low_power_def)
qed (simp_all add: sleeping_unit_defs sample_platform_def schedule_inv_def)

section \<open>Whole sync periods\<close>

lemma preludeToLoop_core:
  fixes s :: "'a sleeper_state_scheme"
  assumes "preludeToLoopWithFaults P s = Some s'" "core_inv P s"
  shows "core_inv P s'" "\<exists>h. endTimeOfSyncPeriod s' = p_nowTime P h"
proof -
  obtain r where r: "RemoteLogger_sendAnyFaults P (SyncPowerManager_enterBrownoutDetectMode s) = Some r"
    "s' = Schedule_setEndTimeOfSyncPeriodToNow P (SyncModeManager_resetToModeMaintain r)"
    using assms(1) by (auto simp: preludeToLoopWithFaults_def Let_def split: if_splits elim!: bind_SomeE)
  have "core_inv P r"
    using r(1) assms(2) infoSlot_core(1) [of P _ "SyncPowerManager_enterBrownoutDetectMode s"]
    by (auto simp: RemoteLogger_sendAnyFaults_def RemoteLogger_sendInfo_def
        SyncPowerManager_enterBrownoutDetectMode_def split: if_splits)
  then show "core_inv P s'"
    unfolding r(2) by (simp add: core_inv_def inv_parts Schedule_setEndTimeOfSyncPeriodToNow_def
        SyncModeManager_resetToModeMaintain_def MergerFisherRole_toNoFishing_def LongClock_nowTime_def Let_def)
      (simp add: emit_def)
  show "\<exists>h. endTimeOfSyncPeriod s' = p_nowTime P h"
    by (auto simp: r(2) Schedule_setEndTimeOfSyncPeriodToNow_def LongClock_nowTime_def Let_def)
qed

text \<open>
  C38. The loop of the earlier design, run for any number of sync periods from a unit whose state
  outside the schedule is well formed, and with a clock that stays \<open>160000\<close> ticks per period away
  from wrapping, leaves a unit that satisfies the whole invariant, whatever packets are received,
  whatever wakes it, and whether a period has been used for a log message, for fishing, merging or
  provisioning (unless an assertion fails).
\<close>

theorem sleeping_loop_keeps_unit_inv:
  fixes s :: sleeper_state
  assumes "SyncAgentImp_loop P n s = Some s'" "0 < n" "core_inv P s"
    and "\<And>h. unat (p_nowTime P h) + 160000 * n < 2 ^ 63"
  shows "unit_inv P s'"
proof -
  obtain r where r: "preludeToLoopWithFaults P s = Some r" "iterate_op (loopIteration P) n r = Some s'"
    using assms(1) by (auto simp: SyncAgentImp_loop_def elim!: bind_SomeE)
  obtain h where "endTimeOfSyncPeriod r = p_nowTime P h"
    using preludeToLoop_core(2) [OF r(1) assms(3)] by blast
  then show ?thesis
    using loop_inv [OF r(2) preludeToLoop_core(1) [OF r(1) assms(3)]] assms(2) assms(4) [of h] by simp
qed

text \<open>A period with power: the unit enters the mode \<open>SyncOnly\<close>, listens in its sync slot and sleeps.\<close>

lemmas sleeper_op_defs =
  SyncSleeper_sleepUntilTimeout_def OverSleepMonitor_markStartSleep_def OverSleepMonitor_checkOverslept_def
  OverSleepMonitor_timeElapsedSinceLastStartSleep_def ClockDuration_elapsed_def sleepOnce_def noteSleep_def
  calculateTimeout_def sleepWithOnlyTimerPowerUntilTimeout_def Sleeper_sleepUntilEventWithTimeout_def
  Sleeper_isWakeForTimerExpired_def Sleeper_getReasonForWake_def Phase_set_def

lemmas sleeping_loop_defs =
  SyncAgentImp_loop_def preludeToLoopWithFaults_def loopIteration_def RemoteLogger_sendAnyFaults_def
  RemoteLogger_isEnabled_def SyncAgentImp_preludeToSyncPeriod_def ModalSyncPeriod_perform_def
  ScheduleSleeper_sleepEntireSyncPeriod_def SyncModeManager_mode_def Schedule_setEndTimeOfSyncPeriodToNow_def
  SyncPowerManager_enterBrownoutDetectMode_def SyncModeManager_resetToModeMaintain_def MergerFisherRole_toNoFishing_def
  Clique_isSelfMaster_def Ensemble_isRadioInUse_def WorkIn_resetState_def
  Schedule_rollPeriodForward_def rollPeriodForwardDiscretely_def
  Schedule_deltaNowToNextSyncPoint_def clampedTimeDifferenceFromNow_def Schedule_timeOfNextSyncPoint_def


lemmas sleeping_slot_defs =
  CombinedSyncPeriod_doSlotSequence_def SyncWorkSlot_tryPerform_def SyncWorkSlot_perform_def
  SyncWorkSlot_dispatchSyncSlotKind_def SyncSlotProperty_decideKind_def SyncBehaviour_shouldTransmitSync_def
  Clique_shouldTransmitSync_def xmit_policy_defs IntraCliqueManager_shouldSendControlSync_def
  IntraCliqueManager_isActive_def SendRepeater_isActive_def SendRepeater_shouldSend_def WorkOut_isNeedSendWork_def SyncWorkSlot_doMasterSyncWorkSlot_def
  SyncWorkSlot_doSlaveSyncWorkSlot_def listenFirstHalf_def listenSecondHalf_def SyncWorkSlot_doListenHalfSyncWorkSlot_def
  SyncSleeper_sleepUntilMsgAcceptedOrTimeout_def listenOnce_def sleepWithRadioAndTimerPowerUntilTimeout_def
  determineHandlingResult_def SyncSlotSchedule_deltaToThisSyncSlotMiddleSubslot_def SyncSlotSchedule_deltaToThisSyncSlotEnd_def
  SyncSlotSchedule_timeOfThisSyncSlotMiddleSubslot_def SyncSlotSchedule_timeOfThisSyncSlotEnd_def
  SyncWorkSlot_endListen_def Ensemble_isLowPower_def CombinedSyncPeriod_tryFishOrMerge_def
  ScheduleSleeper_sleepRemainderOfSyncPeriod_def SyncAgentImp_toFisherFromNoFishing_def
  SyncSlotStep_sendSync_def SyncSender_sendMasterSync_def initSyncMessage_eq sendMessage_eq SyncOffset_calculate_def

lemma sleeping_loop_keeps_unit_inv_witness:
  "\<exists>s'. SyncAgentImp_loop (sample_platform 7 80000 0 False True True False) 1 (sleeping_unit 7 7) = Some s' \<and>
    unit_inv (sample_platform 7 80000 0 False True True False) s'"
proof -
  let ?P = "sample_platform 7 80000 0 False True True False"
  obtain s' where s': "SyncAgentImp_loop ?P 1 (sleeping_unit 7 7) = Some s'"
    by (simp add: sleeping_loop_defs sleeping_slot_defs do_while_once sleeper_op_defs sleeping_unit_defs
        sample_platform_def emit_def Let_def params exact_difference_def platform_calls mode_transition_defs power_defs)
  have "core_inv ?P (sleeping_unit 7 7)"
    by (simp add: sleeping_unit_defs core_inv_def inv_parts sample_platform_def generator_ok_def params)
  then have "unit_inv ?P s'"
    by (intro sleeping_loop_keeps_unit_inv [OF s']) (simp_all add: sample_platform_def)
  then show ?thesis
    using s' by blast
qed

section \<open>A sync slot without power\<close>

text \<open>
  A unit that lacks the power for its sync slot, after it has started the ensemble, resets:
  it sleeps for the rest of the slot as if the ensemble were off, which
  \<open>assertUltraLowPower\<close> rejects.
\<close>

lemma unpowered_sync_slot_resets:
  fixes s :: "'a sleeper_state_scheme"
  assumes "documented_low_power P" "\<not> p_isPowerAbove P (EnsembleStartup # io s) UltraLow"
  shows "SyncWorkSlot_tryPerform P s = None"
proof -
  let ?f = "\<lambda>s :: 'a sleeper_state_scheme. Some (SyncSlotSchedule_deltaToThisSyncSlotEnd P s)"
  have body: "sleepOnce P ?f r = None" if "ensemble_on (io r)" for r
    using that assms(1)
    by (simp add: sleepOnce_def calculateTimeout_def sleepWithOnlyTimerPowerUntilTimeout_def documented_low_power_def
        SyncSlotSchedule_deltaToThisSyncSlotEnd_def clampedTimeDifferenceFromNow_def)
  have sleep: "SyncSleeper_sleepUntilTimeout P ?f r = None" if "ensemble_on (io r)" for r
  proof (cases "OverSleepMonitor_markStartSleep P ?f r")
    case (Some m)
    then have "io m = GetNowTime # GetNowTime # io r"
      by (auto simp: OverSleepMonitor_markStartSleep_def LongClock_nowTime_def emit_def
          SyncSlotSchedule_deltaToThisSyncSlotEnd_def clampedTimeDifferenceFromNow_def Let_def split: if_splits)
    then have "ensemble_on (io m)"
      using that by simp
    then show ?thesis
      by (simp add: SyncSleeper_sleepUntilTimeout_def Some do_while.simps [of _ "m\<lparr>countSleeps := 0\<rparr>"] body)
  qed (simp add: SyncSleeper_sleepUntilTimeout_def)
  show ?thesis
    using assms(2) sleep
    by (simp add: SyncWorkSlot_tryPerform_def power_defs ScheduleSleeper_sleepSyncSlotRemainder_def
        FlashLogger_logNoPowerToStartSyncSlot_def Phase_set_def emit_def Let_def)
qed

lemma unpowered_sync_slot_resets_witness:
  "SyncWorkSlot_tryPerform (sample_platform 7 1000 0 True True False True) (sleeping_unit 7 7) = None"
  by (rule unpowered_sync_slot_resets [OF sample_platform_documented(4)]) (simp add: sample_platform_def)

end
