(* ===== verification/Console.thy ===== *)
theory Console
  imports SleepingSlots
begin

text \<open>
  The debugging console (\<open>logging/logger.cpp\<close>): what each function of the logger writes on it and which of them
  also hand an event to the remote logger.  The logger of the library (\<open>RTTLogger\<close>) is
  not in the repository: the state records the calls made to it.  \<open>FULL_LOGGING\<close> is an argument.  The last section shows that logging leaves the
  rest of the unit alone, so that the components can be modelled without their calls of the logger; the first
  sections of \<open>syncAgentImp/syncAgentImp.cpp\<close> that store what the app hands over are here too.
\<close>

section \<open>The console\<close>

text \<open>One constructor for each overload of \<open>log\<close> of the library.\<close>

datatype console_item = Text string | Byte u8 | Word32 u32 | SignedWord32 u32 | Word64 u64

record console_state = sleeper_state +
  console :: "console_item list"

abbreviation newline :: string where
  "newline \<equiv> [CHR 0x0A]"

definition localLogger_log :: "console_item \<Rightarrow> 'a console_state_scheme \<Rightarrow> 'a console_state_scheme" where
  "localLogger_log item s = s\<lparr>console := console s @ [item]\<rparr>"

section \<open>Pass through\<close>

definition Logger_log :: "string \<Rightarrow> 'a console_state_scheme \<Rightarrow> 'a console_state_scheme" where
  "Logger_log t s = localLogger_log (Text t) s"

definition Logger_logInt :: "u32 \<Rightarrow> 'a console_state_scheme \<Rightarrow> 'a console_state_scheme" where
  "Logger_logInt value s = localLogger_log (Word32 value) s"

definition Logger_logSignedInt :: "u32 \<Rightarrow> 'a console_state_scheme \<Rightarrow> 'a console_state_scheme" where
  "Logger_logSignedInt value s = localLogger_log (SignedWord32 value) s"

definition Logger_logByte :: "u8 \<Rightarrow> 'a console_state_scheme \<Rightarrow> 'a console_state_scheme" where
  "Logger_logByte value s = localLogger_log (Byte value) s"

definition Logger_logLongLong :: "u64 \<Rightarrow> 'a console_state_scheme \<Rightarrow> 'a console_state_scheme" where
  "Logger_logLongLong value s = localLogger_log (Word64 value) s"

section \<open>Events and messages\<close>

definition Logger_logSystemInfo :: "'a console_state_scheme \<Rightarrow> 'a console_state_scheme" where
  "Logger_logSystemInfo s =
     (let s = localLogger_log (Word64 (Clique_getMasterID s)) s
      in localLogger_log (Text (''<ID'' @ newline)) s)"

definition Logger_logStartSyncPeriod :: "bool \<Rightarrow> long_time \<Rightarrow> 'a console_state_scheme \<Rightarrow> 'a console_state_scheme" where
  "Logger_logStartSyncPeriod fullLogging now s =
     (if fullLogging then
        (let s = localLogger_log (Word64 now) s
         in localLogger_log (Text (''<Sync'' @ newline)) s)
      else s)"

definition Logger_logWakeWithoutIRQSettingReason :: "'a console_state_scheme \<Rightarrow> 'a console_state_scheme" where
  "Logger_logWakeWithoutIRQSettingReason s =
     localLogger_log (Text (newline @ ''Unexpected wake, no IRQ reason.'')) s"

definition Logger_logUnexpectedEventWhileListening :: "'a console_state_scheme \<Rightarrow> 'a console_state_scheme" where
  "Logger_logUnexpectedEventWhileListening s =
     localLogger_log (Text (newline @ ''Unexpected clock event while listening.'')) s"

definition Logger_logWakeIRQFoundNoEvent :: "'a console_state_scheme \<Rightarrow> 'a console_state_scheme" where
  "Logger_logWakeIRQFoundNoEvent s = localLogger_log (Text (newline @ ''Wake IRQ returned reason Unknown.'')) s"

definition Logger_logTicksSinceStartSyncPeriod ::
  "platform \<Rightarrow> 'a console_state_scheme \<Rightarrow> 'a console_state_scheme" where
  "Logger_logTicksSinceStartSyncPeriod P s =
     (let s = localLogger_log (Text '' PT:'') s;
          (ticks, s) = Schedule_deltaPastSyncPointToNow P s
      in localLogger_log (Word32 ticks) s)"

definition Logger_logReceivedMsg ::
  "platform \<Rightarrow> sync_message \<Rightarrow> 'a console_state_scheme \<Rightarrow> 'a console_state_scheme" where
  "Logger_logReceivedMsg P msg s =
     (let s = Logger_logTicksSinceStartSyncPeriod P s;
          s = localLogger_log (Text (newline @ ''RX '')) s;
          s = localLogger_log (Text (SyncMessage_representation (msg_type msg))) s;
          s = localLogger_log (Text '':'') s;
          s = localLogger_log (Byte (ucast (msg_masterID msg))) s;
          s = localLogger_log (Text '':'') s;
          s = localLogger_log (Word32 (deltaToNextSyncPoint msg)) s;
          s = localLogger_log (Text '':'') s;
          s = localLogger_log (Byte (work msg)) s
      in localLogger_log (Text newline) s)"

definition Logger_logSend :: "sync_message \<Rightarrow> 'a console_state_scheme \<Rightarrow> 'a console_state_scheme" where
  "Logger_logSend msg s =
     (let s = localLogger_log (Text ''TX '') s;
          s = localLogger_log (Text (SyncMessage_representation (msg_type msg))) s
      in localLogger_log (Byte (work msg)) s)"

definition Logger_logMsgDetail :: "sync_message \<Rightarrow> 'a console_state_scheme \<Rightarrow> 'a console_state_scheme" where
  "Logger_logMsgDetail msg s =
     (let s = localLogger_log (Text (newline @ '' ID:'')) s;
          s = localLogger_log (Word64 (msg_masterID msg)) s;
          s = localLogger_log (Text '' Off:'') s
      in localLogger_log (Word32 (deltaToNextSyncPoint msg)) s)"

definition Logger_logInferiorCliqueSyncSlotOfMaster :: "'a console_state_scheme \<Rightarrow> 'a console_state_scheme" where
  "Logger_logInferiorCliqueSyncSlotOfMaster s = localLogger_log (Text ''Master heard inferior.'') s"

definition Logger_logInferiorCliqueSyncSlotOfSlave :: "'a console_state_scheme \<Rightarrow> 'a console_state_scheme" where
  "Logger_logInferiorCliqueSyncSlotOfSlave s = localLogger_log (Text ''Slave heard inferior.'') s"

definition Logger_logSendLatency :: "u32 \<Rightarrow> 'a console_state_scheme \<Rightarrow> 'a console_state_scheme" where
  "Logger_logSendLatency value s =
     (let s = localLogger_log (Text ''SLatency '') s
      in localLogger_log (Word32 value) s)"

definition Logger_logReceivedInfo :: "u8 \<Rightarrow> 'a console_state_scheme \<Rightarrow> 'a console_state_scheme" where
  "Logger_logReceivedInfo value s =
     (let s = localLogger_log (Text (newline @ ''Info '')) s
      in localLogger_log (Byte value) s)"

definition Logger_logSyncPoint :: "platform \<Rightarrow> 'a console_state_scheme \<Rightarrow> 'a console_state_scheme" where
  "Logger_logSyncPoint P s =
     (if Clique_isSelfMaster P s then localLogger_log (Text (newline @ ''Mastr '')) s
      else localLogger_log (Text (newline @ ''Slave '')) s)"

definition Logger_logResult :: "string \<Rightarrow> bool \<Rightarrow> 'a console_state_scheme \<Rightarrow> 'a console_state_scheme" where
  "Logger_logResult label result s =
     (let s = Logger_log label s;
          s = Logger_log '': '' s
      in if result then Logger_log (''Y'' @ newline) s else Logger_log (''N'' @ newline) s)"

section \<open>Events that are also logged remotely\<close>

definition log_both ::
  "platform \<Rightarrow> string \<Rightarrow> remote_logged_event \<Rightarrow> 'a console_state_scheme \<Rightarrow> 'a console_state_scheme" where
  "log_both P t event s = RemoteLogger_log P (remote_logged_event_value event) (localLogger_log (Text t) s)"

definition Logger_logPauseSync :: "platform \<Rightarrow> 'a console_state_scheme \<Rightarrow> 'a console_state_scheme" where
  "Logger_logPauseSync P s = log_both P (newline @ ''Pause sync mode. '') StopSync s"

definition Logger_logStartSync :: "platform \<Rightarrow> 'a console_state_scheme \<Rightarrow> 'a console_state_scheme" where
  "Logger_logStartSync P s = log_both P (newline @ ''Start sync mode.'') StartSync s"

definition Logger_logStartFish :: "platform \<Rightarrow> 'a console_state_scheme \<Rightarrow> 'a console_state_scheme" where
  "Logger_logStartFish P s = log_both P (newline @ ''Start fish mode.'') StartFish s"

definition Logger_logStopFish :: "platform \<Rightarrow> 'a console_state_scheme \<Rightarrow> 'a console_state_scheme" where
  "Logger_logStopFish P s = log_both P (newline @ ''Stop fish mode. '') StopFish s"

definition Logger_logIncreaseFish :: "platform \<Rightarrow> 'a console_state_scheme \<Rightarrow> 'a console_state_scheme" where
  "Logger_logIncreaseFish P s = log_both P (newline @ ''Increase fishing duration. '') FishDurationInc s"

definition Logger_logDecreaseFish :: "platform \<Rightarrow> 'a console_state_scheme \<Rightarrow> 'a console_state_scheme" where
  "Logger_logDecreaseFish P s = log_both P (newline @ ''Decrease fishing duration. '') FishDurationDec s"

definition Logger_logToMinFish :: "platform \<Rightarrow> 'a console_state_scheme \<Rightarrow> 'a console_state_scheme" where
  "Logger_logToMinFish P s = log_both P (newline @ ''To min fishing duration. '') FishDurationMin s"

definition Logger_logMasterDropout :: "platform \<Rightarrow> 'a console_state_scheme \<Rightarrow> 'a console_state_scheme" where
  "Logger_logMasterDropout P s = log_both P (''    MASTER DROP OUT'' @ newline) MasterDropOut s"

definition Logger_logBrownout :: "platform \<Rightarrow> 'a platform_state_scheme \<Rightarrow> u32 \<times> 'a platform_state_scheme" where
  "Logger_logBrownout P s = (1, RemoteLogger_log P (remote_logged_event_value BrownOut) s)"

section \<open>Logging in the components\<close>

text \<open>The drift is logged as a 32-bit signed integer (\<open>clique/schedule.cpp\<close>).\<close>

definition logDrift :: "long_time \<Rightarrow> 'a console_state_scheme \<Rightarrow> 'a console_state_scheme" where
  "logDrift newSyncEndTime s =
     (let s = Logger_log ''Adj:'' s
      in Logger_logSignedInt (ucast (newSyncEndTime - Schedule_timeOfNextSyncPoint s)) s)"

text \<open>Whose clique a message of a worse clique was heard by (\<open>modules/syncBehaviour.cpp\<close>).\<close>

definition SyncBehaviour_logWorseSync :: "platform \<Rightarrow> 'a console_state_scheme \<Rightarrow> 'a console_state_scheme" where
  "SyncBehaviour_logWorseSync P s =
     (if Clique_isSelfMaster P s then Logger_logInferiorCliqueSyncSlotOfMaster s
      else Logger_logInferiorCliqueSyncSlotOfSlave s)"

section \<open>What the app hands over\<close>

text \<open>Of the mailbox and of each callback of the app the state keeps whether it is set.\<close>

record app_state = console_state +
  workOutMailboxIsSet :: bool
  onWorkMsgCallbackIsSet :: bool
  onSyncPointCallbackIsSet :: bool
  onPowerReserveCallbackIsSet :: bool

definition WorkOut_init :: "bool \<Rightarrow> 'a app_state_scheme \<Rightarrow> 'a app_state_scheme" where
  "WorkOut_init aMailbox s = s\<lparr>workOutMailboxIsSet := aMailbox\<rparr>"

definition SyncAgentImp_connectOnMuchPowerReserve :: "bool \<Rightarrow> 'a app_state_scheme \<Rightarrow> 'a app_state_scheme" where
  "SyncAgentImp_connectOnMuchPowerReserve callback s = s\<lparr>onPowerReserveCallbackIsSet := callback\<rparr>"

definition SyncAgentImp_connectApp ::
  "bool \<Rightarrow> bool \<Rightarrow> bool \<Rightarrow> 'a app_state_scheme \<Rightarrow> 'a app_state_scheme" where
  "SyncAgentImp_connectApp aMailbox aOnWorkMsgCallback aOnSyncPointCallback s =
     (let s = WorkOut_init aMailbox s
      in s\<lparr>onWorkMsgCallbackIsSet := aOnWorkMsgCallback, onSyncPointCallbackIsSet := aOnSyncPointCallback\<rparr>)"

definition SyncAgent_connectOnMuchPowerReserve :: "bool \<Rightarrow> 'a app_state_scheme \<Rightarrow> 'a app_state_scheme" where
  "SyncAgent_connectOnMuchPowerReserve callback s = SyncAgentImp_connectOnMuchPowerReserve callback s"

definition SyncAgent_connectApp :: "bool \<Rightarrow> bool \<Rightarrow> bool \<Rightarrow> 'a app_state_scheme \<Rightarrow> 'a app_state_scheme" where
  "SyncAgent_connectApp mailbox onWorkMsg onSyncPoint s = SyncAgentImp_connectApp mailbox onWorkMsg onSyncPoint s"

section \<open>Logging leaves the unit alone\<close>

text \<open>Logging appends to the console and calls the platform; it changes nothing else.\<close>

definition only_logs :: "'a console_state_scheme \<Rightarrow> 'a console_state_scheme \<Rightarrow> bool" where
  "only_logs s s' \<longleftrightarrow>
     s' = s\<lparr>io := io s', console := console s'\<rparr> \<and>
     (\<exists>events. io s' = events @ io s) \<and> (\<exists>items. console s' = console s @ items)"

lemma only_logs_trans: "only_logs s t \<Longrightarrow> only_logs t u \<Longrightarrow> only_logs s u"
proof -
  assume a: "only_logs s t" "only_logs t u"
  obtain e c where t: "t = s\<lparr>io := e @ io s, console := console s @ c\<rparr>"
    using a(1) unfolding only_logs_def by (metis (no_types))
  obtain e' c' where "u = t\<lparr>io := e' @ io t, console := console t @ c'\<rparr>"
    using a(2) unfolding only_logs_def by (metis (no_types))
  then show "only_logs s u"
    by (simp add: only_logs_def t)
qed

lemma only_logs_refl [intro, simp]: "only_logs s s"
  by (simp add: only_logs_def)

lemma only_logs_steps:
  "only_logs s (localLogger_log item s)"
  "only_logs s (emit e s)"
  "only_logs s (RemoteLogger_log P v s)"
  "only_logs s (snd (Schedule_deltaPastSyncPointToNow P s))"
  by (simp_all add: only_logs_def localLogger_log_def emit_def RemoteLogger_log_def
      Schedule_deltaPastSyncPointToNow_def clampedTimeDifferenceToNow_def)

lemma only_logs_further:
  assumes "only_logs s t"
  shows "only_logs s (localLogger_log item t)" "only_logs s (RemoteLogger_log P v t)"
    "only_logs s (snd (Schedule_deltaPastSyncPointToNow P t))"
  by (rule only_logs_trans [OF assms], rule only_logs_steps)+

lemmas logger_functions =
  Logger_log_def Logger_logInt_def Logger_logSignedInt_def Logger_logByte_def Logger_logLongLong_def
  Logger_logSystemInfo_def Logger_logStartSyncPeriod_def Logger_logWakeWithoutIRQSettingReason_def
  Logger_logUnexpectedEventWhileListening_def Logger_logWakeIRQFoundNoEvent_def
  Logger_logTicksSinceStartSyncPeriod_def Logger_logReceivedMsg_def Logger_logSend_def Logger_logMsgDetail_def
  Logger_logInferiorCliqueSyncSlotOfMaster_def Logger_logInferiorCliqueSyncSlotOfSlave_def
  Logger_logSendLatency_def Logger_logReceivedInfo_def Logger_logSyncPoint_def Logger_logResult_def log_both_def
  Logger_logPauseSync_def Logger_logStartSync_def Logger_logStartFish_def Logger_logStopFish_def
  Logger_logIncreaseFish_def Logger_logDecreaseFish_def Logger_logToMinFish_def Logger_logMasterDropout_def

lemma logging_only_logs:
  "only_logs s (Logger_logSystemInfo s)"
  "only_logs s (Logger_logStartSyncPeriod full now s)"
  "only_logs s (Logger_logTicksSinceStartSyncPeriod P s)"
  "only_logs s (Logger_logReceivedMsg P msg s)"
  "only_logs s (Logger_logSend msg s)"
  "only_logs s (Logger_logMsgDetail msg s)"
  "only_logs s (Logger_logSyncPoint P s)"
  "only_logs s (Logger_logResult label b s)"
  "only_logs s (Logger_logPauseSync P s)"
  "only_logs s (Logger_logStartSync P s)"
  "only_logs s (Logger_logStartFish P s)"
  "only_logs s (Logger_logStopFish P s)"
  "only_logs s (Logger_logMasterDropout P s)"
  "only_logs s (logDrift t s)"
  "only_logs s (SyncBehaviour_logWorseSync P s)"
  by (auto simp: logger_functions logDrift_def SyncBehaviour_logWorseSync_def Let_def split_beta intro!: only_logs_further)

lemma logging_keeps_unit_inv:
  assumes "only_logs s s'"
  shows "unit_inv P s' \<longleftrightarrow> unit_inv P s"
proof -
  obtain e c where "s' = s\<lparr>io := e @ io s, console := console s @ c\<rparr>"
    using assms unfolding only_logs_def by (metis (no_types))
  then show ?thesis
    by (simp add: inv_parts unit_inv_def)
qed

text \<open>The drift can be read off the console where it fits into 32 bits, whichever way the period moved.\<close>

lemma drift_logged:
  assumes "newSyncEndTime = endTimeOfSyncPeriod s + word_of_int d" "- (2 ^ 31) \<le> d" "d < 2 ^ 31"
  obtains w where "console (logDrift newSyncEndTime s) = console s @ [Text ''Adj:'', SignedWord32 w]" "sint w = d"
proof -
  have "sint (word_of_int d :: u32) = d"
    using assms(2,3) by (simp add: signed_of_int signed_take_bit_int_eq_self)
  moreover have "(ucast (word_of_int d :: long_time) :: u32) = word_of_int d"
    by (simp add: unsigned_of_int word_of_int_eq_iff take_bit_eq_mod [symmetric])
  ultimately show thesis
    by (intro that [of "word_of_int d"]) (simp_all add: logDrift_def logger_functions localLogger_log_def
        Schedule_timeOfNextSyncPoint_def assms(1))
qed

text \<open>The type of a message can be read off the console, and so can its offset and its work.\<close>

lemma received_messages_told_apart:
  assumes "console (Logger_logReceivedMsg P m s) = console (Logger_logReceivedMsg P n s)"
  shows "msg_type m = msg_type n" "deltaToNextSyncPoint m = deltaToNextSyncPoint n" "work m = work n"
    "(ucast (msg_masterID m) :: u8) = ucast (msg_masterID n)"
  using assms by (simp_all add: logger_functions localLogger_log_def Let_def split_beta representation_inj)

end
