(* ===== verification/RangeFiltering.thy ===== *)
theory RangeFiltering
  imports PowerOn
begin

unbundle bit_operations_syntax

text \<open>
  The configuration with \<open>RANGE_FILTERING\<close>, which the code keeps compiled out: the byte of the type also carries
  the power the message was transmitted with (\<open>message/serializer.cpp\<close>), and the dispatcher
  (\<open>messageHandler/messageDispatcher.cpp\<close>) drops messages of units that are out of a virtual range
  (\<open>network/granularity.cpp\<close>).
\<close>

section \<open>The packed byte\<close>

record ranged_message = sync_message +
  transmittedSignalStrength :: net_granularity

definition serializeTypeAndTSSCommonIntoStream ::
  "ranged_message \<Rightarrow> 'a serializer_state_scheme \<Rightarrow> 'a serializer_state_scheme" where
  "serializeTypeAndTSSCommonIntoStream msg s =
     (let raw = message_type_value (msg_type msg) :: u8;
          raw = push_bit 6 raw;
          raw = (if raw \<noteq> 0 \<or> Granularity_getRaw (transmittedSignalStrength msg) AND 3 \<noteq> 0 then 1 else 0) :: u8
      in s\<lparr>radioBuffer := put_bytes TypeTSSIndex (le_bytes TypeTSSLength raw) (radioBuffer s)\<rparr>)"

definition unserializeTypeAndTSSInto :: "'a serializer_state_scheme \<Rightarrow> message_type \<times> net_granularity" where
  "unserializeTypeAndTSSInto s =
     (let raw = le_word (get_bytes TypeTSSIndex TypeTSSLength (radioBuffer s)) :: u8;
          rawTSS = raw AND 3;
          rawType = drop_bit 2 raw
      in (SyncMessage_messageTypeFromRaw rawType, Granularity_getFromRaw rawTSS))"

definition Serializer_unserializeRanged :: "'a serializer_state_scheme \<Rightarrow> ranged_message option option" where
  "Serializer_unserializeRanged s =
     (let (t, tss) = unserializeTypeAndTSSInto s
      in if t \<noteq> Invalid
         then map_option (\<lambda>msg. Some (sync_message.extend msg \<lparr>transmittedSignalStrength = tss\<rparr>))
                (unserializeOTAFieldsIntoMessageFields t s)
         else Some None)"

definition Serializer_serializeRangedMessageIntoRadioBuffer ::
  "ranged_message \<Rightarrow> 'a serializer_state_scheme \<Rightarrow> 'a serializer_state_scheme option" where
  "Serializer_serializeRangedMessageIntoRadioBuffer msg s = do {
     require (radioBufferPtrIsSet s);
     let s = serializeTypeAndTSSCommonIntoStream msg s;
     let s = serializeMasterIDCommonIntoStream (sync_message.truncate msg) s;
     let s = serializeOffsetCommonIntoStream (sync_message.truncate msg) s;
     Some (serializeWorkCommonIntoStream (sync_message.truncate msg) s)
   }"

section \<open>The virtual range\<close>

text \<open>The switch of the code has no case for the invalid granularity, which a unit never has.\<close>

definition Granularity_isMsgInVirtualRange ::
  "u32 \<Rightarrow> net_granularity \<Rightarrow> 'a network_state_scheme \<Rightarrow> bool option" where
  "Granularity_isMsgInVirtualRange rssi tss s =
     (case cliqueGranularity s of
        Small \<Rightarrow> Some (\<not> ((tss = Large \<and> rssi < 750) \<or> (tss = MediumGranularity \<and> rssi < 60)))
      | MediumGranularity \<Rightarrow> Some (\<not> (tss = Large \<and> rssi < 60))
      | Large \<Rightarrow> Some True
      | InvalidGranularity \<Rightarrow> None)"

text \<open>The strength of the received signal is measured by the radio: an argument.\<close>

definition handleRangeFilteredMessage ::
  "platform \<Rightarrow> (io_event list \<Rightarrow> u32) \<Rightarrow> message_handler \<Rightarrow> ranged_message \<Rightarrow> 'a receiver_state_scheme \<Rightarrow>
     (handling_result \<times> 'a receiver_state_scheme) option" where
  "handleRangeFilteredMessage P getRSSI h msg s = do {
     let rssi = getRSSI (io s);
     let tssi = transmittedSignalStrength msg;
     inRange \<leftarrow> Granularity_isMsgInVirtualRange rssi tssi s;
     (if inRange then handleValidMessageAndSetContinuation P h (sync_message.truncate msg) s
      else Some (KeepListening, emit StartReceiving s))
   }"

definition MessageDispatcher_dispatchRanged ::
  "platform \<Rightarrow> (io_event list \<Rightarrow> u32) \<Rightarrow> message_handler \<Rightarrow> 'a receiver_state_scheme \<Rightarrow>
     (handling_result \<times> 'a receiver_state_scheme) option" where
  "MessageDispatcher_dispatchRanged P getRSSI h s =
     (if Ensemble_isPacketCRCValid P s then do {
        received \<leftarrow> Serializer_unserializeRanged s;
        (case received of
           Some msg \<Rightarrow> handleRangeFilteredMessage P getRSSI h msg s
         | None \<Rightarrow> Some (KeepListening, emit StartReceiving s))
      } else Some (KeepListening, emit StartReceiving s))"

section \<open>Every message is garbled\<close>

text \<open>The wrong operator makes the packed byte 0 or 1, and neither holds a type.\<close>

lemma serialized_byte:
  assumes "Serializer_serializeRangedMessageIntoRadioBuffer msg s = Some s'" "length (radioBuffer s) = FixedPayloadCount"
  shows "(le_word (get_bytes TypeTSSIndex TypeTSSLength (radioBuffer s')) :: u8) \<in> {0, 1}"
proof -
  have "\<exists>raw :: u8. raw \<in> {0, 1} \<and>
    radioBuffer s' = put_bytes WorkIndex (le_bytes WorkLength (work msg))
      (put_bytes OffsetIndex (le_bytes OffsetLength (deltaToNextSyncPoint msg))
       (put_bytes MasterIndex (le_bytes MasterIDLength (msg_masterID msg))
        (put_bytes TypeTSSIndex (le_bytes TypeTSSLength raw) (radioBuffer s))))"
    using assms(1) by (auto simp: Serializer_serializeRangedMessageIntoRadioBuffer_def serializer_writers
        serializeTypeAndTSSCommonIntoStream_def sync_message.truncate_def Let_def split: if_splits)
  then obtain raw :: u8 where raw: "raw \<in> {0, 1}"
    "radioBuffer s' = put_bytes WorkIndex (le_bytes WorkLength (work msg))
      (put_bytes OffsetIndex (le_bytes OffsetLength (deltaToNextSyncPoint msg))
       (put_bytes MasterIndex (le_bytes MasterIDLength (msg_masterID msg))
        (put_bytes TypeTSSIndex (le_bytes TypeTSSLength raw) (radioBuffer s))))"
    by blast
  have "length (put_bytes TypeTSSIndex (le_bytes TypeTSSLength raw) (radioBuffer s)) = FixedPayloadCount"
    using assms(2) field_regions by (simp add: ota_layout del: le_bytes.simps)
  then have "get_bytes TypeTSSIndex TypeTSSLength (radioBuffer s') =
      get_bytes TypeTSSIndex TypeTSSLength (put_bytes TypeTSSIndex (le_bytes TypeTSSLength raw) (radioBuffer s))"
    unfolding raw(2) by (simp add: codec_facts field_regions del: le_bytes.simps le_word.simps)
  also have "\<dots> = le_bytes TypeTSSLength raw"
    using assms(2) by (intro get_put_bytes_same) (simp_all add: ota_layout del: le_bytes.simps)
  finally have "(le_word (get_bytes TypeTSSIndex TypeTSSLength (radioBuffer s')) :: u8) = le_word (le_bytes TypeTSSLength raw)"
    by simp
  also have "\<dots> = raw"
    unfolding le_word_le_bytes by (simp add: ota_layout take_bit_word_eq_self)
  finally show ?thesis
    using raw(1) by simp
qed

text \<open>
  C39. With range filtering every message that a unit transmits is dropped by every receiver: the two
  fields of the packed byte are combined with the logical operator \<open>||\<close>, so that the byte is 0 or 1 and the type
  read from it is invalid.  The receiver's state does not change but for receiving again.
\<close>

theorem range_filtering_drops_every_message:
  assumes "length (radioBuffer s) = FixedPayloadCount"
    and "Serializer_serializeRangedMessageIntoRadioBuffer msg s = Some s'"
    and "radioBuffer r = radioBuffer s'"
  shows "MessageDispatcher_dispatchRanged P getRSSI h r = Some (KeepListening, emit StartReceiving r)"
proof -
  have "drop_bit 2 (le_word (get_bytes TypeTSSIndex TypeTSSLength (radioBuffer r)) :: u8) = 0"
    using serialized_byte [OF assms(2,1)] assms(3) by auto
  then have "fst (unserializeTypeAndTSSInto r) = Invalid"
    by (simp add: unserializeTypeAndTSSInto_def SyncMessage_messageTypeFromRaw_def Let_def)
  then show ?thesis
    by (simp add: MessageDispatcher_dispatchRanged_def Serializer_unserializeRanged_def split_beta)
qed

lemma range_filtering_drops_every_message_witness:
  "\<exists>s'. Serializer_serializeRangedMessageIntoRadioBuffer
      (sync_message.extend \<lparr>msg_type = MasterSync, deltaToNextSyncPoint = 40000, msg_masterID = 7, work = 2\<rparr>
        \<lparr>transmittedSignalStrength = MediumGranularity\<rparr>) (sample_unit 7 7) = Some s' \<and>
    MessageDispatcher_dispatchRanged (sample_platform 9 30 30 True True True False) (\<lambda>_. 1000) SyncSlotHandler
      ((sample_unit 9 9)\<lparr>radioBuffer := radioBuffer s'\<rparr>) =
    Some (KeepListening, emit StartReceiving ((sample_unit 9 9)\<lparr>radioBuffer := radioBuffer s'\<rparr>))"
proof -
  let ?msg = "sync_message.extend \<lparr>msg_type = MasterSync, deltaToNextSyncPoint = 40000, msg_masterID = 7, work = 2\<rparr>
    \<lparr>transmittedSignalStrength = MediumGranularity\<rparr>"
  have length: "length (radioBuffer (sample_unit 7 7)) = FixedPayloadCount" "radioBufferPtrIsSet (sample_unit 7 7)"
    by (simp_all add: sample_unit_def powered_on_def ota_layout)
  then obtain s' where s': "Serializer_serializeRangedMessageIntoRadioBuffer ?msg (sample_unit 7 7) = Some s'"
    by (simp add: Serializer_serializeRangedMessageIntoRadioBuffer_def Let_def)
  show ?thesis
    using s' range_filtering_drops_every_message [OF length(1) s', of "(sample_unit 9 9)\<lparr>radioBuffer := radioBuffer s'\<rparr>"]
    by auto
qed

end
