(* ===== verification/FirstVersion.thy ===== *)
theory FirstVersion
  imports Platform "HOL-Library.Signed_Division"
begin

unbundle bit_operations_syntax

text \<open>
  The clocks and the power measurement of the first version, kept under \<open>cruft\<close>: the long clock that
  extends the 24-bit counter of the hardware (\<open>longClock.cpp\<close>), the countdown timer on it
  (\<open>countDownTimer.cpp\<close>), the state of syncing (\<open>syncState.cpp\<close>) and the percentage of
  power (\<open>powerManager.cpp\<close>).  The readings of the hardware are parameters.
\<close>

section \<open>Long clock\<close>

definition OSClockCountBits :: nat where
  "OSClockCountBits = 24"

record long_clock =
  mostSignificantBits :: u32
  previousOSClockTicks :: u32

text \<open>The argument is what \<open>osClock.ticks()\<close> returns.\<close>

definition LongClock_first_reset :: "u32 \<Rightarrow> long_clock \<Rightarrow> long_clock" where
  "LongClock_first_reset ticks c =
     (let c = c\<lparr>mostSignificantBits := 1\<rparr>
      in c\<lparr>previousOSClockTicks := ticks\<rparr>)"

definition LongClock_first_nowTime :: "u32 \<Rightarrow> long_clock \<Rightarrow> long_time \<times> long_clock" where
  "LongClock_first_nowTime ticks c =
     (let currentOSClockTicks = ticks;
          c = (if currentOSClockTicks < previousOSClockTicks c
               then c\<lparr>mostSignificantBits := mostSignificantBits c + 1\<rparr> else c);
          c = c\<lparr>previousOSClockTicks := currentOSClockTicks\<rparr>;
          result = ucast (mostSignificantBits c);
          result = push_bit OSClockCountBits result;
          result = result OR ucast currentOSClockTicks
      in (result, c))"

fun readings :: "u32 list \<Rightarrow> long_clock \<Rightarrow> long_time list" where
  "readings [] c = []"
| "readings (t # ts) c = (let (r, c) = LongClock_first_nowTime t c in r # readings ts c)"

section \<open>Countdown timer\<close>

text \<open>The variable \<open>endingTime\<close> that \<open>setExpiration\<close> computes is a local one, declared anew: the
  one of the file keeps its initial value.\<close>

record countdown_state = platform_state +
  endingTime :: long_time
  previousRemaining :: delta_time

definition CountdownTimer_init :: "'a countdown_state_scheme \<Rightarrow> 'a countdown_state_scheme" where
  "CountdownTimer_init s = s\<lparr>previousRemaining := 0\<rparr>"

definition CountdownTimer_setExpiration ::
  "platform \<Rightarrow> delta_time \<Rightarrow> 'a countdown_state_scheme \<Rightarrow> 'a countdown_state_scheme option" where
  "CountdownTimer_setExpiration P expiration s = do {
     require (expiration > 0);
     let (now, s) = LongClock_nowTime P s;
     let localEndingTime = now + ucast expiration;
     Some (s\<lparr>previousRemaining := expiration\<rparr>)
   }"

definition CountdownTimer_getRemaining ::
  "platform \<Rightarrow> 'a countdown_state_scheme \<Rightarrow> (delta_time \<times> 'a countdown_state_scheme) option" where
  "CountdownTimer_getRemaining P s = do {
     require (previousRemaining s \<noteq> 0);
     Some (clampedTimeDifferenceFromNow P (endingTime s) s)
   }"

section \<open>State of syncing\<close>

definition SyncState_setActive :: "bool \<Rightarrow> bool" where
  "SyncState_setActive isSyncing = (if \<not> isSyncing then True else isSyncing)"

definition SyncState_setPaused :: "bool \<Rightarrow> bool" where
  "SyncState_setPaused isSyncing = (if isSyncing then False else isSyncing)"

definition SyncState_shouldAbandonMastership :: bool where
  "SyncState_shouldAbandonMastership = False"

section \<open>Percentage of power\<close>

text \<open>The argument is what \<open>getVcc()\<close> returns.  In C++ \<open>2^10\<close> is an exclusive or; the division is one
  of integers.\<close>

definition PowerManager_percentVccMeasure :: "int \<Rightarrow> int option" where
  "PowerManager_percentVccMeasure vccValue = do {
     require (vccValue < (2 XOR 10));
     let result = (vccValue sdiv 1024) * 100;
     require (result \<ge> 0 \<and> result \<le> 100);
     Some result
   }"

definition PowerManager_isPowerForRadio :: "int \<Rightarrow> bool option" where
  "PowerManager_isPowerForRadio vccValue = do {
     percent \<leftarrow> PowerManager_percentVccMeasure vccValue;
     Some (percent > 66)
   }"

section \<open>The long clock extends the counter\<close>

text \<open>The hardware counter at a time in ticks.\<close>

definition os_ticks :: "nat \<Rightarrow> u32" where
  "os_ticks t = of_nat (t mod 2 ^ OSClockCountBits)"

text \<open>Each reading is less than a turn of the counter after the one before.\<close>

fun read_often :: "nat \<Rightarrow> nat list \<Rightarrow> bool" where
  "read_often t [] \<longleftrightarrow> True"
| "read_often t (u # us) \<longleftrightarrow> t \<le> u \<and> u < t + 2 ^ OSClockCountBits \<and> read_often u us"

definition tracks :: "nat \<Rightarrow> nat \<Rightarrow> long_clock \<Rightarrow> bool" where
  "tracks turns t c \<longleftrightarrow>
     turns \<le> t div 16777216 \<and> unat (mostSignificantBits c) = t div 16777216 - turns + 1 \<and>
     previousOSClockTicks c = os_ticks t"

lemma os_ticks_unat: "unat (os_ticks t) = t mod 16777216"
  by (simp add: os_ticks_def OSClockCountBits_def unat_of_nat)

lemma concatenated_bits:
  assumes "unat (t :: u32) < 16777216"
  shows "unat (push_bit 24 (ucast m :: u64) OR ucast t) = 16777216 * unat (m :: u32) + unat t"
proof -
  have "push_bit 24 (ucast m :: u64) AND ucast t = 0"
  proof (rule bit_word_eqI)
    fix n
    have "\<not> bit t n" if "n \<ge> 24"
    proof -
      have "take_bit 24 t = t"
        using assms by (simp add: word_unat_eq_iff unsigned_take_bit_eq take_bit_nat_eq_self)
      then show ?thesis
        using that by (metis bit_take_bit_iff not_less)
    qed
    then show "bit (push_bit 24 (ucast m :: u64) AND ucast t) n = bit (0 :: u64) n"
      by (auto simp: bit_and_iff bit_push_bit_iff bit_ucast_iff)
  qed
  then have "push_bit 24 (ucast m :: u64) OR ucast t = push_bit 24 (ucast m) + ucast t"
    by (simp add: disjunctive_add_eq_or)
  moreover have m: "unat m < 4294967296"
    using unsigned_less [of m] by simp
  have "unat (push_bit 24 (ucast m :: u64)) = 16777216 * unat m"
    using m by (simp add: push_bit_eq_mult unat_word_ariths unsigned_ucast_eq take_bit_nat_eq_self)
  moreover have "unat (ucast t :: u64) = unat t"
    using assms by (simp add: unsigned_ucast_eq take_bit_nat_eq_self)
  ultimately show ?thesis
    using m assms by (simp add: unat_word_ariths)
qed

text \<open>The counter is smaller than before exactly when it has made a turn.\<close>

lemma turn_detected:
  fixes t u :: nat
  assumes "t \<le> u" "u < t + 16777216"
  shows "u div 16777216 = (if u mod 16777216 < t mod 16777216 then Suc (t div 16777216) else t div 16777216)"
proof -
  define p q a b where "p = t div 16777216" "q = u div 16777216" "a = u mod 16777216" "b = t mod 16777216"
  have split: "u = 16777216 * q + a" "t = 16777216 * p + b"
    by (simp_all add: p_q_a_b_def)
  have "p \<le> q" "q \<le> Suc p"
    using div_le_mono [OF assms(1), of 16777216] div_le_mono [of u "t + 16777216" 16777216] assms(2)
    by (simp_all add: p_q_a_b_def)
  then consider "q = p" | "q = Suc p"
    by linarith
  then have "q = (if a < b then Suc p else p)"
    by cases (use assms split in auto)
  then show ?thesis
    by (simp add: p_q_a_b_def)
qed

lemma nowTime_tracks:
  assumes "tracks turns t c" "t \<le> u" "u < t + 16777216" "u div 16777216 - turns + 1 < 4294967296"
    and "LongClock_first_nowTime (os_ticks u) c = (r, c')"
  shows "unat r = u + 16777216 - 16777216 * turns" "tracks turns u c'"
proof -
  let ?wrap = "u mod 16777216 < t mod 16777216"
  have less: "os_ticks u < previousOSClockTicks c \<longleftrightarrow> ?wrap"
    using assms(1) by (simp add: tracks_def word_less_nat_alt os_ticks_unat)
  define m where "m = (if ?wrap then mostSignificantBits c + 1 else mostSignificantBits c)"
  have c': "c' = c\<lparr>mostSignificantBits := m, previousOSClockTicks := os_ticks u\<rparr>"
    and r: "r = push_bit 24 (ucast m) OR ucast (os_ticks u)"
    using assms(5) by (simp_all add: LongClock_first_nowTime_def less m_def OSClockCountBits_def Let_def split: if_splits)
  have div: "u div 16777216 = (if ?wrap then Suc (t div 16777216) else t div 16777216)"
    using assms(2,3) by (rule turn_detected)
  have turns: "turns \<le> t div 16777216" "unat (mostSignificantBits c) = t div 16777216 - turns + 1"
    using assms(1) by (simp_all add: tracks_def)
  have m: "unat m = u div 16777216 - turns + 1"
    using turns assms(4) div unat_add_u32 [of "mostSignificantBits c" 1]
    by (auto simp: m_def Suc_diff_le split: if_splits)
  show "tracks turns u c'"
    using turns div m by (simp add: tracks_def c' split: if_splits)
  have "unat r = 16777216 * (u div 16777216 - turns + 1) + u mod 16777216"
    unfolding r using m by (subst concatenated_bits) (simp_all add: os_ticks_unat)
  also have "\<dots> = u + 16777216 - 16777216 * turns"
    using turns(1) div mult_div_mod_eq [of 16777216 u] by (auto simp: algebra_simps split: if_splits)
  finally show "unat r = u + 16777216 - 16777216 * turns" .
qed

lemma reset_tracks: "tracks (t div 16777216) t (LongClock_first_reset (os_ticks t) c)"
  by (simp add: tracks_def LongClock_first_reset_def)

lemma readings_track:
  assumes "tracks turns t c" "read_often t us" "\<forall>u\<in>set us. u div 16777216 - turns + 1 < 4294967296"
  shows "map unat (readings (map os_ticks us) c) = map (\<lambda>u. u + 16777216 - 16777216 * turns) us"
  using assms
proof (induction us arbitrary: t c)
  case (Cons u us)
  obtain r c' where r: "LongClock_first_nowTime (os_ticks u) c = (r, c')"
    by fastforce
  have "t \<le> u" "u < t + 16777216" "u div 16777216 - turns + 1 < 4294967296"
    using Cons.prems(2,3) by (simp_all add: OSClockCountBits_def)
  note now = nowTime_tracks [OF Cons.prems(1) this r]
  show ?case
    using now(1) Cons.IH [OF now(2)] Cons.prems(2,3) by (simp add: r)
qed simp

text \<open>
  C40. The long clock of the first version counts ticks without end: if it is read at least once per
  turn of the 24-bit counter, its readings are, for \<open>2 ^ 55\<close> ticks, the ticks since its reset plus a constant,
  however often the counter wraps.
\<close>

theorem long_clock_counts_ticks:
  assumes "read_often t us" "\<forall>u\<in>set us. u < 2 ^ 55"
  shows "map unat (readings (map os_ticks us) (LongClock_first_reset (os_ticks t) c)) =
    map (\<lambda>u. (u - t) + (2 ^ OSClockCountBits + t mod 2 ^ OSClockCountBits)) us"
proof -
  have later: "t \<le> u" if "u \<in> set us" for u
    using assms(1) that by (induction us arbitrary: t) (auto intro: order_trans)
  have "u div 16777216 - t div 16777216 + 1 < 4294967296" if "u \<in> set us" for u
    using assms(2) that less_mult_imp_div_less [of u 2147483648 16777216] by auto
  then have "map unat (readings (map os_ticks us) (LongClock_first_reset (os_ticks t) c)) =
      map (\<lambda>u. u + 16777216 - 16777216 * (t div 16777216)) us"
    using readings_track [OF reset_tracks assms(1)] by blast
  also have "\<dots> = map (\<lambda>u. (u - t) + (16777216 + t mod 16777216)) us"
  proof (intro map_cong refl)
    fix u
    assume "u \<in> set us"
    then show "u + 16777216 - 16777216 * (t div 16777216) = u - t + (16777216 + t mod 16777216)"
      using later [of u] mult_div_mod_eq [of 16777216 t] by linarith
  qed
  finally show ?thesis
    by (simp add: OSClockCountBits_def)
qed

lemma long_clock_counts_ticks_witness:
  "map unat (readings (map os_ticks [20000000, 33554431, 33554433, 50000000]) (LongClock_first_reset (os_ticks 20000000)
       \<lparr>mostSignificantBits = 0, previousOSClockTicks = 0\<rparr>)) =
     [20000000, 33554431, 33554433, 50000000]"
  using long_clock_counts_ticks [of 20000000 "[20000000, 33554431, 33554433, 50000000]"
      "\<lparr>mostSignificantBits = 0, previousOSClockTicks = 0\<rparr>"]
  by (simp add: OSClockCountBits_def)

section \<open>The countdown ends at once\<close>

lemma countdown_ends_at_once:
  assumes "documented_time P" "expiration > 0" "endingTime s = 0"
  shows "\<exists>r s'. CountdownTimer_setExpiration P expiration s = Some r \<and> CountdownTimer_getRemaining P r = Some (0, s')"
proof -
  define r where "r = (emit GetNowTime s)\<lparr>previousRemaining := expiration\<rparr>"
  have "CountdownTimer_setExpiration P expiration s = Some r"
    using assms(2) by (simp add: CountdownTimer_setExpiration_def r_def LongClock_nowTime_def)
  moreover have "unat (p_clampedTimeDifferenceFromNow P (io r) 0) = 0"
    using clampedFromNow_unat [OF assms(1), of 0 "io r"] by simp
  then have "CountdownTimer_getRemaining P r = Some (0, emit GetNowTime r)"
    using assms(2,3) by (simp add: CountdownTimer_getRemaining_def clampedTimeDifferenceFromNow_def r_def
        unsigned_eq_0_iff emit_def)
  ultimately show ?thesis
    by blast
qed

section \<open>The percentage of power is zero\<close>

lemma never_power_for_radio:
  assumes "0 \<le> vccValue"
  shows "PowerManager_isPowerForRadio vccValue = (if vccValue < 8 then Some False else None)"
proof -
  have "(2 XOR 10 :: int) = 8"
    by simp
  moreover have "vccValue sdiv 1024 = 0" if "vccValue < 8"
    using assms that by (simp add: signed_divide_int_def)
  ultimately show ?thesis
    by (simp add: PowerManager_isPowerForRadio_def PowerManager_percentVccMeasure_def)
qed

end
