(* ===== verification/Spec2Isabelle.thy ===== *)
theory Spec2Isabelle
  imports SwarmProperties TimingProperties SleepingProperties Console RangeFiltering FirstVersion
begin

text \<open>
  A model of \<^emph>\<open>sleepSyncAgent\<close>: the agent of a battery-less wireless sensor node that keeps a
  clique of units in sync, so that their radios are on in the same short sync slot of a long sync
  period and off for most of the rest.  Time is in ticks of a 32768 Hz clock: a slot is 50 ticks,
  a period 1600 slots, 80000 ticks.  The smallest ID heard is the master of the clique.

  \<^bold>\<open>How the program works.\<close>  The agent is a set of run-to-completion tasks.  Each task, run by
  the timer, does its work and schedules the next: the radio's prelude, the sync slot (send sync, work
  or a control message, or listen), then in the sleeping part of the period fishing for other cliques, merging
  with one that was caught, or provisioning, and then the prelude again.  Received packets and the
  provisioner's callbacks interrupt.  The repository also holds the design before that, in which one loop
  runs through the sync periods and sleeps between and within the slots.  A failed \<open>assert\<close> is a fault and resets the unit.

  \<^bold>\<open>State and effects.\<close>  The code keeps its state in file-scope variables, one group per source
  file.  The model has one record per group, each extending the one before in the order the components use
  each other, so an operation is a function on every extension of the record it needs:
  \<open>platform_state\<close>, \<open>serializer_state\<close>, \<open>schedule_state\<close>, \<open>history_state\<close>,
  \<open>policy_state\<close>, \<open>clique_state\<close>, \<open>fishing_state\<close>, \<open>merger_state\<close>, \<open>mode_state\<close>,
  \<open>network_state\<close>, \<open>provisioning_state\<close>, \<open>receiver_state\<close>, \<open>agent_state\<close>, and for
  the earlier design \<open>sleeper_state\<close>.  An operation
  that asserts returns an \<open>option\<close>, \<open>None\<close> for the reset.  Integers have the code's width: \<open>DeltaTime\<close>
  and slot counts are 32-bit words, \<open>LongTime\<close> and IDs 64-bit words, payload bytes 8-bit words.

  Libraries outside the repository (radioSoC, embeddedMath, libBLEProvisionee) and the app are the parameter
  \<open>P\<close> of type \<open>platform\<close>: what a call answers is an arbitrary function of the history of calls.
  What the code relies on is stated by the predicates \<open>documented_time\<close>, \<open>documented_subtraction\<close>,
  \<open>documented_random\<close>, \<open>documented_low_power\<close> of the theory \<open>Platform\<close>
  and \<open>documented_radio\<close> of \<open>Timing\<close> (the radio is in use only while a receive goes on), named as hypotheses where used;
  \<open>sample_platform_documented\<close> shows that they can hold.

  \<^bold>\<open>Theories, with the sources they model (under \<open>src/\<close>).\<close>
  \<^item> \<open>Prelude\<close>: machine integers, assertions, iteration.  \<open>Platform\<close>: the libraries.
    \<open>ScheduleParameters\<close>: \<open>scheduleParameters.h\<close>, \<open>physicalParameters.h\<close>,
    \<open>policy/policyParameters.h\<close>, \<open>fishPolicy/fishingParameters.h\<close>.
  \<^item> \<open>Message\<close>, \<open>Serializer\<close>: \<open>message\<close>, \<open>modules/deltaSync.cpp\<close>; the fields of the packet as
    instances of the locale \<open>field_codec\<close>.
  \<^item> \<open>Schedule\<close>: \<open>clique/schedule.cpp\<close>, \<open>modules/syncOffset.cpp\<close>, the sync slot's times.
  \<^item> \<open>Policy\<close>: \<open>cliqueHistory\<close>, \<open>policy\<close>, \<open>slots/merge/mergePolicy.cpp\<close>; the counters as
    instances of the locale \<open>episode\<close>.  \<open>CliqueRoles\<close>, \<open>Clique\<close>: \<open>clique\<close>; mastership as an
    instance of the locale \<open>election\<close>.
  \<^item> \<open>Fishing\<close>, \<open>Trolling\<close>, \<open>FishSessions\<close>: \<open>fishPolicy\<close>, \<open>slots/fishing\<close>; the policies as
    instances of the locale \<open>session_source\<close>, and trolling as a refinement of the generator
    \<open>troll_step\<close>.
  \<^item> \<open>Merger\<close>: \<open>cliqueMerger\<close>, \<open>clique/periodTime.cpp\<close>, \<open>slots/merge/mergeSchedule.cpp\<close>, roles.
    \<open>Modes\<close>: \<open>modules/syncPowerManager.cpp\<close>, \<open>syncAgentImp/state\<close>, the provision counter.
  \<^item> \<open>Network\<close>: \<open>network\<close>, \<open>work\<close>, \<open>provisioning/workProvisioner.cpp\<close>.  \<open>Sender\<close>:
    \<open>message/messageFactory.h\<close>, \<open>modules/syncSender.cpp\<close>, \<open>provisioning/provisioningPublisher.cpp\<close>.
  \<^item> \<open>Handlers\<close>, \<open>Handling\<close>: \<open>modules/syncBehaviour.cpp\<close>, \<open>messageHandler\<close>, \<open>receiver\<close>; the two
    handlers as instances of the locale \<open>slot_handler\<close>, and the invariant \<open>unit_inv\<close>.
  \<^item> \<open>Tasks\<close>: \<open>schedule\<close>, \<open>task\<close>, \<open>slots/sync\<close>, \<open>slots/syncing\<close>, \<open>slots/fish\<close>,
    \<open>provisioning/provisionTask.cpp\<close>, \<open>provisionerCallback.cpp\<close>, the start of the agent in
    \<open>syncAgentImp\<close>.  \<open>PowerOn\<close>: the initial values of the variables.
  \<^item> \<open>Phases\<close>: that messages leave the pending task and the phase of the unit alone.  \<open>Pending\<close>: what
    each pending task relies on (\<open>task_ok\<close>), the diagram of the tasks (\<open>successors\<close>).  \<open>Agent\<close>,
    \<open>Running\<close>: every task, from any such state, establishes what its successor relies on
    (\<open>run_task_ok\<close>).  \<open>System\<close>: a unit in its environment as a step relation with reachability.
  \<^item> \<open>Sleepers\<close>: \<open>sleepers/cruft\<close>, \<open>logging/flashLogger.cpp\<close>, \<open>syncAgentImp/state/phase.h\<close>.
    \<open>SleepingSlots\<close>: \<open>sleepingSlots\<close>, \<open>logging/remoteLogger.cpp\<close>, the loop of
    \<open>syncAgentImp/syncAgentLoop.cpp\<close>, \<open>syncAgent/syncAgent.cpp\<close>.  \<open>Sleeping\<close>: what a sleep keeps, as
    instances of the locales \<open>kept_asleep\<close> and \<open>kept_listening\<close>.
  \<^item> \<open>Console\<close>: \<open>logging/logger.cpp\<close>, the logging of drift and of worse cliques, that logging leaves the rest of a unit alone, and storing what
    the app hands over (\<open>syncAgent/syncAgent.cpp\<close>, \<open>syncAgentImp/syncAgentImp.cpp\<close>).
  \<^item> \<open>Names\<close>, \<open>TaskNames\<close>: the IDs of masters that a unit holds and transmits, and that every
    handler and task keeps them within a set.  \<open>Swarm\<close>: several units that hear each other, as a step
    relation; each of its units runs as in \<open>System\<close>.  \<open>Runs\<close>: a concrete run of two units.
  \<^item> \<open>SyncPoints\<close>: which tasks move the start of the period.  \<open>Timing\<close>: a unit alone in real time, with
    the time at which each pending task is due (\<open>due\<close>), and that every task leads to the next one on time.
    \<open>DeepSessions\<close>: a deep fishing session at the end of the period, in real time.
  \<^item> \<open>RangeFiltering\<close>: the code of the configuration with \<open>RANGE_FILTERING\<close> in \<open>message/serializer.cpp\<close>,
    \<open>messageHandler/messageDispatcher.cpp\<close> and \<open>network/granularity.cpp\<close>.  \<open>FirstVersion\<close>: of the first
    version under the top level \<open>cruft\<close>, \<open>longClock.cpp\<close>, \<open>countDownTimer.cpp\<close>, \<open>syncState.cpp\<close> and
    \<open>powerManager.cpp\<close>.
  \<^item> \<open>SyncProperties\<close> (C1 to C7, C9 to C15), \<open>FishProperties\<close> (C16 to C20, C22 to C25), \<open>ControlProperties\<close> (C26 to
    C30), \<open>SystemProperties\<close> (C31, C32), \<open>TimingProperties\<close> (C8, C21, C33), \<open>SwarmProperties\<close> (C34 to C36), \<open>SleepingProperties\<close> (C37,
    C38), \<open>RangeFiltering\<close> (C39), \<open>FirstVersion\<close> (C40): the properties.

  \<^bold>\<open>What the properties show.\<close>  The packet format round-trips the messages that carry sync and renumbers
  others (C1 to C3).  The schedule: exactly when a unit can take on another's sync point, that two units
  then agree to the tick, and that a stretched period can make it fail (C4 to C7); a unit alone
  keeps its sync points equidistant (C8).  Mastership: a unit ends
  with the best master it heard (C9 to C11), every packet keeps the invariant of the unit (C12), and what
  happens when the master is lost (C13 to C15).  Fishing: trolling refines its generator and covers every
  slot, the session is in the period, deep fishing ends, and a deep session at the end of the period resets the unit
  (C16 to C21).  Merging: what a catch does, and where
  the merge slot lies (C22 to C25).  Control: granularity, repeating, scattering, modes (C26 to C30).  The unit in its
  environment, over all runs: one task is pending and finds the state it relies on, tasks follow their diagram
  (C31, C32), and a unit alone never resets (C33).  Units that hear each other, over all runs: every master that is followed,
  announced or transmitted is a unit, the unit with the least ID is its own master, and a unit leaves its master
  only for a better one or for itself (C34 to C36).  The earlier design: a sleep to the sync point returns, and whole periods
  keep the invariant of the unit (C37, C38).  With range filtering no message is ever received (C39).  The long
  clock of the first version counts ticks across the wraps of its counter (C40).

  \<^bold>\<open>Bounds.\<close>  No definition uses fuel.  The loops of the sleepers end when the platform's timer expires:
  they are \<open>do_while\<close> of the theory \<open>Prelude\<close>, with \<open>None\<close> for a loop that does not end, and C37 shows that they
  return.  The endless loop of the earlier design is modelled by its first \<open>n\<close> iterations, for any \<open>n\<close>.
  A unit alone is modelled with any lateness of its timer up to 16 ticks: six tasks in a row may be late,
  and the sixth must leave a slot for the prelude of a session in the third sleeping slot, so that it
  must start in the first 100 ticks of the period.
  \<open>far_from_wrap t\<close> says that the 64-bit clock reads less than \<open>2 ^ 63\<close>, eight million years; it keeps sums
  of a time and a 32-bit duration from wrapping.

  \<^bold>\<open>Not modelled.\<close>  The components are modelled without their calls of the logger, which by \<open>Console\<close> leave
  the unit alone.  Left out are the slots, mailbox, scheduler and the port of the
  first version under the top level directory \<open>cruft\<close>, which are written against classes that are no longer
  there, and code under \<open>OLD\<close>, \<open>FUTURE\<close> or \<open>CRUFT\<close>, which is not compiled.  The build modelled has its
  assertions on, the power levels of \<open>LOW_PRIORITY_WORK_Voc3_6\<close>, and with or without the softdevice and provisioning; the remote logger is
  that of the earlier design and of the logger, and \<open>SyncAgentImp_preludeToLoop\<close> leaves out its call on faults, which is
  empty without \<open>REMOTE_LOGGING\<close>.  The transmit power at the start is the default: \<open>LOW_XMIT_POWER\<close> is set in
  \<open>config.h\<close>, which \<open>syncAgentImp.cpp\<close> does not include.  The
  model of a unit is sequential: interrupts occur between tasks, and in the earlier design while the unit sleeps.
  In a network each unit has its own clock, and packets may be lost, delayed and repeated: nothing is said about when
  two units' slots meet.
\<close>

end
